(* ===== verification/Prelude.thy ===== *)
theory Prelude
  imports Main "HOL-Library.AList" "HOL-Library.Char_ord" "HOL-Library.List_Lexorder"
begin

text \<open>
  Shared vocabulary of the development: the errors of the Go packages as a datatype, results as
  sums, the sequencing of fallible state-changing operations (the Go idiom
  \<open>x, err := f(); if err != nil { return ..., err }\<close>), tables with a primary key as association
  lists, and the generic interfaces (locales) the components are clients of.
\<close>

section \<open>Errors and results\<close>

text \<open>
  One constructor per sentinel error of \<open>internal/service\<close> and \<open>internal/reap\<close>.
  \<open>ErrDb\<close> is any error the Postgres driver returns, \<open>ErrTransport\<close> any error of the HTTP
  client or of reading its response, \<open>ErrRand\<close> a failure of the system's random source,
  \<open>ErrSign\<close> a failure of the token signer, and \<open>ErrNew\<close> an error made on the spot with
  \<open>errors.New\<close>.
\<close>

datatype goerr =
    ErrInvalidSignature
  | ErrNonceUsed
  | ErrReapUserExists
  | ErrNoReapUser
  | ErrResourceNotOwned
  | ErrMissingScopeFilter
  | ErrReapUserCreateInFlight
  | ErrInvalidWebhookSignature
  | ErrInvalidWebhookPayload
  | ErrDb
  | ErrTransport
  | ErrRand
  | ErrSign
  | ErrNew string

type_synonym 'a res = "goerr + 'a"

section \<open>Sequencing\<close>

text \<open>
  An operation on a state \<open>'w\<close> yields a result and the new state; on an error the state
  changes made so far stay, as in Go, where nothing is rolled back by returning an error.
\<close>

type_synonym ('w, 'a) act = "'w \<Rightarrow> 'a res \<times> 'w"

definition ret :: "'a \<Rightarrow> ('w, 'a) act" where
  "ret x w = (Inr x, w)"

definition fail :: "goerr \<Rightarrow> ('w, 'a) act" where
  "fail e w = (Inl e, w)"

definition andThen :: "('w, 'a) act \<Rightarrow> ('a \<Rightarrow> ('w, 'b) act) \<Rightarrow> ('w, 'b) act" where
  "andThen m k w = (case m w of (Inl e, w') \<Rightarrow> (Inl e, w') | (Inr x, w') \<Rightarrow> k x w')"

text \<open>\<open>attempt\<close> hands the error to the continuation instead of returning it.\<close>

definition attempt :: "('w, 'a) act \<Rightarrow> ('a res \<Rightarrow> ('w, 'b) act) \<Rightarrow> ('w, 'b) act" where
  "attempt m k w = (case m w of (r, w') \<Rightarrow> k r w')"

named_theorems act_simps "unfolding of the sequencing operators"

lemma ret_simp [simp, act_simps]: "ret x w = (Inr x, w)"
  by (simp add: ret_def)

lemma fail_simp [simp, act_simps]: "fail e w = (Inl e, w)"
  by (simp add: fail_def)

lemma andThen_Inl: "m w = (Inl e, w') \<Longrightarrow> andThen m k w = (Inl e, w')"
  by (simp add: andThen_def)

lemma andThen_Inr: "m w = (Inr x, w') \<Longrightarrow> andThen m k w = k x w'"
  by (simp add: andThen_def)

lemma andThen_ret [simp]: "andThen (ret x) k = k x"
  by (rule ext) (simp add: andThen_def)

lemma andThen_assoc: "andThen (andThen m k) l = andThen m (\<lambda>x. andThen (k x) l)"
  by (rule ext) (auto simp: andThen_def split: prod.splits sum.splits)

lemma andThen_InrE:
  assumes "andThen m k w = (Inr y, w'')"
  obtains x w' where "m w = (Inr x, w')" and "k x w' = (Inr y, w'')"
  using assms by (auto simp: andThen_def split: prod.splits sum.splits)

lemma andThen_cases:
  assumes "andThen m k w = (r, w'')"
  obtains (err) e where "m w = (Inl e, w'')" and "r = Inl e"
    | (ok) x w' where "m w = (Inr x, w')" and "k x w' = (r, w'')"
  using assms by (auto simp: andThen_def split: prod.splits sum.splits)

lemma attempt_simp: "m w = (r, w') \<Longrightarrow> attempt m k w = k r w'"
  by (simp add: attempt_def)

subsection \<open>Relations between the state before and the state after\<close>

text \<open>
  A frame is a preorder on states that an operation may only move up in: the log of sent
  requests only grows, an ownership record never changes its owner, a nonce never goes back.
  Sequencing keeps a frame, so a frame is proved for the few primitive effects and holds of every
  operation composed from them.
\<close>

locale frame =
  fixes R :: "'w \<Rightarrow> 'w \<Rightarrow> bool"
  assumes frame_refl: "R w w"
    and frame_trans: "R u v \<Longrightarrow> R v w \<Longrightarrow> R u w"
begin

lemma ret_frame: "R w (snd (ret x w))"
  by (simp add: frame_refl)

lemma fail_frame: "R w (snd (fail e w))"
  by (simp add: frame_refl)

lemma andThen_frame:
  assumes "\<And>w. R w (snd (m w))" and "\<And>x w. R w (snd (k x w))"
  shows "R w (snd (andThen m k w))"
proof (cases "m w")
  case (Pair r w')
  then have *: "R w w'" using assms(1) [of w] by simp
  show ?thesis
  proof (cases r)
    case (Inl e)
    then show ?thesis using Pair * by (simp add: andThen_def)
  next
    case (Inr x)
    then show ?thesis using Pair * assms(2) [of w' x]
      by (simp add: andThen_def frame_trans)
  qed
qed

lemma attempt_frame:
  assumes "\<And>w. R w (snd (m w))" and "\<And>r w. R w (snd (k r w))"
  shows "R w (snd (attempt m k w))"
  using assms(1) [of w] assms(2) [of "snd (m w)" "fst (m w)"]
  by (auto simp: attempt_def split: prod.splits intro: frame_trans)

lemmas frame_intros = ret_frame fail_frame andThen_frame attempt_frame

end

section \<open>Keyed tables\<close>

text \<open>
  A table with a primary (or unique) key is an association list from the key to the row, in
  order of insertion. The key constraint is the well-formedness predicate; lookups go through
  \<open>map_of\<close>.
\<close>

type_synonym ('k, 'r) table = "('k \<times> 'r) list"

definition table_ok :: "('k, 'r) table \<Rightarrow> bool" where
  "table_ok t \<longleftrightarrow> distinct (map fst t)"

definition table_insert :: "'k \<Rightarrow> 'r \<Rightarrow> ('k, 'r) table \<Rightarrow> ('k, 'r) table" where
  \<comment> \<open>INSERT: appends the row; the caller has checked the key for a conflict\<close>
  "table_insert k r t = t @ [(k, r)]"

definition table_set :: "'k \<Rightarrow> 'r \<Rightarrow> ('k, 'r) table \<Rightarrow> ('k, 'r) table" where
  \<comment> \<open>UPDATE of the row with key \<open>k\<close>\<close>
  "table_set k r t = map (\<lambda>(k', r'). if k' = k then (k', r) else (k', r')) t"

definition insert_new :: "'k \<Rightarrow> 'r \<Rightarrow> ('k, 'r) table \<Rightarrow> ('k, 'r) table" where
  \<comment> \<open>INSERT ... ON CONFLICT (key) DO NOTHING\<close>
  "insert_new k r t = (if map_of t k = None then table_insert k r t else t)"

named_theorems table_simps "lookups after inserts and updates of a table"

lemma map_of_table_insert [table_simps]:
  "map_of t k = None \<Longrightarrow> map_of (table_insert k r t) = (map_of t)(k \<mapsto> r)"
  by (rule ext) (auto simp: table_insert_def map_add_def split: option.splits)

lemma map_of_table_set [table_simps]:
  "map_of (table_set k r t) = (if k \<in> dom (map_of t) then (map_of t)(k \<mapsto> r) else map_of t)"
  by (induction t) (auto simp: table_set_def fun_eq_iff)

lemma map_of_insert_new [table_simps]:
  "map_of (insert_new k r t) k' =
     (if k' = k \<and> map_of t k = None then Some r else map_of t k')"
  by (simp add: insert_new_def map_of_table_insert)

lemma fst_table_set [simp]: "map fst (table_set k r t) = map fst t"
  by (induction t) (auto simp: table_set_def)

lemma table_set_absent: "k \<notin> fst ` set t \<Longrightarrow> table_set k r t = t"
  by (induction t) (auto simp: table_set_def)

lemma table_ok_empty [simp]: "table_ok []"
  by (simp add: table_ok_def)

lemma table_ok_insert [intro]: "table_ok t \<Longrightarrow> map_of t k = None \<Longrightarrow> table_ok (table_insert k r t)"
  by (auto simp: table_ok_def table_insert_def map_of_eq_None_iff)

lemma table_ok_insert_new [simp]: "table_ok t \<Longrightarrow> table_ok (insert_new k r t)"
  by (simp add: insert_new_def table_ok_insert)

lemma table_ok_set [simp]: "table_ok (table_set k r t) = table_ok t"
  by (simp add: table_ok_def)

lemma find_SomeD: "find P xs = Some x \<Longrightarrow> x \<in> set xs \<and> P x"
  by (induction xs) (auto split: if_splits)

section \<open>Encodings\<close>

text \<open>
  An encoding with a decoder that inverts it. Every printer of the code (hex, path escaping,
  decimal numbers, base58) is shown to be one, and injectivity follows once, here.
\<close>

locale codec =
  fixes enc :: "'a \<Rightarrow> 'b"
    and dec :: "'b \<Rightarrow> 'a option"
    and valid :: "'a \<Rightarrow> bool"
  assumes dec_enc: "valid x \<Longrightarrow> dec (enc x) = Some x"
begin

lemma enc_inj: "valid x \<Longrightarrow> valid y \<Longrightarrow> enc x = enc y \<Longrightarrow> x = y"
  by (metis dec_enc option.inject)

lemma enc_inj_on: "inj_on enc {x. valid x}"
  by (auto intro: inj_onI enc_inj)

end

section \<open>Transition systems\<close>

text \<open>
  A system that starts in one of its initial states and moves by steps. An invariant that holds
  initially and is kept by every step holds in every reachable state.
\<close>

inductive reachable :: "('s \<Rightarrow> bool) \<Rightarrow> ('s \<Rightarrow> 's \<Rightarrow> bool) \<Rightarrow> 's \<Rightarrow> bool"
  for init and step where
  reachable_init: "init s \<Longrightarrow> reachable init step s"
| reachable_step: "reachable init step s \<Longrightarrow> step s t \<Longrightarrow> reachable init step t"

locale invariant_system =
  fixes init :: "'s \<Rightarrow> bool"
    and step :: "'s \<Rightarrow> 's \<Rightarrow> bool"
    and inv :: "'s \<Rightarrow> bool"
  assumes inv_init: "init s \<Longrightarrow> inv s"
    and inv_step: "inv s \<Longrightarrow> step s t \<Longrightarrow> inv t"
begin

lemma reachable_inv: "reachable init step s \<Longrightarrow> inv s"
  by (induction rule: reachable.induct) (simp_all add: inv_init inv_step)

lemma inv_steps: "step\<^sup>*\<^sup>* s t \<Longrightarrow> inv s \<Longrightarrow> inv t"
  by (induction rule: rtranclp_induct) (auto intro: inv_step)

end

end
