(* ===== verification/Go_Strings.thy ===== *)
theory Go_Strings
  imports Prelude
begin

text \<open>
  The functions of Go's \<open>strings\<close>, \<open>strconv\<close> and \<open>encoding/hex\<close> packages that the
  program uses. A Go string (and a \<open>[]byte\<close>) is a \<open>string\<close>: a list of \<open>char\<close>, one per
  byte. \<open>strings.ToLower\<close> folds ASCII letters here; on a string with a byte beyond ASCII Go
  goes through the Unicode case tables, which are a parameter.
\<close>

section \<open>Bytes\<close>

abbreviation byte :: "char \<Rightarrow> nat" where
  "byte c \<equiv> of_char c"

definition is_digit :: "char \<Rightarrow> bool" where
  "is_digit c \<longleftrightarrow> 48 \<le> byte c \<and> byte c \<le> 57"

definition digit_val :: "char \<Rightarrow> nat" where
  "digit_val c = byte c - 48"

definition digit_char :: "nat \<Rightarrow> char" where
  "digit_char d = char_of (48 + d)"

lemma byte_char_of: "n < 256 \<Longrightarrow> byte (char_of n) = n"
  by (simp add: of_char_of)

lemma byte_less: "byte c < 256"
  by (metis of_char_mod_256 mod_less_divisor zero_less_numeral)

lemma digit_char_props: "d < 10 \<Longrightarrow> is_digit (digit_char d) \<and> digit_val (digit_char d) = d"
  by (simp add: digit_char_def is_digit_def digit_val_def byte_char_of)

section \<open>Package strings\<close>

definition TrimPrefix :: "string \<Rightarrow> string \<Rightarrow> string" where
  "TrimPrefix s p = (if take (length p) s = p then drop (length p) s else s)"

lemma TrimPrefix_append [simp]: "TrimPrefix (p @ s) p = s"
  by (simp add: TrimPrefix_def)

lemma TrimPrefix_length: "length (TrimPrefix s p) \<le> length s"
  by (simp add: TrimPrefix_def)

fun Split :: "string \<Rightarrow> char \<Rightarrow> string list" where
  \<comment> \<open>\<open>strings.Split(s, sep)\<close> for a separator of one byte\<close>
  "Split [] c = [[]]"
| "Split (x # xs) c =
     (if x = c then [] # Split xs c
      else (case Split xs c of [] \<Rightarrow> [[x]] | y # ys \<Rightarrow> (x # y) # ys))"

fun Join :: "string list \<Rightarrow> string \<Rightarrow> string" where
  "Join [] sep = []"
| "Join [s] sep = s"
| "Join (s # t # ss) sep = s @ sep @ Join (t # ss) sep"

definition Cut :: "string \<Rightarrow> char \<Rightarrow> string \<times> string \<times> bool" where
  \<comment> \<open>\<open>strings.Cut(s, sep)\<close>: the text before and after the first separator, and whether there is one\<close>
  "Cut s c = (case dropWhile (\<lambda>x. x \<noteq> c) s of
                [] \<Rightarrow> (s, [], False)
              | _ # t \<Rightarrow> (takeWhile (\<lambda>x. x \<noteq> c) s, t, True))"

definition ReplaceAll_char :: "string \<Rightarrow> char \<Rightarrow> char \<Rightarrow> string" where
  \<comment> \<open>\<open>strings.ReplaceAll\<close> of one byte by another\<close>
  "ReplaceAll_char s a b = map (\<lambda>c. if c = a then b else c) s"

function RemoveAll :: "string \<Rightarrow> string \<Rightarrow> string" where
  \<comment> \<open>\<open>strings.ReplaceAll(s, old, "")\<close>: non-overlapping occurrences from the left\<close>
  "RemoveAll s old =
     (case s of [] \<Rightarrow> []
      | c # cs \<Rightarrow>
          if old \<noteq> [] \<and> take (length old) s = old then RemoveAll (drop (length old) s) old
          else c # RemoveAll cs old)"
  by pat_completeness auto
termination
  by (relation "measure (\<lambda>(s, old). length s)") auto

declare RemoveAll.simps [simp del]

definition ContainsAny :: "string \<Rightarrow> string \<Rightarrow> bool" where
  "ContainsAny s chars = list_ex (\<lambda>c. c \<in> set chars) s"

definition ascii_lower :: "char \<Rightarrow> char" where
  "ascii_lower c = (if 65 \<le> byte c \<and> byte c \<le> 90 then char_of (byte c + 32) else c)"

definition is_ascii :: "string \<Rightarrow> bool" where
  "is_ascii s = list_all (\<lambda>c. byte c < 128) s"

definition ToLower :: "(string \<Rightarrow> string) \<Rightarrow> string \<Rightarrow> string" where
  \<comment> \<open>\<open>uni\<close> is the Unicode mapping Go applies when the string is not pure ASCII\<close>
  "ToLower uni s = (if is_ascii s then map ascii_lower s else uni s)"

lemma Split_nonempty [simp]: "Split s c \<noteq> []"
  by (induction s) (auto split: list.splits)

lemma Join_Cons: "ss \<noteq> [] \<Longrightarrow> Join (s # ss) sep = s @ sep @ Join ss sep"
  by (cases ss) auto

lemma Join_Split: "Join (Split s c) [c] = s"
proof (induction s)
  case (Cons x xs)
  obtain y ys where y: "Split xs c = y # ys" by (metis Split_nonempty neq_Nil_conv)
  show ?case using Cons y by (cases ys) auto
qed simp

lemma Split_no_sep: "p \<in> set (Split s c) \<Longrightarrow> c \<notin> set p"
proof (induction s arbitrary: p)
  case (Cons x xs)
  then show ?case by (auto split: if_splits list.splits)
qed simp

lemma Split_append_no_sep:
  "c \<notin> set p \<Longrightarrow> Split (p @ c # s) c = p # Split s c"
  by (induction p) auto

lemma Split_none: "c \<notin> set p \<Longrightarrow> Split p c = [p]"
  by (induction p) auto

lemma Cut_found: "c \<notin> set p \<Longrightarrow> Cut (p @ c # s) c = (p, s, True)"
  by (induction p) (auto simp: Cut_def split: list.splits)

lemma Cut_none:
  assumes "c \<notin> set s"
  shows "Cut s c = (s, [], False)"
proof -
  have "dropWhile (\<lambda>x. x \<noteq> c) s = []" using assms by (auto simp: dropWhile_eq_Nil_conv)
  then show ?thesis by (simp only: Cut_def list.case)
qed

lemma Cut_before: "fst (Cut s c) = takeWhile (\<lambda>x. x \<noteq> c) s"
proof (cases "c \<in> set s")
  case True
  then show ?thesis by (auto simp: Cut_def dropWhile_eq_Nil_conv split: list.splits)
next
  case False
  moreover from False have "takeWhile (\<lambda>x. x \<noteq> c) s = s" by (auto simp: takeWhile_eq_all_conv)
  ultimately show ?thesis using Cut_none [OF False] by (metis fst_conv)
qed

lemma byte_ascii_lower: "byte (ascii_lower c) =
  (if 65 \<le> byte c \<and> byte c \<le> 90 then byte c + 32 else byte c)"
  by (auto simp: ascii_lower_def byte_char_of)

lemma ascii_lower_idem [simp]: "ascii_lower (ascii_lower c) = ascii_lower c"
  by (auto simp: ascii_lower_def byte_char_of)

lemma is_ascii_lower: "is_ascii s \<Longrightarrow> is_ascii (map ascii_lower s)"
  by (auto simp: is_ascii_def list_all_iff byte_ascii_lower)

lemma ToLower_idem: "is_ascii s \<Longrightarrow> ToLower uni (ToLower uni s) = ToLower uni s"
  by (simp add: ToLower_def is_ascii_lower comp_def)

lemma ToLower_length: "is_ascii s \<Longrightarrow> length (ToLower uni s) = length s"
  by (simp add: ToLower_def)

section \<open>Package strconv\<close>

datatype numerr = ErrSyntax | ErrRange

fun parse_uint :: "nat \<Rightarrow> string \<Rightarrow> numerr + nat" where
  \<comment> \<open>the digit loop of \<open>strconv.ParseUint(s, 10, 64)\<close>: the first problem met decides the error\<close>
  "parse_uint acc [] = Inr acc"
| "parse_uint acc (c # cs) =
     (if \<not> is_digit c then Inl ErrSyntax
      else if acc * 10 + digit_val c \<ge> 2 ^ 64 then Inl ErrRange
      else parse_uint (acc * 10 + digit_val c) cs)"

definition int64_max :: int where "int64_max = 2 ^ 63 - 1"

definition int64_min :: int where "int64_min = - (2 ^ 63)"

definition in_int64 :: "int \<Rightarrow> bool" where
  "in_int64 i \<longleftrightarrow> int64_min \<le> i \<and> i \<le> int64_max"

definition ParseInt64 :: "string \<Rightarrow> int \<times> numerr option" where
  \<comment> \<open>\<open>strconv.ParseInt(s, 10, 64)\<close>: the value and the error; out of range gives the nearest int64\<close>
  "ParseInt64 s =
     (let neg = (s \<noteq> [] \<and> hd s = CHR ''-'');
          ds = (if s \<noteq> [] \<and> (hd s = CHR ''-'' \<or> hd s = CHR ''+'') then tl s else s)
      in if ds = [] then (0, Some ErrSyntax)
         else (case parse_uint 0 ds of
             Inl ErrSyntax \<Rightarrow> (0, Some ErrSyntax)
           | Inl ErrRange \<Rightarrow> (if neg then (int64_min, Some ErrRange) else (int64_max, Some ErrRange))
           | Inr n \<Rightarrow>
               (if \<not> neg \<and> int n > int64_max then (int64_max, Some ErrRange)
                else if neg \<and> - int n < int64_min then (int64_min, Some ErrRange)
                else ((if neg then - int n else int n), None))))"

definition Atoi :: "string \<Rightarrow> int \<times> numerr option" where
  \<comment> \<open>\<open>int\<close> has 64 bits on the platforms the server is built for\<close>
  "Atoi s = ParseInt64 s"

fun nat_dec :: "nat \<Rightarrow> string" where
  "nat_dec n = (if n < 10 then [digit_char n] else nat_dec (n div 10) @ [digit_char (n mod 10)])"

declare nat_dec.simps [simp del]

definition FormatInt :: "int \<Rightarrow> string" where
  "FormatInt i = (if i < 0 then CHR ''-'' # nat_dec (nat (- i)) else nat_dec (nat i))"

definition Itoa :: "int \<Rightarrow> string" where
  "Itoa i = FormatInt i"

lemma nat_dec_nonempty [simp]: "nat_dec n \<noteq> []"
  by (subst nat_dec.simps) simp

lemma nat_dec_digits: "c \<in> set (nat_dec n) \<Longrightarrow> is_digit c"
proof (induction n rule: nat_dec.induct)
  case (1 n)
  then show ?case
    using nat_dec.simps [of n] by (auto simp: digit_char_props split: if_splits)
qed

lemma parse_uint_append_digit:
  assumes "parse_uint a s = Inr m" and "d < 10" and "m * 10 + d < 2 ^ 64"
  shows "parse_uint a (s @ [digit_char d]) = Inr (m * 10 + d)"
  using assms by (induction s arbitrary: a) (auto simp: digit_char_props split: if_splits)

lemma parse_uint_nat_dec: "n < 2 ^ 64 \<Longrightarrow> parse_uint 0 (nat_dec n) = Inr n"
proof (induction n rule: nat_dec.induct)
  case (1 n)
  show ?case
  proof (cases "n < 10")
    case True
    then show ?thesis by (subst nat_dec.simps) (simp add: digit_char_props)
  next
    case False
    then have "parse_uint 0 (nat_dec (n div 10)) = Inr (n div 10)"
      using "1" by simp
    then have "parse_uint 0 (nat_dec (n div 10) @ [digit_char (n mod 10)])
        = Inr (n div 10 * 10 + n mod 10)"
      by (rule parse_uint_append_digit) (use "1.prems" in auto)
    then show ?thesis using False by (subst nat_dec.simps) (simp add: mult.commute)
  qed
qed

lemma nat_dec_hd: "hd (nat_dec n) \<noteq> CHR ''-'' \<and> hd (nat_dec n) \<noteq> CHR ''+''"
  using nat_dec_digits [of "hd (nat_dec n)" n] by (auto simp: is_digit_def)

lemma ParseInt64_FormatInt: "in_int64 i \<Longrightarrow> ParseInt64 (FormatInt i) = (i, None)"
proof -
  assume i: "in_int64 i"
  then have "nat \<bar>i\<bar> < 2 ^ 64" by (auto simp: in_int64_def int64_min_def int64_max_def)
  then have p: "parse_uint 0 (nat_dec (nat \<bar>i\<bar>)) = Inr (nat \<bar>i\<bar>)" by (rule parse_uint_nat_dec)
  show ?thesis
  proof (cases "i < 0")
    case True
    with p i show ?thesis
      by (simp add: FormatInt_def ParseInt64_def in_int64_def Let_def)
  next
    case False
    with p i show ?thesis
      by (simp add: FormatInt_def ParseInt64_def in_int64_def Let_def nat_dec_hd)
  qed
qed

lemma ParseInt64_range: "in_int64 (fst (ParseInt64 s))"
  by (auto simp: ParseInt64_def Let_def in_int64_def int64_min_def int64_max_def
      split: sum.splits numerr.splits)

interpretation decimal: codec FormatInt
  "\<lambda>s. case ParseInt64 s of (i, None) \<Rightarrow> Some i | (_, Some _) \<Rightarrow> None" in_int64
  by unfold_locales (simp add: ParseInt64_FormatInt)

lemma FormatInt_inj: "in_int64 i \<Longrightarrow> in_int64 j \<Longrightarrow> FormatInt i = FormatInt j \<Longrightarrow> i = j"
  by (rule decimal.enc_inj)

section \<open>Package encoding/hex\<close>

definition hex_digit :: "nat \<Rightarrow> char" where
  "hex_digit d = (if d < 10 then char_of (48 + d) else char_of (87 + d))"

definition hex_val :: "char \<Rightarrow> nat option" where
  "hex_val c = (if 48 \<le> byte c \<and> byte c \<le> 57 then Some (byte c - 48)
                else if 97 \<le> byte c \<and> byte c \<le> 102 then Some (byte c - 87)
                else if 65 \<le> byte c \<and> byte c \<le> 70 then Some (byte c - 55)
                else None)"

fun hex_EncodeToString :: "string \<Rightarrow> string" where
  "hex_EncodeToString [] = []"
| "hex_EncodeToString (c # cs) =
     hex_digit (byte c div 16) # hex_digit (byte c mod 16) # hex_EncodeToString cs"

fun hex_DecodeString :: "string \<Rightarrow> string option" where
  "hex_DecodeString [] = Some []"
| "hex_DecodeString [c] = None"
| "hex_DecodeString (a # b # cs) =
     (case (hex_val a, hex_val b) of
        (Some x, Some y) \<Rightarrow> map_option (\<lambda>r. char_of (x * 16 + y) # r) (hex_DecodeString cs)
      | _ \<Rightarrow> None)"

lemma hex_val_digit: "d < 16 \<Longrightarrow> hex_val (hex_digit d) = Some d"
  by (auto simp: hex_val_def hex_digit_def byte_char_of)

lemma hex_roundtrip: "hex_DecodeString (hex_EncodeToString s) = Some s"
proof (induction s)
  case (Cons c cs)
  have "byte c div 16 < 16" "byte c mod 16 < 16" by (simp_all add: less_mult_imp_div_less byte_less)
  moreover have "char_of (byte c div 16 * 16 + byte c mod 16) = c" by simp
  ultimately show ?case using Cons by (simp add: hex_val_digit)
qed simp

interpretation hex: codec hex_EncodeToString hex_DecodeString "\<lambda>_. True"
  by unfold_locales (rule hex_roundtrip)

lemma hex_EncodeToString_length [simp]: "length (hex_EncodeToString s) = 2 * length s"
  by (induction s) auto

lemma hex_EncodeToString_chars: "c \<in> set (hex_EncodeToString s) \<Longrightarrow>
  48 \<le> byte c \<and> byte c \<le> 57 \<or> 97 \<le> byte c \<and> byte c \<le> 102"
proof (induction s)
  case (Cons a s)
  have "byte a div 16 < 16" "byte a mod 16 < 16" by (simp_all add: less_mult_imp_div_less byte_less)
  with Cons show ?case by (auto simp: hex_digit_def byte_char_of split: if_splits)
qed simp

lemma hex_DecodeString_length: "hex_DecodeString s = Some b \<Longrightarrow> length s = 2 * length b"
  by (induction s arbitrary: b rule: hex_DecodeString.induct) (auto split: option.splits)

lemma hex_val_lower: "hex_val (ascii_lower c) = hex_val c"
  by (auto simp: hex_val_def ascii_lower_def byte_char_of)

text \<open>Decoding does not depend on the case of the digits.\<close>

lemma hex_DecodeString_lower: "hex_DecodeString (map ascii_lower s) = hex_DecodeString s"
  by (induction s rule: hex_DecodeString.induct) (auto simp: hex_val_lower split: option.splits)

section \<open>Package fmt\<close>

function Sprintf :: "string \<Rightarrow> string list \<Rightarrow> string" where
  \<comment> \<open>\<open>fmt.Sprintf\<close> for formats whose only verb is \<open>%s\<close>, with string operands\<close>
  "Sprintf f args =
     (case f of
        [] \<Rightarrow> (if args = [] then []
               else ''%!(EXTRA '' @ Join (map (\<lambda>x. ''string='' @ x) args) '', '' @ '')'')
      | c # cs \<Rightarrow>
          if take 2 f = ''%s'' then
            (case args of
               [] \<Rightarrow> ''%!s(MISSING)'' @ Sprintf (drop 2 f) []
             | a # as \<Rightarrow> a @ Sprintf (drop 2 f) as)
          else c # Sprintf cs args)"
  by pat_completeness auto
termination
  by (relation "measure (\<lambda>(f, args). length f)") auto

declare Sprintf.simps [simp del]

end
