(* ===== verification/Database.thy ===== *)
theory Database
  imports Go_Strings
begin

text \<open>
  The Postgres schema of \<open>internal/db/migrate.go\<close> and the rows of \<open>internal/models\<close>. A table is an
  association list from its unique key to the row; \<open>db_ok\<close> is the conjunction of the key and
  uniqueness constraints the schema declares. The surrogate \<open>id\<close> columns are not modelled: no
  statement reads them. Times are nanoseconds since the epoch.

  A statement is a function of the transaction's \<open>now()\<close> and of the database. \<open>db_le\<close> is the
  order the development's safety properties rest on: rows never disappear, nonces never go back,
  and a REAP user ID, a chain code, an owner or an event, once recorded, never changes.
\<close>

section \<open>Rows\<close>

record mapping_row =
  m_reap_user_id :: "string option"
  m_hex_chain_code :: "string option"
  m_nonce :: int
  m_create_started_at :: "int option"
  m_created_at :: int
  m_updated_at :: int
  m_last_used_at :: int

record token_row =
  t_id :: string
  t_token_id :: string
  t_public_key :: string
  t_expires_at :: int
  t_created_at :: int
  t_updated_at :: int
  t_last_used_at :: int
  t_revoked_at :: "int option"

record ownership_row =
  o_owner :: string  \<comment> \<open>\<open>vault_public_key\<close>, or \<open>reap_user_id\<close> in \<open>vultisig_user_card_ownership\<close>\<close>
  o_created_at :: int

record event_row =
  e_type :: string
  e_payload :: string
  e_received_at :: int

record db =
  mappings :: "(string, mapping_row) table"
  vault_tokens :: "(string, token_row) table"
  card_ownership :: "(string, ownership_row) table"
  account_ownership :: "(string, ownership_row) table"
  user_card_ownership :: "(string, ownership_row) table"
  webhook_events :: "(string, event_row) table"

definition empty_db :: db where
  \<comment> \<open>the database right after the first \<open>Migrate\<close>\<close>
  "empty_db = \<lparr>mappings = [], vault_tokens = [], card_ownership = [], account_ownership = [],
     user_card_ownership = [], webhook_events = []\<rparr>"

definition new_mapping :: "int \<Rightarrow> mapping_row" where
  \<comment> \<open>the column defaults of \<open>vultisig_reap_mappings\<close>\<close>
  "new_mapping now = \<lparr>m_reap_user_id = None, m_hex_chain_code = None, m_nonce = 0,
     m_create_started_at = None, m_created_at = now, m_updated_at = now, m_last_used_at = now\<rparr>"

definition pg_timestamp :: "int \<Rightarrow> int" where
  \<comment> \<open>a \<open>TIMESTAMPTZ\<close> keeps microseconds\<close>
  "pg_timestamp t = t div 1000 * 1000"

lemma pg_timestamp_le: "pg_timestamp t \<le> t" "t - 1000 < pg_timestamp t"
  by (simp_all add: pg_timestamp_def minus_mod_eq_div_mult [symmetric])

type_synonym 'a stmt = "int \<Rightarrow> db \<Rightarrow> 'a res \<times> db"

section \<open>Constraints\<close>

definition reap_ids :: "(string, mapping_row) table \<Rightarrow> string list" where
  \<comment> \<open>the non-NULL values of the UNIQUE column \<open>reap_user_id\<close>\<close>
  "reap_ids t = List.map_filter (\<lambda>(k, r). m_reap_user_id r) t"

definition db_ok :: "db \<Rightarrow> bool" where
  "db_ok d \<longleftrightarrow> table_ok (mappings d) \<and> distinct (reap_ids (mappings d))
     \<and> table_ok (vault_tokens d) \<and> table_ok (card_ownership d) \<and> table_ok (account_ownership d)
     \<and> table_ok (user_card_ownership d) \<and> table_ok (webhook_events d)"

lemma db_ok_empty: "db_ok empty_db"
  by (simp add: db_ok_def empty_db_def reap_ids_def map_filter_def)

lemma reap_ids_simps [simp]:
  "reap_ids [] = []"
  "reap_ids ((k, r) # t) = (case m_reap_user_id r of None \<Rightarrow> [] | Some u \<Rightarrow> [u]) @ reap_ids t"
  "reap_ids (t1 @ t2) = reap_ids t1 @ reap_ids t2"
  by (auto simp: reap_ids_def map_filter_def split: option.splits)

lemma in_reap_ids: "u \<in> set (reap_ids t) \<longleftrightarrow> (\<exists>p \<in> set t. m_reap_user_id (snd p) = Some u)"
proof (induction t)
  case (Cons p t)
  then show ?case by (cases p) (auto split: option.splits)
qed simp

lemma set_reap_ids: "set (reap_ids t) = {u. \<exists>k r. (k, r) \<in> set t \<and> m_reap_user_id r = Some u}"
  by (force simp: in_reap_ids)

text \<open>An update that keeps a row's REAP user ID keeps the column.\<close>

lemma reap_ids_table_set_same:
  assumes "table_ok t" and "map_of t k = Some r" and "m_reap_user_id r' = m_reap_user_id r"
  shows "reap_ids (table_set k r' t) = reap_ids t"
  using assms
proof (induction t)
  case (Cons p t)
  then show ?case
  proof (cases "fst p = k")
    case True
    with Cons.prems have "k \<notin> fst ` set t" by (auto simp: table_ok_def)
    then have "table_set k r' t = t" by (rule table_set_absent)
    with True Cons.prems show ?thesis by (cases p) (auto simp: table_set_def)
  next
    case False
    with Cons show ?thesis by (cases p) (auto simp: table_set_def table_ok_def split: option.splits)
  qed
qed simp

lemma set_reap_ids_table_set:
  "set (reap_ids (table_set k r t)) \<subseteq> set (reap_ids t) \<union> set_option (m_reap_user_id r)"
  by (induction t) (auto simp: table_set_def split: option.splits if_splits)

lemma distinct_reap_ids_table_set:
  assumes "table_ok t" and "distinct (reap_ids t)" and "m_reap_user_id r = Some u"
    and "u \<notin> set (reap_ids t)"
  shows "distinct (reap_ids (table_set k r t))"
  using assms
proof (induction t)
  case (Cons p t)
  show ?case
  proof (cases "fst p = k")
    case True
    with Cons.prems have "k \<notin> fst ` set t" by (auto simp: table_ok_def)
    then have "table_set k r t = t" by (rule table_set_absent)
    with True Cons.prems show ?thesis
      by (cases p) (auto simp: table_set_def table_ok_def split: option.splits)
  next
    case False
    have sub: "set (reap_ids (table_set k r t)) \<subseteq> insert u (set (reap_ids t))"
      using set_reap_ids_table_set [of k r t] Cons.prems(3) by auto
    have "distinct (reap_ids (table_set k r t))"
      using Cons by (cases p) (auto simp: table_ok_def split: option.splits)
    with False sub Cons.prems show ?thesis
      by (cases p) (auto simp: table_set_def split: option.splits)
  qed
qed (simp add: table_set_def)

lemma reap_id_unique:
  assumes "distinct (reap_ids t)" and "map_of t k = Some r" and "map_of t k' = Some r'"
    and "m_reap_user_id r = Some u" and "m_reap_user_id r' = Some u"
  shows "k = k'"
proof (rule ccontr)
  assume ne: "k \<noteq> k'"
  have "(k, r) \<in> set t" "(k', r') \<in> set t" using assms by (auto dest: map_of_SomeD)
  with ne assms(1,4,5) show False
  proof (induction t)
    case (Cons p t)
    then show ?case by (cases p) (force simp: set_reap_ids split: option.splits)
  qed simp
qed

section \<open>The order on databases\<close>

definition mapping_le :: "mapping_row \<Rightarrow> mapping_row \<Rightarrow> bool" where
  "mapping_le r r' \<longleftrightarrow> m_nonce r \<le> m_nonce r'
     \<and> (m_reap_user_id r = None \<or> m_reap_user_id r' = m_reap_user_id r)
     \<and> (m_hex_chain_code r = None \<or> m_hex_chain_code r' = m_hex_chain_code r)"

definition rows_le :: "('r \<Rightarrow> 'r \<Rightarrow> bool) \<Rightarrow> ('k, 'r) table \<Rightarrow> ('k, 'r) table \<Rightarrow> bool" where
  "rows_le le t t' \<longleftrightarrow> (\<forall>k r. map_of t k = Some r \<longrightarrow> (\<exists>r'. map_of t' k = Some r' \<and> le r r'))"

definition token_le :: "token_row \<Rightarrow> token_row \<Rightarrow> bool" where
  "token_le r r' \<longleftrightarrow> t_public_key r' = t_public_key r \<and> t_expires_at r' = t_expires_at r
     \<and> t_revoked_at r' = t_revoked_at r"

definition db_le :: "db \<Rightarrow> db \<Rightarrow> bool" where
  "db_le d d' \<longleftrightarrow> rows_le mapping_le (mappings d) (mappings d')
     \<and> rows_le token_le (vault_tokens d) (vault_tokens d')
     \<and> rows_le (=) (card_ownership d) (card_ownership d')
     \<and> rows_le (=) (account_ownership d) (account_ownership d')
     \<and> rows_le (=) (user_card_ownership d) (user_card_ownership d')
     \<and> rows_le (=) (webhook_events d) (webhook_events d')"

lemma rows_le_refl: "(\<And>r. le r r) \<Longrightarrow> rows_le le t t"
  by (auto simp: rows_le_def)

lemma rows_le_trans:
  assumes "\<And>r s u. le r s \<Longrightarrow> le s u \<Longrightarrow> le r u" and "rows_le le t t'" and "rows_le le t' t''"
  shows "rows_le le t t''"
  using assms unfolding rows_le_def by metis

lemma mapping_le_refl [simp]: "mapping_le r r"
  by (simp add: mapping_le_def)

lemma mapping_le_trans: "mapping_le r s \<Longrightarrow> mapping_le s u \<Longrightarrow> mapping_le r u"
  by (auto simp: mapping_le_def)

lemma token_le_refl [simp]: "token_le r r"
  by (simp add: token_le_def)

lemma token_le_trans: "token_le r s \<Longrightarrow> token_le s u \<Longrightarrow> token_le r u"
  by (auto simp: token_le_def)

lemmas mapping_rows_trans = rows_le_trans [of mapping_le, OF mapping_le_trans]
lemmas token_rows_trans = rows_le_trans [of token_le, OF token_le_trans]

lemma fixed_rows_trans: "rows_le (=) t t' \<Longrightarrow> rows_le (=) t' t'' \<Longrightarrow> rows_le (=) t t''"
  by (auto simp: rows_le_def)

lemma db_le_refl [simp]: "db_le d d"
  by (simp add: db_le_def rows_le_refl)

lemma db_le_trans: "db_le d d' \<Longrightarrow> db_le d' d'' \<Longrightarrow> db_le d d''"
  unfolding db_le_def by (intro conjI; elim conjE)
    (rule mapping_rows_trans token_rows_trans fixed_rows_trans; assumption)+

interpretation db_order: frame db_le
  by unfold_locales (simp, rule db_le_trans)

lemma rows_le_insert: "(\<And>r. le r r) \<Longrightarrow> map_of t k = None \<Longrightarrow> rows_le le t (table_insert k r t)"
  by (auto simp: rows_le_def map_of_table_insert)

lemma rows_le_insert_new: "(\<And>r. le r r) \<Longrightarrow> rows_le le t (insert_new k r t)"
  by (auto simp: rows_le_def map_of_insert_new)

lemma rows_le_set:
  "(\<And>r. le r r) \<Longrightarrow> map_of t k = Some r \<Longrightarrow> le r r' \<Longrightarrow> rows_le le t (table_set k r' t)"
  by (auto simp: rows_le_def map_of_table_set)

section \<open>Well-behaved statements\<close>

text \<open>
  What every statement of the stores is proved to be: it keeps the constraints and only moves up
  in the order; when it fails, it changes nothing.
\<close>

definition stmt_ok :: "'a stmt \<Rightarrow> bool" where
  "stmt_ok s \<longleftrightarrow> (\<forall>now d. db_ok d \<longrightarrow> db_ok (snd (s now d)))
     \<and> (\<forall>now d. db_le d (snd (s now d)))
     \<and> (\<forall>now d e. fst (s now d) = Inl e \<longrightarrow> snd (s now d) = d)"

named_theorems stmt_oks "every statement of the stores is well-behaved"

lemma stmt_okI:
  assumes "\<And>now d. db_ok d \<Longrightarrow> db_ok (snd (s now d))" and "\<And>now d. db_le d (snd (s now d))"
    and "\<And>now d e. fst (s now d) = Inl e \<Longrightarrow> snd (s now d) = d"
  shows "stmt_ok s"
  using assms by (auto simp: stmt_ok_def)

text \<open>A statement that never changes the database.\<close>

lemma stmt_ok_read: "(\<And>now d. snd (s now d) = d) \<Longrightarrow> stmt_ok s"
  by (simp add: stmt_ok_def)

end
