(* ===== verification/Go_Url.thy ===== *)
theory Go_Url
  imports Go_Strings
begin

text \<open>
  The parts of Go's \<open>net/url\<close> the program uses: percent-encoding of a path segment and of a
  query component, and \<open>url.Values\<close>, the multimap of query parameters. A \<open>url.Values\<close> is an
  association list from the name to its values; \<open>Encode\<close> sorts by name, so the order of the
  list is not observable.
\<close>

section \<open>Percent-encoding\<close>

definition unreserved :: "char \<Rightarrow> bool" where
  "unreserved c \<longleftrightarrow> is_digit c \<or> 65 \<le> byte c \<and> byte c \<le> 90 \<or> 97 \<le> byte c \<and> byte c \<le> 122
     \<or> c \<in> {CHR ''-'', CHR ''_'', CHR ''.'', CHR ''~''}"

definition segment_safe :: "char \<Rightarrow> bool" where
  \<comment> \<open>what \<open>url.PathEscape\<close> leaves as it is\<close>
  "segment_safe c \<longleftrightarrow> unreserved c \<or> c \<in> {CHR ''$'', CHR ''&'', CHR ''+'', CHR '':'', CHR ''='', CHR ''@''}"

definition upper_hex :: "nat \<Rightarrow> char" where
  "upper_hex d = (if d < 10 then char_of (48 + d) else char_of (55 + d))"

definition percent :: "char \<Rightarrow> string" where
  "percent c = [CHR ''%'', upper_hex (byte c div 16), upper_hex (byte c mod 16)]"

definition PathEscape :: "string \<Rightarrow> string" where
  "PathEscape s = concat (map (\<lambda>c. if segment_safe c then [c] else percent c) s)"

definition QueryEscape :: "string \<Rightarrow> string" where
  "QueryEscape s = concat (map (\<lambda>c. if unreserved c then [c]
                                    else if c = CHR '' '' then ''+'' else percent c) s)"

fun PathUnescape :: "string \<Rightarrow> string option" where
  "PathUnescape [] = Some []"
| "PathUnescape (c # cs) =
     (if c = CHR ''%'' then
        (case cs of
           a # b # r \<Rightarrow>
             (case (hex_val a, hex_val b) of
                (Some x, Some y) \<Rightarrow> map_option (\<lambda>t. char_of (x * 16 + y) # t) (PathUnescape r)
              | _ \<Rightarrow> None)
         | _ \<Rightarrow> None)
      else map_option (\<lambda>t. c # t) (PathUnescape cs))"

lemma hex_val_upper_hex: "d < 16 \<Longrightarrow> hex_val (upper_hex d) = Some d"
  by (auto simp: hex_val_def upper_hex_def byte_char_of)

lemma PathEscape_Nil [simp]: "PathEscape [] = []"
  by (simp add: PathEscape_def)

lemma PathEscape_Cons:
  "PathEscape (c # cs) = (if segment_safe c then [c] else percent c) @ PathEscape cs"
  by (simp add: PathEscape_def)

lemma PathUnescape_percent:
  "PathUnescape (percent c @ r) = map_option (\<lambda>t. c # t) (PathUnescape r)"
proof -
  have "byte c div 16 < 16" "byte c mod 16 < 16" by (simp_all add: less_mult_imp_div_less byte_less)
  moreover have "char_of (byte c div 16 * 16 + byte c mod 16) = c" by simp
  ultimately show ?thesis by (simp add: percent_def hex_val_upper_hex)
qed

lemma PathUnescape_PathEscape: "PathUnescape (PathEscape s) = Some s"
proof (induction s)
  case (Cons c cs)
  have "segment_safe c \<Longrightarrow> c \<noteq> CHR ''%''" by (auto simp: segment_safe_def unreserved_def is_digit_def)
  with Cons show ?case by (simp add: PathEscape_Cons PathUnescape_percent)
qed simp

interpretation segment: codec PathEscape PathUnescape "\<lambda>_. True"
  by unfold_locales (rule PathUnescape_PathEscape)

lemma upper_hex_alnum: "d < 16 \<Longrightarrow> unreserved (upper_hex d)"
  by (auto simp: unreserved_def upper_hex_def is_digit_def byte_char_of)

text \<open>
  Nothing that separates the parts of a URL survives: an escaped segment consists of safe
  characters and percent signs.
\<close>

lemma PathEscape_chars:
  "c \<in> set (PathEscape s) \<Longrightarrow> segment_safe c \<or> c = CHR ''%''"
proof (induction s)
  case (Cons a s)
  have "byte a div 16 < 16" "byte a mod 16 < 16" by (simp_all add: less_mult_imp_div_less byte_less)
  with Cons show ?case
    by (auto simp: PathEscape_Cons percent_def segment_safe_def upper_hex_alnum split: if_splits)
qed simp

lemma PathEscape_no_sep:
  "CHR ''/'' \<notin> set (PathEscape s)" "CHR ''?'' \<notin> set (PathEscape s)" "CHR ''#'' \<notin> set (PathEscape s)"
  using PathEscape_chars [of "CHR ''/''" s] PathEscape_chars [of "CHR ''?''" s]
    PathEscape_chars [of "CHR ''#''" s]
  by (auto simp: segment_safe_def unreserved_def is_digit_def)

lemma PathEscape_safe: "list_all segment_safe s \<Longrightarrow> PathEscape s = s"
  by (induction s) (auto simp: PathEscape_Cons)

section \<open>Query parameters\<close>

type_synonym url_values = "(string \<times> string list) list"

definition Values_Get :: "url_values \<Rightarrow> string \<Rightarrow> string" where
  "Values_Get v k = (case map_of v k of Some (x # _) \<Rightarrow> x | _ \<Rightarrow> [])"

definition Values_Set :: "url_values \<Rightarrow> string \<Rightarrow> string \<Rightarrow> url_values" where
  "Values_Set v k x = AList.update k [x] v"

definition Values_Del :: "url_values \<Rightarrow> string \<Rightarrow> url_values" where
  "Values_Del v k = filter (\<lambda>p. fst p \<noteq> k) v"

definition Values_Encode :: "url_values \<Rightarrow> string" where
  "Values_Encode v =
     Join (concat (map (\<lambda>(k, xs). map (\<lambda>x. QueryEscape k @ ''='' @ QueryEscape x) xs)
                       (sort_key fst v))) ''&''"

named_theorems values_simps "lookups in url.Values"

lemma map_of_Values_Set [values_simps]: "map_of (Values_Set v k x) = (map_of v)(k \<mapsto> [x])"
  by (simp add: Values_Set_def AList.update_conv')

lemma map_of_Values_Del [values_simps]:
  "map_of (Values_Del v k) = (map_of v)(k := None)"
  by (rule ext) (induction v, auto simp: Values_Del_def)

lemma Values_Get_Set [values_simps]:
  "Values_Get (Values_Set v k x) k' = (if k' = k then x else Values_Get v k')"
  by (simp add: Values_Get_def map_of_Values_Set)

lemma Values_Get_Del [values_simps]:
  "Values_Get (Values_Del v k) k' = (if k' = k then [] else Values_Get v k')"
  by (simp add: Values_Get_def map_of_Values_Del)

end
