(* ===== verification/Go_Json.thy ===== *)
theory Go_Json
  imports Go_Strings
begin

text \<open>
  Go's \<open>encoding/json\<close>, as far as the program uses it: the grammar \<open>json.Unmarshal\<close> accepts
  (with its nesting limit and its treatment of escapes and of invalid UTF-8), decoding into
  structs with string, struct, slice and \<open>json.RawMessage\<close> fields, and \<open>json.Marshal\<close> of
  structs. A parsed object keeps, for every member, the raw bytes of its value, because
  \<open>json.RawMessage\<close> hands them on unparsed.

  Decoding into a struct: an object member is decoded into the field its key names, up to case
  folding; \<open>null\<close> leaves the field as it is; a value of another type is an error, and every
  caller in the program discards the struct on an error; the last of several members for one
  string field wins, and several objects for one struct field are merged. A repeated array member
  is decoded afresh (Go reuses the backing array of the earlier one).
\<close>

section \<open>Values\<close>

datatype json =
    JNull
  | JBool bool
  | JNum string
  | JStr string
  | JArr "json list"
  | JObj "(string \<times> string \<times> json) list"  \<comment> \<open>key, raw bytes of the value, value\<close>

type_synonym members = "(string \<times> string \<times> json) list"

section \<open>The scanner\<close>

definition is_ws :: "char \<Rightarrow> bool" where
  "is_ws c \<longleftrightarrow> byte c \<in> {32, 9, 10, 13}"

definition skip_ws :: "string \<Rightarrow> string" where
  "skip_ws s = dropWhile is_ws s"

subsection \<open>Strings\<close>

definition cont :: "nat \<Rightarrow> nat \<Rightarrow> string \<Rightarrow> bool" where
  \<comment> \<open>the first byte lies in a range of continuation bytes\<close>
  "cont lo hi s = (case s of [] \<Rightarrow> False | c # _ \<Rightarrow> lo \<le> byte c \<and> byte c \<le> hi)"

definition rune_len :: "string \<Rightarrow> nat" where
  \<comment> \<open>the width of the UTF-8 sequence at the start (\<open>utf8.DecodeRune\<close>), 0 where it is invalid\<close>
  "rune_len s = (case s of [] \<Rightarrow> 0 | c # t \<Rightarrow>
     (let b = byte c in
      if b < 128 then 1
      else if 194 \<le> b \<and> b \<le> 223 then (if cont 128 191 t then 2 else 0)
      else if 224 \<le> b \<and> b \<le> 239 then
        (if cont (if b = 224 then 160 else 128) (if b = 237 then 159 else 191) t
            \<and> cont 128 191 (tl t) then 3 else 0)
      else if 240 \<le> b \<and> b \<le> 244 then
        (if cont (if b = 240 then 144 else 128) (if b = 244 then 143 else 191) t
            \<and> cont 128 191 (tl t) \<and> cont 128 191 (tl (tl t)) then 4 else 0)
      else 0))"

definition replacement :: string where
  \<comment> \<open>U+FFFD in UTF-8\<close>
  "replacement = [char_of (239::nat), char_of (191::nat), char_of (189::nat)]"

definition encode_rune :: "nat \<Rightarrow> string" where
  \<comment> \<open>\<open>utf8.AppendRune\<close>; a surrogate or a value beyond U+10FFFF gives U+FFFD\<close>
  "encode_rune r =
     (if r < 128 then [char_of r]
      else if r < 2048 then [char_of (192 + r div 64), char_of (128 + r mod 64)]
      else if 55296 \<le> r \<and> r \<le> 57343 \<or> r > 1114111 then replacement
      else if r < 65536 then
        [char_of (224 + r div 4096), char_of (128 + r div 64 mod 64), char_of (128 + r mod 64)]
      else [char_of (240 + r div 262144), char_of (128 + r div 4096 mod 64),
            char_of (128 + r div 64 mod 64), char_of (128 + r mod 64)])"

definition hex4 :: "string \<Rightarrow> nat option" where
  "hex4 s = (case s of
     a # b # c # d # _ \<Rightarrow>
       (case (hex_val a, hex_val b, hex_val c, hex_val d) of
          (Some w, Some x, Some y, Some z) \<Rightarrow> Some (((w * 16 + x) * 16 + y) * 16 + z)
        | _ \<Rightarrow> None)
   | _ \<Rightarrow> None)"

definition simple_escape :: "char \<Rightarrow> char option" where
  "simple_escape c =
     (if c = CHR 0x22 \<or> c = CHR 0x5C \<or> c = CHR ''/'' then Some c
      else if c = CHR ''b'' then Some (CHR 0x08)
      else if c = CHR ''f'' then Some (CHR 0x0C)
      else if c = CHR ''n'' then Some (CHR 0x0A)
      else if c = CHR ''r'' then Some (CHR 0x0D)
      else if c = CHR ''t'' then Some (CHR 0x09)
      else None)"

definition low_surrogate :: "string \<Rightarrow> nat option" where
  \<comment> \<open>the second half of a surrogate pair, when the text goes on with its escape\<close>
  "low_surrogate s =
     (if take 2 s = [CHR 0x5C, CHR ''u''] then
        (case hex4 (drop 2 s) of
           Some lo \<Rightarrow> if 56320 \<le> lo \<and> lo \<le> 57343 then Some lo else None
         | None \<Rightarrow> None)
      else None)"

function json_string :: "string \<Rightarrow> (string \<times> string) option" where
  \<comment> \<open>from after the opening quote: the decoded text and what follows the closing quote\<close>
  "json_string s =
     (case s of [] \<Rightarrow> None
      | c # cs \<Rightarrow>
          if c = CHR 0x22 then Some ([], cs)
          else if c = CHR 0x5C then
            (case cs of [] \<Rightarrow> None
             | e # es \<Rightarrow>
                 (if e = CHR ''u'' then
                    (case hex4 es of None \<Rightarrow> None
                     | Some r \<Rightarrow>
                         (if 55296 \<le> r \<and> r \<le> 57343 then
                            (case (if r < 56320 then low_surrogate (drop 4 es) else None) of
                               Some lo \<Rightarrow>
                                 map_option (\<lambda>(t, rest).
                                     (encode_rune (65536 + (r - 55296) * 1024 + (lo - 56320)) @ t, rest))
                                   (json_string (drop 10 es))
                             | None \<Rightarrow>
                                 map_option (\<lambda>(t, rest). (replacement @ t, rest))
                                   (json_string (drop 4 es)))
                          else map_option (\<lambda>(t, rest). (encode_rune r @ t, rest))
                                 (json_string (drop 4 es))))
                  else (case simple_escape e of None \<Rightarrow> None
                        | Some c' \<Rightarrow> map_option (\<lambda>(t, rest). (c' # t, rest)) (json_string es))))
          else if byte c < 32 then None
          else (let n = rune_len s in
                if n = 0 then map_option (\<lambda>(t, rest). (replacement @ t, rest)) (json_string cs)
                else map_option (\<lambda>(t, rest). (take n s @ t, rest)) (json_string (drop n s))))"
  by pat_completeness auto
termination
  by (relation "measure length") auto

declare json_string.simps [simp del]

subsection \<open>Numbers\<close>

definition digits1 :: "string \<Rightarrow> (string \<times> string) option" where
  \<comment> \<open>at least one digit\<close>
  "digits1 s = (let d = takeWhile is_digit s in
                if d = [] then None else Some (d, dropWhile is_digit s))"

definition num_int :: "string \<Rightarrow> (string \<times> string) option" where
  \<comment> \<open>\<open>0\<close> or digits without a leading zero\<close>
  "num_int s = (case s of [] \<Rightarrow> None
                | c # cs \<Rightarrow> if c = CHR ''0'' then Some ([c], cs) else digits1 s)"

definition num_frac :: "string \<Rightarrow> (string \<times> string) option" where
  "num_frac s = (case s of [] \<Rightarrow> Some ([], [])
                 | c # cs \<Rightarrow> if c = CHR ''.'' then map_option (\<lambda>(d, r). (c # d, r)) (digits1 cs)
                             else Some ([], s))"

definition num_exp :: "string \<Rightarrow> (string \<times> string) option" where
  "num_exp s = (case s of [] \<Rightarrow> Some ([], [])
     | c # cs \<Rightarrow>
         if c = CHR ''e'' \<or> c = CHR ''E'' then
           (case cs of [] \<Rightarrow> None
            | g # gs \<Rightarrow>
                if g = CHR ''+'' \<or> g = CHR ''-'' then
                  map_option (\<lambda>(d, r). (c # g # d, r)) (digits1 gs)
                else map_option (\<lambda>(d, r). (c # d, r)) (digits1 cs))
         else Some ([], s))"

definition json_number :: "string \<Rightarrow> (string \<times> string) option" where
  "json_number s =
     (let (sg, s1) = (case s of c # cs \<Rightarrow> if c = CHR ''-'' then ([c], cs) else ([], s) | [] \<Rightarrow> ([], s))
      in Option.bind (num_int s1) (\<lambda>(i, s2).
         Option.bind (num_frac s2) (\<lambda>(f, s3).
         Option.bind (num_exp s3) (\<lambda>(e, s4). Some (sg @ i @ f @ e, s4)))))"

section \<open>The parser\<close>

text \<open>
  The nesting limit of \<open>encoding/json\<close> is 10000. The fuel only bounds the recursion of the model;
  \<open>json_parse\<close> gives twice the length of the text plus two, which is always enough
  (\<open>json_parse_fuel\<close> in \<open>Json_Fuel\<close>).
\<close>

definition max_depth :: nat where "max_depth = 10000"

definition strip :: "string \<Rightarrow> string \<Rightarrow> string option" where
  "strip p s = (if take (length p) s = p then Some (drop (length p) s) else None)"

fun json_value :: "nat \<Rightarrow> nat \<Rightarrow> string \<Rightarrow> (json \<times> string) option"
  and json_elems :: "nat \<Rightarrow> nat \<Rightarrow> string \<Rightarrow> (json list \<times> string) option"
  and json_members :: "nat \<Rightarrow> nat \<Rightarrow> string \<Rightarrow> (members \<times> string) option" where
  "json_value 0 d s = None"
| "json_value (Suc n) d s =
     (case s of [] \<Rightarrow> None
      | c # cs \<Rightarrow>
          if c = CHR ''{'' then
            (if d \<ge> max_depth then None
             else (case skip_ws cs of [] \<Rightarrow> None
                   | c' # r \<Rightarrow> if c' = CHR ''}'' then Some (JObj [], r)
                               else map_option (\<lambda>(ms, t). (JObj ms, t)) (json_members n (Suc d) (c' # r))))
          else if c = CHR ''['' then
            (if d \<ge> max_depth then None
             else (case skip_ws cs of [] \<Rightarrow> None
                   | c' # r \<Rightarrow> if c' = CHR '']'' then Some (JArr [], r)
                               else map_option (\<lambda>(es, t). (JArr es, t)) (json_elems n (Suc d) (c' # r))))
          else if c = CHR 0x22 then map_option (\<lambda>(t, r). (JStr t, r)) (json_string cs)
          else if c = CHR ''t'' then map_option (\<lambda>r. (JBool True, r)) (strip ''true'' s)
          else if c = CHR ''f'' then map_option (\<lambda>r. (JBool False, r)) (strip ''false'' s)
          else if c = CHR ''n'' then map_option (\<lambda>r. (JNull, r)) (strip ''null'' s)
          else map_option (\<lambda>(l, r). (JNum l, r)) (json_number s))"
| "json_elems 0 d s = None"
| "json_elems (Suc n) d s =
     Option.bind (json_value n d s) (\<lambda>(v, r).
       (case skip_ws r of [] \<Rightarrow> None
        | c # cs \<Rightarrow>
            if c = CHR '']'' then Some ([v], cs)
            else if c = CHR '','' then
              map_option (\<lambda>(vs, t). (v # vs, t)) (json_elems n d (skip_ws cs))
            else None))"
| "json_members 0 d s = None"
| "json_members (Suc n) d s =
     (case s of [] \<Rightarrow> None
      | q # qs \<Rightarrow>
          if q \<noteq> CHR 0x22 then None
          else Option.bind (json_string qs) (\<lambda>(k, r).
            (case skip_ws r of [] \<Rightarrow> None
             | c # cs \<Rightarrow>
                 if c \<noteq> CHR '':'' then None
                 else (let s1 = skip_ws cs in
                   Option.bind (json_value n d s1) (\<lambda>(v, r1).
                     (let raw = take (length s1 - length r1) s1 in
                      (case skip_ws r1 of [] \<Rightarrow> None
                       | c1 # cs1 \<Rightarrow>
                           if c1 = CHR ''}'' then Some ([(k, raw, v)], cs1)
                           else if c1 = CHR '','' then
                             map_option (\<lambda>(ms, t). ((k, raw, v) # ms, t))
                               (json_members n d (skip_ws cs1))
                           else None)))))))"

definition json_parse :: "string \<Rightarrow> json option" where
  \<comment> \<open>\<open>json.Unmarshal\<close>'s check of the whole text: one value, nothing after it\<close>
  "json_parse s =
     (let s1 = skip_ws s in
      case json_value (2 * length s1 + 2) 0 s1 of
        Some (v, r) \<Rightarrow> if skip_ws r = [] then Some v else None
      | None \<Rightarrow> None)"

section \<open>Decoding into structs\<close>

fun fold_key :: "string \<Rightarrow> string" where
  \<comment> \<open>case folding as far as ASCII names can match: letters to upper case, U+017F to S, U+212A to K\<close>
  "fold_key [] = []"
| "fold_key (c # cs) =
     (if 97 \<le> byte c \<and> byte c \<le> 122 then char_of (byte c - 32) # fold_key cs
      else if byte c = 197 \<and> cs \<noteq> [] \<and> byte (hd cs) = 191 then CHR ''S'' # fold_key (tl cs)
      else if byte c = 226 \<and> length cs \<ge> 2 \<and> byte (hd cs) = 132 \<and> byte (hd (tl cs)) = 170
        then CHR ''K'' # fold_key (tl (tl cs))
      else c # fold_key cs)"

definition field :: "string \<Rightarrow> members \<Rightarrow> (string \<times> json) list" where
  \<comment> \<open>the members decoded into the struct field of this name, in order\<close>
  "field name ms = map snd (filter (\<lambda>m. fold_key (fst m) = fold_key name) ms)"

fun dec_string :: "string \<Rightarrow> (string \<times> json) list \<Rightarrow> string option" where
  "dec_string cur [] = Some cur"
| "dec_string cur ((raw, v) # vs) =
     (case v of JStr s \<Rightarrow> dec_string s vs | JNull \<Rightarrow> dec_string cur vs | _ \<Rightarrow> None)"

fun dec_struct :: "(string \<times> json) list \<Rightarrow> members option" where
  "dec_struct [] = Some []"
| "dec_struct ((raw, v) # vs) =
     (case v of JObj ms \<Rightarrow> map_option (\<lambda>r. ms @ r) (dec_struct vs) | JNull \<Rightarrow> dec_struct vs | _ \<Rightarrow> None)"

definition dec_raw :: "(string \<times> json) list \<Rightarrow> string" where
  \<comment> \<open>\<open>json.RawMessage\<close>: the raw bytes of the last member, empty (nil) without one\<close>
  "dec_raw vs = (if vs = [] then [] else fst (last vs))"

definition string_field :: "string \<Rightarrow> members \<Rightarrow> string option" where
  "string_field name ms = dec_string [] (field name ms)"

definition struct_field :: "string \<Rightarrow> members \<Rightarrow> members option" where
  "struct_field name ms = dec_struct (field name ms)"

definition unmarshal_struct :: "string \<Rightarrow> members option" where
  \<comment> \<open>the members \<open>json.Unmarshal(data, &struct)\<close> decodes from; None for its errors\<close>
  "unmarshal_struct data =
     (case json_parse data of None \<Rightarrow> None | Some v \<Rightarrow> dec_struct [(data, v)])"

definition unmarshal_string_field :: "string \<Rightarrow> string \<Rightarrow> string option" where
  \<comment> \<open>the decoding of a struct with one string field, the commonest one in the services\<close>
  "unmarshal_string_field name data = Option.bind (unmarshal_struct data) (string_field name)"

section \<open>json.Marshal\<close>

definition u_escape :: "nat \<Rightarrow> string" where
  "u_escape r = [CHR 0x5C, CHR ''u'', hex_digit (r div 4096), hex_digit (r div 256 mod 16),
                 hex_digit (r div 16 mod 16), hex_digit (r mod 16)]"

definition marshal_byte :: "char \<Rightarrow> string" where
  \<comment> \<open>an ASCII byte of a string, with the HTML characters escaped\<close>
  "marshal_byte c =
     (if c = CHR 0x22 \<or> c = CHR 0x5C then [CHR 0x5C, c]
      else if c = CHR 0x08 then [CHR 0x5C, CHR ''b'']
      else if c = CHR 0x0C then [CHR 0x5C, CHR ''f'']
      else if c = CHR 0x0A then [CHR 0x5C, CHR ''n'']
      else if c = CHR 0x0D then [CHR 0x5C, CHR ''r'']
      else if c = CHR 0x09 then [CHR 0x5C, CHR ''t'']
      else if byte c < 32 \<or> c = CHR ''<'' \<or> c = CHR ''>'' \<or> c = CHR ''&'' then u_escape (byte c)
      else [c])"

function marshal_chars :: "string \<Rightarrow> string" where
  "marshal_chars s =
     (case s of [] \<Rightarrow> []
      | c # cs \<Rightarrow>
          if byte c < 128 then marshal_byte c @ marshal_chars cs
          else (let n = rune_len s in
                if n = 0 then u_escape 65533 @ marshal_chars cs
                else if n = 3 \<and> take 2 s = [char_of (226::nat), char_of (128::nat)]
                        \<and> byte (s ! 2) \<in> {168, 169}
                  then u_escape (8192 + 32 + (byte (s ! 2) - 160)) @ marshal_chars (drop n s)
                else take n s @ marshal_chars (drop n s)))"
  by pat_completeness auto
termination
  by (relation "measure length") auto

declare marshal_chars.simps [simp del]

definition marshal_string :: "string \<Rightarrow> string" where
  "marshal_string s = CHR 0x22 # marshal_chars s @ [CHR 0x22]"

definition marshal_bool :: "bool \<Rightarrow> string" where
  "marshal_bool b = (if b then ''true'' else ''false'')"

definition omitempty :: "string \<Rightarrow> string \<Rightarrow> (string \<times> string) list" where
  \<comment> \<open>a string field with the \<open>omitempty\<close> option\<close>
  "omitempty name s = (if s = [] then [] else [(name, marshal_string s)])"

definition marshal_struct :: "(string \<times> string) list \<Rightarrow> string" where
  \<comment> \<open>the fields in declaration order, each with its marshalled value\<close>
  "marshal_struct fs =
     ''{'' @ Join (map (\<lambda>(k, v). CHR 0x22 # k @ CHR 0x22 # '':'' @ v) fs) '','' @ ''}''"

definition marshal_array :: "string list \<Rightarrow> string" where
  "marshal_array vs = ''['' @ Join vs '','' @ '']''"

end
