(* ===== verification/World.thy ===== *)
theory World
  imports Database Go_Url Go_Json
begin

text \<open>
  The effects of the program. The world is the database, the log of the HTTP requests sent to
  REAP, the tasks put on the notification queue, the packets sent to statsd, and a counter of the
  effects so far. Everything the program does not decide is an oracle indexed by that counter and
  collected in the environment: the clock, whether a database statement is lost, what REAP
  answers, what the random source gives. A theorem about all environments is a theorem about all
  behaviours of the outside.

  The REAP client (\<open>internal/reap/client.go\<close>) and the configuration the services hold are part
  of the environment as well; \<open>cmd/server/main.go\<close> wires them once at startup.
\<close>

section \<open>Requests\<close>

record http_req =
  req_method :: string
  req_url :: string
  req_header :: "(string \<times> string) list"
  req_body :: "string option"

definition Header_Set :: "(string \<times> string) list \<Rightarrow> string \<Rightarrow> string \<Rightarrow> (string \<times> string) list" where
  \<comment> \<open>\<open>http.Header.Set\<close>, for keys already in canonical form\<close>
  "Header_Set h k v = AList.update k v h"

section \<open>Environment and world\<close>

text \<open>
  A database statement may be lost before it runs (a dropped connection, a cancelled context, a
  parameter Postgres rejects), or run and have its acknowledgement lost.
\<close>

datatype fault = NoFault | Lost | CommitLost

record reap_client =
  baseURL :: string
  apiKey :: string
  stats :: "string option"  \<comment> \<open>the prefix of the statsd client, None for the nil client\<close>

text \<open>
  The primitives of cryptography. The hash functions and everything of the third-party packages
  (\<open>secp256k1\<close> and \<open>ecdsa\<close> of decred, \<open>golang-jwt\<close>) are parameters: the theorems hold for any
  functions in their place, or under a law of theirs that the statement names. A point is its
  affine coordinates, \<open>(0, 0)\<close> standing for the point at infinity, as in the package.
\<close>

type_synonym point = "int \<times> int"

record claims =
  cl_ID :: string
  cl_IssuedAt :: "int option"
  cl_ExpiresAt :: "int option"
  cl_PublicKey :: string

record crypto =
  hmac_sha256 :: "string \<Rightarrow> string \<Rightarrow> string"  \<comment> \<open>key, message\<close>
  hmac_sha512 :: "string \<Rightarrow> string \<Rightarrow> string"
  Sum256 :: "string \<Rightarrow> string"
  curve_N :: int  \<comment> \<open>the order of the group; a \<open>ModNScalar\<close> is a residue of it\<close>
  SetByteSlice :: "string \<Rightarrow> int \<times> bool"  \<comment> \<open>the scalar, and whether it overflowed\<close>
  AddScalar :: "int \<Rightarrow> int \<Rightarrow> int"
  PrivKeyFromBytes :: "string \<Rightarrow> int"
  PubKey :: "int \<Rightarrow> point"
  ParsePubKey :: "string \<Rightarrow> point option"
  SerializeCompressed :: "point \<Rightarrow> string"
  ScalarBaseMult :: "int \<Rightarrow> point"
  AddPoints :: "point \<Rightarrow> point \<Rightarrow> point"
  ParseDERSignature :: "string \<Rightarrow> (int \<times> int) option"
  sig_Verify :: "int \<times> int \<Rightarrow> string \<Rightarrow> point \<Rightarrow> bool"  \<comment> \<open>signature, hash, key\<close>
  jwt_sign :: "string \<Rightarrow> claims \<Rightarrow> string option"  \<comment> \<open>HS256 with this secret\<close>
  jwt_parse :: "int \<Rightarrow> string \<Rightarrow> (bool \<Rightarrow> string option) \<Rightarrow> claims option"
    \<comment> \<open>\<open>ParseWithClaims\<close> at a time, of a token, with a key function that is told whether the
        token's method is an HMAC one; None unless there is no error and the token is valid\<close>

record env =
  db_fault :: "nat \<Rightarrow> fault"
  clock :: "nat \<Rightarrow> int"
  reap_answer :: "nat \<Rightarrow> http_req \<Rightarrow> (int \<times> string) option"
  rand_read :: "nat \<Rightarrow> string option"
  enqueue_ok :: "nat \<Rightarrow> string \<Rightarrow> bool"
  unicode_lower :: "string \<Rightarrow> string"
  reap :: reap_client
  jwtSecret :: string
  webhookSecret :: string
  crypto_lib :: crypto
  notifications :: bool  \<comment> \<open>whether the webhook service holds a notification client\<close>

record world =
  wdb :: db
  sent :: "http_req list"
  tasks :: "string list"
  metrics :: "string list"
  tick :: nat

type_synonym 'a eff = "(world, 'a) act"

definition init_world :: world where
  "init_world = \<lparr>wdb = empty_db, sent = [], tasks = [], metrics = [], tick = 0\<rparr>"

section \<open>Primitive effects\<close>

definition db_exec :: "env \<Rightarrow> 'a stmt \<Rightarrow> 'a eff" where
  "db_exec env s w =
     (let n = tick w; w1 = w\<lparr>tick := Suc n\<rparr>; (r, d) = s (clock env n) (wdb w) in
      case db_fault env n of
        NoFault \<Rightarrow> (r, w1\<lparr>wdb := d\<rparr>)
      | Lost \<Rightarrow> (Inl ErrDb, w1)
      | CommitLost \<Rightarrow> (Inl ErrDb, w1\<lparr>wdb := d\<rparr>))"

definition time_now :: "env \<Rightarrow> int eff" where
  \<comment> \<open>\<open>time.Now()\<close>\<close>
  "time_now env w = (Inr (clock env (tick w)), w\<lparr>tick := Suc (tick w)\<rparr>)"

definition rand_Read :: "env \<Rightarrow> string eff" where
  "rand_Read env w =
     ((case rand_read env (tick w) of None \<Rightarrow> Inl ErrRand | Some b \<Rightarrow> Inr b), w\<lparr>tick := Suc (tick w)\<rparr>)"

definition http_Do :: "env \<Rightarrow> http_req \<Rightarrow> (int \<times> string) eff" where
  \<comment> \<open>\<open>http.Client.Do\<close> and reading the whole body\<close>
  "http_Do env r w =
     ((case reap_answer env (tick w) r of None \<Rightarrow> Inl ErrTransport | Some a \<Rightarrow> Inr a),
      w\<lparr>sent := sent w @ [r], tick := Suc (tick w)\<rparr>)"

definition enqueue :: "env \<Rightarrow> string \<Rightarrow> unit eff" where
  \<comment> \<open>\<open>asynq.Client.EnqueueContext\<close> of a task with this payload\<close>
  "enqueue env p w =
     (if enqueue_ok env (tick w) p
      then (Inr (), w\<lparr>tasks := tasks w @ [p], tick := Suc (tick w)\<rparr>)
      else (Inl (ErrNew ''enqueue''), w\<lparr>tick := Suc (tick w)\<rparr>))"

definition emit :: "string \<Rightarrow> unit eff" where
  \<comment> \<open>a UDP write; its error is discarded\<close>
  "emit p w = (Inr (), w\<lparr>metrics := metrics w @ [p]\<rparr>)"

section \<open>Responses\<close>

text \<open>
  What a handler answers with: \<open>c.JSON\<close> of a map (its values as marshalled text), \<open>c.Blob\<close> of
  REAP's JSON body, \<open>c.NoContent\<close>, \<open>c.String\<close>, or an error returned to Echo. A handler itself
  never fails.
\<close>

datatype resp =
    JSON int "(string \<times> string) list"
  | Blob int string
  | NoContent int
  | Text int string
  | HTTPError int string

type_synonym handler = "world \<Rightarrow> resp \<times> world"

definition error_json :: "int \<Rightarrow> string \<Rightarrow> resp" where
  "error_json code msg = JSON code [(''error'', marshal_string msg)]"

definition reply :: "resp \<Rightarrow> handler" where
  "reply r w = (r, w)"

definition handle :: "'a eff \<Rightarrow> ('a res \<Rightarrow> handler) \<Rightarrow> handler" where
  \<comment> \<open>a call whose error the handler looks at\<close>
  "handle m k w = (case m w of (r, w') \<Rightarrow> k r w')"

section \<open>What a piece of the program may do\<close>

text \<open>
  \<open>evolves\<close>: the logs only grow and the database only moves up. \<open>keeps_sent\<close>, \<open>keeps_tasks\<close> and
  \<open>keeps_db\<close>: no request to REAP, no notification task, no write to the database.
\<close>

definition evolves :: "world \<Rightarrow> world \<Rightarrow> bool" where
  "evolves w w' \<longleftrightarrow> db_le (wdb w) (wdb w') \<and> (db_ok (wdb w) \<longrightarrow> db_ok (wdb w'))
     \<and> (\<exists>s. sent w' = sent w @ s) \<and> (\<exists>t. tasks w' = tasks w @ t) \<and> tick w \<le> tick w'"

definition keeps_sent :: "world \<Rightarrow> world \<Rightarrow> bool" where
  "keeps_sent w w' \<longleftrightarrow> sent w' = sent w"

definition keeps_tasks :: "world \<Rightarrow> world \<Rightarrow> bool" where
  "keeps_tasks w w' \<longleftrightarrow> tasks w' = tasks w"

definition keeps_db :: "world \<Rightarrow> world \<Rightarrow> bool" where
  "keeps_db w w' \<longleftrightarrow> wdb w' = wdb w"

lemma evolves_refl [simp]: "evolves w w"
  by (simp add: evolves_def)

lemma evolves_trans: "evolves u v \<Longrightarrow> evolves v w \<Longrightarrow> evolves u w"
  unfolding evolves_def by (metis append.assoc db_le_trans le_trans)

lemma keeps_refl [simp]: "keeps_sent w w" "keeps_tasks w w" "keeps_db w w"
  by (simp_all add: keeps_sent_def keeps_tasks_def keeps_db_def)

interpretation evo: frame evolves
  by unfold_locales (simp, rule evolves_trans)

interpretation silent: frame keeps_sent
  by unfold_locales (auto simp: keeps_sent_def)

interpretation unqueued: frame keeps_tasks
  by unfold_locales (auto simp: keeps_tasks_def)

interpretation unwritten: frame keeps_db
  by unfold_locales (auto simp: keeps_db_def)

named_theorems evo_intros "operations that only move the world up"
named_theorems silent_intros "operations that send nothing to REAP"
named_theorems unqueued_intros "operations that queue no notification"
named_theorems unwritten_intros "operations that leave the database alone"

lemmas [evo_intros] = evo.frame_intros
lemmas [silent_intros] = silent.frame_intros
lemmas [unqueued_intros] = unqueued.frame_intros
lemmas [unwritten_intros] = unwritten.frame_intros

lemma db_exec_cases:
  obtains (lost) "db_exec env s w = (Inl ErrDb, w\<lparr>tick := Suc (tick w)\<rparr>)" "db_fault env (tick w) = Lost"
    | (commit_lost) "db_exec env s w
        = (Inl ErrDb, w\<lparr>tick := Suc (tick w), wdb := snd (s (clock env (tick w)) (wdb w))\<rparr>)"
        "db_fault env (tick w) = CommitLost"
    | (run) "db_exec env s w = (fst (s (clock env (tick w)) (wdb w)),
        w\<lparr>tick := Suc (tick w), wdb := snd (s (clock env (tick w)) (wdb w))\<rparr>)"
        "db_fault env (tick w) = NoFault"
  by (cases "db_fault env (tick w)") (auto simp: db_exec_def Let_def split: prod.splits)

lemma db_exec_NoFault:
  "db_fault env (tick w) = NoFault \<Longrightarrow> s (clock env (tick w)) (wdb w) = (r, d) \<Longrightarrow>
   db_exec env s w = (r, w\<lparr>tick := Suc (tick w), wdb := d\<rparr>)"
  by (simp add: db_exec_def)

lemma db_exec_wdb:
  "wdb (snd (db_exec env s w)) \<in> {wdb w, snd (s (clock env (tick w)) (wdb w))}"
  by (cases rule: db_exec_cases [of env s w]) auto

lemma db_exec_read:
  assumes "\<And>now d. snd (s now d) = d"
  shows "wdb (snd (db_exec env s w)) = wdb w"
  using db_exec_wdb [of env s w] assms by auto

lemma db_exec_Inr:
  assumes "db_exec env s w = (Inr x, w')"
  shows "s (clock env (tick w)) (wdb w) = (Inr x, wdb w')" and "db_fault env (tick w) = NoFault"
    and "w' = w\<lparr>tick := Suc (tick w), wdb := wdb w'\<rparr>"
  using assms by (cases rule: db_exec_cases [of env s w]; auto simp: prod_eq_iff)+

lemma db_exec_evolves [evo_intros]: "stmt_ok s \<Longrightarrow> evolves w (snd (db_exec env s w))"
  by (cases rule: db_exec_cases [of env s w]) (auto simp: evolves_def stmt_ok_def)

lemma db_exec_silent [silent_intros, simp]: "keeps_sent w (snd (db_exec env s w))"
  by (cases rule: db_exec_cases [of env s w]) (auto simp: keeps_sent_def)

lemma db_exec_unqueued [unqueued_intros, simp]: "keeps_tasks w (snd (db_exec env s w))"
  by (cases rule: db_exec_cases [of env s w]) (auto simp: keeps_tasks_def)

lemma db_exec_unwritten [unwritten_intros]:
  "(\<And>now d. snd (s now d) = d) \<Longrightarrow> keeps_db w (snd (db_exec env s w))"
  by (simp add: keeps_db_def db_exec_read)

lemma time_now_frames [evo_intros, simp]: "evolves w (snd (time_now env w))"
  by (simp add: time_now_def evolves_def)

lemma time_now_keeps [silent_intros, unqueued_intros, unwritten_intros, simp]:
  "keeps_sent w (snd (time_now env w))" "keeps_tasks w (snd (time_now env w))"
  "keeps_db w (snd (time_now env w))"
  by (simp_all add: time_now_def keeps_sent_def keeps_tasks_def keeps_db_def)

lemma rand_Read_frames [evo_intros, simp]: "evolves w (snd (rand_Read env w))"
  by (simp add: rand_Read_def evolves_def)

lemma rand_Read_keeps [silent_intros, unqueued_intros, unwritten_intros, simp]:
  "keeps_sent w (snd (rand_Read env w))" "keeps_tasks w (snd (rand_Read env w))"
  "keeps_db w (snd (rand_Read env w))"
  by (simp_all add: rand_Read_def keeps_sent_def keeps_tasks_def keeps_db_def)

lemma http_Do_frames [evo_intros, simp]: "evolves w (snd (http_Do env r w))"
  by (simp add: http_Do_def evolves_def)

lemma http_Do_keeps [unqueued_intros, unwritten_intros, simp]:
  "keeps_tasks w (snd (http_Do env r w))" "keeps_db w (snd (http_Do env r w))"
  by (simp_all add: http_Do_def keeps_tasks_def keeps_db_def)

lemma enqueue_frames [evo_intros, simp]: "evolves w (snd (enqueue env p w))"
  by (simp add: enqueue_def evolves_def)

lemma enqueue_keeps [silent_intros, unwritten_intros, simp]:
  "keeps_sent w (snd (enqueue env p w))" "keeps_db w (snd (enqueue env p w))"
  by (simp_all add: enqueue_def keeps_sent_def keeps_db_def)

lemma emit_frames [evo_intros, simp]: "evolves w (snd (emit p w))"
  by (simp add: emit_def evolves_def)

lemma emit_keeps [silent_intros, unqueued_intros, unwritten_intros, simp]:
  "keeps_sent w (snd (emit p w))" "keeps_tasks w (snd (emit p w))" "keeps_db w (snd (emit p w))"
  by (simp_all add: emit_def keeps_sent_def keeps_tasks_def keeps_db_def)

end
