(* ===== verification/Reap_Mapping.thy ===== *)
theory Reap_Mapping
  imports World
begin

text \<open>
  \<open>internal/reapmapping/store.go\<close>: the statements on \<open>vultisig_reap_mappings\<close>, the row a vault
  has for its authentication nonce, its chain code, its REAP user and the claim of a user creation
  in flight. Every statement is one atomic step on the database (Postgres locks the row), so the
  functions below are also the steps of the interleavings in \<open>Interleaving\<close>.

  Postgres raises an error for an integer out of range and for a duplicate \<open>reap_user_id\<close>; both are
  branches of the statements. A \<open>RowsAffected\<close> is a \<open>nat\<close>.
\<close>

section \<open>Lookups\<close>

definition mapping_of :: "db \<Rightarrow> string \<Rightarrow> mapping_row option" where
  "mapping_of d pk = map_of (mappings d) pk"

definition nonce_of :: "db \<Rightarrow> string \<Rightarrow> int" where
  \<comment> \<open>a vault with no row yet has an implicit nonce of 0\<close>
  "nonce_of d pk = (case mapping_of d pk of None \<Rightarrow> 0 | Some r \<Rightarrow> m_nonce r)"

definition reap_user_of :: "db \<Rightarrow> string \<Rightarrow> string option" where
  "reap_user_of d pk = Option.bind (mapping_of d pk) m_reap_user_id"

definition chain_code_of :: "db \<Rightarrow> string \<Rightarrow> string option" where
  "chain_code_of d pk = Option.bind (mapping_of d pk) m_hex_chain_code"

definition sql_select_mapping :: "string \<Rightarrow> mapping_row option stmt" where
  "sql_select_mapping pk now d = (Inr (mapping_of d pk), d)"

definition GetNonce :: "env \<Rightarrow> string \<Rightarrow> int eff" where
  "GetNonce env pk = andThen (db_exec env (sql_select_mapping pk))
     (\<lambda>row. case row of None \<Rightarrow> ret 0 | Some r \<Rightarrow> ret (m_nonce r))"

definition GetReapUserID :: "env \<Rightarrow> string \<Rightarrow> string eff" where
  "GetReapUserID env pk = andThen (db_exec env (sql_select_mapping pk))
     (\<lambda>row. case row of None \<Rightarrow> ret []
        | Some r \<Rightarrow> (case m_reap_user_id r of None \<Rightarrow> ret [] | Some u \<Rightarrow> ret u))"

definition GetHexChainCode :: "env \<Rightarrow> string \<Rightarrow> string eff" where
  "GetHexChainCode env pk = andThen (db_exec env (sql_select_mapping pk))
     (\<lambda>row. case row of None \<Rightarrow> ret []
        | Some r \<Rightarrow> (case m_hex_chain_code r of None \<Rightarrow> ret [] | Some c \<Rightarrow> ret c))"

definition sql_select_by_reap_user :: "string \<Rightarrow> string option stmt" where
  "sql_select_by_reap_user u now d =
     (Inr (map_option fst (find (\<lambda>p. m_reap_user_id (snd p) = Some u) (mappings d))), d)"

definition GetPublicKeyByReapUserID :: "env \<Rightarrow> string \<Rightarrow> string eff" where
  "GetPublicKeyByReapUserID env u = andThen (db_exec env (sql_select_by_reap_user u))
     (\<lambda>row. case row of None \<Rightarrow> ret [] | Some pk \<Rightarrow> ret pk)"

section \<open>Updates\<close>

definition sql_set_reap_user :: "string \<Rightarrow> string \<Rightarrow> nat stmt" where
  "sql_set_reap_user pk u now d =
     (case mapping_of d pk of
        None \<Rightarrow>
          (if u \<in> set (reap_ids (mappings d)) then (Inl ErrDb, d)
           else (Inr 1, d\<lparr>mappings := table_insert pk
                  ((new_mapping now)\<lparr>m_reap_user_id := Some u\<rparr>) (mappings d)\<rparr>))
      | Some r \<Rightarrow>
          (if m_reap_user_id r \<noteq> None then (Inr 0, d)
           else if u \<in> set (reap_ids (mappings d)) then (Inl ErrDb, d)
           else (Inr 1, d\<lparr>mappings := table_set pk
                  (r\<lparr>m_reap_user_id := Some u, m_create_started_at := None,
                     m_updated_at := now, m_last_used_at := now\<rparr>) (mappings d)\<rparr>)))"

definition SetReapUserID :: "env \<Rightarrow> string \<Rightarrow> string \<Rightarrow> bool eff" where
  "SetReapUserID env pk u = andThen (db_exec env (sql_set_reap_user pk u)) (\<lambda>n. ret (n = 1))"

definition normalize_chain_code :: "env \<Rightarrow> string \<Rightarrow> string" where
  "normalize_chain_code env cc = ToLower (unicode_lower env) (TrimPrefix cc ''0x'')"

definition int4_max :: int where
  "int4_max = 2147483647"

definition int4_param :: "int \<Rightarrow> bool" where
  \<comment> \<open>a value \<open>n\<close> for \<open>$2\<close> in \<open>$2 + 1\<close>. Postgres takes a parameter of unknown type to be of the type of
    the other operand, here of an integer literal: \<open>$2\<close> and the sum are INTEGERs, although the column is a
    BIGINT. The driver refuses a value that does not fit, and Postgres a sum that does not.\<close>
  "int4_param n \<longleftrightarrow> - int4_max - 1 \<le> n \<and> n < int4_max"

definition sql_claim_nonce :: "string \<Rightarrow> int \<Rightarrow> string \<Rightarrow> nat stmt" where
  "sql_claim_nonce pk expected cc now d =
     (if \<not> int4_param expected then (Inl ErrDb, d)
      else (case mapping_of d pk of
        None \<Rightarrow> (Inr 1, d\<lparr>mappings := table_insert pk
                   ((new_mapping now)\<lparr>m_nonce := expected + 1, m_hex_chain_code := Some cc\<rparr>)
                   (mappings d)\<rparr>)
      | Some r \<Rightarrow>
          (if m_nonce r = expected \<and> (m_hex_chain_code r = None \<or> m_hex_chain_code r = Some cc)
           then (Inr 1, d\<lparr>mappings := table_set pk
                   (r\<lparr>m_nonce := m_nonce r + 1,
                      m_hex_chain_code := (case m_hex_chain_code r of None \<Rightarrow> Some cc | Some c \<Rightarrow> Some c),
                      m_updated_at := now, m_last_used_at := now\<rparr>) (mappings d)\<rparr>)
           else (Inr 0, d))))"

definition ClaimNonce :: "env \<Rightarrow> string \<Rightarrow> int \<Rightarrow> string \<Rightarrow> bool eff" where
  "ClaimNonce env pk expected cc =
     andThen (db_exec env (sql_claim_nonce pk expected (normalize_chain_code env cc)))
       (\<lambda>n. ret (n = 1))"

definition sql_claim_create :: "string \<Rightarrow> int \<Rightarrow> nat stmt" where
  "sql_claim_create pk stale now d =
     (case mapping_of d pk of
        None \<Rightarrow> (Inr 1, d\<lparr>mappings := table_insert pk
                   ((new_mapping now)\<lparr>m_create_started_at := Some now\<rparr>) (mappings d)\<rparr>)
      | Some r \<Rightarrow>
          (if m_reap_user_id r = None
              \<and> (case m_create_started_at r of None \<Rightarrow> True | Some t \<Rightarrow> t < now - stale)
           then (Inr 1, d\<lparr>mappings := table_set pk
                   (r\<lparr>m_create_started_at := Some now, m_updated_at := now, m_last_used_at := now\<rparr>)
                   (mappings d)\<rparr>)
           else (Inr 0, d)))"

definition ClaimReapUserCreate :: "env \<Rightarrow> string \<Rightarrow> int \<Rightarrow> bool eff" where
  "ClaimReapUserCreate env pk stale =
     andThen (db_exec env (sql_claim_create pk stale)) (\<lambda>n. ret (n = 1))"

definition sql_release_create :: "string \<Rightarrow> unit stmt" where
  "sql_release_create pk now d =
     (case mapping_of d pk of
        None \<Rightarrow> (Inr (), d)
      | Some r \<Rightarrow>
          (if m_reap_user_id r = None
           then (Inr (), d\<lparr>mappings := table_set pk
                   (r\<lparr>m_create_started_at := None, m_updated_at := now\<rparr>) (mappings d)\<rparr>)
           else (Inr (), d)))"

definition ReleaseReapUserCreate :: "env \<Rightarrow> string \<Rightarrow> unit eff" where
  "ReleaseReapUserCreate env pk = db_exec env (sql_release_create pk)"

section \<open>What the statements do to a row\<close>

lemma mapping_of_insert:
  "mapping_of d pk = None \<Longrightarrow> mapping_of (d\<lparr>mappings := table_insert pk r (mappings d)\<rparr>) pk'
     = (if pk' = pk then Some r else mapping_of d pk')"
  by (simp add: mapping_of_def map_of_table_insert)

lemma mapping_of_set:
  "mapping_of d pk = Some r0 \<Longrightarrow> mapping_of (d\<lparr>mappings := table_set pk r (mappings d)\<rparr>) pk'
     = (if pk' = pk then Some r else mapping_of d pk')"
  by (auto simp: mapping_of_def map_of_table_set)

lemmas mapping_updates = mapping_of_insert mapping_of_set

text \<open>The claim of a nonce: it succeeds exactly when the nonce and the chain code are right.\<close>

definition nonce_claimable :: "db \<Rightarrow> string \<Rightarrow> int \<Rightarrow> string \<Rightarrow> bool" where
  "nonce_claimable d pk expected cc \<longleftrightarrow>
     (mapping_of d pk = None \<or> nonce_of d pk = expected) \<and> (chain_code_of d pk \<in> {None, Some cc})"

lemma sql_claim_nonce_iff:
  assumes "int4_param expected"
  shows "fst (sql_claim_nonce pk expected cc now d) = Inr 1 \<longleftrightarrow> nonce_claimable d pk expected cc"
    and "fst (sql_claim_nonce pk expected cc now d) \<in> {Inr 0, Inr 1}"
  using assms
  by (auto simp: sql_claim_nonce_def nonce_claimable_def nonce_of_def chain_code_of_def
      split: option.splits)

lemma sql_claim_nonce_post:
  assumes "sql_claim_nonce pk expected cc now d = (Inr 1, d')"
  shows "nonce_of d' pk = expected + 1" and "chain_code_of d' pk = Some cc"
    and "reap_user_of d' pk = reap_user_of d pk"
    and "pk' \<noteq> pk \<Longrightarrow> mapping_of d' pk' = mapping_of d pk'"
    and "mapping_of d pk = None \<or> nonce_of d pk = expected"
  using assms
  by (auto simp: sql_claim_nonce_def nonce_of_def chain_code_of_def reap_user_of_def new_mapping_def
      mapping_updates split: option.splits if_splits)

lemma sql_claim_nonce_other:
  "fst (sql_claim_nonce pk expected cc now d) \<noteq> Inr 1 \<Longrightarrow> snd (sql_claim_nonce pk expected cc now d) = d"
  by (auto simp: sql_claim_nonce_def split: option.splits)

lemma sql_set_reap_user_post:
  assumes "sql_set_reap_user pk u now d = (Inr 1, d')"
  shows "reap_user_of d' pk = Some u" and "nonce_of d' pk = nonce_of d pk"
    and "reap_user_of d pk = None" and "pk' \<noteq> pk \<Longrightarrow> mapping_of d' pk' = mapping_of d pk'"
    and "\<exists>r. mapping_of d' pk = Some r \<and> m_create_started_at r = None"
  using assms
  by (auto simp: sql_set_reap_user_def nonce_of_def reap_user_of_def new_mapping_def
      mapping_updates split: option.splits if_splits)

lemma sql_set_reap_user_refused:
  "sql_set_reap_user pk u now d = (Inr 0, d') \<Longrightarrow> d' = d \<and> reap_user_of d pk \<noteq> None"
  by (auto simp: sql_set_reap_user_def reap_user_of_def split: option.splits if_splits)

lemma reap_user_of_in_ids: "reap_user_of d pk = Some u \<Longrightarrow> u \<in> set (reap_ids (mappings d))"
  by (force simp: reap_user_of_def mapping_of_def in_reap_ids dest: map_of_SomeD split: Option.bind_splits)

section \<open>The statements are well-behaved\<close>

lemma rows_le_mapping_set:
  "map_of (mappings d) pk = Some r \<Longrightarrow> mapping_le r r' \<Longrightarrow>
     rows_le mapping_le (mappings d) (table_set pk r' (mappings d))"
  by (rule rows_le_set) auto

lemma rows_le_mapping_insert:
  "map_of (mappings d) pk = None \<Longrightarrow>
     rows_le mapping_le (mappings d) (table_insert pk r (mappings d))"
  by (rule rows_le_insert) auto

lemmas mapping_stmt_simps =
  db_ok_def db_le_def mapping_of_def new_mapping_def table_insert_def [symmetric]
  rows_le_refl rows_le_mapping_set rows_le_mapping_insert

lemma db_ok_mapping_insert:
  assumes "db_ok d" and "mapping_of d pk = None"
    and "m_reap_user_id r = None \<or> (\<exists>u. m_reap_user_id r = Some u \<and> u \<notin> set (reap_ids (mappings d)))"
  shows "db_ok (d\<lparr>mappings := table_insert pk r (mappings d)\<rparr>)"
  using assms by (auto simp: db_ok_def mapping_of_def table_ok_insert) (auto simp: table_insert_def)

lemma db_ok_mapping_set:
  assumes "db_ok d" and "mapping_of d pk = Some r" and "m_reap_user_id r' = m_reap_user_id r"
  shows "db_ok (d\<lparr>mappings := table_set pk r' (mappings d)\<rparr>)"
  using assms by (auto simp: db_ok_def mapping_of_def reap_ids_table_set_same)

lemma db_ok_mapping_set_user:
  assumes "db_ok d" and "m_reap_user_id r' = Some u" and "u \<notin> set (reap_ids (mappings d))"
  shows "db_ok (d\<lparr>mappings := table_set pk r' (mappings d)\<rparr>)"
  using assms by (auto simp: db_ok_def intro!: distinct_reap_ids_table_set)

lemma db_le_mapping_insert:
  "mapping_of d pk = None \<Longrightarrow> db_le d (d\<lparr>mappings := table_insert pk r (mappings d)\<rparr>)"
  by (simp add: db_le_def mapping_of_def rows_le_refl rows_le_mapping_insert)

lemma db_le_mapping_set:
  "mapping_of d pk = Some r \<Longrightarrow> mapping_le r r' \<Longrightarrow>
     db_le d (d\<lparr>mappings := table_set pk r' (mappings d)\<rparr>)"
  by (simp add: db_le_def mapping_of_def rows_le_refl rows_le_mapping_set)

lemma sql_claim_nonce_ok [stmt_oks]: "stmt_ok (sql_claim_nonce pk expected cc)"
  by (rule stmt_okI)
    (auto simp: sql_claim_nonce_def new_mapping_def mapping_le_def split: option.splits if_splits
      intro!: db_ok_mapping_insert db_ok_mapping_set db_le_mapping_insert db_le_mapping_set)

lemma sql_set_reap_user_ok [stmt_oks]: "stmt_ok (sql_set_reap_user pk u)"
  by (rule stmt_okI)
    (auto simp: sql_set_reap_user_def new_mapping_def mapping_le_def split: option.splits if_splits
      intro!: db_ok_mapping_insert db_ok_mapping_set_user db_le_mapping_insert db_le_mapping_set)

lemma sql_claim_create_ok [stmt_oks]: "stmt_ok (sql_claim_create pk stale)"
  by (rule stmt_okI)
    (auto simp: sql_claim_create_def new_mapping_def mapping_le_def split: option.splits if_splits
      intro!: db_ok_mapping_insert db_ok_mapping_set db_le_mapping_insert db_le_mapping_set)

lemma sql_release_create_ok [stmt_oks]: "stmt_ok (sql_release_create pk)"
  by (rule stmt_okI)
    (auto simp: sql_release_create_def mapping_le_def split: option.splits if_splits
      intro!: db_ok_mapping_set db_le_mapping_set)

lemma mapping_reads [simp]:
  "snd (sql_select_mapping pk now d) = d" "snd (sql_select_by_reap_user u now d) = d"
  by (simp_all add: sql_select_mapping_def sql_select_by_reap_user_def)

lemmas mapping_reads_ok [stmt_oks] =
  mapping_reads(1) [THEN stmt_ok_read] mapping_reads(2) [THEN stmt_ok_read]

section \<open>The Go functions\<close>

lemma select_mapping_then:
  "andThen (db_exec env (sql_select_mapping pk)) (\<lambda>x. ret (g x)) w =
     (if db_fault env (tick w) = NoFault
      then (Inr (g (mapping_of (wdb w) pk)), w\<lparr>tick := Suc (tick w)\<rparr>)
      else (Inl ErrDb, w\<lparr>tick := Suc (tick w)\<rparr>))"
  by (cases rule: db_exec_cases [of env "sql_select_mapping pk" w])
    (simp_all add: sql_select_mapping_def andThen_def)

lemma GetNonce_eq: "GetNonce env pk w =
     (if db_fault env (tick w) = NoFault then (Inr (nonce_of (wdb w) pk), w\<lparr>tick := Suc (tick w)\<rparr>)
      else (Inl ErrDb, w\<lparr>tick := Suc (tick w)\<rparr>))"
proof -
  have "GetNonce env pk = andThen (db_exec env (sql_select_mapping pk))
      (\<lambda>x. ret (case x of None \<Rightarrow> 0 | Some r \<Rightarrow> m_nonce r))"
    by (auto simp: GetNonce_def intro!: arg_cong [of _ _ "andThen _"] split: option.splits)
  then show ?thesis by (simp add: select_mapping_then nonce_of_def)
qed

lemma GetReapUserID_eq: "GetReapUserID env pk w =
     (if db_fault env (tick w) = NoFault
      then (Inr (case reap_user_of (wdb w) pk of None \<Rightarrow> [] | Some u \<Rightarrow> u), w\<lparr>tick := Suc (tick w)\<rparr>)
      else (Inl ErrDb, w\<lparr>tick := Suc (tick w)\<rparr>))"
proof -
  have "GetReapUserID env pk = andThen (db_exec env (sql_select_mapping pk))
      (\<lambda>x. ret (case Option.bind x m_reap_user_id of None \<Rightarrow> [] | Some u \<Rightarrow> u))"
    by (auto simp: GetReapUserID_def intro!: arg_cong [of _ _ "andThen _"] split: option.splits)
  then show ?thesis by (simp add: select_mapping_then reap_user_of_def)
qed

lemma GetHexChainCode_eq: "GetHexChainCode env pk w =
     (if db_fault env (tick w) = NoFault
      then (Inr (case chain_code_of (wdb w) pk of None \<Rightarrow> [] | Some c \<Rightarrow> c), w\<lparr>tick := Suc (tick w)\<rparr>)
      else (Inl ErrDb, w\<lparr>tick := Suc (tick w)\<rparr>))"
proof -
  have "GetHexChainCode env pk = andThen (db_exec env (sql_select_mapping pk))
      (\<lambda>x. ret (case Option.bind x m_hex_chain_code of None \<Rightarrow> [] | Some u \<Rightarrow> u))"
    by (auto simp: GetHexChainCode_def intro!: arg_cong [of _ _ "andThen _"] split: option.splits)
  then show ?thesis by (simp add: select_mapping_then chain_code_of_def)
qed

lemma find_reap_user:
  assumes "db_ok d" and "mapping_of d pk = Some r" and "m_reap_user_id r = Some u"
  shows "map_option fst (find (\<lambda>p. m_reap_user_id (snd p) = Some u) (mappings d)) = Some pk"
proof -
  have "(pk, r) \<in> set (mappings d)" using assms(2) by (auto simp: mapping_of_def dest: map_of_SomeD)
  then have "find (\<lambda>p. m_reap_user_id (snd p) = Some u) (mappings d) \<noteq> None"
    using assms(3) by (auto simp: find_None_iff)
  then obtain pk' r' where f: "find (\<lambda>p. m_reap_user_id (snd p) = Some u) (mappings d) = Some (pk', r')"
    by auto
  then have "(pk', r') \<in> set (mappings d)" "m_reap_user_id r' = Some u"
    using find_SomeD [OF f] by simp_all
  then have "mapping_of d pk' = Some r'" using assms(1)
    by (simp add: db_ok_def table_ok_def mapping_of_def)
  then have "pk' = pk"
    using assms \<open>m_reap_user_id r' = Some u\<close>
    by (auto simp: db_ok_def mapping_of_def intro: reap_id_unique)
  with f show ?thesis by simp
qed

text \<open>The reverse lookup inverts the mapping, since the column is unique.\<close>

lemma GetPublicKeyByReapUserID_inverse:
  assumes "db_ok (wdb w)" and "GetPublicKeyByReapUserID env u w = (Inr p, w')" and "p \<noteq> []"
  shows "reap_user_of (wdb w) p = Some u"
proof -
  obtain w1 x where q: "db_exec env (sql_select_by_reap_user u) w = (Inr x, w1)"
    and p: "(case x of None \<Rightarrow> ret [] | Some pk \<Rightarrow> ret pk) w1 = (Inr p, w')"
    using assms(2) unfolding GetPublicKeyByReapUserID_def by (rule andThen_InrE)
  have "x = map_option fst (find (\<lambda>p. m_reap_user_id (snd p) = Some u) (mappings (wdb w)))"
    using db_exec_Inr(1) [OF q] by (auto simp: sql_select_by_reap_user_def)
  with p assms(3) obtain r where f:
    "find (\<lambda>p. m_reap_user_id (snd p) = Some u) (mappings (wdb w)) = Some (p, r)"
    by (auto split: option.splits)
  then have "(p, r) \<in> set (mappings (wdb w))" "m_reap_user_id r = Some u"
    using find_SomeD [OF f] by simp_all
  then show ?thesis using assms(1)
    by (simp add: db_ok_def table_ok_def reap_user_of_def mapping_of_def)
qed

lemma ClaimNonce_Inr:
  assumes "ClaimNonce env pk expected cc w = (Inr b, w')"
  shows "if b then sql_claim_nonce pk expected (normalize_chain_code env cc) (clock env (tick w)) (wdb w)
                   = (Inr 1, wdb w')
         else wdb w' = wdb w \<and> \<not> nonce_claimable (wdb w) pk expected (normalize_chain_code env cc)"
proof -
  obtain n w1 where q: "db_exec env (sql_claim_nonce pk expected (normalize_chain_code env cc)) w = (Inr n, w1)"
    and b: "ret (n = 1) w1 = (Inr b, w')"
    using assms unfolding ClaimNonce_def by (rule andThen_InrE)
  let ?st = "sql_claim_nonce pk expected (normalize_chain_code env cc) (clock env (tick w)) (wdb w)"
  have s: "?st = (Inr n, wdb w1)" by (rule db_exec_Inr(1) [OF q])
  have bw: "b = (n = 1)" "w' = w1" using b by simp_all
  show ?thesis
  proof (cases "n = 1")
    case True
    then show ?thesis using s bw by simp
  next
    case False
    then have ne: "fst ?st \<noteq> Inr 1" using s by simp
    have "int4_param expected" using s by (auto simp: sql_claim_nonce_def split: if_splits)
    from sql_claim_nonce_iff(1) [OF this] ne
    have "\<not> nonce_claimable (wdb w) pk expected (normalize_chain_code env cc)" by metis
    then show ?thesis using sql_claim_nonce_other [OF ne] s bw False by simp
  qed
qed

lemma mapping_op_frames [evo_intros]:
  "evolves w (snd (GetNonce env pk w))" "evolves w (snd (GetReapUserID env pk w))"
  "evolves w (snd (GetHexChainCode env pk w))" "evolves w (snd (GetPublicKeyByReapUserID env u w))"
  "evolves w (snd (SetReapUserID env pk u w))" "evolves w (snd (ClaimNonce env pk n cc w))"
  "evolves w (snd (ClaimReapUserCreate env pk st w))" "evolves w (snd (ReleaseReapUserCreate env pk w))"
  unfolding GetNonce_def GetReapUserID_def GetHexChainCode_def GetPublicKeyByReapUserID_def
    SetReapUserID_def ClaimNonce_def ClaimReapUserCreate_def ReleaseReapUserCreate_def
  by (auto intro!: evo_intros stmt_oks split: option.splits)

lemma mapping_op_silent [silent_intros]:
  "keeps_sent w (snd (GetNonce env pk w))" "keeps_sent w (snd (GetReapUserID env pk w))"
  "keeps_sent w (snd (GetHexChainCode env pk w))" "keeps_sent w (snd (GetPublicKeyByReapUserID env u w))"
  "keeps_sent w (snd (SetReapUserID env pk u w))" "keeps_sent w (snd (ClaimNonce env pk n cc w))"
  "keeps_sent w (snd (ClaimReapUserCreate env pk st w))" "keeps_sent w (snd (ReleaseReapUserCreate env pk w))"
  unfolding GetNonce_def GetReapUserID_def GetHexChainCode_def GetPublicKeyByReapUserID_def
    SetReapUserID_def ClaimNonce_def ClaimReapUserCreate_def ReleaseReapUserCreate_def
  by (auto intro!: silent_intros split: option.splits)

lemma mapping_op_unqueued [unqueued_intros]:
  "keeps_tasks w (snd (GetNonce env pk w))" "keeps_tasks w (snd (GetReapUserID env pk w))"
  "keeps_tasks w (snd (GetHexChainCode env pk w))" "keeps_tasks w (snd (GetPublicKeyByReapUserID env u w))"
  "keeps_tasks w (snd (SetReapUserID env pk u w))" "keeps_tasks w (snd (ClaimNonce env pk n cc w))"
  "keeps_tasks w (snd (ClaimReapUserCreate env pk st w))" "keeps_tasks w (snd (ReleaseReapUserCreate env pk w))"
  unfolding GetNonce_def GetReapUserID_def GetHexChainCode_def GetPublicKeyByReapUserID_def
    SetReapUserID_def ClaimNonce_def ClaimReapUserCreate_def ReleaseReapUserCreate_def
  by (auto intro!: unqueued_intros split: option.splits)

lemma mapping_op_unwritten [unwritten_intros]:
  "keeps_db w (snd (GetNonce env pk w))" "keeps_db w (snd (GetReapUserID env pk w))"
  "keeps_db w (snd (GetHexChainCode env pk w))" "keeps_db w (snd (GetPublicKeyByReapUserID env u w))"
  unfolding GetNonce_def GetReapUserID_def GetHexChainCode_def GetPublicKeyByReapUserID_def
  by (auto intro!: unwritten_intros split: option.splits)

end
