(* ===== verification/Token_Event_Stores.thy ===== *)
theory Token_Event_Stores
  imports World
begin

text \<open>
  \<open>internal/vaulttoken\<close> with \<open>models.VaultToken\<close> (issued access tokens) and
  \<open>internal/reapwebhookevent\<close> (received webhook events).
\<close>

section \<open>Package vaulttoken\<close>

definition sql_token_insert :: "string \<Rightarrow> string \<Rightarrow> int \<Rightarrow> unit stmt" where
  "sql_token_insert tid pk exp now d =
     (if map_of (vault_tokens d) tid \<noteq> None then (Inl ErrDb, d)
      else (Inr (), d\<lparr>vault_tokens := table_insert tid
             \<lparr>t_id = tid, t_token_id = tid, t_public_key = pk, t_expires_at = pg_timestamp exp, t_created_at = now,
              t_updated_at = now, t_last_used_at = now, t_revoked_at = None\<rparr> (vault_tokens d)\<rparr>))"

definition vaulttoken_Record :: "env \<Rightarrow> string \<Rightarrow> string \<Rightarrow> int \<Rightarrow> unit eff" where
  "vaulttoken_Record env tid pk exp = db_exec env (sql_token_insert tid pk exp)"

definition sql_token_touch :: "string \<Rightarrow> token_row option stmt" where
  "sql_token_touch tid now d =
     (case map_of (vault_tokens d) tid of
        None \<Rightarrow> (Inr None, d)
      | Some r \<Rightarrow> (Inr (Some (r\<lparr>t_last_used_at := now\<rparr>)),
                   d\<lparr>vault_tokens := table_set tid (r\<lparr>t_last_used_at := now\<rparr>) (vault_tokens d)\<rparr>))"

definition vaulttoken_Touch :: "env \<Rightarrow> string \<Rightarrow> token_row option eff" where
  "vaulttoken_Touch env tid = db_exec env (sql_token_touch tid)"

definition zero_time :: int where
  \<comment> \<open>Go's zero time, the first instant of year 1, in nanoseconds since the epoch\<close>
  "zero_time = -62135596800000000000"

definition IsRevoked :: "token_row \<Rightarrow> int \<Rightarrow> bool" where
  "IsRevoked t now \<longleftrightarrow>
     (case t_revoked_at t of None \<Rightarrow> False | Some r \<Rightarrow> r \<noteq> zero_time \<and> r < now)"

section \<open>Package reapwebhookevent\<close>

definition sql_event_insert :: "string \<Rightarrow> string \<Rightarrow> string \<Rightarrow> nat stmt" where
  "sql_event_insert eid ty payload now d =
     (case map_of (webhook_events d) eid of
        None \<Rightarrow> (Inr 1, d\<lparr>webhook_events := table_insert eid
                  \<lparr>e_type = ty, e_payload = payload, e_received_at = now\<rparr> (webhook_events d)\<rparr>)
      | Some _ \<Rightarrow> (Inr 0, d))"

definition reapwebhookevent_Record :: "env \<Rightarrow> string \<Rightarrow> string \<Rightarrow> string \<Rightarrow> bool eff" where
  "reapwebhookevent_Record env eid ty payload =
     andThen (db_exec env (sql_event_insert eid ty payload)) (\<lambda>n. ret (n = 1))"

section \<open>The statements are well-behaved\<close>

lemma sql_token_insert_ok [stmt_oks]: "stmt_ok (sql_token_insert tid pk exp)"
  by (rule stmt_okI)
    (auto simp: sql_token_insert_def db_ok_def db_le_def rows_le_refl rows_le_insert table_ok_insert
      split: if_splits)

lemma sql_token_touch_ok [stmt_oks]: "stmt_ok (sql_token_touch tid)"
  by (rule stmt_okI)
    (auto simp: sql_token_touch_def db_ok_def db_le_def rows_le_refl token_le_def
      intro!: rows_le_set split: option.splits)

lemma sql_event_insert_ok [stmt_oks]: "stmt_ok (sql_event_insert eid ty payload)"
  by (rule stmt_okI)
    (auto simp: sql_event_insert_def db_ok_def db_le_def rows_le_refl rows_le_insert table_ok_insert
      split: option.splits)

lemma token_event_frames [evo_intros]:
  "evolves w (snd (vaulttoken_Record env tid pk exp w))"
  "evolves w (snd (vaulttoken_Touch env tid w))"
  "evolves w (snd (reapwebhookevent_Record env eid ty payload w))"
  unfolding vaulttoken_Record_def vaulttoken_Touch_def reapwebhookevent_Record_def
  by (auto intro!: evo_intros stmt_oks)

lemma token_event_silent [silent_intros]:
  "keeps_sent w (snd (vaulttoken_Record env tid pk exp w))"
  "keeps_sent w (snd (vaulttoken_Touch env tid w))"
  "keeps_sent w (snd (reapwebhookevent_Record env eid ty payload w))"
  unfolding vaulttoken_Record_def vaulttoken_Touch_def reapwebhookevent_Record_def
  by (auto intro!: silent_intros)

lemma token_event_unqueued [unqueued_intros]:
  "keeps_tasks w (snd (vaulttoken_Record env tid pk exp w))"
  "keeps_tasks w (snd (vaulttoken_Touch env tid w))"
  "keeps_tasks w (snd (reapwebhookevent_Record env eid ty payload w))"
  unfolding vaulttoken_Record_def vaulttoken_Touch_def reapwebhookevent_Record_def
  by (auto intro!: unqueued_intros)

text \<open>Touching a token leaves everything of the database but its time of last use alone.\<close>

lemma sql_token_touch_frame:
  "mappings (snd (sql_token_touch tid now d)) = mappings d"
  "card_ownership (snd (sql_token_touch tid now d)) = card_ownership d"
  "account_ownership (snd (sql_token_touch tid now d)) = account_ownership d"
  "user_card_ownership (snd (sql_token_touch tid now d)) = user_card_ownership d"
  "webhook_events (snd (sql_token_touch tid now d)) = webhook_events d"
  by (simp_all add: sql_token_touch_def split: option.split)

lemma vaulttoken_Touch_Inr:
  assumes "vaulttoken_Touch env tid w = (Inr (Some t), w')"
  shows "\<exists>r. map_of (vault_tokens (wdb w)) tid = Some r \<and> t = r\<lparr>t_last_used_at := clock env (tick w)\<rparr>"
  using db_exec_Inr(1) [OF assms [unfolded vaulttoken_Touch_def]]
  by (auto simp: sql_token_touch_def split: option.splits)

text \<open>An event is inserted exactly when its ID is new, and then it stays recorded.\<close>

lemma reapwebhookevent_Record_Inr:
  assumes "reapwebhookevent_Record env eid ty payload w = (Inr b, w')"
  shows "b \<longleftrightarrow> map_of (webhook_events (wdb w)) eid = None"
    and "\<exists>r. map_of (webhook_events (wdb w')) eid = Some r"
    and "b \<Longrightarrow> \<exists>r. e_type r = ty \<and> e_payload r = payload
           \<and> wdb w' = (wdb w)\<lparr>webhook_events := table_insert eid r (webhook_events (wdb w))\<rparr>"
    and "\<not> b \<Longrightarrow> wdb w' = wdb w"
proof -
  obtain n w1 where q: "db_exec env (sql_event_insert eid ty payload) w = (Inr n, w1)"
    and b: "ret (n = 1) w1 = (Inr b, w')"
    using assms unfolding reapwebhookevent_Record_def by (rule andThen_InrE)
  have s: "sql_event_insert eid ty payload (clock env (tick w)) (wdb w) = (Inr n, wdb w')"
    and bn: "b = (n = 1)"
    using db_exec_Inr(1) [OF q] b by simp_all
  show "b \<longleftrightarrow> map_of (webhook_events (wdb w)) eid = None"
    using s bn by (cases "map_of (webhook_events (wdb w)) eid") (auto simp: sql_event_insert_def)
  show "\<not> b \<Longrightarrow> wdb w' = wdb w"
    using s bn by (cases "map_of (webhook_events (wdb w)) eid") (auto simp: sql_event_insert_def)
  have new: "map_of (webhook_events (wdb w)) eid = None \<Longrightarrow> \<exists>r. e_type r = ty \<and> e_payload r = payload
      \<and> wdb w' = (wdb w)\<lparr>webhook_events := table_insert eid r (webhook_events (wdb w))\<rparr>"
    using s [symmetric] by (intro exI [of _ "\<lparr>e_type = ty, e_payload = payload, e_received_at = clock env (tick w)\<rparr>"])
      (simp add: sql_event_insert_def prod_eq_iff)
  show "b \<Longrightarrow> \<exists>r. e_type r = ty \<and> e_payload r = payload
      \<and> wdb w' = (wdb w)\<lparr>webhook_events := table_insert eid r (webhook_events (wdb w))\<rparr>"
    using new s bn by (cases "map_of (webhook_events (wdb w)) eid") (auto simp: sql_event_insert_def)
  show "\<exists>r. map_of (webhook_events (wdb w')) eid = Some r"
  proof (cases "map_of (webhook_events (wdb w)) eid")
    case None
    with new show ?thesis by (force simp: map_of_table_insert)
  next
    case (Some r)
    with s show ?thesis by (auto simp: sql_event_insert_def)
  qed
qed

end
