(* ===== verification/Bip32.thy ===== *)
theory Bip32
  imports World "HOL-Library.Word"
begin

text \<open>
  \<open>internal/bip32/bip32.go\<close>: unhardened BIP32 derivation. A scalar modulo the group order is its
  residue, an \<open>int\<close>. The laws of the curve that the agreement of the two derivations rests on are
  the named hypothesis \<open>curve_laws\<close>.
\<close>

record ExtendedPrivateKey =
  xp_Priv :: int
  xp_ChainCode :: string

record ExtendedPublicKey =
  xq_Pub :: point
  xq_ChainCode :: string

definition HardenedOffset :: "32 word" where "HardenedOffset = 0x80000000"

definition ETHPath :: "32 word list" where "ETHPath = [44, 60, 0, 0, 0]"

definition errHardened :: goerr where
  "errHardened = ErrNew ''bip32: hardened derivation not supported''"

definition AppendUint32 :: "string \<Rightarrow> 32 word \<Rightarrow> string" where
  "AppendUint32 s x = s @ map (\<lambda>k. char_of (unat (drop_bit k x) mod 256)) [24, 16, 8, 0]"

definition copy32 :: "string \<Rightarrow> string" where
  \<comment> \<open>\<open>copy\<close> into a zeroed \<open>[32]byte\<close>\<close>
  "copy32 s = take 32 (s @ replicate 32 (char_of (0::nat)))"

definition MasterFromSeed :: "crypto \<Rightarrow> string \<Rightarrow> ExtendedPrivateKey" where
  "MasterFromSeed C seed =
     (let sum = hmac_sha512 C ''Bitcoin seed'' seed in
      \<lparr>xp_Priv = PrivKeyFromBytes C (take 32 sum), xp_ChainCode = copy32 (drop 32 sum)\<rparr>)"

definition ExtendedPrivateKey_Child :: "crypto \<Rightarrow> ExtendedPrivateKey \<Rightarrow> 32 word \<Rightarrow> ExtendedPrivateKey res" where
  "ExtendedPrivateKey_Child C k index =
     (if index \<ge> HardenedOffset then Inl errHardened
      else
        let bs = AppendUint32 (SerializeCompressed C (PubKey C (xp_Priv k))) index;
            sum = hmac_sha512 C (xp_ChainCode k) bs;
            (il, overflow) = SetByteSlice C (take 32 sum) in
        if overflow \<or> il = 0
        then Inl (ErrNew ''bip32: invalid derived key, retry with a different seed'')
        else
          let il1 = AddScalar C il (xp_Priv k) in
          if il1 = 0 then Inl (ErrNew ''bip32: invalid derived key, retry with a different seed'')
          else Inr \<lparr>xp_Priv = il1, xp_ChainCode = copy32 (drop 32 sum)\<rparr>)"

fun ExtendedPrivateKey_DerivePath :: "crypto \<Rightarrow> ExtendedPrivateKey \<Rightarrow> 32 word list \<Rightarrow> ExtendedPrivateKey res" where
  "ExtendedPrivateKey_DerivePath C k [] = Inr k"
| "ExtendedPrivateKey_DerivePath C k (i # is) =
     (case ExtendedPrivateKey_Child C k i of
        Inl e \<Rightarrow> Inl e | Inr k' \<Rightarrow> ExtendedPrivateKey_DerivePath C k' is)"

definition ExtendedPublicKey_Child :: "crypto \<Rightarrow> ExtendedPublicKey \<Rightarrow> 32 word \<Rightarrow> ExtendedPublicKey res" where
  "ExtendedPublicKey_Child C k index =
     (if index \<ge> HardenedOffset then Inl errHardened
      else
        let bs = AppendUint32 (SerializeCompressed C (xq_Pub k)) index;
            sum = hmac_sha512 C (xq_ChainCode k) bs;
            (il, overflow) = SetByteSlice C (take 32 sum) in
        if overflow \<or> il = 0
        then Inl (ErrNew ''bip32: invalid derived key, retry with a different chain code'')
        else Inr \<lparr>xq_Pub = AddPoints C (ScalarBaseMult C il) (xq_Pub k),
                  xq_ChainCode = copy32 (drop 32 sum)\<rparr>)"

fun ExtendedPublicKey_DerivePath :: "crypto \<Rightarrow> ExtendedPublicKey \<Rightarrow> 32 word list \<Rightarrow> ExtendedPublicKey res" where
  "ExtendedPublicKey_DerivePath C k [] = Inr k"
| "ExtendedPublicKey_DerivePath C k (i # is) =
     (case ExtendedPublicKey_Child C k i of
        Inl e \<Rightarrow> Inl e | Inr k' \<Rightarrow> ExtendedPublicKey_DerivePath C k' is)"

section \<open>Public and private derivation agree\<close>

definition is_scalar :: "crypto \<Rightarrow> int \<Rightarrow> bool" where
  "is_scalar C a \<longleftrightarrow> 0 \<le> a \<and> a < curve_N C"

definition curve_laws :: "crypto \<Rightarrow> bool" where
  \<comment> \<open>scalars are residues, and base multiplication is a homomorphism from them to the group\<close>
  "curve_laws C \<longleftrightarrow>
     (\<forall>s. is_scalar C (fst (SetByteSlice C s))) \<and> (\<forall>s. is_scalar C (PrivKeyFromBytes C s))
     \<and> (\<forall>a b. is_scalar C a \<and> is_scalar C b \<longrightarrow> AddScalar C a b = (a + b) mod curve_N C)
     \<and> (\<forall>a. is_scalar C a \<longrightarrow> PubKey C a = ScalarBaseMult C a)
     \<and> (\<forall>a b. is_scalar C a \<and> is_scalar C b \<longrightarrow>
          AddPoints C (ScalarBaseMult C a) (ScalarBaseMult C b) = ScalarBaseMult C ((a + b) mod curve_N C))"

lemma curve_lawsD:
  assumes "curve_laws C"
  shows "SetByteSlice C s = (x, ov) \<Longrightarrow> is_scalar C x"
    and "is_scalar C a \<Longrightarrow> is_scalar C b \<Longrightarrow> is_scalar C (AddScalar C a b)"
    and "is_scalar C a \<Longrightarrow> PubKey C a = ScalarBaseMult C a"
    and "is_scalar C a \<Longrightarrow> is_scalar C b \<Longrightarrow>
          AddPoints C (ScalarBaseMult C a) (ScalarBaseMult C b) = ScalarBaseMult C (AddScalar C a b)"
proof -
  show "SetByteSlice C s = (x, ov) \<Longrightarrow> is_scalar C x"
    using assms by (auto simp: curve_laws_def dest: spec [of _ s])
qed (use assms in \<open>auto simp: curve_laws_def is_scalar_def\<close>)

definition neuter :: "crypto \<Rightarrow> ExtendedPrivateKey \<Rightarrow> ExtendedPublicKey" where
  \<comment> \<open>the public counterpart of a private key\<close>
  "neuter C k = \<lparr>xq_Pub = PubKey C (xp_Priv k), xq_ChainCode = xp_ChainCode k\<rparr>"

lemma Child_scalar:
  assumes "curve_laws C" and "is_scalar C (xp_Priv k)" and "ExtendedPrivateKey_Child C k i = Inr k'"
  shows "is_scalar C (xp_Priv k')" and "xp_Priv k' \<noteq> 0" and "i < HardenedOffset"
  using assms
  by (auto simp: ExtendedPrivateKey_Child_def Let_def curve_lawsD(1,2) [OF assms(1)]
      split: if_splits prod.splits)

lemma Child_agree:
  assumes "curve_laws C" and "is_scalar C (xp_Priv k)" and "ExtendedPrivateKey_Child C k i = Inr k'"
  shows "ExtendedPublicKey_Child C (neuter C k) i = Inr (neuter C k')"
  using assms(2,3) curve_lawsD [OF assms(1)]
  by (auto simp: ExtendedPrivateKey_Child_def ExtendedPublicKey_Child_def Let_def neuter_def
      split: if_splits prod.splits)

lemma DerivePath_agree:
  assumes "curve_laws C" and "is_scalar C (xp_Priv k)" and "ExtendedPrivateKey_DerivePath C k path = Inr k'"
  shows "ExtendedPublicKey_DerivePath C (neuter C k) path = Inr (neuter C k')"
  using assms(2,3)
proof (induction path arbitrary: k)
  case (Cons i path)
  then obtain k1 where c: "ExtendedPrivateKey_Child C k i = Inr k1"
    and p: "ExtendedPrivateKey_DerivePath C k1 path = Inr k'"
    by (auto split: sum.splits)
  have "ExtendedPublicKey_Child C (neuter C k) i = Inr (neuter C k1)"
    using assms(1) Cons.prems(1) c by (rule Child_agree)
  moreover have "ExtendedPublicKey_DerivePath C (neuter C k1) path = Inr (neuter C k')"
    using Cons.IH [OF Child_scalar(1) [OF assms(1) Cons.prems(1) c] p] .
  ultimately show ?case by simp
qed simp

text \<open>A hardened index anywhere in the path is refused by both.\<close>

lemma DerivePath_hardened:
  assumes "list_ex (\<lambda>i. i \<ge> HardenedOffset) path"
  shows "\<exists>e. ExtendedPublicKey_DerivePath C k path = Inl e"
    and "\<exists>e. ExtendedPrivateKey_DerivePath C p path = Inl e"
  using assms
proof (induction path arbitrary: k p)
  case (Cons i path)
  { case 1
    then show ?case using Cons(1)
      by (cases "i \<ge> HardenedOffset") (auto simp: ExtendedPublicKey_Child_def split: sum.splits) }
  { case 2
    then show ?case using Cons(2)
      by (cases "i \<ge> HardenedOffset") (auto simp: ExtendedPrivateKey_Child_def split: sum.splits) }
qed simp_all

text \<open>
  The converse of the agreement fails at one point: where the private derivation rejects a zero
  child key, the public one returns the point at infinity as a key.
\<close>

lemma Child_pub_infinity:
  assumes "curve_laws C" and "is_scalar C (xp_Priv k)" and "i < HardenedOffset"
    and "SetByteSlice C (take 32 (hmac_sha512 C (xp_ChainCode k)
           (AppendUint32 (SerializeCompressed C (PubKey C (xp_Priv k))) i))) = (il, False)"
    and "il \<noteq> 0" and "AddScalar C il (xp_Priv k) = 0"
  shows "\<exists>e. ExtendedPrivateKey_Child C k i = Inl e"
    and "\<exists>q. ExtendedPublicKey_Child C (neuter C k) i = Inr q \<and> xq_Pub q = ScalarBaseMult C 0"
proof -
  note laws = curve_lawsD [OF assms(1)]
  have "AddPoints C (ScalarBaseMult C il) (PubKey C (xp_Priv k)) = ScalarBaseMult C 0"
    using laws(1) [OF assms(4)] laws(3,4) assms(2,6) by simp
  then show "\<exists>q. ExtendedPublicKey_Child C (neuter C k) i = Inr q \<and> xq_Pub q = ScalarBaseMult C 0"
    using assms(3-5) by (simp add: ExtendedPublicKey_Child_def neuter_def)
  show "\<exists>e. ExtendedPrivateKey_Child C k i = Inl e"
    using assms(3-6) by (simp add: ExtendedPrivateKey_Child_def)
qed

end
