(* ===== verification/Auth_Service.thy ===== *)
theory Auth_Service
  imports Reap_Mapping Token_Event_Stores Bip32
begin

text \<open>
  \<open>internal/service/auth.go\<close>: a vault authenticates by signing its next nonce with its derived
  Ethereum key and gets a token; the middleware \<open>RequireAuth\<close> lets a request through when its
  token parses under the server's secret and is recorded, unrevoked and unexpired in the database.
\<close>

section \<open>Authenticate\<close>

definition accessTokenDuration :: int where "accessTokenDuration = 30 * 60 * 10 ^ 9"

definition verifySignature :: "crypto \<Rightarrow> string \<Rightarrow> string \<Rightarrow> int \<Rightarrow> string \<Rightarrow> bool" where
  "verifySignature C publicKey chainCodeHex nonce signatureHex =
     (case hex_DecodeString (TrimPrefix publicKey ''0x'') of
        None \<Rightarrow> False
      | Some pubKeyBytes \<Rightarrow>
     (case ParsePubKey C pubKeyBytes of
        None \<Rightarrow> False
      | Some rootPubKey \<Rightarrow>
     (case hex_DecodeString (TrimPrefix chainCodeHex ''0x'') of
        None \<Rightarrow> False
      | Some chainCodeBytes \<Rightarrow>
          if length chainCodeBytes \<noteq> 32 then False
          else
     (case ExtendedPublicKey_DerivePath C \<lparr>xq_Pub = rootPubKey, xq_ChainCode = copy32 chainCodeBytes\<rparr> ETHPath of
        Inl _ \<Rightarrow> False
      | Inr ethKey \<Rightarrow>
     (case hex_DecodeString (TrimPrefix signatureHex ''0x'') of
        None \<Rightarrow> False
      | Some sigBytes \<Rightarrow>
     (case ParseDERSignature C sigBytes of
        None \<Rightarrow> False
      | Some sig \<Rightarrow> sig_Verify C sig (Sum256 C (FormatInt nonce)) (xq_Pub ethKey)))))))"

definition newTokenID :: "env \<Rightarrow> string eff" where
  "newTokenID env = andThen (rand_Read env) (\<lambda>b. ret (hex_EncodeToString b))"

definition SignedString :: "env \<Rightarrow> claims \<Rightarrow> string eff" where
  "SignedString env cl =
     (case jwt_sign (crypto_lib env) (jwtSecret env) cl of None \<Rightarrow> fail ErrSign | Some s \<Rightarrow> ret s)"

definition issueToken :: "env \<Rightarrow> string \<Rightarrow> string eff" where
  \<comment> \<open>the end of \<open>Authenticate\<close>, once the nonce is claimed\<close>
  "issueToken env publicKey =
     andThen (newTokenID env) (\<lambda>tokenID.
     andThen (time_now env) (\<lambda>now.
       let expiresAt = now + accessTokenDuration;
           cl = \<lparr>cl_ID = tokenID, cl_IssuedAt = Some now, cl_ExpiresAt = Some expiresAt,
                 cl_PublicKey = publicKey\<rparr> in
     andThen (SignedString env cl) (\<lambda>signed.
     andThen (vaulttoken_Record env tokenID publicKey expiresAt) (\<lambda>_.
       ret signed))))"

definition Authenticate :: "env \<Rightarrow> string \<Rightarrow> string \<Rightarrow> int \<Rightarrow> string \<Rightarrow> string eff" where
  "Authenticate env publicKey chainCodeHex nonce signatureHex =
     andThen (GetNonce env publicKey) (\<lambda>currentNonce.
       if nonce \<noteq> currentNonce then fail ErrNonceUsed
       else if \<not> verifySignature (crypto_lib env) publicKey chainCodeHex nonce signatureHex
       then fail ErrInvalidSignature
       else
     andThen (ClaimNonce env publicKey nonce chainCodeHex) (\<lambda>claimed.
       if \<not> claimed then fail ErrNonceUsed else issueToken env publicKey))"

section \<open>Checking a token\<close>

definition keyfunc :: "env \<Rightarrow> bool \<Rightarrow> string option" where
  \<comment> \<open>the key for a token's method, which must be an HMAC\<close>
  "keyfunc env is_hmac = (if \<not> is_hmac then None else Some (jwtSecret env))"

definition ValidateToken :: "env \<Rightarrow> string \<Rightarrow> claims eff" where
  "ValidateToken env tokenStr =
     andThen (time_now env) (\<lambda>now.
       case jwt_parse (crypto_lib env) now tokenStr (keyfunc env) of
         None \<Rightarrow> fail (ErrNew ''invalid or expired token'')
       | Some cl \<Rightarrow> ret cl)"

definition admit :: "env \<Rightarrow> (claims \<Rightarrow> handler) \<Rightarrow> claims \<Rightarrow> token_row option \<Rightarrow> handler" where
  \<comment> \<open>the last check of \<open>RequireAuth\<close>, on the token's record; it reads the clock twice\<close>
  "admit env nxt cl tok w =
     (let w' = w\<lparr>tick := tick w + 2\<rparr>; refuse = HTTPError 401 ''invalid or expired token'' in
      case tok of
        None \<Rightarrow> reply refuse w'
      | Some t \<Rightarrow>
          if IsRevoked t (clock env (tick w)) \<or> t_expires_at t < clock env (tick w + 1)
          then reply refuse w' else nxt cl w')"

definition RequireAuth :: "env \<Rightarrow> (claims \<Rightarrow> handler) \<Rightarrow> string \<Rightarrow> handler" where
  "RequireAuth env nxt authHeader =
     (let tokenStr = TrimPrefix authHeader ''Bearer '' in
      if tokenStr = [] \<or> tokenStr = authHeader then reply (HTTPError 401 ''missing bearer token'')
      else handle (ValidateToken env tokenStr) (\<lambda>v. case v of
        Inl _ \<Rightarrow> reply (HTTPError 401 ''invalid or expired token'')
      | Inr cl \<Rightarrow>
          handle (vaulttoken_Touch env (cl_ID cl)) (\<lambda>r. case r of
            Inl _ \<Rightarrow> reply (HTTPError 500 ''internal error'')
          | Inr tok \<Rightarrow> admit env nxt cl tok)))"

section \<open>What it may do\<close>

lemma SignedString_frames [evo_intros, silent_intros, unqueued_intros, unwritten_intros]:
  "evolves w (snd (SignedString env cl w))" "keeps_sent w (snd (SignedString env cl w))"
  "keeps_tasks w (snd (SignedString env cl w))" "keeps_db w (snd (SignedString env cl w))"
  by (simp_all add: SignedString_def split: option.split)

lemma newTokenID_frames [evo_intros, silent_intros, unqueued_intros, unwritten_intros]:
  "evolves w (snd (newTokenID env w))" "keeps_sent w (snd (newTokenID env w))"
  "keeps_tasks w (snd (newTokenID env w))" "keeps_db w (snd (newTokenID env w))"
  unfolding newTokenID_def
  by (rule evo_intros silent_intros unqueued_intros unwritten_intros)+

lemma issueToken_frames [evo_intros, silent_intros, unqueued_intros]:
  "evolves w (snd (issueToken env pk w))" "keeps_sent w (snd (issueToken env pk w))"
  "keeps_tasks w (snd (issueToken env pk w))"
  unfolding issueToken_def Let_def by (auto intro!: evo_intros silent_intros unqueued_intros)

lemma Authenticate_evolves [evo_intros]: "evolves w (snd (Authenticate env pk cc n sig w))"
  unfolding Authenticate_def by (auto intro!: evo_intros)

lemma Authenticate_silent [silent_intros]: "keeps_sent w (snd (Authenticate env pk cc n sig w))"
  unfolding Authenticate_def by (auto intro!: silent_intros)

lemma Authenticate_unqueued [unqueued_intros]: "keeps_tasks w (snd (Authenticate env pk cc n sig w))"
  unfolding Authenticate_def by (auto intro!: unqueued_intros)

section \<open>What a token stands for\<close>

definition token_recorded :: "env \<Rightarrow> string \<Rightarrow> string \<Rightarrow> int \<Rightarrow> db \<Rightarrow> bool" where
  \<comment> \<open>\<open>tok\<close> is a token signed for the vault \<open>pk\<close>, issued at \<open>now\<close>, and its record is in the database\<close>
  "token_recorded env tok pk now d \<longleftrightarrow>
     (\<exists>cl t. jwt_sign (crypto_lib env) (jwtSecret env) cl = Some tok \<and> cl_PublicKey cl = pk
        \<and> cl_ExpiresAt cl = Some (now + accessTokenDuration)
        \<and> map_of (vault_tokens d) (cl_ID cl) = Some t \<and> t_public_key t = pk
        \<and> t_expires_at t = pg_timestamp (now + accessTokenDuration) \<and> t_revoked_at t = None)"

lemma token_recorded_mono: "token_recorded env tok pk now d \<Longrightarrow> db_le d d' \<Longrightarrow> token_recorded env tok pk now d'"
  unfolding token_recorded_def db_le_def rows_le_def token_le_def by metis

lemma vaulttoken_Record_Inr:
  assumes "vaulttoken_Record env tid pk exp w = (Inr (), w')"
  shows "\<exists>t. map_of (vault_tokens (wdb w')) tid = Some t \<and> t_public_key t = pk
      \<and> t_expires_at t = pg_timestamp exp \<and> t_revoked_at t = None"
    and "mappings (wdb w') = mappings (wdb w)"
  using db_exec_Inr(1) [OF assms [unfolded vaulttoken_Record_def], symmetric]
  by (auto simp: sql_token_insert_def map_of_table_insert prod_eq_iff split: if_splits)

lemma issueToken_Inr:
  assumes "issueToken env pk w = (Inr tok, w')"
  shows "\<exists>k. tick w \<le> k \<and> k < tick w' \<and> token_recorded env tok pk (clock env k) (wdb w')"
    and "mappings (wdb w') = mappings (wdb w)"
proof -
  obtain tid w1 where t: "newTokenID env w = (Inr tid, w1)"
    and r1: "andThen (time_now env) (\<lambda>now.
       let expiresAt = now + accessTokenDuration;
           cl = \<lparr>cl_ID = tid, cl_IssuedAt = Some now, cl_ExpiresAt = Some expiresAt, cl_PublicKey = pk\<rparr> in
     andThen (SignedString env cl) (\<lambda>signed.
     andThen (vaulttoken_Record env tid pk expiresAt) (\<lambda>_. ret signed))) w1 = (Inr tok, w')"
    using assms unfolding issueToken_def by (rule andThen_InrE)
  let ?now = "clock env (tick w1)"
  let ?w2 = "w1\<lparr>tick := Suc (tick w1)\<rparr>"
  let ?cl = "\<lparr>cl_ID = tid, cl_IssuedAt = Some ?now, cl_ExpiresAt = Some (?now + accessTokenDuration),
      cl_PublicKey = pk\<rparr>"
  obtain w3 where s: "SignedString env ?cl ?w2 = (Inr tok, w3)"
    and r: "vaulttoken_Record env tid pk (?now + accessTokenDuration) w3 = (Inr (), w')"
    using r1 by (auto simp: andThen_def time_now_def Let_def split: prod.splits sum.splits)
  have w3: "w3 = ?w2" and j: "jwt_sign (crypto_lib env) (jwtSecret env) ?cl = Some tok"
    using s by (auto simp: SignedString_def split: option.splits)
  have "token_recorded env tok pk ?now (wdb w')"
    using vaulttoken_Record_Inr(1) [OF r] j unfolding token_recorded_def
    by (intro exI [of _ ?cl]) auto
  moreover have "tick w \<le> tick w1" using newTokenID_frames(1) [of w env] t by (simp add: evolves_def)
  moreover have "tick w1 < tick w'" using token_event_frames(1) [of w3 env tid pk "?now + accessTokenDuration"] r w3 by (simp add: evolves_def)
  ultimately show "\<exists>k. tick w \<le> k \<and> k < tick w' \<and> token_recorded env tok pk (clock env k) (wdb w')" by blast
  show "mappings (wdb w') = mappings (wdb w)"
    using vaulttoken_Record_Inr(2) [OF r] w3 newTokenID_frames(4) [of w env] t by (simp add: keeps_db_def)
qed

lemma GetNonce_Inr: "GetNonce env pk w = (Inr n, w') \<Longrightarrow> n = nonce_of (wdb w) pk \<and> wdb w' = wdb w"
  by (auto simp: GetNonce_eq split: if_splits)

section \<open>Success and refusal\<close>

lemma Authenticate_Inr:
  assumes "Authenticate env pk cc n sg w = (Inr tok, w')"
  defines "cc' \<equiv> normalize_chain_code env cc"
  shows "nonce_of (wdb w) pk = n" and "verifySignature (crypto_lib env) pk cc n sg"
    and "chain_code_of (wdb w) pk \<in> {None, Some cc'}"
    and "nonce_of (wdb w') pk = n + 1" and "chain_code_of (wdb w') pk = Some cc'"
    and "\<exists>k. tick w \<le> k \<and> k < tick w' \<and> token_recorded env tok pk (clock env k) (wdb w')"
proof -
  obtain w1 where g: "GetNonce env pk w = (Inr n, w1)"
    and v: "verifySignature (crypto_lib env) pk cc n sg"
    and r1: "andThen (ClaimNonce env pk n cc)
        (\<lambda>claimed. if \<not> claimed then fail ErrNonceUsed else issueToken env pk) w1 = (Inr tok, w')"
    using assms(1) unfolding Authenticate_def by (elim andThen_InrE) (auto split: if_splits)
  obtain w2 where c: "ClaimNonce env pk n cc w1 = (Inr True, w2)" and i: "issueToken env pk w2 = (Inr tok, w')"
    using r1 by (rule andThen_InrE) (auto split: if_splits)
  note claim = ClaimNonce_Inr [OF c, unfolded if_True]
  note post = sql_claim_nonce_post [OF claim]
  have same: "mapping_of (wdb w') pk = mapping_of (wdb w2) pk"
    using issueToken_Inr(2) [OF i] by (simp add: mapping_of_def)
  have d1: "wdb w1 = wdb w" and n: "nonce_of (wdb w) pk = n" using GetNonce_Inr [OF g] by auto
  show "nonce_of (wdb w) pk = n" "verifySignature (crypto_lib env) pk cc n sg" by fact+
  show "nonce_of (wdb w') pk = n + 1" "chain_code_of (wdb w') pk = Some cc'"
    using post(1,2) same by (simp_all add: nonce_of_def chain_code_of_def cc'_def)
  show "chain_code_of (wdb w) pk \<in> {None, Some cc'}"
    using claim d1
    by (auto simp: sql_claim_nonce_def chain_code_of_def cc'_def split: if_splits option.splits)
  have "tick w \<le> tick w1" using mapping_op_frames(1) [of w env pk] g by (simp add: evolves_def)
  moreover have "tick w1 \<le> tick w2" using mapping_op_frames(6) [of w1 env pk n cc] c by (simp add: evolves_def)
  ultimately show "\<exists>k. tick w \<le> k \<and> k < tick w' \<and> token_recorded env tok pk (clock env k) (wdb w')"
    using issueToken_Inr(1) [OF i] by (meson le_trans)
qed

text \<open>A wrong nonce or signature gets no token and leaves the database as it was.\<close>

lemma Authenticate_refused:
  assumes "nonce_of (wdb w) pk \<noteq> n \<or> \<not> verifySignature (crypto_lib env) pk cc n sg"
  shows "fst (Authenticate env pk cc n sg w) \<in> {Inl ErrDb, Inl ErrNonceUsed, Inl ErrInvalidSignature}"
    and "wdb (snd (Authenticate env pk cc n sg w)) = wdb w"
  using assms by (auto simp: Authenticate_def andThen_def GetNonce_eq)

text \<open>Once a vault has a row its nonce never goes back, so a used nonce is refused for good.\<close>

lemma nonce_of_mono: "db_le d d' \<Longrightarrow> mapping_of d pk \<noteq> None \<Longrightarrow> nonce_of d pk \<le> nonce_of d' pk"
  by (fastforce simp: db_le_def rows_le_def nonce_of_def mapping_of_def mapping_le_def)

lemma chain_code_of_stable: "db_le d d' \<Longrightarrow> chain_code_of d pk = Some c \<Longrightarrow> chain_code_of d' pk = Some c"
  by (fastforce simp: db_le_def rows_le_def chain_code_of_def mapping_of_def mapping_le_def
      split: Option.bind_splits)

lemma reap_user_of_stable: "db_le d d' \<Longrightarrow> reap_user_of d pk = Some c \<Longrightarrow> reap_user_of d' pk = Some c"
  by (fastforce simp: db_le_def rows_le_def reap_user_of_def mapping_of_def mapping_le_def
      split: Option.bind_splits)

lemma Authenticate_later:
  assumes "Authenticate env pk cc n sg w = (Inr tok, w1)" and "evolves w1 w2"
    and "Authenticate env' pk cc' n' sg' w2 = (Inr tok', w3)"
  shows "n < n'" and "normalize_chain_code env' cc' = normalize_chain_code env cc"
proof -
  have c1: "chain_code_of (wdb w1) pk = Some (normalize_chain_code env cc)"
    using Authenticate_Inr(5) [OF assms(1)] .
  have m: "mapping_of (wdb w1) pk \<noteq> None" using c1 by (cases "mapping_of (wdb w1) pk") (auto simp: chain_code_of_def)
  have c: "chain_code_of (wdb w2) pk = Some (normalize_chain_code env cc)"
    using chain_code_of_stable [OF _ c1] assms(2) by (simp add: evolves_def)
  show "normalize_chain_code env' cc' = normalize_chain_code env cc"
    using Authenticate_Inr(3) [OF assms(3)] c by auto
  have "n + 1 \<le> nonce_of (wdb w2) pk"
    using nonce_of_mono [OF _ m] Authenticate_Inr(4) [OF assms(1)] assms(2) by (simp add: evolves_def)
  then show "n < n'" using Authenticate_Inr(1) [OF assms(3)] by simp
qed

section \<open>The middleware\<close>

definition auth_passed :: "env \<Rightarrow> string \<Rightarrow> world \<Rightarrow> claims \<Rightarrow> bool" where
  \<comment> \<open>the header carries a token that parses now, under the server's secret and an HMAC method, and
      that has a record, neither revoked nor expired\<close>
  "auth_passed env authHeader w cl \<longleftrightarrow>
     (\<exists>tok t. authHeader = ''Bearer '' @ tok \<and> tok \<noteq> []
        \<and> jwt_parse (crypto_lib env) (clock env (tick w)) tok (keyfunc env) = Some cl
        \<and> map_of (vault_tokens (wdb w)) (cl_ID cl) = Some t
        \<and> \<not> IsRevoked t (clock env (tick w + 2)) \<and> clock env (tick w + 3) \<le> t_expires_at t)"

definition only_touched :: "db \<Rightarrow> db \<Rightarrow> bool" where
  \<comment> \<open>nothing but the tokens' time of last use may differ\<close>
  "only_touched d d' \<longleftrightarrow> mappings d' = mappings d \<and> card_ownership d' = card_ownership d
     \<and> account_ownership d' = account_ownership d \<and> user_card_ownership d' = user_card_ownership d
     \<and> webhook_events d' = webhook_events d \<and> db_le d d'"

lemma touch_only: "only_touched d (snd (sql_token_touch tid now d))"
  using sql_token_touch_ok by (simp add: only_touched_def sql_token_touch_frame stmt_ok_def)

lemma TrimPrefix_changed: "TrimPrefix s p \<noteq> s \<Longrightarrow> s = p @ TrimPrefix s p"
  unfolding TrimPrefix_def by (metis append_take_drop_id)

definition auth_refused :: "world \<Rightarrow> resp \<times> world \<Rightarrow> bool" where
  \<comment> \<open>a 401 or 500, nothing sent or queued, and at most a token touched\<close>
  "auth_refused w r \<longleftrightarrow> (\<exists>code msg. fst r = HTTPError code msg \<and> code \<in> {401, 500})
     \<and> sent (snd r) = sent w \<and> tasks (snd r) = tasks w \<and> only_touched (wdb w) (wdb (snd r))"

lemma only_touched_refl [simp]: "only_touched d d"
  by (simp add: only_touched_def)

lemma ValidateToken_run:
  "ValidateToken env tok w =
     ((case jwt_parse (crypto_lib env) (clock env (tick w)) tok (keyfunc env) of
         None \<Rightarrow> Inl (ErrNew ''invalid or expired token'') | Some cl \<Rightarrow> Inr cl),
      w\<lparr>tick := Suc (tick w)\<rparr>)"
  by (simp add: ValidateToken_def andThen_def time_now_def split: option.split)

lemma RequireAuth_run:
  assumes "TrimPrefix h ''Bearer '' \<noteq> []" and "TrimPrefix h ''Bearer '' \<noteq> h"
    and "jwt_parse (crypto_lib env) (clock env (tick w)) (TrimPrefix h ''Bearer '') (keyfunc env) = Some cl"
  shows "RequireAuth env nxt h w =
    (case vaulttoken_Touch env (cl_ID cl) (w\<lparr>tick := Suc (tick w)\<rparr>) of
       (Inl _, w2) \<Rightarrow> (HTTPError 500 ''internal error'', w2)
     | (Inr tok, w2) \<Rightarrow> admit env nxt cl tok w2)"
  using assms
  by (simp add: RequireAuth_def handle_def ValidateToken_run reply_def split: prod.split sum.split)

lemma touch_run:
  assumes "vaulttoken_Touch env tid w = (r, w')"
  shows "only_touched (wdb w) (wdb w')" and "sent w' = sent w" and "tasks w' = tasks w"
    and "tick w' = Suc (tick w)" and "evolves w w'"
    and "r = Inr (Some t) \<Longrightarrow> \<exists>t0. map_of (vault_tokens (wdb w)) tid = Some t0
           \<and> t_revoked_at t = t_revoked_at t0 \<and> t_expires_at t = t_expires_at t0"
proof -
  show "only_touched (wdb w) (wdb w')" "sent w' = sent w" "tasks w' = tasks w" "tick w' = Suc (tick w)"
    using assms unfolding vaulttoken_Touch_def
    by (cases rule: db_exec_cases [of env "sql_token_touch tid" w]; auto simp: touch_only)+
  show "evolves w w'" using token_event_frames(2) [of w env tid] assms by simp
  show "r = Inr (Some t) \<Longrightarrow> \<exists>t0. map_of (vault_tokens (wdb w)) tid = Some t0
           \<and> t_revoked_at t = t_revoked_at t0 \<and> t_expires_at t = t_expires_at t0"
    using vaulttoken_Touch_Inr [of env tid w t w'] assms by auto
qed

lemma RequireAuth_cases:
  obtains (refused) "auth_refused w (RequireAuth env nxt h w)"
  | (passed) cl w1 where "RequireAuth env nxt h w = nxt cl w1" "auth_passed env h w cl"
      "sent w1 = sent w" "tasks w1 = tasks w" "only_touched (wdb w) (wdb w1)" "evolves w w1"
proof (cases "TrimPrefix h ''Bearer '' = [] \<or> TrimPrefix h ''Bearer '' = h")
  case True
  then show ?thesis by (intro refused) (auto simp: RequireAuth_def reply_def auth_refused_def)
next
  case tok: False
  let ?tok = "TrimPrefix h ''Bearer ''"
  let ?w1 = "w\<lparr>tick := Suc (tick w)\<rparr>"
  show ?thesis
  proof (cases "jwt_parse (crypto_lib env) (clock env (tick w)) ?tok (keyfunc env)")
    case None
    then show ?thesis using tok
      by (intro refused)
        (simp add: RequireAuth_def reply_def handle_def ValidateToken_run Let_def auth_refused_def)
  next
    case (Some cl)
    obtain r w2 where t: "vaulttoken_Touch env (cl_ID cl) ?w1 = (r, w2)" by fastforce
    note T = touch_run [OF t, simplified]
    note run = RequireAuth_run [OF _ _ Some, of nxt, unfolded t]
    have ref: "auth_refused w (HTTPError c m, w2\<lparr>tick := k\<rparr>)" if "c = 401 \<or> c = 500" for c m k
      using T that by (auto simp: auth_refused_def)
    consider (err) e where "r = Inl e" | (bad) "RequireAuth env nxt h w
          = (HTTPError 401 ''invalid or expired token'', w2\<lparr>tick := tick w2 + 2\<rparr>)"
      | (good) x where "r = Inr (Some x)" "\<not> IsRevoked x (clock env (tick w2))"
          "clock env (tick w2 + 1) \<le> t_expires_at x"
      using run tok by (cases r) (auto simp: admit_def reply_def Let_def split: option.splits if_splits)
    then show ?thesis
    proof cases
      case (err e)
      then show ?thesis using run tok ref [of 500 _ "tick w2"] by (intro refused) simp
    next
      case bad
      then show ?thesis using ref [of 401] by (intro refused) simp
    next
      case (good x)
      let ?w3 = "w2\<lparr>tick := tick w2 + 2\<rparr>"
      obtain t0 where t0: "map_of (vault_tokens (wdb w)) (cl_ID cl) = Some t0"
        "t_revoked_at x = t_revoked_at t0" "t_expires_at x = t_expires_at t0"
        using T(6) [OF good(1)] by auto
      have "auth_passed env h w cl"
        unfolding auth_passed_def
        by (rule exI [of _ ?tok], rule exI [of _ t0])
          (use good tok Some t0 T(4) TrimPrefix_changed [of h "''Bearer ''"] in
            \<open>auto simp: IsRevoked_def eval_nat_numeral\<close>)
      moreover have "RequireAuth env nxt h w = nxt cl ?w3"
        using run tok good by (simp add: admit_def Let_def)
      moreover have "evolves w ?w3" using T(5) by (auto simp: evolves_def)
      ultimately show ?thesis using T by (intro passed [of cl ?w3]) auto
    qed
  qed
qed

section \<open>An issued token is admitted\<close>

definition jwt_laws :: "crypto \<Rightarrow> bool" where
  \<comment> \<open>a token signed with a key is not empty, and before its expiry (whose \<open>NumericDate\<close> drops the
      fraction of a second) parses, under the same key, to claims with the same ID and vault\<close>
  "jwt_laws C \<longleftrightarrow> (\<forall>key cl tok e now kf.
     jwt_sign C key cl = Some tok \<and> cl_ExpiresAt cl = Some e \<and> now + 10 ^ 9 \<le> e \<and> kf True = Some key \<longrightarrow>
     tok \<noteq> [] \<and> (\<exists>cl'. jwt_parse C now tok kf = Some cl' \<and> cl_ID cl' = cl_ID cl
                        \<and> cl_PublicKey cl' = cl_PublicKey cl))"

lemma jwt_lawsD:
  assumes "jwt_laws C" and "jwt_sign C key cl = Some tok" and "cl_ExpiresAt cl = Some e"
    and "now + 10 ^ 9 \<le> e" and "kf True = Some key"
  shows "tok \<noteq> []" and "\<exists>cl'. jwt_parse C now tok kf = Some cl' \<and> cl_ID cl' = cl_ID cl
           \<and> cl_PublicKey cl' = cl_PublicKey cl"
  using assms(2-5) assms(1) [unfolded jwt_laws_def, rule_format, of key cl tok e now kf] by blast+

lemma token_admits:
  assumes "jwt_laws (crypto_lib env)" and "token_recorded env tok pk t0 (wdb w)"
    and "db_fault env (Suc (tick w)) = NoFault"
    and "\<And>k. tick w \<le> k \<Longrightarrow> k \<le> tick w + 3 \<Longrightarrow> clock env k + 10 ^ 9 \<le> t0 + accessTokenDuration"
  shows "\<exists>cl w1. cl_PublicKey cl = pk \<and> RequireAuth env nxt (''Bearer '' @ tok) w = nxt cl w1"
proof -
  let ?h = "''Bearer '' @ tok"
  let ?w1 = "w\<lparr>tick := Suc (tick w)\<rparr>"
  obtain cl t where cl: "jwt_sign (crypto_lib env) (jwtSecret env) cl = Some tok" "cl_PublicKey cl = pk"
    "cl_ExpiresAt cl = Some (t0 + accessTokenDuration)"
    and t: "map_of (vault_tokens (wdb w)) (cl_ID cl) = Some t"
    "t_expires_at t = pg_timestamp (t0 + accessTokenDuration)" "t_revoked_at t = None"
    using assms(2) by (auto simp: token_recorded_def)
  have "keyfunc env True = Some (jwtSecret env)" by (simp add: keyfunc_def)
  from jwt_lawsD [where kf = "keyfunc env", OF assms(1) cl(1,3) assms(4) [OF order_refl le_add1] this] obtain cl' where tok: "tok \<noteq> []"
    and cl': "jwt_parse (crypto_lib env) (clock env (tick w)) tok (keyfunc env) = Some cl'"
      "cl_ID cl' = cl_ID cl" "cl_PublicKey cl' = pk"
    using cl(2) by fastforce
  have h: "TrimPrefix ?h ''Bearer '' = tok" by (rule TrimPrefix_append)
  let ?x = "t\<lparr>t_last_used_at := clock env (Suc (tick w))\<rparr>"
  obtain w2 where w2: "vaulttoken_Touch env (cl_ID cl') ?w1 = (Inr (Some ?x), w2)" "tick w2 = tick w + 2"
    using t(1) cl'(2) assms(3)
    by (simp add: vaulttoken_Touch_def db_exec_def sql_token_touch_def)
  have "clock env (tick w2 + 1) \<le> t_expires_at ?x"
    using assms(4) [of "tick w + 3"] pg_timestamp_le(2) [of "t0 + accessTokenDuration"] t(2) w2(2)
    by (simp add: eval_nat_numeral)
  moreover have "\<not> IsRevoked ?x (clock env (tick w2))" using t(3) by (simp add: IsRevoked_def)
  ultimately have "RequireAuth env nxt ?h w = nxt cl' (w2\<lparr>tick := tick w2 + 2\<rparr>)"
    using RequireAuth_run [of ?h env w cl' nxt, unfolded h] tok cl'(1) w2(1) by (simp add: admit_def Let_def)
  then show ?thesis using cl'(3) by blast
qed

section \<open>A right signature is let in\<close>

text \<open>
  With the database and the random source answering, and a token ID not used before, the vault's next
  nonce under its right signature gets a token.
\<close>

lemma issueToken_runs:
  assumes "rand_read env (tick v) = Some b" and "db_fault env (Suc (Suc (tick v))) = NoFault"
    and "map_of (vault_tokens (wdb v)) (hex_EncodeToString b) = None"
    and "\<And>cl. jwt_sign (crypto_lib env) (jwtSecret env) cl \<noteq> None"
  shows "\<exists>tok w' t. issueToken env pk v = (Inr tok, w') \<and> tick w' = Suc (Suc (Suc (tick v)))
     \<and> map_of (vault_tokens (wdb w')) = (map_of (vault_tokens (wdb v)))(hex_EncodeToString b \<mapsto> t)"
proof -
  let ?now = "clock env (Suc (tick v))"
  let ?v3 = "v\<lparr>tick := Suc (Suc (tick v))\<rparr>"
  let ?cl = "\<lparr>cl_ID = hex_EncodeToString b, cl_IssuedAt = Some ?now,
    cl_ExpiresAt = Some (?now + accessTokenDuration), cl_PublicKey = pk\<rparr>"
  obtain s where s: "jwt_sign (crypto_lib env) (jwtSecret env) ?cl = Some s" using assms(4) by auto
  have "issueToken env pk v = andThen (vaulttoken_Record env (hex_EncodeToString b) pk (?now + accessTokenDuration))
      (\<lambda>_. ret s) ?v3"
    using s assms(1) by (simp add: issueToken_def newTokenID_def rand_Read_def time_now_def SignedString_def andThen_def Let_def)
  then show ?thesis using assms(2,3)
    by (simp add: andThen_def vaulttoken_Record_def db_exec_def sql_token_insert_def map_of_table_insert)
      (rule exI, rule refl)
qed

lemma claim_nonce_tokens: "sql_claim_nonce pk n cc now d = (r, d') \<Longrightarrow> vault_tokens d' = vault_tokens d"
  by (auto simp: sql_claim_nonce_def split: if_splits option.splits)

lemma Authenticate_runs:
  assumes "nonce_of (wdb w) pk = n" and "verifySignature (crypto_lib env) pk cc n sg" and "int4_param n"
    and "chain_code_of (wdb w) pk \<in> {None, Some (normalize_chain_code env cc)}"
    and "\<forall>k. tick w \<le> k \<and> k \<le> tick w + 4 \<longrightarrow> db_fault env k = NoFault"
    and "rand_read env (tick w + 2) = Some b" and "map_of (vault_tokens (wdb w)) (hex_EncodeToString b) = None"
    and "\<And>cl. jwt_sign (crypto_lib env) (jwtSecret env) cl \<noteq> None"
  shows "\<exists>tok w' t. Authenticate env pk cc n sg w = (Inr tok, w')
     \<and> map_of (vault_tokens (wdb w')) = (map_of (vault_tokens (wdb w)))(hex_EncodeToString b \<mapsto> t)"
proof -
  let ?c = "normalize_chain_code env cc"
  let ?w1 = "w\<lparr>tick := Suc (tick w)\<rparr>"
  have "nonce_claimable (wdb w) pk n ?c" using assms(1,4) by (simp add: nonce_claimable_def)
  then obtain d where c: "sql_claim_nonce pk n ?c (clock env (Suc (tick w))) (wdb w) = (Inr 1, d)"
    using sql_claim_nonce_iff(1) [OF assms(3)] by (metis prod.collapse)
  let ?w2 = "w\<lparr>tick := Suc (Suc (tick w)), wdb := d\<rparr>"
  have f: "db_fault env (tick w) = NoFault" "db_fault env (Suc (tick w)) = NoFault"
    "db_fault env (Suc (Suc (Suc (Suc (tick w))))) = NoFault"
    using assms(5) by simp_all
  have "db_exec env (sql_claim_nonce pk n ?c) ?w1 = (Inr 1, ?w2)"
    unfolding db_exec_def using c f by (simp del: One_nat_def)
  then have claim: "ClaimNonce env pk n cc ?w1 = (Inr True, ?w2)"
    by (simp only: ClaimNonce_def andThen_Inr) simp
  have t: "vault_tokens d = vault_tokens (wdb w)"
    using claim_nonce_tokens [OF c] .
  have get: "GetNonce env pk w = (Inr n, ?w1)" using f assms(1) by (simp add: GetNonce_eq)
  have "Authenticate env pk cc n sg w = issueToken env pk ?w2"
    unfolding Authenticate_def andThen_Inr [of "GetNonce env pk", OF get] using claim assms(2)
    by (simp add: andThen_Inr)
  then show ?thesis using issueToken_runs [of env ?w2 b pk] f assms(6-8) t by fastforce
qed

end
