(* ===== verification/Statsd.thy ===== *)
theory Statsd
  imports World
begin

text \<open>
  \<open>internal/statsd/client.go\<close>: the metrics client. A client is the prefix it was made with; None
  is the nil client, on which every method is a no-op. Dialling the UDP socket (\<open>New\<close>) is not
  modelled beyond that choice.
\<close>

definition trim_zeros :: "string \<Rightarrow> string" where
  "trim_zeros s = rev (dropWhile (\<lambda>c. c = CHR ''0'') (rev s))"

definition FormatMillis :: "int \<Rightarrow> string" where
  \<comment> \<open>\<open>strconv.FormatFloat\<close> of a duration of so many nanoseconds, in milliseconds, with the least
      number of digits: the exact decimal, for durations below \<open>10 ^ 15\<close> ns (11 days), whose at
      most 15 digits a \<open>float64\<close> keeps\<close>
  "FormatMillis d =
     (let n = nat \<bar>d\<bar>; q = n div 1000000; r = n mod 1000000;
          frac = trim_zeros (map (\<lambda>k. digit_char (r div 10 ^ k mod 10)) [5, 4, 3, 2, 1, 0])
      in (if d < 0 then ''-'' else []) @ nat_dec q @ (if frac = [] then [] else CHR ''.'' # frac))"

definition statsd_packet :: "string \<Rightarrow> string \<Rightarrow> string \<Rightarrow> string \<Rightarrow> string list \<Rightarrow> string" where
  "statsd_packet prefix name val kind tags =
     prefix @ name @ '':'' @ val @ ''|'' @ kind @ (if tags \<noteq> [] then ''|#'' @ Join tags '','' else [])"

definition statsd_send :: "string option \<Rightarrow> string \<Rightarrow> string \<Rightarrow> string \<Rightarrow> string list \<Rightarrow> unit eff" where
  "statsd_send c name val kind tags =
     (case c of None \<Rightarrow> ret () | Some prefix \<Rightarrow> emit (statsd_packet prefix name val kind tags))"

definition statsd_Count :: "string option \<Rightarrow> string \<Rightarrow> int \<Rightarrow> string list \<Rightarrow> unit eff" where
  "statsd_Count c name n tags = statsd_send c name (FormatInt n) ''c'' tags"

definition statsd_Timing :: "string option \<Rightarrow> string \<Rightarrow> int \<Rightarrow> string list \<Rightarrow> unit eff" where
  "statsd_Timing c name d tags = statsd_send c name (FormatMillis d) ''ms'' tags"

lemma statsd_send_frames [evo_intros, silent_intros, unqueued_intros, unwritten_intros]:
  "evolves w (snd (statsd_send c name v kind tags w))"
  "keeps_sent w (snd (statsd_send c name v kind tags w))"
  "keeps_tasks w (snd (statsd_send c name v kind tags w))"
  "keeps_db w (snd (statsd_send c name v kind tags w))"
  by (simp_all add: statsd_send_def split: option.split)

lemma statsd_send_total: "\<exists>m. statsd_send c name v kind tags w = (Inr (), w\<lparr>metrics := m\<rparr>)"
proof (cases c)
  case None
  then have "statsd_send c name v kind tags w = (Inr (), w\<lparr>metrics := metrics w\<rparr>)"
    by (simp add: statsd_send_def)
  then show ?thesis by blast
qed (auto simp: statsd_send_def emit_def)

lemma statsd_total:
  "\<exists>m. statsd_Count c name n tags w = (Inr (), w\<lparr>metrics := m\<rparr>)"
  "\<exists>m. statsd_Timing c name n tags w = (Inr (), w\<lparr>metrics := m\<rparr>)"
  by (simp_all add: statsd_Count_def statsd_Timing_def statsd_send_total)

lemma statsd_frames [evo_intros, silent_intros, unqueued_intros, unwritten_intros]:
  "evolves w (snd (statsd_Count c name n tags w))" "evolves w (snd (statsd_Timing c name n tags w))"
  "keeps_sent w (snd (statsd_Count c name n tags w))" "keeps_sent w (snd (statsd_Timing c name n tags w))"
  "keeps_tasks w (snd (statsd_Count c name n tags w))" "keeps_tasks w (snd (statsd_Timing c name n tags w))"
  "keeps_db w (snd (statsd_Count c name n tags w))" "keeps_db w (snd (statsd_Timing c name n tags w))"
  by (simp_all add: statsd_Count_def statsd_Timing_def statsd_send_frames)

end
