(* ===== verification/Reap_Client.thy ===== *)
theory Reap_Client
  imports Statsd
begin

text \<open>
  \<open>internal/reap/client.go\<close>: the client of the REAP API. \<open>Client_do\<close> is the one place a request is
  made; every endpoint is a method, a path and a body over it. The HTTP client itself
  (\<open>http.Client.Do\<close>, its connections and timeouts) is the environment's \<open>reap_answer\<close>;
  \<open>http.NewRequestWithContext\<close> cannot fail here, since the base URL is a constant and every path
  segment and query is escaped, and marshalling the request structs cannot fail either (their
  floats come out of a JSON body, so they are finite).
\<close>

section \<open>Building requests\<close>

definition apiVersion :: string where "apiVersion = ''2025-02-14''"

definition sandboxBaseURL :: string where "sandboxBaseURL = ''https://sandbox.api.reap.global''"

definition prodBaseURL :: string where "prodBaseURL = ''https://prod.api.reap.global''"

definition Client_NewClientWithBaseURL :: "string \<Rightarrow> string \<Rightarrow> string option \<Rightarrow> reap_client" where
  "Client_NewClientWithBaseURL url key st = \<lparr>baseURL = url, apiKey = key, stats = st\<rparr>"

definition Client_NewClient :: "string \<Rightarrow> string \<Rightarrow> string option \<Rightarrow> reap_client" where
  "Client_NewClient e key st =
     Client_NewClientWithBaseURL (if e = ''prod'' then prodBaseURL else sandboxBaseURL) key st"

definition pathf :: "string \<Rightarrow> string list \<Rightarrow> string" where
  "pathf f segments = Sprintf f (map PathEscape segments)"

definition metricPath :: "string \<Rightarrow> string" where
  "metricPath path =
     (let segments = Split (fst (Cut path CHR ''?'')) CHR ''/'' in
      Join (map (\<lambda>seg. if ContainsAny (RemoveAll seg ''3ds'') ''0123456789'' then '':id'' else seg) segments)
           ''/'')"

definition reap_request ::
    "env \<Rightarrow> string \<Rightarrow> string \<Rightarrow> string option \<Rightarrow> ((string \<times> string) list \<Rightarrow> (string \<times> string) list) \<Rightarrow> http_req" where
  "reap_request env meth path body opts =
     (let h1 = Header_Set [] ''Authorization'' (''Bearer '' @ apiKey (reap env));
          h2 = Header_Set h1 ''Reap-Version'' apiVersion;
          h3 = (if body \<noteq> None then Header_Set h2 ''Content-Type'' ''application/json'' else h2)
      in \<lparr>req_method = meth, req_url = baseURL (reap env) @ path, req_header = opts h3, req_body = body\<rparr>)"

definition Client_report :: "env \<Rightarrow> string \<Rightarrow> string \<Rightarrow> int \<Rightarrow> goerr + (int \<times> string) \<Rightarrow> unit eff" where
  \<comment> \<open>the deferred function of \<open>do\<close>: the metrics of a request started at \<open>start\<close>\<close>
  "Client_report env meth path start result =
     (let status = (case result of Inl _ \<Rightarrow> 0 | Inr (st, _) \<Rightarrow> st);
          tags = [''method:'' @ meth, ''path:'' @ metricPath path, ''status:'' @ Itoa status] in
      andThen (statsd_Count (stats (reap env)) ''reap.request.count'' 1 tags) (\<lambda>_.
      andThen (time_now env) (\<lambda>now.
      statsd_Timing (stats (reap env)) ''reap.request.duration'' (now - start) tags)))"

definition Client_do ::
    "env \<Rightarrow> string \<Rightarrow> string \<Rightarrow> string option \<Rightarrow> ((string \<times> string) list \<Rightarrow> (string \<times> string) list)
      \<Rightarrow> (int \<times> string) eff" where
  "Client_do env meth path body opts =
     andThen (time_now env) (\<lambda>start.
     attempt (http_Do env (reap_request env meth path body opts)) (\<lambda>result.
     andThen (Client_report env meth path start result) (\<lambda>_.
     case result of Inl e \<Rightarrow> fail e | Inr a \<Rightarrow> ret a)))"

definition idempotency :: "string \<Rightarrow> (string \<times> string) list \<Rightarrow> (string \<times> string) list" where
  \<comment> \<open>the option that sets the header whatever the key\<close>
  "idempotency key h = Header_Set h ''Idempotency-Key'' key"

definition idempotency_opt :: "string \<Rightarrow> (string \<times> string) list \<Rightarrow> (string \<times> string) list" where
  \<comment> \<open>the option that sets the header when there is a key\<close>
  "idempotency_opt key h = (if key \<noteq> [] then Header_Set h ''Idempotency-Key'' key else h)"

section \<open>Users\<close>

record TermsAcceptance =
  ta_Version :: string
  ta_IPAddress :: string

record CreateUserRequest =
  cu_Email :: string
  cu_PhoneNumber :: string
  cu_FirstName :: string
  cu_LastName :: string
  cu_TermsAcceptance :: TermsAcceptance

definition json_terms :: "TermsAcceptance \<Rightarrow> string" where
  "json_terms t = marshal_struct
     [(''version'', marshal_string (ta_Version t)), (''ipAddress'', marshal_string (ta_IPAddress t))]"

definition json_create_user :: "CreateUserRequest \<Rightarrow> string" where
  "json_create_user r = marshal_struct
     ([(''email'', marshal_string (cu_Email r)), (''phoneNumber'', marshal_string (cu_PhoneNumber r))]
      @ omitempty ''firstName'' (cu_FirstName r) @ omitempty ''lastName'' (cu_LastName r)
      @ [(''termsAcceptance'', json_terms (cu_TermsAcceptance r))])"

definition Client_CreateUser :: "env \<Rightarrow> CreateUserRequest \<Rightarrow> (int \<times> string) eff" where
  "Client_CreateUser env r = Client_do env ''POST'' ''/users/'' (Some (json_create_user r)) id"

definition Client_GetUser :: "env \<Rightarrow> string \<Rightarrow> (int \<times> string) eff" where
  "Client_GetUser env i = Client_do env ''GET'' (pathf ''/users/%s'' [i]) None id"

definition Client_UpdateEmail :: "env \<Rightarrow> string \<Rightarrow> string \<Rightarrow> (int \<times> string) eff" where
  "Client_UpdateEmail env i email = Client_do env ''PUT'' (pathf ''/users/%s/email'' [i])
     (Some (marshal_struct [(''email'', marshal_string email)])) id"

definition Client_UpdatePhoneNumber :: "env \<Rightarrow> string \<Rightarrow> string \<Rightarrow> (int \<times> string) eff" where
  "Client_UpdatePhoneNumber env i phone = Client_do env ''PUT'' (pathf ''/users/%s/phone'' [i])
     (Some (marshal_struct [(''phoneNumber'', marshal_string phone)])) id"

definition Client_AdvanceUserApplication :: "env \<Rightarrow> string \<Rightarrow> string \<Rightarrow> string \<Rightarrow> (int \<times> string) eff" where
  "Client_AdvanceUserApplication env i body key =
     Client_do env ''POST'' (pathf ''/users/%s/application'' [i]) (Some body) (idempotency_opt key)"

section \<open>Accounts\<close>

record Signer =
  sg_Address :: string
  sg_Message :: string
  sg_Signature :: string

record Signers =
  sg_EVM :: "Signer option"
  sg_SVM :: "Signer option"

record CreateAccountRequest =
  ca_OwnerID :: string
  ca_Signers :: "Signers option"

definition omitnil :: "string \<Rightarrow> ('a \<Rightarrow> string) \<Rightarrow> 'a option \<Rightarrow> (string \<times> string) list" where
  \<comment> \<open>a pointer field with the \<open>omitempty\<close> option\<close>
  "omitnil name js p = (case p of None \<Rightarrow> [] | Some x \<Rightarrow> [(name, js x)])"

definition json_signer :: "Signer \<Rightarrow> string" where
  "json_signer s = marshal_struct
     [(''address'', marshal_string (sg_Address s)), (''message'', marshal_string (sg_Message s)),
      (''signature'', marshal_string (sg_Signature s))]"

definition json_signers :: "Signers \<Rightarrow> string" where
  "json_signers s = marshal_struct (omitnil ''evm'' json_signer (sg_EVM s) @ omitnil ''svm'' json_signer (sg_SVM s))"

definition json_create_account :: "CreateAccountRequest \<Rightarrow> string" where
  "json_create_account r = marshal_struct
     ((''ownerId'', marshal_string (ca_OwnerID r)) # omitnil ''signers'' json_signers (ca_Signers r))"

definition Client_CreateAccount :: "env \<Rightarrow> CreateAccountRequest \<Rightarrow> string \<Rightarrow> (int \<times> string) eff" where
  "Client_CreateAccount env r key =
     Client_do env ''POST'' ''/accounts/'' (Some (json_create_account r)) (idempotency key)"

definition Client_GenerateSignerMessage :: "env \<Rightarrow> (int \<times> string) eff" where
  "Client_GenerateSignerMessage env = Client_do env ''GET'' ''/accounts/auth-message'' None id"

definition Client_GetAccount :: "env \<Rightarrow> string \<Rightarrow> (int \<times> string) eff" where
  "Client_GetAccount env i = Client_do env ''GET'' (pathf ''/accounts/%s'' [i]) None id"

definition Client_GetAccountBalance :: "env \<Rightarrow> string \<Rightarrow> (int \<times> string) eff" where
  "Client_GetAccountBalance env i = Client_do env ''GET'' (pathf ''/accounts/%s/balance'' [i]) None id"

definition Client_GetAccountAssets :: "env \<Rightarrow> string \<Rightarrow> (int \<times> string) eff" where
  "Client_GetAccountAssets env i = Client_do env ''GET'' (pathf ''/accounts/%s/assets'' [i]) None id"

definition Client_ListAccounts :: "env \<Rightarrow> string \<Rightarrow> int \<Rightarrow> string \<Rightarrow> (int \<times> string) eff" where
  "Client_ListAccounts env owner limit cursor =
     (let q = [(''ownerId'', [owner])];
          q1 = (if limit > 0 then Values_Set q ''limit'' (Itoa limit) else q);
          q2 = (if cursor \<noteq> [] then Values_Set q1 ''cursor'' cursor else q1)
      in Client_do env ''GET'' (''/accounts/?'' @ Values_Encode q2) None id)"

section \<open>Cards\<close>

record CreateCardRequest =
  cc_UserID :: string
  cc_AccountID :: string
  cc_Type :: string
  cc_ThreeDSChallengeMethod :: string
  cc_CardDesignID :: string

definition json_create_card :: "CreateCardRequest \<Rightarrow> string" where
  "json_create_card r = marshal_struct
     ([(''userId'', marshal_string (cc_UserID r)), (''accountId'', marshal_string (cc_AccountID r)),
       (''type'', marshal_string (cc_Type r))]
      @ omitempty ''3dsChallengeMethod'' (cc_ThreeDSChallengeMethod r)
      @ omitempty ''cardDesignId'' (cc_CardDesignID r))"

definition Client_CreateCard :: "env \<Rightarrow> CreateCardRequest \<Rightarrow> string \<Rightarrow> (int \<times> string) eff" where
  "Client_CreateCard env r key =
     Client_do env ''POST'' ''/cards/'' (Some (json_create_card r)) (idempotency key)"

definition Client_ListCards :: "env \<Rightarrow> url_values \<Rightarrow> (int \<times> string) eff" where
  "Client_ListCards env q = Client_do env ''GET'' (''/cards/?'' @ Values_Encode q) None id"

definition Client_GetCard :: "env \<Rightarrow> string \<Rightarrow> (int \<times> string) eff" where
  "Client_GetCard env i = Client_do env ''GET'' (pathf ''/cards/%s'' [i]) None id"

definition Client_DeleteCard :: "env \<Rightarrow> string \<Rightarrow> (int \<times> string) eff" where
  "Client_DeleteCard env i = Client_do env ''DELETE'' (pathf ''/cards/%s'' [i]) None id"

definition Client_UpdateCardPin :: "env \<Rightarrow> string \<Rightarrow> string \<Rightarrow> (int \<times> string) eff" where
  "Client_UpdateCardPin env i pin = Client_do env ''PUT'' (pathf ''/cards/%s/pin'' [i])
     (Some (marshal_struct [(''pin'', marshal_string pin)])) id"

definition Client_FreezeCard :: "env \<Rightarrow> string \<Rightarrow> (int \<times> string) eff" where
  "Client_FreezeCard env i = Client_do env ''POST'' (pathf ''/cards/%s/freeze'' [i]) None id"

definition Client_UnfreezeCard :: "env \<Rightarrow> string \<Rightarrow> (int \<times> string) eff" where
  "Client_UnfreezeCard env i = Client_do env ''POST'' (pathf ''/cards/%s/unfreeze'' [i]) None id"

definition Client_RevealCardDetails :: "env \<Rightarrow> string \<Rightarrow> string \<Rightarrow> bool \<Rightarrow> (int \<times> string) eff" where
  "Client_RevealCardDetails env i stylesheetURL showCopyPanButton =
     Client_do env ''POST'' (pathf ''/cards/%s/reveal'' [i])
       (Some (marshal_struct (omitempty ''stylesheetUrl'' stylesheetURL
                @ [(''showCopyPanButton'', marshal_bool showCopyPanButton)]))) id"

definition Client_UpdateCard3DSChallengeMethod :: "env \<Rightarrow> string \<Rightarrow> string \<Rightarrow> (int \<times> string) eff" where
  "Client_UpdateCard3DSChallengeMethod env i m =
     Client_do env ''PUT'' (pathf ''/cards/%s/3ds-challenge-method'' [i])
       (Some (marshal_struct [(''3dsChallengeMethod'', marshal_string m)])) id"

definition Client_ActivatePhysicalCard :: "env \<Rightarrow> string \<Rightarrow> string \<Rightarrow> (int \<times> string) eff" where
  "Client_ActivatePhysicalCard env i code =
     Client_do env ''POST'' (pathf ''/cards/%s/activate'' [i])
       (Some (marshal_struct [(''activationCode'', marshal_string code)])) id"

definition Client_GetCardActivationCode :: "env \<Rightarrow> string \<Rightarrow> (int \<times> string) eff" where
  "Client_GetCardActivationCode env i =
     Client_do env ''GET'' (pathf ''/cards/%s/activation-code'' [i]) None id"

definition Client_PushProvisionCard ::
    "env \<Rightarrow> string \<Rightarrow> string \<Rightarrow> string \<Rightarrow> string \<Rightarrow> string \<Rightarrow> (int \<times> string) eff" where
  "Client_PushProvisionCard env i provider walletAccountID deviceID key =
     Client_do env ''POST'' (pathf ''/cards/%s/push-provisioning'' [i])
       (Some (marshal_struct [(''provider'', marshal_string provider),
                (''walletAccountId'', marshal_string walletAccountID),
                (''deviceId'', marshal_string deviceID)]))
       (idempotency_opt key)"

definition Client_RespondToCard3DSChallenge :: "env \<Rightarrow> string \<Rightarrow> bool \<Rightarrow> (int \<times> string) eff" where
  "Client_RespondToCard3DSChallenge env i approve =
     Client_do env ''POST'' (pathf ''/card-3ds-challenges/%s/respond'' [i])
       (Some (marshal_struct [(''approve'', marshal_bool approve)])) id"

definition Client_GetCard3DSChallenge :: "env \<Rightarrow> string \<Rightarrow> (int \<times> string) eff" where
  "Client_GetCard3DSChallenge env i =
     Client_do env ''GET'' (pathf ''/card-3ds-challenges/%s'' [i]) None id"

section \<open>Card shipments\<close>

record CardShippingAddress =
  sa_Line1 :: string
  sa_Line2 :: string
  sa_Zone :: string
  sa_City :: string
  sa_PostalCode :: string
  sa_Country :: string

record CardShipmentRecipient =
  sr_FirstName :: string
  sr_LastName :: string
  sr_PhoneNumber :: string
  sr_DialCode :: int
  sr_Email :: string

record CardShipmentCourier =
  co_Type :: string
  co_Name :: string

record CardShipmentMember =
  cm_CardID :: string
  cm_CardDesignID :: string
  cm_ShippingAddress :: CardShippingAddress

record CreateCardShipmentRequest =
  cs_DestinationAddress :: CardShippingAddress
  cs_Recipient :: CardShipmentRecipient
  cs_Courier :: CardShipmentCourier
  cs_Cards :: "CardShipmentMember list option"  \<comment> \<open>None is the nil slice\<close>

record UpdateCardShipmentRequest =
  us_DestinationAddress :: CardShippingAddress
  us_Recipient :: CardShipmentRecipient
  us_Courier :: CardShipmentCourier

definition json_address :: "CardShippingAddress \<Rightarrow> string" where
  "json_address a = marshal_struct
     ([(''line1'', marshal_string (sa_Line1 a))] @ omitempty ''line2'' (sa_Line2 a)
      @ omitempty ''zone'' (sa_Zone a)
      @ [(''city'', marshal_string (sa_City a)), (''postalCode'', marshal_string (sa_PostalCode a)),
         (''country'', marshal_string (sa_Country a))])"

definition json_recipient :: "CardShipmentRecipient \<Rightarrow> string" where
  "json_recipient r = marshal_struct
     [(''firstName'', marshal_string (sr_FirstName r)), (''lastName'', marshal_string (sr_LastName r)),
      (''phoneNumber'', marshal_string (sr_PhoneNumber r)), (''dialCode'', Itoa (sr_DialCode r)),
      (''email'', marshal_string (sr_Email r))]"

definition json_courier :: "CardShipmentCourier \<Rightarrow> string" where
  "json_courier c = marshal_struct ((''type'', marshal_string (co_Type c)) # omitempty ''name'' (co_Name c))"

definition json_member :: "CardShipmentMember \<Rightarrow> string" where
  "json_member m = marshal_struct
     [(''cardId'', marshal_string (cm_CardID m)), (''cardDesignId'', marshal_string (cm_CardDesignID m)),
      (''shippingAddress'', json_address (cm_ShippingAddress m))]"

definition json_create_shipment :: "CreateCardShipmentRequest \<Rightarrow> string" where
  "json_create_shipment r = marshal_struct
     [(''destinationAddress'', json_address (cs_DestinationAddress r)),
      (''recipient'', json_recipient (cs_Recipient r)), (''courier'', json_courier (cs_Courier r)),
      (''cards'', (case cs_Cards r of None \<Rightarrow> ''null'' | Some ms \<Rightarrow> marshal_array (map json_member ms)))]"

definition json_update_shipment :: "UpdateCardShipmentRequest \<Rightarrow> string" where
  "json_update_shipment r = marshal_struct
     [(''destinationAddress'', json_address (us_DestinationAddress r)),
      (''recipient'', json_recipient (us_Recipient r)), (''courier'', json_courier (us_Courier r))]"

definition Client_CreateCardShipment :: "env \<Rightarrow> CreateCardShipmentRequest \<Rightarrow> (int \<times> string) eff" where
  "Client_CreateCardShipment env r =
     Client_do env ''POST'' ''/card-shipments/'' (Some (json_create_shipment r)) id"

definition Client_ListCardShipments :: "env \<Rightarrow> url_values \<Rightarrow> (int \<times> string) eff" where
  "Client_ListCardShipments env q = Client_do env ''GET'' (''/card-shipments/?'' @ Values_Encode q) None id"

definition Client_GetCardShipment :: "env \<Rightarrow> string \<Rightarrow> (int \<times> string) eff" where
  "Client_GetCardShipment env i = Client_do env ''GET'' (pathf ''/card-shipments/%s'' [i]) None id"

definition Client_DeleteCardShipment :: "env \<Rightarrow> string \<Rightarrow> (int \<times> string) eff" where
  "Client_DeleteCardShipment env i = Client_do env ''DELETE'' (pathf ''/card-shipments/%s'' [i]) None id"

definition Client_UpdateCardShipment :: "env \<Rightarrow> string \<Rightarrow> UpdateCardShipmentRequest \<Rightarrow> (int \<times> string) eff" where
  "Client_UpdateCardShipment env i r =
     Client_do env ''PATCH'' (pathf ''/card-shipments/%s'' [i]) (Some (json_update_shipment r)) id"

definition Client_AddCardToShipment :: "env \<Rightarrow> string \<Rightarrow> CardShipmentMember \<Rightarrow> (int \<times> string) eff" where
  "Client_AddCardToShipment env i m =
     Client_do env ''POST'' (pathf ''/card-shipments/%s/cards'' [i]) (Some (json_member m)) id"

definition Client_RemoveCardFromShipment :: "env \<Rightarrow> string \<Rightarrow> string \<Rightarrow> (int \<times> string) eff" where
  "Client_RemoveCardFromShipment env i memberID =
     Client_do env ''DELETE'' (pathf ''/card-shipments/%s/cards/%s'' [i, memberID]) None id"

definition Client_SubmitCardShipment :: "env \<Rightarrow> string \<Rightarrow> string \<Rightarrow> (int \<times> string) eff" where
  "Client_SubmitCardShipment env i key =
     Client_do env ''POST'' (pathf ''/card-shipments/%s/submit'' [i]) None (idempotency key)"

section \<open>Designs, transactions, activities, fraud alerts\<close>

record ReportFraudRequest =
  rf_TransactionID :: string
  rf_Type :: string
  rf_CardholderNotifiedAt :: string

record RespondToFraudAlertRequest =
  ra_Response :: string
  ra_Type :: string

definition json_report_fraud :: "ReportFraudRequest \<Rightarrow> string" where
  "json_report_fraud r = marshal_struct
     ([(''transactionId'', marshal_string (rf_TransactionID r)), (''type'', marshal_string (rf_Type r))]
      @ omitempty ''cardholderNotifiedAt'' (rf_CardholderNotifiedAt r))"

definition json_respond_alert :: "RespondToFraudAlertRequest \<Rightarrow> string" where
  "json_respond_alert r = marshal_struct
     ((''response'', marshal_string (ra_Response r)) # omitempty ''type'' (ra_Type r))"

definition Client_ListCardDesigns :: "env \<Rightarrow> url_values \<Rightarrow> (int \<times> string) eff" where
  "Client_ListCardDesigns env q = Client_do env ''GET'' (''/card-designs/?'' @ Values_Encode q) None id"

definition Client_GetCardDesign :: "env \<Rightarrow> string \<Rightarrow> (int \<times> string) eff" where
  "Client_GetCardDesign env i = Client_do env ''GET'' (pathf ''/card-designs/%s'' [i]) None id"

definition Client_GetCardTransaction :: "env \<Rightarrow> string \<Rightarrow> (int \<times> string) eff" where
  "Client_GetCardTransaction env i = Client_do env ''GET'' (pathf ''/card-transactions/%s'' [i]) None id"

definition Client_ListActivities :: "env \<Rightarrow> url_values \<Rightarrow> (int \<times> string) eff" where
  "Client_ListActivities env q = Client_do env ''GET'' (''/activities/?'' @ Values_Encode q) None id"

definition Client_ListFraudAlerts :: "env \<Rightarrow> url_values \<Rightarrow> (int \<times> string) eff" where
  "Client_ListFraudAlerts env q = Client_do env ''GET'' (''/fraud-alerts/?'' @ Values_Encode q) None id"

definition Client_ReportFraud :: "env \<Rightarrow> ReportFraudRequest \<Rightarrow> string \<Rightarrow> (int \<times> string) eff" where
  "Client_ReportFraud env r key =
     Client_do env ''POST'' ''/fraud-alerts/'' (Some (json_report_fraud r)) (idempotency_opt key)"

definition Client_GetFraudAlert :: "env \<Rightarrow> string \<Rightarrow> (int \<times> string) eff" where
  "Client_GetFraudAlert env i = Client_do env ''GET'' (pathf ''/fraud-alerts/%s'' [i]) None id"

definition Client_RespondToFraudAlert ::
    "env \<Rightarrow> string \<Rightarrow> RespondToFraudAlertRequest \<Rightarrow> string \<Rightarrow> (int \<times> string) eff" where
  "Client_RespondToFraudAlert env i r key =
     Client_do env ''POST'' (pathf ''/fraud-alerts/%s/respond'' [i]) (Some (json_respond_alert r))
       (idempotency_opt key)"

section \<open>Simulation endpoints\<close>

type_synonym float64 = string
  \<comment> \<open>a finite \<open>float64\<close>, as the text \<open>json.Marshal\<close> writes for it\<close>

definition omitzero :: "string \<Rightarrow> float64 \<Rightarrow> (string \<times> string) list" where
  "omitzero name f = (if f = ''0'' \<or> f = ''-0'' then [] else [(name, f)])"

record CompanyAddress =
  ad_Line1 :: string
  ad_Line2 :: string
  ad_City :: string
  ad_State :: string
  ad_PostalCode :: string
  ad_Country :: string

record CompanyApplicationDetails =
  cd_LegalEntityName :: string
  cd_RegistrationNumber :: string
  cd_Country :: string
  cd_RegisteredAddress :: CompanyAddress
  cd_OperationalAddress :: CompanyAddress

record SimulateCompanyStatusRequest =
  sc_Status :: string
  sc_ApplicationDetails :: "CompanyApplicationDetails option"

record SimulationMerchant =
  me_Name :: string
  me_City :: string
  me_PostCode :: string
  me_State :: string
  me_Country :: string
  me_MCCCode :: string
  me_MCCCategory :: string

record SimulateCardTransactionRequest =
  st_CardID :: string
  st_Amount :: float64
  st_TransactionID :: string
  st_OriginalAmount :: float64
  st_OriginalCurrency :: string
  st_Channel :: string
  st_DigitalWallet :: string
  st_DeclineReason :: string
  st_Merchant :: "SimulationMerchant option"

definition json_company_address :: "CompanyAddress \<Rightarrow> string" where
  "json_company_address a = marshal_struct
     ([(''line1'', marshal_string (ad_Line1 a))] @ omitempty ''line2'' (ad_Line2 a)
      @ omitempty ''city'' (ad_City a) @ omitempty ''state'' (ad_State a)
      @ omitempty ''postalCode'' (ad_PostalCode a) @ [(''country'', marshal_string (ad_Country a))])"

definition json_company_details :: "CompanyApplicationDetails \<Rightarrow> string" where
  "json_company_details d = marshal_struct
     [(''legalEntityName'', marshal_string (cd_LegalEntityName d)),
      (''registrationNumber'', marshal_string (cd_RegistrationNumber d)),
      (''country'', marshal_string (cd_Country d)),
      (''registeredAddress'', json_company_address (cd_RegisteredAddress d)),
      (''operationalAddress'', json_company_address (cd_OperationalAddress d))]"

definition json_company_status :: "SimulateCompanyStatusRequest \<Rightarrow> string" where
  "json_company_status r = marshal_struct
     ((''status'', marshal_string (sc_Status r))
      # omitnil ''applicationDetails'' json_company_details (sc_ApplicationDetails r))"

definition json_merchant :: "SimulationMerchant \<Rightarrow> string" where
  "json_merchant m = marshal_struct
     (omitempty ''name'' (me_Name m) @ omitempty ''city'' (me_City m)
      @ omitempty ''postCode'' (me_PostCode m) @ omitempty ''state'' (me_State m)
      @ omitempty ''country'' (me_Country m) @ omitempty ''mccCode'' (me_MCCCode m)
      @ omitempty ''mccCategory'' (me_MCCCategory m))"

definition json_simulate :: "SimulateCardTransactionRequest \<Rightarrow> string" where
  "json_simulate r = marshal_struct
     ([(''cardId'', marshal_string (st_CardID r)), (''amount'', st_Amount r)]
      @ omitempty ''transactionId'' (st_TransactionID r)
      @ omitzero ''originalAmount'' (st_OriginalAmount r)
      @ omitempty ''originalCurrency'' (st_OriginalCurrency r)
      @ omitempty ''channel'' (st_Channel r) @ omitempty ''digitalWallet'' (st_DigitalWallet r)
      @ omitempty ''declineReason'' (st_DeclineReason r) @ omitnil ''merchant'' json_merchant (st_Merchant r))"

definition Client_SimulateUserApplicationStatus :: "env \<Rightarrow> string \<Rightarrow> string \<Rightarrow> (int \<times> string) eff" where
  "Client_SimulateUserApplicationStatus env uid target =
     Client_do env ''POST'' (pathf ''/simulation/users/%s/application'' [uid])
       (Some (marshal_struct [(''status'', marshal_string target)])) id"

definition Client_SimulateCompanyStatus :: "env \<Rightarrow> string \<Rightarrow> SimulateCompanyStatusRequest \<Rightarrow> (int \<times> string) eff" where
  "Client_SimulateCompanyStatus env cid r =
     Client_do env ''POST'' (pathf ''/simulation/companies/%s/status'' [cid]) (Some (json_company_status r)) id"

definition Client_SimulateAccountStatus :: "env \<Rightarrow> string \<Rightarrow> string \<Rightarrow> (int \<times> string) eff" where
  "Client_SimulateAccountStatus env i target =
     Client_do env ''POST'' (pathf ''/simulation/accounts/%s/status'' [i])
       (Some (marshal_struct [(''status'', marshal_string target)])) id"

definition Client_SimulateCardStatus :: "env \<Rightarrow> string \<Rightarrow> string \<Rightarrow> (int \<times> string) eff" where
  "Client_SimulateCardStatus env i target =
     Client_do env ''POST'' (pathf ''/simulation/cards/%s/status'' [i])
       (Some (marshal_struct [(''status'', marshal_string target)])) id"

definition simulateCardTransaction :: "env \<Rightarrow> string \<Rightarrow> SimulateCardTransactionRequest \<Rightarrow> (int \<times> string) eff" where
  "simulateCardTransaction env path r = Client_do env ''POST'' path (Some (json_simulate r)) id"

definition Client_SimulateAuthorization :: "env \<Rightarrow> SimulateCardTransactionRequest \<Rightarrow> (int \<times> string) eff" where
  "Client_SimulateAuthorization env r =
     simulateCardTransaction env ''/simulation/card-transactions/authorization'' r"

definition Client_SimulateThreeDSAuthorization :: "env \<Rightarrow> SimulateCardTransactionRequest \<Rightarrow> (int \<times> string) eff" where
  "Client_SimulateThreeDSAuthorization env r =
     simulateCardTransaction env ''/simulation/card-transactions/authorization-with-3ds'' r"

definition Client_SimulateDecline :: "env \<Rightarrow> SimulateCardTransactionRequest \<Rightarrow> (int \<times> string) eff" where
  "Client_SimulateDecline env r =
     simulateCardTransaction env ''/simulation/card-transactions/decline'' r"

definition Client_SimulateClearing :: "env \<Rightarrow> SimulateCardTransactionRequest \<Rightarrow> (int \<times> string) eff" where
  "Client_SimulateClearing env r =
     simulateCardTransaction env ''/simulation/card-transactions/clearing'' r"

definition Client_SimulateReversal :: "env \<Rightarrow> SimulateCardTransactionRequest \<Rightarrow> (int \<times> string) eff" where
  "Client_SimulateReversal env r =
     simulateCardTransaction env ''/simulation/card-transactions/reversal'' r"

definition Client_SimulateRefund :: "env \<Rightarrow> SimulateCardTransactionRequest \<Rightarrow> (int \<times> string) eff" where
  "Client_SimulateRefund env r =
     simulateCardTransaction env ''/simulation/card-transactions/refund'' r"


section \<open>One request per call\<close>

lemmas client_defs =
  Client_CreateUser_def Client_GetUser_def Client_UpdateEmail_def Client_UpdatePhoneNumber_def
  Client_AdvanceUserApplication_def Client_CreateAccount_def Client_GenerateSignerMessage_def
  Client_GetAccount_def Client_GetAccountBalance_def Client_GetAccountAssets_def
  Client_ListAccounts_def Client_CreateCard_def Client_ListCards_def Client_GetCard_def
  Client_DeleteCard_def Client_UpdateCardPin_def Client_FreezeCard_def Client_UnfreezeCard_def
  Client_RevealCardDetails_def Client_UpdateCard3DSChallengeMethod_def
  Client_ActivatePhysicalCard_def Client_GetCardActivationCode_def Client_PushProvisionCard_def
  Client_RespondToCard3DSChallenge_def Client_GetCard3DSChallenge_def
  Client_CreateCardShipment_def Client_ListCardShipments_def Client_GetCardShipment_def
  Client_DeleteCardShipment_def Client_UpdateCardShipment_def Client_AddCardToShipment_def
  Client_RemoveCardFromShipment_def Client_SubmitCardShipment_def Client_ListCardDesigns_def
  Client_GetCardDesign_def Client_GetCardTransaction_def Client_ListActivities_def
  Client_ListFraudAlerts_def Client_ReportFraud_def Client_GetFraudAlert_def
  Client_RespondToFraudAlert_def Client_SimulateUserApplicationStatus_def
  Client_SimulateCompanyStatus_def Client_SimulateAccountStatus_def Client_SimulateCardStatus_def
  simulateCardTransaction_def Client_SimulateAuthorization_def
  Client_SimulateThreeDSAuthorization_def Client_SimulateDecline_def Client_SimulateClearing_def
  Client_SimulateReversal_def Client_SimulateRefund_def

text \<open>
  Whatever it returns, a call hands exactly one request to the HTTP client and touches neither the
  database nor the notification queue; what it returns is REAP's answer to that request.
\<close>

lemma Client_report_total:
  "\<exists>m. Client_report env meth path start result w = (Inr (), w\<lparr>metrics := m, tick := Suc (tick w)\<rparr>)"
proof -
  define tags where "tags = [''method:'' @ meth, ''path:'' @ metricPath path,
    ''status:'' @ Itoa (case result of Inl _ \<Rightarrow> 0 | Inr (st, _) \<Rightarrow> st)]"
  obtain m1 where c: "statsd_Count (stats (reap env)) ''reap.request.count'' 1 tags w = (Inr (), w\<lparr>metrics := m1\<rparr>)"
    using statsd_total(1) by blast
  obtain m2 where t: "statsd_Timing (stats (reap env)) ''reap.request.duration'' (clock env (tick w) - start) tags
      (w\<lparr>metrics := m1, tick := Suc (tick w)\<rparr>)
        = (Inr (), w\<lparr>metrics := m1, tick := Suc (tick w)\<rparr>\<lparr>metrics := m2\<rparr>)"
    using statsd_total(2) by blast
  have "Client_report env meth path start result w = (Inr (), w\<lparr>metrics := m2, tick := Suc (tick w)\<rparr>)"
    unfolding Client_report_def Let_def tags_def [symmetric] using c t
    by (simp add: andThen_def time_now_def)
  then show ?thesis by blast
qed

lemma Client_do_run:
  assumes "Client_do env m p b opts w = (r, w')"
  shows "sent w' = sent w @ [reap_request env m p b opts]"
    and "wdb w' = wdb w" and "tasks w' = tasks w" and "tick w' = tick w + 3"
    and "r = (case reap_answer env (Suc (tick w)) (reap_request env m p b opts) of
                None \<Rightarrow> Inl ErrTransport | Some a \<Rightarrow> Inr a)"
proof -
  let ?q = "reap_request env m p b opts"
  let ?res = "case reap_answer env (Suc (tick w)) ?q of None \<Rightarrow> Inl ErrTransport | Some a \<Rightarrow> Inr a"
  let ?w2 = "w\<lparr>sent := sent w @ [?q], tick := Suc (Suc (tick w))\<rparr>"
  obtain m1 where c: "Client_report env m p (clock env (tick w)) ?res ?w2
      = (Inr (), ?w2\<lparr>metrics := m1, tick := Suc (tick ?w2)\<rparr>)"
    using Client_report_total by blast
  have "Client_do env m p b opts w = (?res, ?w2\<lparr>metrics := m1, tick := Suc (tick ?w2)\<rparr>)"
    using c by (cases "reap_answer env (Suc (tick w)) ?q")
      (simp_all add: Client_do_def andThen_def attempt_def time_now_def http_Do_def)
  then show "sent w' = sent w @ [?q]" "wdb w' = wdb w" "tasks w' = tasks w" "tick w' = tick w + 3" "r = ?res"
    using assms by auto
qed

lemmas Client_do_out = Client_do_run [OF prod.collapse [symmetric]]

lemma Client_do_evolves [evo_intros]: "evolves w (snd (Client_do env m p b opts w))"
  by (simp add: evolves_def Client_do_out(1-4))

lemma Client_do_keeps [unqueued_intros, unwritten_intros]:
  "keeps_tasks w (snd (Client_do env m p b opts w))" "keeps_db w (snd (Client_do env m p b opts w))"
  by (simp_all add: keeps_tasks_def keeps_db_def Client_do_out(1-4))

end
