(* ===== verification/Ownership.thy ===== *)
theory Ownership
  imports World
begin

text \<open>
  The ownership stores: \<open>internal/cardownership\<close>, \<open>internal/accountownership\<close> and
  \<open>internal/usercardownership\<close>. Each keeps one table from a REAP resource ID to the vault (or
  REAP user) that created it. The three share a contract, the locale \<open>ownership_store\<close>; the
  services' ownership checks are verified against the contract and instantiated for each store.
\<close>

section \<open>Package cardownership\<close>

definition sql_card_insert :: "string \<Rightarrow> string \<Rightarrow> unit stmt" where
  "sql_card_insert pk cid now d = (Inr (),
     d\<lparr>card_ownership := insert_new cid \<lparr>o_owner = pk, o_created_at = now\<rparr> (card_ownership d)\<rparr>)"

definition sql_card_owner :: "string \<Rightarrow> string option stmt" where
  "sql_card_owner cid now d = (Inr (map_option o_owner (map_of (card_ownership d) cid)), d)"

definition cardownership_Record :: "env \<Rightarrow> string \<Rightarrow> string \<Rightarrow> unit eff" where
  "cardownership_Record env pk cid = db_exec env (sql_card_insert pk cid)"

definition cardownership_IsOwner :: "env \<Rightarrow> string \<Rightarrow> string \<Rightarrow> bool eff" where
  "cardownership_IsOwner env pk cid =
     andThen (db_exec env (sql_card_owner cid))
       (\<lambda>row. case row of None \<Rightarrow> ret False | Some own \<Rightarrow> ret (own = pk))"

definition cardownership_OwnerOf :: "env \<Rightarrow> string \<Rightarrow> string eff" where
  "cardownership_OwnerOf env cid =
     andThen (db_exec env (sql_card_owner cid))
       (\<lambda>row. case row of None \<Rightarrow> ret [] | Some own \<Rightarrow> ret own)"

section \<open>Package accountownership\<close>

definition sql_account_insert :: "string \<Rightarrow> string \<Rightarrow> unit stmt" where
  "sql_account_insert pk aid now d = (Inr (),
     d\<lparr>account_ownership := insert_new aid \<lparr>o_owner = pk, o_created_at = now\<rparr> (account_ownership d)\<rparr>)"

definition sql_account_owner :: "string \<Rightarrow> string option stmt" where
  "sql_account_owner aid now d = (Inr (map_option o_owner (map_of (account_ownership d) aid)), d)"

definition accountownership_Record :: "env \<Rightarrow> string \<Rightarrow> string \<Rightarrow> unit eff" where
  "accountownership_Record env pk aid = db_exec env (sql_account_insert pk aid)"

definition accountownership_IsOwner :: "env \<Rightarrow> string \<Rightarrow> string \<Rightarrow> bool eff" where
  "accountownership_IsOwner env pk aid =
     andThen (db_exec env (sql_account_owner aid))
       (\<lambda>row. case row of None \<Rightarrow> ret False | Some own \<Rightarrow> ret (own = pk))"

definition accountownership_OwnerOf :: "env \<Rightarrow> string \<Rightarrow> string eff" where
  "accountownership_OwnerOf env aid =
     andThen (db_exec env (sql_account_owner aid))
       (\<lambda>row. case row of None \<Rightarrow> ret [] | Some own \<Rightarrow> ret own)"

section \<open>Package usercardownership\<close>

definition sql_user_card_insert :: "string \<Rightarrow> string \<Rightarrow> unit stmt" where
  "sql_user_card_insert uid cid now d = (Inr (),
     d\<lparr>user_card_ownership := insert_new cid \<lparr>o_owner = uid, o_created_at = now\<rparr> (user_card_ownership d)\<rparr>)"

definition sql_user_card_owner :: "string \<Rightarrow> string option stmt" where
  "sql_user_card_owner cid now d = (Inr (map_option o_owner (map_of (user_card_ownership d) cid)), d)"

definition usercardownership_Record :: "env \<Rightarrow> string \<Rightarrow> string \<Rightarrow> unit eff" where
  "usercardownership_Record env uid cid = db_exec env (sql_user_card_insert uid cid)"

definition usercardownership_IsOwner :: "env \<Rightarrow> string \<Rightarrow> string \<Rightarrow> bool eff" where
  "usercardownership_IsOwner env uid cid =
     andThen (db_exec env (sql_user_card_owner cid))
       (\<lambda>row. case row of None \<Rightarrow> ret False | Some own \<Rightarrow> ret (own = uid))"

section \<open>The contract of an ownership store\<close>

definition owner_in :: "(string, ownership_row) table \<Rightarrow> string \<Rightarrow> string option" where
  "owner_in t k = map_option o_owner (map_of t k)"

locale ownership_store =
  fixes tbl :: "db \<Rightarrow> (string, ownership_row) table"
    and rec :: "env \<Rightarrow> string \<Rightarrow> string \<Rightarrow> unit eff"
    and isown :: "env \<Rightarrow> string \<Rightarrow> string \<Rightarrow> bool eff"
  assumes isown_Inr: "isown env pk k w = (Inr b, w') \<Longrightarrow> b \<longleftrightarrow> owner_in (tbl (wdb w)) k = Some pk"
    and isown_Inl: "isown env pk k w = (Inl e, w') \<Longrightarrow> e = ErrDb"
    and isown_total: "db_fault env (tick w) = NoFault \<Longrightarrow> \<exists>b. fst (isown env pk k w) = Inr b"
    and isown_db: "keeps_db w (snd (isown env pk k w))"
    and isown_silent: "keeps_sent w (snd (isown env pk k w))"
    and rec_Inr: "rec env pk k w = (Inr (), w') \<Longrightarrow>
          owner_in (tbl (wdb w')) k = (case owner_in (tbl (wdb w)) k of None \<Rightarrow> Some pk | Some p \<Rightarrow> Some p)"
    and rec_evolves: "evolves w (snd (rec env pk k w))"
    and rec_silent: "keeps_sent w (snd (rec env pk k w))"
    and tbl_le: "db_le d d' \<Longrightarrow> owner_in (tbl d) k = Some p \<Longrightarrow> owner_in (tbl d') k = Some p"
begin

text \<open>The first one to record an ID is its owner, and a later record does not change that.\<close>

lemma record_first_wins:
  assumes "rec env pk k w = (Inr (), w')" and "owner_in (tbl (wdb w)) k = None"
  shows "owner_in (tbl (wdb w')) k = Some pk"
  using rec_Inr [OF assms(1)] assms(2) by simp

lemma owner_stable:
  assumes "evolves w w'" and "owner_in (tbl (wdb w)) k = Some p"
  shows "owner_in (tbl (wdb w')) k = Some p"
  using assms tbl_le by (auto simp: evolves_def)

lemma recorded_then_owner:
  assumes "rec env pk k w = (Inr (), w1)" and "owner_in (tbl (wdb w)) k = None"
    and "evolves w1 w2" and "isown env' pk' k w2 = (Inr b, w3)"
  shows "b \<longleftrightarrow> pk' = pk"
  using isown_Inr [OF assms(4)] owner_stable [OF assms(3) record_first_wins [OF assms(1,2)]] by auto

text \<open>
  The gate the services put in front of an action on a resource: an error of the store, an error
  for a caller who is not the recorded owner, and otherwise nothing at all.
\<close>

lemma gate_cases:
  obtains
    (db_error) "andThen (isown env pk k) (\<lambda>owned. if owned then ret () else fail ErrResourceNotOwned) w
        = (Inl ErrDb, snd (isown env pk k w))"
  | (refused) "andThen (isown env pk k) (\<lambda>owned. if owned then ret () else fail ErrResourceNotOwned) w
        = (Inl ErrResourceNotOwned, snd (isown env pk k w))" "owner_in (tbl (wdb w)) k \<noteq> Some pk"
  | (passed) "andThen (isown env pk k) (\<lambda>owned. if owned then ret () else fail ErrResourceNotOwned) w
        = (Inr (), snd (isown env pk k w))" "owner_in (tbl (wdb w)) k = Some pk"
proof (cases "isown env pk k w")
  case (Pair r w')
  show ?thesis
  proof (cases r)
    case (Inl e)
    then show ?thesis using Pair db_error isown_Inl [of env pk k w e w'] by (simp add: andThen_def)
  next
    case (Inr b)
    then show ?thesis using Pair refused passed isown_Inr [of env pk k w b w']
      by (cases b) (simp_all add: andThen_def)
  qed
qed

lemma gate_db: "wdb (snd (isown env pk k w)) = wdb w" and gate_sent: "sent (snd (isown env pk k w)) = sent w"
  using isown_db [of w env pk k] isown_silent [of w env pk k] by (simp_all add: keeps_db_def keeps_sent_def)

lemma gate_passed:
  assumes "andThen (isown env pk k) (\<lambda>owned. if owned then ret () else fail ErrResourceNotOwned) w = (Inr (), w')"
  shows "owner_in (tbl (wdb w)) k = Some pk" and "wdb w' = wdb w" and "sent w' = sent w"
  using assms by (cases rule: gate_cases [of env pk k w]; auto simp: gate_db gate_sent)+

lemma gate_refused:
  assumes "andThen (isown env pk k) (\<lambda>owned. if owned then ret () else fail ErrResourceNotOwned) w = (Inl e, w')"
  shows "e \<in> {ErrDb, ErrResourceNotOwned}" and "wdb w' = wdb w" and "sent w' = sent w"
    and "e = ErrResourceNotOwned \<Longrightarrow> owner_in (tbl (wdb w)) k \<noteq> Some pk"
  using assms by (cases rule: gate_cases [of env pk k w]; auto simp: gate_db gate_sent)+

lemma gate_not_owner:
  assumes "owner_in (tbl (wdb w)) k \<noteq> Some pk"
  shows "\<exists>e \<in> {ErrDb, ErrResourceNotOwned}. andThen (isown env pk k)
           (\<lambda>owned. if owned then ret () else fail ErrResourceNotOwned) w = (Inl e, snd (isown env pk k w))"
  using assms by (cases rule: gate_cases [of env pk k w]) auto

end

text \<open>Two of the stores can also be asked for the owner of an ID; \<open>''''\<close> stands for none.\<close>

locale ownership_lookup = ownership_store +
  fixes ownerof :: "env \<Rightarrow> string \<Rightarrow> string eff"
  assumes ownerof_Inr: "ownerof env k w = (Inr p, w') \<Longrightarrow>
      p = (case owner_in (tbl (wdb w)) k of None \<Rightarrow> [] | Some q \<Rightarrow> q)"
    and ownerof_db: "keeps_db w (snd (ownerof env k w))"
begin

lemma ownerof_isown:
  assumes "ownerof env k w = (Inr p, w1)" and "p \<noteq> []" and "isown env pk k w1 = (Inr b, w2)"
  shows "b \<longleftrightarrow> pk = p"
proof -
  have "wdb w1 = wdb w" using ownerof_db [of w env k] assms(1) by (simp add: keeps_db_def)
  then show ?thesis
    using ownerof_Inr [OF assms(1)] isown_Inr [OF assms(3)] assms(2) by (auto split: option.splits)
qed

end

section \<open>The stores satisfy it\<close>

lemma sql_card_insert_ok [stmt_oks]: "stmt_ok (sql_card_insert pk cid)"
  by (rule stmt_okI) (auto simp: sql_card_insert_def db_ok_def db_le_def rows_le_refl rows_le_insert_new)

lemma sql_account_insert_ok [stmt_oks]: "stmt_ok (sql_account_insert pk aid)"
  by (rule stmt_okI) (auto simp: sql_account_insert_def db_ok_def db_le_def rows_le_refl rows_le_insert_new)

lemma sql_user_card_insert_ok [stmt_oks]: "stmt_ok (sql_user_card_insert uid cid)"
  by (rule stmt_okI) (auto simp: sql_user_card_insert_def db_ok_def db_le_def rows_le_refl rows_le_insert_new)

lemma owner_reads [simp]:
  "snd (sql_card_owner cid now d) = d" "snd (sql_account_owner aid now d) = d"
  "snd (sql_user_card_owner cid now d) = d"
  by (simp_all add: sql_card_owner_def sql_account_owner_def sql_user_card_owner_def)

lemmas owner_reads_ok [stmt_oks] =
  owner_reads(1) [THEN stmt_ok_read] owner_reads(2) [THEN stmt_ok_read] owner_reads(3) [THEN stmt_ok_read]

lemma owner_in_insert_new:
  "owner_in (insert_new k r t) k' = (if k' = k \<and> owner_in t k = None then Some (o_owner r) else owner_in t k')"
  by (auto simp: owner_in_def map_of_insert_new)

lemma owner_in_rows_le: "rows_le (=) t t' \<Longrightarrow> owner_in t k = Some p \<Longrightarrow> owner_in t' k = Some p"
  by (fastforce simp: owner_in_def rows_le_def)

text \<open>The shape the three \<open>IsOwner\<close> functions and the two \<open>OwnerOf\<close> functions share.\<close>

lemma query_row_then:
  assumes "\<And>now d. q now d = (Inr (f d), d)"
  shows "andThen (db_exec env q) (\<lambda>x. ret (g x)) w =
     (if db_fault env (tick w) = NoFault then (Inr (g (f (wdb w))), w\<lparr>tick := Suc (tick w)\<rparr>)
      else (Inl ErrDb, w\<lparr>tick := Suc (tick w)\<rparr>))"
  by (cases rule: db_exec_cases [of env q w]) (simp_all add: assms andThen_def)

lemma isowner_eqs:
  "cardownership_IsOwner env pk k = andThen (db_exec env (sql_card_owner k)) (\<lambda>x. ret (x = Some pk))"
  "accountownership_IsOwner env pk k = andThen (db_exec env (sql_account_owner k)) (\<lambda>x. ret (x = Some pk))"
  "usercardownership_IsOwner env pk k = andThen (db_exec env (sql_user_card_owner k)) (\<lambda>x. ret (x = Some pk))"
  "cardownership_OwnerOf env k = andThen (db_exec env (sql_card_owner k))
     (\<lambda>x. ret (case x of None \<Rightarrow> [] | Some p \<Rightarrow> p))"
  "accountownership_OwnerOf env k = andThen (db_exec env (sql_account_owner k))
     (\<lambda>x. ret (case x of None \<Rightarrow> [] | Some p \<Rightarrow> p))"
  by (auto simp: cardownership_IsOwner_def accountownership_IsOwner_def usercardownership_IsOwner_def
      cardownership_OwnerOf_def accountownership_OwnerOf_def intro!: arg_cong [of _ _ "andThen _"]
      split: option.splits)

lemma card_query [simp]:
  "andThen (db_exec env (sql_card_owner k)) (\<lambda>x. ret (g x)) w =
     (if db_fault env (tick w) = NoFault
      then (Inr (g (owner_in (card_ownership (wdb w)) k)), w\<lparr>tick := Suc (tick w)\<rparr>)
      else (Inl ErrDb, w\<lparr>tick := Suc (tick w)\<rparr>))"
  by (rule query_row_then) (simp add: sql_card_owner_def owner_in_def)

lemma account_query [simp]:
  "andThen (db_exec env (sql_account_owner k)) (\<lambda>x. ret (g x)) w =
     (if db_fault env (tick w) = NoFault
      then (Inr (g (owner_in (account_ownership (wdb w)) k)), w\<lparr>tick := Suc (tick w)\<rparr>)
      else (Inl ErrDb, w\<lparr>tick := Suc (tick w)\<rparr>))"
  by (rule query_row_then) (simp add: sql_account_owner_def owner_in_def)

lemma user_card_query [simp]:
  "andThen (db_exec env (sql_user_card_owner k)) (\<lambda>x. ret (g x)) w =
     (if db_fault env (tick w) = NoFault
      then (Inr (g (owner_in (user_card_ownership (wdb w)) k)), w\<lparr>tick := Suc (tick w)\<rparr>)
      else (Inl ErrDb, w\<lparr>tick := Suc (tick w)\<rparr>))"
  by (rule query_row_then) (simp add: sql_user_card_owner_def owner_in_def)

lemma record_cases:
  assumes "db_exec env s w = (Inr (), w')" and "\<And>now d. s now d = (Inr (), f now d)"
  shows "wdb w' = f (clock env (tick w)) (wdb w)"
  using db_exec_Inr(1) [OF assms(1)] assms(2) by simp

interpretation card_store: ownership_lookup card_ownership cardownership_Record
  cardownership_IsOwner cardownership_OwnerOf
  by unfold_locales
    (auto simp: isowner_eqs keeps_db_def keeps_sent_def cardownership_Record_def db_le_def
      owner_in_insert_new sql_card_insert_def stmt_oks
      intro: db_exec_evolves owner_in_rows_le db_exec_silent [unfolded keeps_sent_def]
      dest!: record_cases [where f = "\<lambda>now d. snd (sql_card_insert _ _ now d)"]
      split: if_splits option.splits)

interpretation account_store: ownership_lookup account_ownership accountownership_Record
  accountownership_IsOwner accountownership_OwnerOf
  by unfold_locales
    (auto simp: isowner_eqs keeps_db_def keeps_sent_def accountownership_Record_def db_le_def
      owner_in_insert_new sql_account_insert_def stmt_oks
      intro: db_exec_evolves owner_in_rows_le db_exec_silent [unfolded keeps_sent_def]
      dest!: record_cases [where f = "\<lambda>now d. snd (sql_account_insert _ _ now d)"]
      split: if_splits option.splits)

interpretation user_card_store: ownership_store user_card_ownership usercardownership_Record
  usercardownership_IsOwner
  by unfold_locales
    (auto simp: isowner_eqs keeps_db_def keeps_sent_def usercardownership_Record_def db_le_def
      owner_in_insert_new sql_user_card_insert_def stmt_oks
      intro: db_exec_evolves owner_in_rows_le db_exec_silent [unfolded keeps_sent_def]
      dest!: record_cases [where f = "\<lambda>now d. snd (sql_user_card_insert _ _ now d)"]
      split: if_splits option.splits)

section \<open>Frames of the stores\<close>

lemma ownership_evolves [evo_intros]:
  "evolves w (snd (cardownership_Record env pk k w))" "evolves w (snd (accountownership_Record env pk k w))"
  "evolves w (snd (usercardownership_Record env pk k w))"
  "evolves w (snd (cardownership_IsOwner env pk k w))" "evolves w (snd (accountownership_IsOwner env pk k w))"
  "evolves w (snd (usercardownership_IsOwner env pk k w))"
  "evolves w (snd (cardownership_OwnerOf env k w))" "evolves w (snd (accountownership_OwnerOf env k w))"
  unfolding cardownership_Record_def accountownership_Record_def usercardownership_Record_def isowner_eqs
  by (auto intro!: evo_intros stmt_oks simp del: card_query account_query user_card_query)

lemma ownership_silent [silent_intros]:
  "keeps_sent w (snd (cardownership_Record env pk k w))" "keeps_sent w (snd (accountownership_Record env pk k w))"
  "keeps_sent w (snd (usercardownership_Record env pk k w))"
  "keeps_sent w (snd (cardownership_IsOwner env pk k w))" "keeps_sent w (snd (accountownership_IsOwner env pk k w))"
  "keeps_sent w (snd (usercardownership_IsOwner env pk k w))"
  "keeps_sent w (snd (cardownership_OwnerOf env k w))" "keeps_sent w (snd (accountownership_OwnerOf env k w))"
  unfolding cardownership_Record_def accountownership_Record_def usercardownership_Record_def isowner_eqs
  by (auto intro!: silent_intros simp del: card_query account_query user_card_query)

lemma ownership_unqueued [unqueued_intros]:
  "keeps_tasks w (snd (cardownership_Record env pk k w))" "keeps_tasks w (snd (accountownership_Record env pk k w))"
  "keeps_tasks w (snd (usercardownership_Record env pk k w))"
  "keeps_tasks w (snd (cardownership_IsOwner env pk k w))" "keeps_tasks w (snd (accountownership_IsOwner env pk k w))"
  "keeps_tasks w (snd (usercardownership_IsOwner env pk k w))"
  "keeps_tasks w (snd (cardownership_OwnerOf env k w))" "keeps_tasks w (snd (accountownership_OwnerOf env k w))"
  unfolding cardownership_Record_def accountownership_Record_def usercardownership_Record_def isowner_eqs
  by (auto intro!: unqueued_intros simp del: card_query account_query user_card_query)

lemma ownership_unwritten [unwritten_intros]:
  "keeps_db w (snd (cardownership_IsOwner env pk k w))" "keeps_db w (snd (accountownership_IsOwner env pk k w))"
  "keeps_db w (snd (usercardownership_IsOwner env pk k w))"
  "keeps_db w (snd (cardownership_OwnerOf env k w))" "keeps_db w (snd (accountownership_OwnerOf env k w))"
  unfolding isowner_eqs
  by (auto intro!: unwritten_intros simp del: card_query account_query user_card_query)

section \<open>An action behind a check\<close>

text \<open>
  The abstract form of every service call on a resource named by the caller: one lookup, then
  either the action or an error, and the world otherwise as it was.
\<close>

definition owned_then :: "env \<Rightarrow> string option \<Rightarrow> string \<Rightarrow> 'a eff \<Rightarrow> 'a eff" where
  "owned_then env own pk act w =
     (if db_fault env (tick w) \<noteq> NoFault then (Inl ErrDb, w\<lparr>tick := Suc (tick w)\<rparr>)
      else if own \<noteq> Some pk then (Inl ErrResourceNotOwned, w\<lparr>tick := Suc (tick w)\<rparr>)
      else act (w\<lparr>tick := Suc (tick w)\<rparr>))"

lemma isowner_run:
  "cardownership_IsOwner env pk k w =
     (if db_fault env (tick w) = NoFault then Inr (owner_in (card_ownership (wdb w)) k = Some pk)
      else Inl ErrDb, w\<lparr>tick := Suc (tick w)\<rparr>)"
  "accountownership_IsOwner env pk k w =
     (if db_fault env (tick w) = NoFault then Inr (owner_in (account_ownership (wdb w)) k = Some pk)
      else Inl ErrDb, w\<lparr>tick := Suc (tick w)\<rparr>)"
  by (simp_all add: isowner_eqs)

lemma card_gate_then:
  "andThen (andThen (cardownership_IsOwner env pk k) (\<lambda>owned. if owned then ret () else fail ErrResourceNotOwned))
     (\<lambda>_. act) w = owned_then env (owner_in (card_ownership (wdb w)) k) pk act w"
  by (simp add: andThen_def isowner_run owned_then_def)

lemma account_gate_then:
  "andThen (andThen (accountownership_IsOwner env pk k) (\<lambda>owned. if owned then ret () else fail ErrResourceNotOwned))
     (\<lambda>_. act) w = owned_then env (owner_in (account_ownership (wdb w)) k) pk act w"
  by (simp add: andThen_def isowner_run owned_then_def)

text \<open>A refusal: an error, with the database, the requests and the tasks as they were.\<close>

definition refused :: "world \<Rightarrow> 'a res \<times> world \<Rightarrow> bool" where
  "refused w out \<longleftrightarrow> fst out \<in> {Inl ErrDb, Inl ErrResourceNotOwned} \<and> wdb (snd out) = wdb w
     \<and> sent (snd out) = sent w \<and> tasks (snd out) = tasks w"

lemma owned_then_refused: "own \<noteq> Some pk \<Longrightarrow> refused w (owned_then env own pk act w)"
  by (simp add: owned_then_def refused_def)

lemma owned_then_Inr:
  "owned_then env own pk act w = (Inr x, w') \<Longrightarrow> own = Some pk \<and> act (w\<lparr>tick := Suc (tick w)\<rparr>) = (Inr x, w')"
  by (auto simp: owned_then_def split: if_splits)

end
