(* ===== verification/User_Service.thy ===== *)
theory User_Service
  imports Reap_Client Reap_Mapping Ownership
begin

text \<open>
  \<open>internal/service/user.go\<close> and \<open>account.go\<close>: the REAP user of a vault and its accounts. A user
  creation is excluded from running twice by a claim on the vault's row, taken before the request
  to REAP and given back when REAP did not create the user.
\<close>

definition is_2xx :: "int \<Rightarrow> bool" where
  "is_2xx status \<longleftrightarrow> 200 \<le> status \<and> status < 300"

section \<open>UserService\<close>

definition reapUserCreateStale :: int where "reapUserCreateStale = 60 * 10 ^ 9"

definition releaseCreateClaim :: "env \<Rightarrow> string \<Rightarrow> unit eff" where
  \<comment> \<open>its error is only logged\<close>
  "releaseCreateClaim env publicKey = attempt (ReleaseReapUserCreate env publicKey) (\<lambda>_. ret ())"

definition resolveReapUserID :: "env \<Rightarrow> string \<Rightarrow> string eff" where
  "resolveReapUserID env publicKey =
     andThen (GetReapUserID env publicKey) (\<lambda>u. if u = [] then fail ErrNoReapUser else ret u)"

definition UserService_CreateUser :: "env \<Rightarrow> string \<Rightarrow> CreateUserRequest \<Rightarrow> (int \<times> string) eff" where
  "UserService_CreateUser env publicKey req =
     andThen (ClaimReapUserCreate env publicKey reapUserCreateStale) (\<lambda>claimed.
       if \<not> claimed then
         andThen (GetReapUserID env publicKey) (\<lambda>existing.
           if existing \<noteq> [] then fail ErrReapUserExists else fail ErrReapUserCreateInFlight)
       else
         attempt (Client_CreateUser env req) (\<lambda>r. case r of
           Inl e \<Rightarrow> andThen (releaseCreateClaim env publicKey) (\<lambda>_. fail e)
         | Inr (status, body) \<Rightarrow>
             if \<not> is_2xx status
             then andThen (releaseCreateClaim env publicKey) (\<lambda>_. ret (status, body))
             else (case unmarshal_string_field ''id'' body of
                 None \<Rightarrow> fail (ErrNew ''reap: create user response missing id'')
               | Some i \<Rightarrow>
                   if i = [] then fail (ErrNew ''reap: create user response missing id'')
                   else andThen (SetReapUserID env publicKey i) (\<lambda>ok. ret (status, body)))))"

definition UserService_GetUser :: "env \<Rightarrow> string \<Rightarrow> (int \<times> string) eff" where
  "UserService_GetUser env publicKey =
     andThen (resolveReapUserID env publicKey) (\<lambda>u. Client_GetUser env u)"

definition UserService_UpdateEmail :: "env \<Rightarrow> string \<Rightarrow> string \<Rightarrow> (int \<times> string) eff" where
  "UserService_UpdateEmail env publicKey email =
     andThen (resolveReapUserID env publicKey) (\<lambda>u. Client_UpdateEmail env u email)"

definition UserService_UpdatePhoneNumber :: "env \<Rightarrow> string \<Rightarrow> string \<Rightarrow> (int \<times> string) eff" where
  "UserService_UpdatePhoneNumber env publicKey phoneNumber =
     andThen (resolveReapUserID env publicKey) (\<lambda>u. Client_UpdatePhoneNumber env u phoneNumber)"

definition UserService_AdvanceUserApplication :: "env \<Rightarrow> string \<Rightarrow> string \<Rightarrow> string \<Rightarrow> (int \<times> string) eff" where
  "UserService_AdvanceUserApplication env publicKey body idempotencyKey =
     andThen (resolveReapUserID env publicKey)
       (\<lambda>u. Client_AdvanceUserApplication env u body idempotencyKey)"

section \<open>AccountService\<close>

definition AccountService_CreateAccount :: "env \<Rightarrow> string \<Rightarrow> Signers option \<Rightarrow> string \<Rightarrow> (int \<times> string) eff" where
  "AccountService_CreateAccount env publicKey signers idempotencyKey =
     andThen (resolveReapUserID env publicKey) (\<lambda>u.
     andThen (Client_CreateAccount env \<lparr>ca_OwnerID = u, ca_Signers = signers\<rparr> idempotencyKey)
       (\<lambda>(status, body).
         if \<not> is_2xx status then ret (status, body)
         else (case unmarshal_string_field ''id'' body of
             None \<Rightarrow> fail (ErrNew ''reap: create account response missing id'')
           | Some i \<Rightarrow>
               if i = [] then fail (ErrNew ''reap: create account response missing id'')
               else andThen (accountownership_Record env publicKey i) (\<lambda>_. ret (status, body)))))"

definition AccountService_GenerateSignerMessage :: "env \<Rightarrow> (int \<times> string) eff" where
  "AccountService_GenerateSignerMessage env = Client_GenerateSignerMessage env"

definition AccountService_checkOwnership :: "env \<Rightarrow> string \<Rightarrow> string \<Rightarrow> unit eff" where
  "AccountService_checkOwnership env publicKey accountID =
     andThen (accountownership_IsOwner env publicKey accountID)
       (\<lambda>owned. if owned then ret () else fail ErrResourceNotOwned)"

definition AccountService_GetAccount :: "env \<Rightarrow> string \<Rightarrow> string \<Rightarrow> (int \<times> string) eff" where
  "AccountService_GetAccount env publicKey i =
     andThen (AccountService_checkOwnership env publicKey i) (\<lambda>_. Client_GetAccount env i)"

definition AccountService_GetAccountBalance :: "env \<Rightarrow> string \<Rightarrow> string \<Rightarrow> (int \<times> string) eff" where
  "AccountService_GetAccountBalance env publicKey i =
     andThen (AccountService_checkOwnership env publicKey i) (\<lambda>_. Client_GetAccountBalance env i)"

definition AccountService_GetAccountAssets :: "env \<Rightarrow> string \<Rightarrow> string \<Rightarrow> (int \<times> string) eff" where
  "AccountService_GetAccountAssets env publicKey i =
     andThen (AccountService_checkOwnership env publicKey i) (\<lambda>_. Client_GetAccountAssets env i)"

definition AccountService_ListAccounts :: "env \<Rightarrow> string \<Rightarrow> int \<Rightarrow> string \<Rightarrow> (int \<times> string) eff" where
  "AccountService_ListAccounts env publicKey limit cursor =
     andThen (resolveReapUserID env publicKey) (\<lambda>u. Client_ListAccounts env u limit cursor)"

section \<open>Frames\<close>

lemma releaseCreateClaim_frames [evo_intros, silent_intros, unqueued_intros]:
  "evolves w (snd (releaseCreateClaim env pk w))" "keeps_sent w (snd (releaseCreateClaim env pk w))"
  "keeps_tasks w (snd (releaseCreateClaim env pk w))"
  unfolding releaseCreateClaim_def
  by (auto intro!: evo_intros silent_intros unqueued_intros)

lemma resolveReapUserID_frames [evo_intros, silent_intros, unqueued_intros, unwritten_intros]:
  "evolves w (snd (resolveReapUserID env pk w))" "keeps_sent w (snd (resolveReapUserID env pk w))"
  "keeps_tasks w (snd (resolveReapUserID env pk w))" "keeps_db w (snd (resolveReapUserID env pk w))"
  unfolding resolveReapUserID_def
  by (auto intro!: evo_intros silent_intros unqueued_intros unwritten_intros)

text \<open>The result of the lookup, in one equation: the whole service stands behind it.\<close>

lemma resolveReapUserID_run:
  "resolveReapUserID env pk w =
     (if db_fault env (tick w) \<noteq> NoFault then Inl ErrDb
      else case reap_user_of (wdb w) pk of
             None \<Rightarrow> Inl ErrNoReapUser | Some u \<Rightarrow> if u = [] then Inl ErrNoReapUser else Inr u,
      w\<lparr>tick := Suc (tick w)\<rparr>)"
  by (simp add: resolveReapUserID_def andThen_def GetReapUserID_eq split: option.split)

lemmas user_service_defs =
  UserService_CreateUser_def UserService_GetUser_def UserService_UpdateEmail_def
  UserService_UpdatePhoneNumber_def UserService_AdvanceUserApplication_def

lemmas account_service_defs =
  AccountService_CreateAccount_def AccountService_GenerateSignerMessage_def
  AccountService_checkOwnership_def AccountService_GetAccount_def
  AccountService_GetAccountBalance_def AccountService_GetAccountAssets_def
  AccountService_ListAccounts_def

lemma user_service_evolves [evo_intros]:
  "evolves w (snd (UserService_CreateUser env pk req w))"
  "evolves w (snd (UserService_GetUser env pk w))"
  "evolves w (snd (UserService_UpdateEmail env pk e w))"
  "evolves w (snd (UserService_UpdatePhoneNumber env pk e w))"
  "evolves w (snd (UserService_AdvanceUserApplication env pk b k w))"
  unfolding user_service_defs client_defs
  by (auto intro!: evo_intros split: sum.splits prod.splits option.splits)

lemma account_service_evolves [evo_intros]:
  "evolves w (snd (AccountService_CreateAccount env pk sg k w))"
  "evolves w (snd (AccountService_GenerateSignerMessage env w))"
  "evolves w (snd (AccountService_GetAccount env pk i w))"
  "evolves w (snd (AccountService_GetAccountBalance env pk i w))"
  "evolves w (snd (AccountService_GetAccountAssets env pk i w))"
  "evolves w (snd (AccountService_ListAccounts env pk l c w))"
  unfolding account_service_defs client_defs Let_def
  by (auto intro!: evo_intros account_store.rec_evolves split: sum.splits prod.splits option.splits)

end
