(* ===== verification/Notification.thy ===== *)
theory Notification
  imports User_Service "HOL-Library.Monad_Syntax"
begin

text \<open>
  \<open>internal/notification/client.go\<close> and the text of the notifications, \<open>notificationBody\<close> of
  \<open>internal/service/webhook.go\<close>. The queue behind the client (asynq on Redis) is the environment's
  \<open>enqueue_ok\<close>. Text functions take the Unicode lower-casing of \<open>strings.ToLower\<close> as \<open>uni\<close>.
\<close>

section \<open>The client\<close>

record notification_Request =
  n_VaultID :: string
  n_Type :: string
  n_Title :: string
  n_Body :: string

definition json_notification :: "notification_Request \<Rightarrow> string" where
  "json_notification r = marshal_struct
     ([(''vault_id'', marshal_string (n_VaultID r)), (''type'', marshal_string (n_Type r))]
      @ omitempty ''title'' (n_Title r) @ omitempty ''body'' (n_Body r))"

definition Notify :: "env \<Rightarrow> notification_Request \<Rightarrow> unit eff" where
  "Notify env r =
     (if n_Type r = [] then fail (ErrNew ''notification: type is required'')
      else enqueue env (json_notification r))"

definition VaultID :: "crypto \<Rightarrow> string \<Rightarrow> string \<Rightarrow> string" where
  "VaultID C pubKeyECDSA hexChainCode = hex_EncodeToString (Sum256 C (pubKeyECDSA @ hexChainCode))"

section \<open>Formatting\<close>

definition humanize :: "(string \<Rightarrow> string) \<Rightarrow> string \<Rightarrow> string" where
  "humanize uni s = ToLower uni (ReplaceAll_char s CHR ''_'' CHR '' '')"

definition formatAmount :: "string \<Rightarrow> string \<Rightarrow> string" where
  "formatAmount amount unit =
     (if amount = [] then unit else if unit = [] then amount else amount @ '' '' @ unit)"

text \<open>
  \<open>time.Parse(time.RFC3339, _)\<close>: fixed widths, except that the hour may have one digit; a fraction
  after a period or a comma. The result keeps the wall-clock fields, which is all the format below
  prints: a time parsed with an offset is printed in that offset.
\<close>

record clock_fields =
  ck_year :: nat
  ck_month :: nat
  ck_day :: nat
  ck_hour :: nat
  ck_min :: nat

definition lead_digit :: "string \<Rightarrow> bool" where
  "lead_digit s = (case s of [] \<Rightarrow> False | c # _ \<Rightarrow> is_digit c)"

definition getnum :: "bool \<Rightarrow> string \<Rightarrow> (nat \<times> string) option" where
  "getnum fixed s =
     (if \<not> lead_digit s then None
      else if \<not> lead_digit (tl s) then (if fixed then None else Some (digit_val (hd s), tl s))
      else Some (10 * digit_val (hd s) + digit_val (hd (tl s)), tl (tl s)))"

definition get_year :: "string \<Rightarrow> (nat \<times> string) option" where
  "get_year s =
     (if length s < 4 \<or> \<not> list_all is_digit (take 4 s) then None
      else Some (foldl (\<lambda>a c. 10 * a + digit_val c) 0 (take 4 s), drop 4 s))"

definition lit :: "char \<Rightarrow> string \<Rightarrow> string option" where
  "lit c s = (case s of [] \<Rightarrow> None | x # xs \<Rightarrow> if x = c then Some xs else None)"

definition skip_frac :: "string \<Rightarrow> string" where
  "skip_frac s =
     (case s of
        c # cs \<Rightarrow> if (c = CHR ''.'' \<or> c = CHR '','') \<and> lead_digit cs then dropWhile is_digit cs else s
      | [] \<Rightarrow> s)"

definition zone_ok :: "string \<Rightarrow> bool" where
  \<comment> \<open>the rest is \<open>Z\<close> or an offset, and nothing follows\<close>
  "zone_ok s =
     (s = ''Z'' \<or>
      (length s = 6 \<and> s ! 3 = CHR '':'' \<and> s ! 0 \<in> {CHR ''+'', CHR ''-''}
       \<and> (case getnum True (take 2 (drop 1 s)) of Some (h, _) \<Rightarrow> h \<le> 24 | None \<Rightarrow> False)
       \<and> (case getnum True (drop 4 s) of Some (m, _) \<Rightarrow> m \<le> 60 | None \<Rightarrow> False)))"

definition days_in :: "nat \<Rightarrow> nat \<Rightarrow> nat" where
  "days_in m y =
     (if m = 2 then (if y mod 4 = 0 \<and> (y mod 100 \<noteq> 0 \<or> y mod 400 = 0) then 29 else 28)
      else if m \<in> {4, 6, 9, 11} then 30 else 31)"

definition Parse_RFC3339 :: "string \<Rightarrow> clock_fields option" where
  "Parse_RFC3339 s0 = do {
     (y, s) \<leftarrow> get_year s0; s \<leftarrow> lit CHR ''-'' s;
     (mo, s) \<leftarrow> getnum True s; s \<leftarrow> lit CHR ''-'' s;
     (d, s) \<leftarrow> getnum True s; s \<leftarrow> lit CHR ''T'' s;
     (h, s) \<leftarrow> getnum False s; s \<leftarrow> lit CHR '':'' s;
     (mi, s) \<leftarrow> getnum True s; s \<leftarrow> lit CHR '':'' s;
     (sec, s) \<leftarrow> getnum True s;
     (if 1 \<le> mo \<and> mo \<le> 12 \<and> 1 \<le> d \<and> d \<le> days_in mo y \<and> h < 24 \<and> mi < 60 \<and> sec < 60
         \<and> zone_ok (skip_frac s)
      then Some \<lparr>ck_year = y, ck_month = mo, ck_day = d, ck_hour = h, ck_min = mi\<rparr>
      else None) }"

definition pad_dec :: "nat \<Rightarrow> nat \<Rightarrow> string" where
  "pad_dec k n = replicate (k - length (nat_dec n)) CHR ''0'' @ nat_dec n"

definition month_abbr :: "nat \<Rightarrow> string" where
  "month_abbr m = [''Jan'', ''Feb'', ''Mar'', ''Apr'', ''May'', ''Jun'', ''Jul'', ''Aug'', ''Sep'',
     ''Oct'', ''Nov'', ''Dec''] ! (m - 1)"

definition Format_stamp :: "clock_fields \<Rightarrow> string" where
  \<comment> \<open>\<open>t.Format("Jan 2, 2006 3:04 PM")\<close>\<close>
  "Format_stamp t =
     month_abbr (ck_month t) @ '' '' @ nat_dec (ck_day t) @ '', '' @ pad_dec 4 (ck_year t) @ '' ''
     @ nat_dec (if ck_hour t mod 12 = 0 then 12 else ck_hour t mod 12) @ '':'' @ pad_dec 2 (ck_min t)
     @ (if ck_hour t \<ge> 12 then '' PM'' else '' AM'')"

definition formatTimestamp :: "string \<Rightarrow> string" where
  "formatTimestamp raw = (case Parse_RFC3339 raw of None \<Rightarrow> raw | Some t \<Rightarrow> Format_stamp t)"

section \<open>The body of a notification\<close>

definition userApplicationBody :: "(string \<Rightarrow> string) \<Rightarrow> string \<Rightarrow> string" where
  "userApplicationBody uni payload =
     (case do { ms \<leftarrow> unmarshal_struct payload; app \<leftarrow> struct_field ''application'' ms; string_field ''status'' app } of
        None \<Rightarrow> ''Your KYC application has been updated''
      | Some status \<Rightarrow>
          if status = [] then ''Your KYC application has been updated''
          else Sprintf ''Your KYC application has been %s'' [humanize uni status])"

definition depositBody :: "(string \<Rightarrow> string) \<Rightarrow> string \<Rightarrow> string \<Rightarrow> string" where
  "depositBody uni payload verb =
     (case do { ms \<leftarrow> unmarshal_struct payload; tx \<leftarrow> string_field ''transactionId'' ms;
                status \<leftarrow> string_field ''status'' ms; amount \<leftarrow> string_field ''amount'' ms;
                at \<leftarrow> string_field ''occurredAt'' ms; asset \<leftarrow> struct_field ''asset'' ms;
                symbol \<leftarrow> string_field ''symbol'' asset; Some (tx, status, amount, at, symbol) } of
        None \<Rightarrow> ''Your deposit has been '' @ verb
      | Some (tx, status, amount, at, symbol) \<Rightarrow>
          Sprintf ''Your deposit has been %s: %s (%s). Tx %s at %s''
            [verb, formatAmount amount symbol, humanize uni status, tx, formatTimestamp at])"

definition transactionBody :: "(string \<Rightarrow> string) \<Rightarrow> string \<Rightarrow> string \<Rightarrow> string" where
  "transactionBody uni payload verb =
     (case do { ms \<leftarrow> unmarshal_struct payload; status \<leftarrow> string_field ''status'' ms;
                amount \<leftarrow> string_field ''amount'' ms; currency \<leftarrow> string_field ''currency'' ms;
                m \<leftarrow> struct_field ''merchant'' ms; name \<leftarrow> string_field ''name'' m;
                Some (status, amount, currency, name) } of
        None \<Rightarrow> verb @ '' card transaction''
      | Some (status, amount, currency, name) \<Rightarrow>
          (let merchant = (if name = [] then ''a merchant'' else name) in
           Sprintf ''%s card transaction: %s at %s (%s)''
             [verb, formatAmount amount currency, merchant, humanize uni status]))"

definition fraudAlertBody :: "(string \<Rightarrow> string) \<Rightarrow> string \<Rightarrow> string" where
  "fraudAlertBody uni payload =
     (case do { ms \<leftarrow> unmarshal_struct payload; status \<leftarrow> string_field ''status'' ms;
                ty \<leftarrow> string_field ''type'' ms; Some (status, ty) } of
        None \<Rightarrow> ''Fraud alert on your card''
      | Some (status, ty) \<Rightarrow>
          if status = [] then ''Fraud alert on your card''
          else if ty = [] then Sprintf ''Fraud alert: %s'' [humanize uni status]
          else Sprintf ''Fraud alert: %s (%s)'' [humanize uni ty, humanize uni status])"

definition shipmentBody :: "(string \<Rightarrow> string) \<Rightarrow> string \<Rightarrow> string" where
  "shipmentBody uni payload =
     (case do { ms \<leftarrow> unmarshal_struct payload; status \<leftarrow> string_field ''status'' ms;
                tn \<leftarrow> string_field ''trackingNumber'' ms; Some (status, tn) } of
        None \<Rightarrow> ''Your card shipment has been updated''
      | Some (status, tn) \<Rightarrow>
          if status = [] then ''Your card shipment has been updated''
          else Sprintf ''Your card shipment is now %s'' [humanize uni status]
               @ (if tn \<noteq> [] then Sprintf '' (tracking %s)'' [tn] else []))"

definition status_body :: "string \<Rightarrow> string \<Rightarrow> (string \<Rightarrow> string) \<Rightarrow> string \<Rightarrow> string" where
  \<comment> \<open>the common form of the three bodies that only show a status\<close>
  "status_body fallback f uni payload =
     (case unmarshal_string_field ''status'' payload of
        None \<Rightarrow> fallback
      | Some status \<Rightarrow> if status = [] then fallback else Sprintf f [humanize uni status])"

definition disputeBody :: "(string \<Rightarrow> string) \<Rightarrow> string \<Rightarrow> string" where
  "disputeBody = status_body ''Your card dispute has been updated'' ''Your card dispute is now %s''"

definition challengeBody :: "string \<Rightarrow> string" where
  "challengeBody payload =
     (case do { ms \<leftarrow> unmarshal_struct payload; m \<leftarrow> struct_field ''merchant'' ms;
                name \<leftarrow> string_field ''name'' m; tr \<leftarrow> struct_field ''transaction'' ms;
                amount \<leftarrow> string_field ''amount'' tr; currency \<leftarrow> string_field ''currency'' tr;
                Some (name, amount, currency) } of
        None \<Rightarrow> ''Approve a card purchase''
      | Some (name, amount, currency) \<Rightarrow>
          (let merchant = (if name = [] then ''a merchant'' else name) in
           Sprintf ''Approve your %s purchase at %s?'' [formatAmount amount currency, merchant]))"

definition cardStatusBody :: "(string \<Rightarrow> string) \<Rightarrow> string \<Rightarrow> string" where
  "cardStatusBody = status_body ''Your card status has been updated'' ''Your card is now %s''"

definition accountStatusBody :: "(string \<Rightarrow> string) \<Rightarrow> string \<Rightarrow> string" where
  "accountStatusBody = status_body ''Your account status has been updated'' ''Your account is now %s''"

definition notificationBody :: "(string \<Rightarrow> string) \<Rightarrow> string \<Rightarrow> string \<Rightarrow> string" where
  "notificationBody uni eventType payload =
     (if eventType = ''USER_APPLICATION_STATUS_UPDATED'' then userApplicationBody uni payload
      else if eventType = ''CRYPTO_DEPOSIT_CREATED'' then depositBody uni payload ''detected''
      else if eventType = ''CRYPTO_DEPOSIT_STATUS_UPDATED'' then depositBody uni payload ''updated''
      else if eventType = ''CARD_TRANSACTION_CREATED'' then transactionBody uni payload ''New''
      else if eventType = ''CARD_TRANSACTION_UPDATED'' then transactionBody uni payload ''Updated''
      else if eventType = ''CARD_FRAUD_ALERT_CREATED'' \<or> eventType = ''CARD_FRAUD_ALERT_STATUS_UPDATED''
        then fraudAlertBody uni payload
      else if eventType = ''CARD_SHIPMENT_STATUS_UPDATED'' then shipmentBody uni payload
      else if eventType = ''CARD_DISPUTE_STATUS_UPDATED'' then disputeBody uni payload
      else if eventType = ''CARD_3DS_CHALLENGE_CREATED'' then challengeBody payload
      else if eventType = ''CARD_STATUS_UPDATED'' then cardStatusBody uni payload
      else if eventType = ''ACCOUNT_STATUS_UPDATED'' then accountStatusBody uni payload
      else humanize uni eventType)"

section \<open>Frames\<close>

lemma Notify_frames [evo_intros, silent_intros, unwritten_intros]:
  "evolves w (snd (Notify env r w))" "keeps_sent w (snd (Notify env r w))" "keeps_db w (snd (Notify env r w))"
  unfolding Notify_def by (auto intro!: evo_intros silent_intros unwritten_intros)

lemma Notify_tasks:
  "tasks (snd (Notify env r w)) = tasks w \<or> tasks (snd (Notify env r w)) = tasks w @ [json_notification r]"
  by (simp add: Notify_def enqueue_def)

end
