(* ===== verification/Reap_Webhook.thy ===== *)
theory Reap_Webhook
  imports World
begin

text \<open>
  \<open>internal/reap/webhook.go\<close>: the check of the signature header of a webhook delivery. Times are
  nanoseconds since the epoch. The saturation of \<open>time.Time.Sub\<close> is beyond the tolerance, so the
  comparison is exact on the unbounded difference.
\<close>

definition webhookTimestampTolerance :: int where
  "webhookTimestampTolerance = 5 * 60 * 10 ^ 9"

definition scan_part :: "string \<times> string \<Rightarrow> string \<Rightarrow> string \<times> string" where
  \<comment> \<open>one turn of the loop over the parts, on \<open>(timestamp, signature)\<close>\<close>
  "scan_part acc part =
     (case Cut part CHR ''='' of (key, val, ok) \<Rightarrow>
        if \<not> ok then acc
        else if key = ''t'' then (val, snd acc)
        else if key = ''v1'' then (fst acc, val)
        else acc)"

definition scan_header :: "string \<Rightarrow> string \<times> string" where
  "scan_header h = foldl scan_part ([], []) (Split h CHR '','')"

definition VerifyWebhookSignature :: "crypto \<Rightarrow> string \<Rightarrow> string \<Rightarrow> string \<Rightarrow> int \<Rightarrow> unit res" where
  "VerifyWebhookSignature C secret rawBody header now =
     (case scan_header header of (timestamp, signature) \<Rightarrow>
        if timestamp = [] \<or> signature = [] then Inl ErrInvalidWebhookSignature
        else (case ParseInt64 timestamp of (ts, e) \<Rightarrow>
          if e \<noteq> None then Inl ErrInvalidWebhookSignature
          else if \<bar>now - ts * 10 ^ 9\<bar> > webhookTimestampTolerance then Inl ErrInvalidWebhookSignature
          else (case hex_DecodeString signature of
                  None \<Rightarrow> Inl ErrInvalidWebhookSignature
                | Some sig \<Rightarrow>
                    if hmac_sha256 C secret (timestamp @ ''.'' @ rawBody) \<noteq> sig
                    then Inl ErrInvalidWebhookSignature
                    else Inr ())))"

section \<open>What it accepts\<close>

definition webhook_signed :: "crypto \<Rightarrow> string \<Rightarrow> string \<Rightarrow> string \<Rightarrow> int \<Rightarrow> bool" where
  \<comment> \<open>the promise: the last timestamp of the header is a recent number of seconds, and its last
      signature is the MAC of that timestamp and the body\<close>
  "webhook_signed C secret body header now \<longleftrightarrow>
     (\<exists>t s ts. scan_header header = (t, s) \<and> t \<noteq> [] \<and> s \<noteq> [] \<and> ParseInt64 t = (ts, None)
        \<and> \<bar>now - ts * 10 ^ 9\<bar> \<le> webhookTimestampTolerance
        \<and> hex_DecodeString s = Some (hmac_sha256 C secret (t @ ''.'' @ body)))"

lemma VerifyWebhookSignature_signed:
  "VerifyWebhookSignature C secret body header now = Inr () \<longleftrightarrow> webhook_signed C secret body header now"
proof -
  obtain t s ts e where "scan_header header = (t, s)" "ParseInt64 t = (ts, e)" by fastforce
  then show ?thesis
    by (cases "hex_DecodeString s"; cases e)
      (auto simp: VerifyWebhookSignature_def webhook_signed_def)
qed

lemma VerifyWebhookSignature_error:
  "VerifyWebhookSignature C secret body header now = Inl e \<Longrightarrow> e = ErrInvalidWebhookSignature"
  by (auto simp: VerifyWebhookSignature_def split: prod.splits option.splits if_splits)

text \<open>The header REAP sends for a body at a time is scanned back into its two parts.\<close>

definition webhook_header :: "crypto \<Rightarrow> string \<Rightarrow> string \<Rightarrow> int \<Rightarrow> string" where
  "webhook_header C secret body ts =
     ''t='' @ FormatInt ts @ '',v1='' @ hex_EncodeToString (hmac_sha256 C secret (FormatInt ts @ ''.'' @ body))"

lemma FormatInt_chars: "c \<in> set (FormatInt i) \<Longrightarrow> is_digit c \<or> c = CHR ''-''"
  by (auto simp: FormatInt_def split: if_splits dest: nat_dec_digits)

lemma hex_EncodeToString_sep: "CHR '','' \<notin> set (hex_EncodeToString s)"
  by (auto dest!: hex_EncodeToString_chars)

lemma scan_webhook_header:
  assumes "CHR '','' \<notin> set x"
  shows "scan_header (''t='' @ FormatInt ts @ '',v1='' @ x) = (FormatInt ts, x)"
proof -
  have c: "CHR '','' \<notin> set (''t='' @ FormatInt ts)"
    by (auto dest!: FormatInt_chars simp: is_digit_def)
  have x: "CHR '','' \<notin> set (''v1='' @ x)" using assms by simp
  have "Split (''t='' @ FormatInt ts @ '',v1='' @ x) CHR '','' = [''t='' @ FormatInt ts, ''v1='' @ x]"
    using Split_append_no_sep [OF c, of "''v1='' @ x"] Split_none [OF x] by simp
  moreover have "Cut (''t='' @ FormatInt ts) CHR ''='' = (''t'', FormatInt ts, True)"
    using Cut_found [of "CHR ''=''" "''t''" "FormatInt ts"] by simp
  moreover have "Cut (''v1='' @ x) CHR ''='' = (''v1'', x, True)"
    using Cut_found [of "CHR ''=''" "''v1''" x] by simp
  ultimately show ?thesis by (simp add: scan_header_def scan_part_def)
qed

lemma FormatInt_nonempty [simp]: "FormatInt i \<noteq> []"
  by (simp add: FormatInt_def)

lemma VerifyWebhookSignature_roundtrip:
  assumes "in_int64 ts" and "\<bar>now - ts * 10 ^ 9\<bar> \<le> webhookTimestampTolerance"
    and "hmac_sha256 C secret (FormatInt ts @ ''.'' @ body) \<noteq> []"
  shows "VerifyWebhookSignature C secret body (webhook_header C secret body ts) now = Inr ()"
proof -
  let ?t = "FormatInt ts"
  let ?s = "hex_EncodeToString (hmac_sha256 C secret (?t @ ''.'' @ body))"
  have s: "?s \<noteq> []"
    using assms(3) by (metis hex_EncodeToString_length length_0_conv mult_is_0 zero_neq_numeral)
  have "webhook_signed C secret body (webhook_header C secret body ts) now"
    unfolding webhook_signed_def webhook_header_def
    by (rule exI [of _ ?t], rule exI [of _ ?s], rule exI [of _ ts], intro conjI)
      (use s assms in \<open>simp_all only: scan_webhook_header [OF hex_EncodeToString_sep]
         FormatInt_nonempty ParseInt64_FormatInt hex_roundtrip not_False_eq_True\<close>)
  then show ?thesis by (simp only: VerifyWebhookSignature_signed)
qed

end
