(* ===== verification/Json_Fuel.thy ===== *)
theory Json_Fuel
  imports Go_Json
begin

text \<open>
  The parser of \<open>Go_Json\<close> recurses on a fuel. Here it is shown that the fuel \<open>json_parse\<close> gives it is
  enough for every text: any larger one gives the same result.
\<close>

section \<open>What is left\<close>

text \<open>What is left of a text is shorter than the text.\<close>

lemma skip_ws_le: "length (skip_ws s) \<le> length s"
  by (simp add: skip_ws_def length_dropWhile_le)

lemma skip_ws_Cons: "skip_ws s = c # r \<Longrightarrow> length r < length s"
  using skip_ws_le [of s] by simp

definition reads_on :: "nat \<Rightarrow> string \<Rightarrow> bool" where
  "reads_on n r \<longleftrightarrow> (\<exists>x t. json_string x = Some (t, r) \<and> length x \<le> n)"

lemma reads_onI: "json_string x = Some (t, r) \<Longrightarrow> reads_on (length x) r"
  unfolding reads_on_def by blast

lemma reads_on_mono: "reads_on m r \<Longrightarrow> m \<le> n \<Longrightarrow> reads_on n r"
  unfolding reads_on_def by (meson le_trans)

lemma json_string_step:
  assumes "json_string (c # cs) = Some (t, r)"
  shows "r = cs \<or> reads_on (length cs) r"
proof -
  note step = assms [unfolded json_string.simps [of "c # cs"] list.case Let_def]
  show ?thesis
  proof (cases "c = CHR 0x22")
    case True
    then show ?thesis using step by simp
  next
    case q: False
    show ?thesis
    proof (cases "c = CHR 0x5C")
      case True
      then obtain e es where cs: "cs = e # es" using step by (cases cs) auto
      show ?thesis
      proof (cases "e = CHR ''u''")
        case True
        then show ?thesis using step \<open>c = CHR 0x5C\<close> cs
          by (auto split: option.splits if_splits dest!: reads_onI intro: reads_on_mono)
      next
        case False
        then show ?thesis using step \<open>c = CHR 0x5C\<close> cs
          by (auto split: option.splits dest!: reads_onI intro: reads_on_mono)
      qed
    next
      case False
      then show ?thesis using step q
        by (auto split: if_splits dest!: reads_onI intro: reads_on_mono)
    qed
  qed
qed

lemma json_string_shorter: "json_string s = Some (t, r) \<Longrightarrow> length r < length s"
proof (induction "length s" arbitrary: s t r rule: less_induct)
  case less
  obtain c cs where s: "s = c # cs" using less.prems by (cases s) (auto simp: json_string.simps [of "[]"])
  from json_string_step [OF less.prems [unfolded s]] show ?case
  proof
    assume "reads_on (length cs) r"
    then obtain x u where "json_string x = Some (u, r)" "length x \<le> length cs" by (auto simp: reads_on_def)
    then show ?thesis using less.hyps [of x u r] s by simp
  qed (simp add: s)
qed

lemma strip_shorter: "strip p s = Some r \<Longrightarrow> p \<noteq> [] \<Longrightarrow> length r < length s"
  by (cases s) (auto simp: strip_def split: if_splits)

lemma digits1_shorter: "digits1 s = Some (x, r) \<Longrightarrow> length r < length s"
  by (cases s) (auto simp: digits1_def Let_def length_dropWhile_le less_Suc_eq_le split: if_splits)

lemma num_int_shorter: "num_int s = Some (x, r) \<Longrightarrow> length r < length s"
  by (auto simp: num_int_def digits1_shorter split: list.splits if_splits dest!: digits1_shorter)

lemma num_frac_le: "num_frac s = Some (x, r) \<Longrightarrow> length r \<le> length s"
  by (auto simp: num_frac_def split: list.splits if_splits dest!: digits1_shorter)

lemma num_exp_le: "num_exp s = Some (x, r) \<Longrightarrow> length r \<le> length s"
  by (auto simp: num_exp_def split: list.splits if_splits dest!: digits1_shorter)

lemma json_number_shorter: "json_number s = Some (x, r) \<Longrightarrow> length r < length s"
  by (cases s) (force simp: json_number_def Let_def split: Option.bind_splits if_splits
      dest!: num_int_shorter num_frac_le num_exp_le)+

definition shorter :: "string \<Rightarrow> ('a \<times> string) option \<Rightarrow> bool" where
  "shorter s x \<longleftrightarrow> (case x of None \<Rightarrow> True | Some (_, r) \<Rightarrow> length r < length s)"

lemma shorterD: "shorter s x \<Longrightarrow> x = Some (v, r) \<Longrightarrow> length r < length s"
  by (simp add: shorter_def)

lemma shorter_map: "shorter s x \<Longrightarrow> shorter s (map_option (\<lambda>(v, r). (f v, r)) x)"
  by (cases x) (auto simp: shorter_def)

lemma shorter_mono: "shorter s x \<Longrightarrow> length s \<le> length s' \<Longrightarrow> shorter s' x"
  by (auto simp: shorter_def split: option.splits)

lemma shorter_lexical:
  "shorter s (json_string s)" "shorter s (json_number s)" "shorter s (map_option (\<lambda>r. (f, r)) (strip (c # p) s))"
  by (auto simp: shorter_def split: option.splits dest: json_string_shorter json_number_shorter strip_shorter)

lemma shorter_Some [simp]: "shorter s (Some (v, r)) \<longleftrightarrow> length r < length s"
  by (simp add: shorter_def)

lemma shorter_None [simp]: "shorter s None"
  by (simp add: shorter_def)

lemma json_value_shorter:
  assumes "\<And>d s. shorter s (json_elems n d s)" and "\<And>d s. shorter s (json_members n d s)"
  shows "shorter s (json_value (Suc n) d s)"
proof (cases s)
  case (Cons c cs)
  consider "c = CHR ''{''" | "c = CHR ''[''" | "c = CHR 0x22" | "c = CHR ''t''" | "c = CHR ''f''" | "c = CHR ''n''"
    | "c \<notin> {CHR ''{'', CHR ''['', CHR 0x22, CHR ''t'', CHR ''f'', CHR ''n''}" by blast
  then show ?thesis
  proof cases
    case 1
    show ?thesis
    proof (cases "skip_ws cs")
      case (Cons c' r)
      note l = skip_ws_Cons [OF Cons]
      have "shorter s (map_option (\<lambda>(ms, t). (JObj ms, t)) (json_members n (Suc d) (c' # r)))"
        by (intro shorter_map shorter_mono [OF assms(2)]) (use l \<open>s = c # cs\<close> in simp)
      then show ?thesis using 1 l Cons \<open>s = c # cs\<close> by simp
    qed (use 1 \<open>s = c # cs\<close> in simp)
  next
    case 2
    show ?thesis
    proof (cases "skip_ws cs")
      case (Cons c' r)
      note l = skip_ws_Cons [OF Cons]
      have "shorter s (map_option (\<lambda>(es, t). (JArr es, t)) (json_elems n (Suc d) (c' # r)))"
        by (intro shorter_map shorter_mono [OF assms(1)]) (use l \<open>s = c # cs\<close> in simp)
      then show ?thesis using 2 l Cons \<open>s = c # cs\<close> by simp
    qed (use 2 \<open>s = c # cs\<close> in simp)
  next
    case 3
    have "shorter s (map_option (\<lambda>(t, r). (JStr t, r)) (json_string cs))"
      using Cons by (intro shorter_map shorter_mono [OF shorter_lexical(1)]) simp
    then show ?thesis using 3 Cons by simp
  next
    case 7
    have "shorter s (map_option (\<lambda>(t, r). (JNum t, r)) (json_number s))"
      by (intro shorter_map shorter_lexical)
    then show ?thesis using 7 Cons by simp
  qed (use shorter_lexical(3) [of s] Cons in simp_all)
qed simp

lemma json_elems_shorter:
  assumes "\<And>d s. shorter s (json_value n d s)" and "\<And>d s. shorter s (json_elems n d s)"
  shows "shorter s (json_elems (Suc n) d s)"
proof (cases "json_value n d s")
  case (Some p)
  obtain v r where v: "json_value n d s = Some (v, r)" using Some by (cases p) simp
  note r = shorterD [OF assms(1) v]
  show ?thesis
  proof (cases "skip_ws r")
    case (Cons c cs)
    have "length (skip_ws cs) < length s" using skip_ws_le [of cs] skip_ws_Cons [OF Cons] r by simp
    then have "shorter s (map_option (\<lambda>(vs, t). (v # vs, t)) (json_elems n d (skip_ws cs)))"
      by (intro shorter_map shorter_mono [OF assms(2)]) simp
    then show ?thesis using v Cons skip_ws_Cons [OF Cons] r by (simp add: shorter_def)
  qed (simp add: v shorter_def)
qed (simp add: shorter_def)

lemma json_members_shorter:
  assumes "\<And>d s. shorter s (json_value n d s)" and "\<And>d s. shorter s (json_members n d s)"
  shows "shorter s (json_members (Suc n) d s)"
proof -
  have "length r' < length s" if step: "json_members (Suc n) d s = Some (ms, r')" for ms r'
  proof -
    obtain qs k r c cs v r1 c1 cs1 where s: "s = CHR 0x22 # qs" and k: "json_string qs = Some (k, r)"
      and c: "skip_ws r = c # cs" and v: "json_value n d (skip_ws cs) = Some (v, r1)"
      and c1: "skip_ws r1 = c1 # cs1"
      and last: "r' = cs1 \<or> (\<exists>ms'. json_members n d (skip_ws cs1) = Some (ms', r'))"
      using step by (auto simp: Let_def split: list.splits if_splits Option.bind_splits)
    have "length cs1 < length s"
      using s json_string_shorter [OF k] skip_ws_Cons [OF c] skip_ws_le [of cs] shorterD [OF assms(1) v]
        skip_ws_Cons [OF c1] by simp
    then show ?thesis using last skip_ws_le [of cs1] shorterD [OF assms(2)] by fastforce
  qed
  then show ?thesis by (auto simp: shorter_def split: option.split)
qed

lemma json_shorter:
  "shorter s (json_value n d s) \<and> shorter s (json_elems n d s) \<and> shorter s (json_members n d s)"
proof (induction n arbitrary: d s)
  case (Suc n)
  then show ?case
    by (intro conjI json_value_shorter json_elems_shorter json_members_shorter) blast+
qed (simp add: shorter_def)

section \<open>The fuel is enough\<close>

text \<open>With enough fuel for its text, more fuel does not change what the parser does.\<close>

lemma json_value_fuel:
  assumes "\<And>d x. length x < length s \<Longrightarrow> json_elems n d x = json_elems m d x"
    and "\<And>d x. length x < length s \<Longrightarrow> json_members n d x = json_members m d x"
  shows "json_value (Suc n) d s = json_value (Suc m) d s"
proof (cases s)
  case (Cons c cs)
  show ?thesis
  proof (cases "skip_ws cs")
    case Nil
    then show ?thesis using \<open>s = c # cs\<close> by simp
  next
    case (Cons c' r)
    then have "length (c' # r) < length s" using skip_ws_le [of cs] \<open>s = c # cs\<close> by simp
    then show ?thesis using assms Cons \<open>s = c # cs\<close> by simp
  qed
qed simp

lemma json_elems_fuel:
  assumes "json_value n d s = json_value m d s"
    and "\<And>x. length x < length s \<Longrightarrow> json_elems n d x = json_elems m d x"
  shows "json_elems (Suc n) d s = json_elems (Suc m) d s"
proof (cases "json_value m d s")
  case (Some p)
  obtain v r where v: "json_value m d s = Some (v, r)" using Some by (cases p) simp
  then have r: "length r < length s" using json_shorter [of s m d] by simp
  show ?thesis
  proof (cases "skip_ws r")
    case (Cons c cs)
    have "length (skip_ws cs) < length s" using skip_ws_le [of cs] skip_ws_Cons [OF Cons] r by simp
    then show ?thesis using assms v Cons by simp
  qed (simp add: assms(1) v)
qed (simp add: assms(1))

lemma json_members_fuel:
  assumes "\<And>x. length x < length s \<Longrightarrow> json_value n d x = json_value m d x"
    and "\<And>x. length x < length s \<Longrightarrow> json_members n d x = json_members m d x"
  shows "json_members (Suc n) d s = json_members (Suc m) d s"
proof (cases s)
  case s: (Cons q qs)
  show ?thesis
  proof (cases "json_string qs")
    case (Some p)
    obtain k r where k: "json_string qs = Some (k, r)" using Some by (cases p) simp
    show ?thesis
    proof (cases "skip_ws r")
      case c: (Cons c cs)
      have l: "length (skip_ws cs) < length s"
        using skip_ws_le [of cs] skip_ws_Cons [OF c] json_string_shorter [OF k] s by simp
      show ?thesis
      proof (cases "json_value m d (skip_ws cs)")
        case (Some p)
        obtain v r1 where v: "json_value m d (skip_ws cs) = Some (v, r1)" using Some by (cases p) simp
        then have r1: "length r1 < length (skip_ws cs)" using json_shorter [of "skip_ws cs" m d] by simp
        show ?thesis
        proof (cases "skip_ws r1")
          case c1: (Cons c1 cs1)
          have "length (skip_ws cs1) < length s"
            using skip_ws_le [of cs1] skip_ws_Cons [OF c1] r1 l by simp
          then show ?thesis using assms s k c l v c1 by (simp add: Let_def)
        qed (use assms(1) [OF l] s k c v in \<open>simp add: Let_def\<close>)
      qed (use assms(1) [OF l] s k c in \<open>simp add: Let_def\<close>)
    qed (use s k in simp)
  qed (use s in simp)
qed simp

lemma json_fuel:
  "(2 * length s + 1 \<le> n \<and> 2 * length s + 1 \<le> m \<longrightarrow> json_value n d s = json_value m d s)
   \<and> (2 * length s + 2 \<le> n \<and> 2 * length s + 2 \<le> m \<longrightarrow> json_elems n d s = json_elems m d s)
   \<and> (2 * length s + 1 \<le> n \<and> 2 * length s + 1 \<le> m \<longrightarrow> json_members n d s = json_members m d s)"
proof (induction n arbitrary: m d s)
  case (Suc n)
  show ?case
  proof (cases m)
    case (Suc m')
    have v: "2 * length x + 1 \<le> n \<Longrightarrow> 2 * length x + 1 \<le> m' \<Longrightarrow> json_value n d x = json_value m' d x"
      and e: "2 * length x + 2 \<le> n \<Longrightarrow> 2 * length x + 2 \<le> m' \<Longrightarrow> json_elems n d x = json_elems m' d x"
      and o: "2 * length x + 1 \<le> n \<Longrightarrow> 2 * length x + 1 \<le> m' \<Longrightarrow> json_members n d x = json_members m' d x"
      for d x using Suc.IH [of x m' d] by blast+
    show ?thesis unfolding Suc
      by (intro conjI impI json_value_fuel json_elems_fuel json_members_fuel v e o) simp_all
  qed simp
qed simp

text \<open>So the fuel \<open>json_parse\<close> gives is never what stops it.\<close>

lemma json_parse_fuel:
  assumes "2 * length (skip_ws s) + 2 \<le> n"
  shows "json_parse s = (case json_value n 0 (skip_ws s) of
     Some (v, r) \<Rightarrow> if skip_ws r = [] then Some v else None | None \<Rightarrow> None)"
proof -
  have "json_value (2 * length (skip_ws s) + 2) 0 (skip_ws s) = json_value n 0 (skip_ws s)"
    using json_fuel [of "skip_ws s" "2 * length (skip_ws s) + 2" n 0] assms by simp
  then show ?thesis by (simp add: json_parse_def Let_def)
qed

end
