(* ===== verification/Json_Text.thy ===== *)
theory Json_Text
  imports Json_Fuel
begin

text \<open>
  What \<open>json.Marshal\<close> writes, \<open>json.Unmarshal\<close> reads back: the text of a string is read as the
  string (with U+FFFD for every byte that is not part of valid UTF-8), and the text of a struct as the
  object with its members, each member with the text and the value of its field. So nothing in a
  string can end it, or add a member to the object it is put in.
\<close>

section \<open>UTF-8\<close>

function to_valid :: "string \<Rightarrow> string" where
  \<comment> \<open>the string with U+FFFD in place of every invalid byte\<close>
  "to_valid s =
     (case s of [] \<Rightarrow> []
      | c # cs \<Rightarrow> (let n = rune_len s in
          if n = 0 then replacement @ to_valid cs else take n s @ to_valid (drop n s)))"
  by pat_completeness auto
termination
  by (relation "measure length") auto

declare to_valid.simps [simp del]

function utf8 :: "string \<Rightarrow> bool" where
  \<comment> \<open>\<open>utf8.ValidString\<close>\<close>
  "utf8 s =
     (case s of [] \<Rightarrow> True
      | c # cs \<Rightarrow> (if rune_len s = 0 then False else utf8 (drop (rune_len s) s)))"
  by pat_completeness auto
termination
  by (relation "measure length") auto

declare utf8.simps [simp del]

lemma to_valid_Nil [simp]: "to_valid [] = []"
  by (simp add: to_valid.simps)

lemma utf8_to_valid: "utf8 s \<Longrightarrow> to_valid s = s"
proof (induction s rule: utf8.induct)
  case (1 s)
  show ?case
  proof (cases s)
    case (Cons c cs)
    then have nz: "rune_len s \<noteq> 0" and "utf8 (drop (rune_len s) s)"
      using 1(2) utf8.simps [of s] by (auto split: if_splits)
    then have "to_valid (drop (rune_len s) s) = drop (rune_len s) s" using 1(1) Cons by blast
    then show ?thesis using Cons nz to_valid.simps [of s] by (simp add: Let_def)
  qed simp
qed

lemma rune_len_ascii: "byte c < 128 \<Longrightarrow> rune_len (c # cs) = 1"
  by (simp add: rune_len_def)

lemma utf8_ascii: "is_ascii s \<Longrightarrow> utf8 s"
proof (induction s)
  case (Cons c s)
  then show ?case by (subst utf8.simps) (simp add: is_ascii_def rune_len_ascii)
qed (simp add: utf8.simps)

lemma to_valid_ascii: "byte c < 128 \<Longrightarrow> to_valid (c # cs) = c # to_valid cs"
  by (subst to_valid.simps) (simp add: rune_len_ascii)

text \<open>A sequence is recognised by its own bytes, whatever comes after it.\<close>

lemma cont_Cons: "cont lo hi (d # ds) \<longleftrightarrow> lo \<le> byte d \<and> byte d \<le> hi"
  by (simp add: cont_def)

lemma contE:
  assumes "cont lo hi t"
  obtains d ds where "t = d # ds" "lo \<le> byte d \<and> byte d \<le> hi"
  using assms by (cases t) (auto simp: cont_def)

lemma rune_len_prefix:
  assumes "rune_len s \<noteq> 0"
  shows "rune_len (take (rune_len s) s @ t) = rune_len s" and "rune_len s \<le> length s"
proof -
  have branches: "(if A then 1 else if B then (if C then 2 else 0) else if D then (if E then 3 else 0)
      else if F then (if G then 4 else 0) else 0) \<noteq> (0::nat) \<Longrightarrow> A \<or> B \<and> C \<or> D \<and> E \<or> F \<and> G" for A B C D E F G
    by (simp split: if_splits)
  obtain c cs where s: "s = c # cs" using assms by (cases s) (auto simp: rune_len_def)
  let ?lo3 = "if byte c = 224 then 160 else 128" and ?hi3 = "if byte c = 237 then 159 else 191"
  let ?lo4 = "if byte c = 240 then 144 else 128" and ?hi4 = "if byte c = 244 then 143 else 191"
  consider (one) "byte c < 128"
    | (two) "194 \<le> byte c" "byte c \<le> 223" "cont 128 191 cs"
    | (three) "224 \<le> byte c" "byte c \<le> 239" "cont ?lo3 ?hi3 cs" "cont 128 191 (tl cs)"
    | (four) "240 \<le> byte c" "byte c \<le> 244" "cont ?lo4 ?hi4 cs" "cont 128 191 (tl cs)" "cont 128 191 (tl (tl cs))"
    using branches [OF assms [unfolded s rune_len_def list.case Let_def]] by blast
  then have "rune_len (take (rune_len s) s @ t) = rune_len s \<and> rune_len s \<le> length s"
  proof cases
    case one
    then show ?thesis by (simp add: s rune_len_ascii)
  next
    case two
    obtain d ds where "cs = d # ds" by (rule contE [OF two(3)])
    then show ?thesis using two by (simp add: s rune_len_def Let_def cont_Cons)
  next
    case three
    obtain d ds where d: "cs = d # ds" by (rule contE [OF three(3)])
    obtain e es where "ds = e # es" by (rule contE [OF three(4)]) (simp add: d)
    then show ?thesis using three d
      by (simp add: s rune_len_def Let_def cont_Cons numeral_3_eq_3 split del: if_split)
  next
    case four
    obtain d ds where d: "cs = d # ds" by (rule contE [OF four(3)])
    obtain e es where e: "ds = e # es" by (rule contE [OF four(4)]) (simp add: d)
    obtain f fs where "es = f # fs" by (rule contE [OF four(5)]) (simp add: d e)
    then show ?thesis using four d e
      by (simp add: s rune_len_def Let_def cont_Cons numeral_eq_Suc split del: if_split)
  qed
  then show "rune_len (take (rune_len s) s @ t) = rune_len s" "rune_len s \<le> length s" by blast+
qed

section \<open>Strings\<close>

definition pre :: "string \<Rightarrow> (string \<times> string) option \<Rightarrow> (string \<times> string) option" where
  "pre u x = map_option (\<lambda>(t, r). (u @ t, r)) x"

lemma pre_simps [simp]: "pre u (Some (t, r)) = Some (u @ t, r)" "pre u None = None"
  by (simp_all add: pre_def)

lemma hex_digit_split:
  fixes r :: nat
  assumes "r < 65536"
  shows "((r div 4096 * 16 + r div 256 mod 16) * 16 + r div 16 mod 16) * 16 + r mod 16 = r"
proof -
  have "r div 256 = r div 4096 * 16 + r div 256 mod 16"
    using div_mult_mod_eq [of "r div 256" 16] by (simp add: div_mult2_eq [symmetric])
  moreover have "r div 16 = r div 256 * 16 + r div 16 mod 16"
    using div_mult_mod_eq [of "r div 16" 16] by (simp add: div_mult2_eq [symmetric])
  moreover have "r = r div 16 * 16 + r mod 16" by simp
  ultimately show ?thesis by metis
qed

lemma hex4_u_escape:
  assumes "r < 65536"
  shows "hex4 (drop 2 (u_escape r @ t)) = Some r"
  using hex_digit_split [OF assms] assms
  by (simp add: hex4_def u_escape_def hex_val_digit less_mult_imp_div_less)

lemma json_string_u_escape:
  assumes "r < 65536" and "r < 55296 \<or> 57343 < r"
  shows "json_string (u_escape r @ t) = pre (encode_rune r) (json_string t)"
proof -
  have "hex4 (drop 2 (u_escape r @ t)) = Some r" by (rule hex4_u_escape) fact
  then show ?thesis using assms(2)
    by (subst json_string.simps) (auto simp: u_escape_def pre_def)
qed

lemma json_string_byte:
  assumes "byte c < 128"
  shows "json_string (marshal_byte c @ t) = pre [c] (json_string t)"
proof -
  have plain: "json_string (c # t) = pre [c] (json_string t)"
    if "c \<noteq> CHR 0x22" "c \<noteq> CHR 0x5C" "\<not> byte c < 32"
    using that assms by (subst json_string.simps) (simp add: rune_len_ascii pre_def)
  have esc: "json_string (CHR 0x5C # e # t) = pre [c] (json_string t)"
    if "e \<noteq> CHR ''u''" "simple_escape e = Some c" for e
    using that by (subst json_string.simps) (simp add: pre_def)
  have u: "json_string (u_escape (byte c) @ t) = pre [c] (json_string t)"
    using json_string_u_escape [of "byte c" t] assms by (simp add: encode_rune_def)
  show ?thesis
    unfolding marshal_byte_def using plain esc u by (auto simp: simple_escape_def)
qed

lemma json_string_rune:
  assumes "rune_len s \<noteq> 0" and "128 \<le> byte (hd s)"
  shows "json_string (take (rune_len s) s @ t) = pre (take (rune_len s) s) (json_string t)"
proof -
  obtain c cs where s: "s = c # cs" using assms by (cases s) (auto simp: rune_len_def)
  then have "c \<noteq> CHR 0x22" "c \<noteq> CHR 0x5C" "\<not> byte c < 32" using assms(2) by auto
  moreover obtain n where n: "rune_len s = Suc n" using assms(1) by (cases "rune_len s") auto
  moreover note P = rune_len_prefix(1) [OF assms(1), of t] rune_len_prefix(2) [OF assms(1)]
  have e: "take (rune_len s) s @ t = c # (take n cs @ t)" using s n by simp
  ultimately show ?thesis
    using P s by (subst json_string.simps) (simp add: e pre_def Let_def)
qed

lemma line_separators:
  assumes "rune_len s = 3" and "take 2 s = [char_of (226::nat), char_of (128::nat)]"
    and "byte (s ! 2) \<in> {168, 169}"
  shows "encode_rune (8192 + 32 + (byte (s ! 2) - 160)) = take 3 s"
proof -
  have "3 \<le> length s" using rune_len_prefix(2) [of s] assms(1) by simp
  then obtain a b d ds where s: "s = a # b # d # ds"
    by (metis Suc_le_length_iff numeral_3_eq_3)
  have "byte d = 168 \<or> byte d = 169" using assms(3) s by simp
  then have "d = char_of (168::nat) \<or> d = char_of (169::nat)" 
  proof
    have "d = char_of (byte d)" by simp
    then show "byte d = 168 \<Longrightarrow> d = char_of (168::nat) \<or> d = char_of (169::nat)"
      "byte d = 169 \<Longrightarrow> d = char_of (168::nat) \<or> d = char_of (169::nat)" by metis+
  qed
  moreover have "encode_rune (8192 + 32 + (byte (char_of (168::nat)) - 160))
      = [char_of (226::nat), char_of (128::nat), char_of (168::nat)]"
    "encode_rune (8192 + 32 + (byte (char_of (169::nat)) - 160))
      = [char_of (226::nat), char_of (128::nat), char_of (169::nat)]"
    by (simp_all add: encode_rune_def byte_char_of)
  moreover have "s ! 2 = d" "take 3 s = [char_of (226::nat), char_of (128::nat), d]"
    using assms(2) s by (simp_all add: numeral_eq_Suc)
  ultimately show ?thesis by metis
qed

lemma marshal_chars_rune:
  assumes "s = c # cs" and "\<not> byte c < 128" and "rune_len s \<noteq> 0"
  shows "marshal_chars s =
    (if rune_len s = 3 \<and> take 2 s = [char_of (226::nat), char_of (128::nat)] \<and> byte (s ! 2) \<in> {168, 169}
     then u_escape (8192 + 32 + (byte (s ! 2) - 160)) @ marshal_chars (drop (rune_len s) s)
     else take (rune_len s) s @ marshal_chars (drop (rune_len s) s))"
  using marshal_chars.simps [of s] assms(2,3) unfolding assms(1) by (simp only: list.case Let_def if_False)

lemma json_string_marshal: "json_string (marshal_chars s @ CHR 0x22 # rest) = Some (to_valid s, rest)"
proof (induction s rule: marshal_chars.induct)
  case (1 s)
  show ?case
  proof (cases s)
    case Nil
    then show ?thesis by (simp add: marshal_chars.simps [of "[]"] json_string.simps [of "_ # _"])
  next
    case (Cons c cs)
    show ?thesis
    proof (cases "byte c < 128")
      case True
      then show ?thesis using 1(1) [OF Cons True] Cons marshal_chars.simps [of s]
        by (simp add: json_string_byte to_valid_ascii)
    next
      case hi: False
      show ?thesis
      proof (cases "rune_len s = 0")
        case True
        then have "marshal_chars s = u_escape 65533 @ marshal_chars cs"
          using marshal_chars.simps [of s] hi Cons by simp
        moreover have "encode_rune 65533 = replacement" by (simp add: encode_rune_def replacement_def)
        moreover have "to_valid s = replacement @ to_valid cs"
          using to_valid.simps [of s] True Cons by simp
        ultimately show ?thesis using 1(2) [OF Cons hi refl True] by (simp add: json_string_u_escape)
      next
        case nz: False
        have v: "to_valid s = take (rune_len s) s @ to_valid (drop (rune_len s) s)"
          using to_valid.simps [of s] nz Cons by (simp add: Let_def)
        show ?thesis
        proof (cases "rune_len s = 3 \<and> take 2 s = [char_of (226::nat), char_of (128::nat)] \<and> byte (s ! 2) \<in> {168, 169}")
          case True
          then have "marshal_chars s = u_escape (8192 + 32 + (byte (s ! 2) - 160)) @ marshal_chars (drop (rune_len s) s)"
            by (rule trans [OF marshal_chars_rune [OF Cons hi nz] if_P])
          moreover have "8192 + 32 + (byte (s ! 2) - 160) < 55296" using True by auto
          ultimately show ?thesis
            using 1(3) [OF Cons hi refl nz True] line_separators [of s] True v
            by (simp add: json_string_u_escape)
        next
          case False
          then have "marshal_chars s = take (rune_len s) s @ marshal_chars (drop (rune_len s) s)"
            by (rule trans [OF marshal_chars_rune [OF Cons hi nz] if_not_P])
          moreover have "128 \<le> byte (hd s)" using hi Cons by simp
          ultimately show ?thesis
            using 1(4) [OF Cons hi refl nz False] v json_string_rune [OF nz] by simp
        qed
      qed
    qed
  qed
qed

section \<open>Values\<close>

text \<open>
  \<open>reads k txt v\<close>: in any text where a value may stand, \<open>txt\<close> is read as \<open>v\<close>, up to its last byte and
  no further, and nests at most \<open>k\<close> deep. Only a number needs to know that what follows is not one
  of its own characters.
\<close>

definition delim :: "string \<Rightarrow> bool" where
  "delim rest \<longleftrightarrow> (case rest of [] \<Rightarrow> True | c # _ \<Rightarrow> c \<in> {CHR '','', CHR ''}'', CHR '']''})"

definition reads :: "nat \<Rightarrow> string \<Rightarrow> json \<Rightarrow> bool" where
  "reads k txt v \<longleftrightarrow> txt \<noteq> [] \<and> \<not> is_ws (hd txt)
     \<and> (\<forall>d rest n. d + k \<le> max_depth \<longrightarrow> delim rest \<longrightarrow> 2 * length (txt @ rest) + 1 \<le> n
          \<longrightarrow> json_value n d (txt @ rest) = Some (v, rest))"

lemma readsI:
  assumes "txt \<noteq> []" and "\<not> is_ws (hd txt)"
    and "\<And>d rest n. d + k \<le> max_depth \<Longrightarrow> delim rest \<Longrightarrow> 2 * length (txt @ rest) \<le> n
          \<Longrightarrow> json_value (Suc n) d (txt @ rest) = Some (v, rest)"
  shows "reads k txt v"
  unfolding reads_def
proof (intro conjI allI impI)
  fix d rest n
  assume "d + k \<le> max_depth" "delim rest" "2 * length (txt @ rest) + 1 \<le> n"
  then show "json_value n d (txt @ rest) = Some (v, rest)"
    using assms(3) [of d rest "n - 1"] by (cases n) simp_all
qed (use assms in simp_all)

lemma readsD:
  "reads k txt v \<Longrightarrow> d + k \<le> max_depth \<Longrightarrow> delim rest \<Longrightarrow> 2 * length (txt @ rest) + 1 \<le> n
    \<Longrightarrow> json_value n d (txt @ rest) = Some (v, rest)"
  by (simp add: reads_def)

lemma reads_mono: "reads k txt v \<Longrightarrow> k \<le> k' \<Longrightarrow> reads k' txt v"
  by (simp add: reads_def)

lemma skip_ws_stop: "s = [] \<or> \<not> is_ws (hd s) \<Longrightarrow> skip_ws s = s"
  by (cases s) (auto simp: skip_ws_def)

lemma skip_ws_reads: "reads k txt v \<Longrightarrow> skip_ws (txt @ rest) = txt @ rest"
  by (rule skip_ws_stop) (simp add: reads_def)

lemma reads_parse:
  assumes "reads k txt v" and "k \<le> max_depth"
  shows "json_parse txt = Some v"
proof -
  have "skip_ws txt = txt" using skip_ws_reads [OF assms(1), of "[]"] by simp
  moreover have "json_value (2 * length txt + 2) 0 txt = Some (v, [])"
    using readsD [OF assms(1), of 0 "[]" "2 * length txt + 2"] assms(2) by (simp add: delim_def)
  ultimately show ?thesis by (simp add: json_parse_def Let_def skip_ws_def)
qed

lemma reads_string: "reads k (marshal_string s) (JStr (to_valid s))"
  by (rule readsI) (simp_all add: marshal_string_def is_ws_def json_string_marshal)

lemma reads_bool: "reads k (marshal_bool b) (JBool b)"
  by (rule readsI) (cases b; simp add: marshal_bool_def is_ws_def strip_def)+

lemma reads_null: "reads k ''null'' JNull"
  by (rule readsI) (simp_all add: is_ws_def strip_def)

subsection \<open>Objects and arrays\<close>

definition plain :: "string \<Rightarrow> bool" where
  \<comment> \<open>the names of the program's struct fields: printable ASCII without quotes\<close>
  "plain k \<longleftrightarrow> list_all (\<lambda>c. 32 \<le> byte c \<and> byte c < 127 \<and> c \<noteq> CHR 0x22 \<and> c \<noteq> CHR 0x5C) k"

lemma json_string_plain: "plain k \<Longrightarrow> json_string (k @ CHR 0x22 # rest) = Some (k, rest)"
proof (induction k)
  case Nil
  show ?case by (subst json_string.simps) simp
next
  case (Cons c k)
  then have "json_string ((c # k) @ CHR 0x22 # rest) = pre [c] (json_string (k @ CHR 0x22 # rest))"
    by (simp only: append_Cons) (subst json_string.simps, simp add: plain_def rune_len_ascii pre_def)
  then show ?case using Cons by (simp add: plain_def)
qed

abbreviation field_text :: "string \<times> string \<Rightarrow> string" where
  "field_text \<equiv> \<lambda>(k, v). CHR 0x22 # k @ CHR 0x22 # '':'' @ v"

lemma json_members_text:
  assumes "ms \<noteq> []" and "list_all (\<lambda>(key, raw, v). plain key \<and> reads k raw v) ms" and "d + k \<le> max_depth"
    and "2 * length (Join (map (\<lambda>(key, raw, v). field_text (key, raw)) ms) '','' @ CHR ''}'' # rest) + 1 \<le> n"
  shows "json_members n d (Join (map (\<lambda>(key, raw, v). field_text (key, raw)) ms) '','' @ CHR ''}'' # rest) = Some (ms, rest)"
  using assms
proof (induction ms arbitrary: n)
  case (Cons m ms)
  obtain key raw v where m: "m = (key, raw, v)" by (cases m) auto
  then have key: "plain key" and raw: "reads k raw v" using Cons.prems(2) by auto
  let ?t = "\<lambda>ms. Join (map (\<lambda>(key, raw, v). field_text (key, raw)) ms) '','' @ CHR ''}'' # rest"
  define after where "after = (if ms = [] then CHR ''}'' # rest else CHR '','' # ?t ms)"
  have t: "?t (m # ms) = CHR 0x22 # key @ CHR 0x22 # CHR '':'' # raw @ after"
    unfolding m after_def by (cases ms) (simp_all add: Join_Cons)
  obtain n' where n: "n = Suc n'" using Cons.prems(4) by (cases n) auto
  then have fuel: "2 * length (raw @ after) + 1 \<le> n'" using Cons.prems(4) unfolding t by simp
  have v: "json_value n' d (raw @ after) = Some (v, after)"
    using readsD [OF raw Cons.prems(3) _ fuel] by (simp add: delim_def after_def)
  have ws: "skip_ws (CHR '':'' # x) = CHR '':'' # x" "skip_ws (CHR ''}'' # x) = CHR ''}'' # x"
    "skip_ws (CHR '','' # x) = CHR '','' # x" "skip_ws (CHR 0x22 # x) = CHR 0x22 # x" for x
    by (simp_all add: skip_ws_def is_ws_def)
  show ?case
  proof (cases "ms = []")
    case True
    then show ?thesis unfolding t n
      using v by (simp add: json_string_plain [OF key] skip_ws_reads [OF raw] ws after_def m)
  next
    case False
    then obtain key' raw' v' ms' where ms: "ms = (key', raw', v') # ms'" by (metis list.exhaust prod_cases3)
    then have q: "skip_ws (?t ms) = ?t ms" by (cases ms') (simp_all add: Join_Cons ws)
    have "json_members n' d (?t ms) = Some (ms, rest)"
    proof (rule Cons.IH [OF False])
      show "2 * length (?t ms) + 1 \<le> n'" using fuel False by (simp add: after_def)
    qed (use Cons.prems in simp_all)
    then show ?thesis unfolding t n
      using v False q by (simp add: json_string_plain [OF key] skip_ws_reads [OF raw] ws after_def m)
  qed
qed simp

lemma reads_struct:
  assumes "list_all (\<lambda>(key, raw, v). plain key \<and> reads k raw v) ms"
  shows "reads (Suc k) (marshal_struct (map (\<lambda>(key, raw, v). (key, raw)) ms)) (JObj ms)"
proof (rule readsI)
  fix d rest n
  let ?j = "Join (map (\<lambda>(key, raw, v). field_text (key, raw)) ms) '',''"
  have t: "marshal_struct (map (\<lambda>(key, raw, v). (key, raw)) ms) @ rest = CHR ''{'' # ?j @ CHR ''}'' # rest"
    by (simp add: marshal_struct_def comp_def case_prod_unfold)
  assume d: "d + Suc k \<le> max_depth" and n: "2 * length (marshal_struct (map (\<lambda>(key, raw, v). (key, raw)) ms) @ rest) \<le> n"
  show "json_value (Suc n) d (marshal_struct (map (\<lambda>(key, raw, v). (key, raw)) ms) @ rest) = Some (JObj ms, rest)"
  proof (cases ms)
    case Nil
    then show ?thesis unfolding t using d by (simp add: skip_ws_def is_ws_def)
  next
    case (Cons m ms')
    obtain key raw v where m: "m = (key, raw, v)" by (cases m) auto
    obtain x where x: "?j @ CHR ''}'' # rest = CHR 0x22 # x" by (cases ms') (simp_all add: Cons m Join_Cons)
    have "json_members n (Suc d) (?j @ CHR ''}'' # rest) = Some (ms, rest)"
      by (rule json_members_text [OF _ assms]) (use Cons d n t in simp_all)
    then show ?thesis unfolding t x using d by (simp add: skip_ws_def is_ws_def)
  qed
qed (simp_all add: marshal_struct_def is_ws_def)

lemma json_elems_text:
  assumes "vs \<noteq> []" and "list_all (\<lambda>(raw, v). reads k raw v) vs" and "d + k \<le> max_depth"
    and "2 * length (Join (map fst vs) '','' @ CHR '']'' # rest) + 2 \<le> n"
  shows "json_elems n d (Join (map fst vs) '','' @ CHR '']'' # rest) = Some (map snd vs, rest)"
  using assms
proof (induction vs arbitrary: n)
  case (Cons p vs)
  obtain raw v where p: "p = (raw, v)" by (cases p)
  then have raw: "reads k raw v" using Cons.prems(2) by auto
  let ?t = "\<lambda>vs. Join (map fst vs) '','' @ CHR '']'' # rest"
  define after where "after = (if vs = [] then CHR '']'' # rest else CHR '','' # ?t vs)"
  have t: "?t (p # vs) = raw @ after"
    unfolding p after_def by (cases vs) (simp_all add: Join_Cons)
  obtain n' where n: "n = Suc n'" using Cons.prems(4) by (cases n) auto
  then have fuel: "2 * length (raw @ after) + 1 \<le> n'" using Cons.prems(4) unfolding t by simp
  have v: "json_value n' d (raw @ after) = Some (v, after)"
    using readsD [OF raw Cons.prems(3) _ fuel] by (simp add: delim_def after_def)
  have ws: "skip_ws (CHR '']'' # x) = CHR '']'' # x" "skip_ws (CHR '','' # x) = CHR '','' # x" for x
    by (simp_all add: skip_ws_def is_ws_def)
  show ?case
  proof (cases "vs = []")
    case True
    then show ?thesis unfolding t n using v by (simp add: ws after_def p)
  next
    case False
    then obtain raw' v' vs' where vs: "vs = (raw', v') # vs'" by (cases vs) auto
    then have "reads k raw' v'" using Cons.prems(2) by auto
    then have q: "skip_ws (?t vs) = ?t vs" using skip_ws_reads [of k raw' v'] vs
      by (cases vs') (simp_all add: Join_Cons)
    have "raw \<noteq> []" using raw by (simp add: reads_def)
    then have "json_elems n' d (?t vs) = Some (map snd vs, rest)"
      using fuel False Cons.prems by (intro Cons.IH) (auto simp: after_def neq_Nil_conv)
    then show ?thesis unfolding t n using v False q by (simp add: ws after_def p)
  qed
qed simp

lemma reads_array:
  assumes "list_all (\<lambda>(raw, v). reads k raw v) vs"
  shows "reads (Suc k) (marshal_array (map fst vs)) (JArr (map snd vs))"
proof (rule readsI)
  fix d rest n
  let ?j = "Join (map fst vs) '',''"
  have t: "marshal_array (map fst vs) @ rest = CHR ''['' # ?j @ CHR '']'' # rest"
    by (simp add: marshal_array_def)
  assume d: "d + Suc k \<le> max_depth" and n: "2 * length (marshal_array (map fst vs) @ rest) \<le> n"
  show "json_value (Suc n) d (marshal_array (map fst vs) @ rest) = Some (JArr (map snd vs), rest)"
  proof (cases vs)
    case Nil
    then show ?thesis unfolding t using d by (simp add: skip_ws_def is_ws_def)
  next
    case (Cons p vs')
    obtain raw v where p: "p = (raw, v)" by (cases p)
    then have r: "reads k raw v" using assms Cons by simp
    then obtain c x where raw: "raw = c # x" "c \<noteq> CHR '']''"
    proof -
      obtain c x where c: "raw = c # x" using r by (cases raw) (auto simp: reads_def)
      have "json_value (Suc (2 * length raw)) 0 (CHR '']'' # x) = None"
        by (simp add: json_number_def num_int_def digits1_def is_digit_def)
      moreover have "json_value (Suc (2 * length raw)) 0 raw = Some (v, [])"
        using readsD [OF r, of 0 "[]" "Suc (2 * length raw)"] d by (simp add: delim_def)
      ultimately show ?thesis using that c by fastforce
    qed
    have ws: "skip_ws (?j @ CHR '']'' # rest) = ?j @ CHR '']'' # rest"
      using skip_ws_reads [OF r] Cons p by (cases vs') (simp_all add: Join_Cons)
    obtain y where y: "?j @ CHR '']'' # rest = c # y" by (cases vs') (simp_all add: Cons p raw Join_Cons)
    have "json_elems n (Suc d) (?j @ CHR '']'' # rest) = Some (map snd vs, rest)"
      by (rule json_elems_text [OF _ assms]) (use Cons d n t in simp_all)
    then show ?thesis unfolding t using d raw(2) ws unfolding y by simp
  qed
qed (simp_all add: marshal_array_def is_ws_def)

subsection \<open>Numbers\<close>

definition number_text :: "string \<Rightarrow> bool" where
  \<comment> \<open>the text of a number of the grammar\<close>
  "number_text l \<longleftrightarrow> json_number l = Some (l, [])"

lemma digits1_delim: "digits1 s = Some (d, r) \<Longrightarrow> r = [] \<or> \<not> is_digit (hd r)"
  by (auto simp: digits1_def Let_def dropWhile_eq_Nil_conv hd_dropWhile split: if_splits)

lemma digits1_append:
  assumes "digits1 s = Some (d, r)" and "r \<noteq> [] \<or> x = [] \<or> \<not> is_digit (hd x)"
  shows "digits1 (s @ x) = Some (d, r @ x)"
proof (cases "\<forall>c \<in> set s. is_digit c")
  case True
  then have "d = s" "r = []" using assms(1)
    by (auto simp: digits1_def Let_def takeWhile_eq_all_conv dropWhile_eq_Nil_conv split: if_splits)
  moreover have "takeWhile is_digit (s @ x) = s" "dropWhile is_digit (s @ x) = x"
    using True assms(2) \<open>r = []\<close> by (cases x; simp add: takeWhile_append2 dropWhile_append2)+
  ultimately show ?thesis using assms(1) by (auto simp: digits1_def Let_def split: if_splits)
next
  case False
  then obtain c where "c \<in> set s" "\<not> is_digit c" by blast
  then have "takeWhile is_digit (s @ x) = takeWhile is_digit s" "dropWhile is_digit (s @ x) = dropWhile is_digit s @ x"
    by (simp_all add: takeWhile_append1 dropWhile_append1)
  then show ?thesis using assms(1) by (auto simp: digits1_def Let_def split: if_splits)
qed

definition off_number :: "string \<Rightarrow> bool" where
  \<comment> \<open>no character of a number at the start\<close>
  "off_number x \<longleftrightarrow> x = [] \<or> \<not> is_digit (hd x) \<and> hd x \<noteq> CHR ''.'' \<and> hd x \<noteq> CHR ''e'' \<and> hd x \<noteq> CHR ''E''"

lemma delim_off_number: "delim x \<Longrightarrow> off_number x"
  by (cases x) (auto simp: delim_def off_number_def is_digit_def)

lemma num_int_append: "num_int s = Some (i, r) \<Longrightarrow> off_number x \<Longrightarrow> num_int (s @ x) = Some (i, r @ x)"
  using digits1_append [of s i r x]
  by (cases s) (auto simp: num_int_def off_number_def split: if_splits)

lemma num_frac_append: "num_frac s = Some (i, r) \<Longrightarrow> off_number x \<Longrightarrow> num_frac (s @ x) = Some (i, r @ x)"
  using digits1_append [of "tl s" _ r x]
  by (cases s; cases x) (auto simp: num_frac_def off_number_def split: if_splits)

lemma num_exp_append: "num_exp s = Some (i, r) \<Longrightarrow> off_number x \<Longrightarrow> num_exp (s @ x) = Some (i, r @ x)"
  using digits1_append [of "tl s" _ r x] digits1_append [of "tl (tl s)" _ r x]
  by (cases s; cases "tl s"; cases x) (auto simp: num_exp_def off_number_def split: if_splits)

lemma json_number_append:
  assumes "json_number s = Some (l, r)" and "off_number x"
  shows "json_number (s @ x) = Some (l, r @ x)"
proof -
  define sg where "sg = (case s of c # cs \<Rightarrow> if c = CHR ''-'' then ([c], cs) else ([], s) | [] \<Rightarrow> ([], s))"
  obtain g s1 where g: "sg = (g, s1)" by (cases sg)
  have ne: "s \<noteq> []" using assms(1) by (auto simp: json_number_def num_int_def)
  obtain i s2 f s3 e where parts: "num_int s1 = Some (i, s2)" "num_frac s2 = Some (f, s3)"
    "num_exp s3 = Some (e, r)" "l = g @ i @ f @ e"
    using assms(1) by (auto simp: json_number_def sg_def [symmetric] g Let_def split: Option.bind_splits)
  have "(case s @ x of c # cs \<Rightarrow> if c = CHR ''-'' then ([c], cs) else ([], s @ x) | [] \<Rightarrow> ([], s @ x)) = (g, s1 @ x)"
    using g ne by (cases s) (auto simp: sg_def split: if_splits)
  then show ?thesis
    using num_int_append [OF parts(1) assms(2)] num_frac_append [OF parts(2) assms(2)]
      num_exp_append [OF parts(3) assms(2)] parts(4)
    by (simp add: json_number_def Let_def)
qed

lemma number_text_hd:
  assumes "number_text l"
  shows "l \<noteq> []" and "hd l = CHR ''-'' \<or> is_digit (hd l)"
proof -
  show ne: "l \<noteq> []" using assms by (auto simp: number_text_def json_number_def num_int_def)
  obtain c cs where l: "l = c # cs" using ne by (cases l) auto
  show "hd l = CHR ''-'' \<or> is_digit (hd l)"
    using assms unfolding l number_text_def json_number_def
    by (auto simp: num_int_def digits1_def Let_def is_digit_def split: if_splits Option.bind_splits)
qed

lemma reads_number:
  assumes "number_text l"
  shows "reads k l (JNum l)"
proof (rule readsI)
  note N = number_text_hd [OF assms]
  obtain c cs where l: "l = c # cs" using N(1) by (cases l) auto
  have c: "c \<noteq> CHR ''{''" "c \<noteq> CHR ''[''" "c \<noteq> CHR 0x22" "c \<noteq> CHR ''t''" "c \<noteq> CHR ''f''" "c \<noteq> CHR ''n''"
    using N(2) l by (auto simp: is_digit_def)
  show "l \<noteq> []" by (rule N(1))
  show "\<not> is_ws (hd l)" using N(2) by (auto simp: is_ws_def is_digit_def)
  fix d rest n
  assume "delim rest"
  then have "json_number (l @ rest) = Some (l, rest)"
    using json_number_append [OF assms [unfolded number_text_def]] delim_off_number by simp
  then show "json_value (Suc n) d (l @ rest) = Some (JNum l, rest)" using c by (simp add: l)
qed

lemma nat_dec_zero: "hd (nat_dec n) = CHR ''0'' \<Longrightarrow> tl (nat_dec n) = []"
proof (induction n rule: nat_dec.induct)
  case (1 n)
  show ?case
  proof (cases "n < 10")
    case True
    then show ?thesis by (subst nat_dec.simps) simp
  next
    case False
    then have h: "hd (nat_dec (n div 10)) = CHR ''0''" using 1(2) by (simp add: nat_dec.simps [of n])
    then have "tl (nat_dec (n div 10)) = []" using 1(1) False by simp
    then have "nat_dec (n div 10) = ''0''" using h by (cases "nat_dec (n div 10)") auto
    then have "parse_uint 0 (nat_dec (n div 10)) = Inr 0" by (simp add: is_digit_def digit_val_def)
    moreover have "n div 10 < 10"
    proof (rule ccontr)
      assume "\<not> n div 10 < 10"
      then have "nat_dec (n div 10) = nat_dec (n div 10 div 10) @ [digit_char (n div 10 mod 10)]"
        using nat_dec.simps [of "n div 10"] by simp
      then show False using \<open>nat_dec (n div 10) = ''0''\<close> nat_dec_nonempty [of "n div 10 div 10"]
        by (metis append_butlast_last_id butlast.simps(2) butlast_snoc nat_dec_nonempty)
    qed
    then have "parse_uint 0 (nat_dec (n div 10)) = Inr (n div 10)" by (intro parse_uint_nat_dec) simp
    ultimately show ?thesis using False by simp
  qed
qed

lemma number_text_Itoa: "number_text (Itoa i)"
proof -
  have nat: "num_int (nat_dec n) = Some (nat_dec n, [])" for n
  proof -
    have all: "\<forall>c \<in> set (nat_dec n). is_digit c" using nat_dec_digits by blast
    obtain c cs where c: "nat_dec n = c # cs" by (cases "nat_dec n") auto
    show ?thesis
    proof (cases "c = CHR ''0''")
      case True
      then have "cs = []" using nat_dec_zero [of n] c by auto
      then show ?thesis using True c by (simp add: num_int_def)
    next
      case False
      then show ?thesis using all c
        by (auto simp: num_int_def digits1_def Let_def takeWhile_eq_all_conv dropWhile_eq_Nil_conv)
    qed
  qed
  have h: "hd (nat_dec n) \<noteq> CHR ''-''" for n using nat_dec_hd by blast
  obtain c cs where c: "nat_dec (nat i) = c # cs" by (cases "nat_dec (nat i)") auto
  show ?thesis
    using nat [of "nat (- i)"] nat [of "nat i"] h [of "nat i"] c
    by (simp add: number_text_def Itoa_def FormatInt_def json_number_def num_frac_def num_exp_def Let_def)
qed

section \<open>Structs\<close>

text \<open>
  \<open>texts k fs\<close>: the fields are what \<open>json.Marshal\<close> puts into a struct's text. They are read back as
  the members \<open>parsed fs\<close>, in their order and with their text.
\<close>

definition val :: "string \<Rightarrow> json" where
  "val raw = the (json_parse raw)"

definition parsed :: "(string \<times> string) list \<Rightarrow> members" where
  "parsed fs = map (\<lambda>(key, raw). (key, raw, val raw)) fs"

definition texts :: "nat \<Rightarrow> (string \<times> string) list \<Rightarrow> bool" where
  "texts k fs \<longleftrightarrow> list_all (\<lambda>(key, raw). plain key \<and> reads k raw (val raw)) fs"

named_theorems text_intros "what json.Marshal writes is read back"
named_theorems val_simps "the values texts are read as"
named_theorems member_simps "decoding the members of a struct's text"

lemma depth_ok [simp]: "numeral k \<le> max_depth \<longleftrightarrow> numeral k \<le> (10000 :: nat)" "0 \<le> max_depth" "Suc 0 \<le> max_depth"
  by (simp_all add: max_depth_def)

lemma reads_val: "reads k raw v \<Longrightarrow> k \<le> max_depth \<Longrightarrow> val raw = v"
  by (simp add: val_def reads_parse)

lemma val_leaf [val_simps]:
  "val (marshal_string s) = JStr (to_valid s)" "val (marshal_bool b) = JBool b" "val ''null'' = JNull"
  "val (Itoa i) = JNum (Itoa i)"
  using reads_val [OF reads_string [of 0]] reads_val [OF reads_bool [of 0]] reads_val [OF reads_null [of 0]]
    reads_val [OF reads_number [OF number_text_Itoa, of 0]] by simp_all

lemma val_number: "number_text l \<Longrightarrow> val l = JNum l"
  using reads_val [OF reads_number [of l 0]] by simp

lemma reads_leaf [text_intros]:
  "reads k (marshal_string s) (val (marshal_string s))" "reads k (marshal_bool b) (val (marshal_bool b))"
  "reads k ''null'' (val ''null'')" "reads k (Itoa i) (val (Itoa i))"
  using reads_string reads_bool reads_null reads_number [OF number_text_Itoa] by (simp_all add: val_leaf)

lemma texts_intros [text_intros]:
  "texts k []"
  "plain key \<Longrightarrow> reads k raw (val raw) \<Longrightarrow> texts k fs \<Longrightarrow> texts k ((key, raw) # fs)"
  "texts k fs \<Longrightarrow> texts k gs \<Longrightarrow> texts k (fs @ gs)"
  "plain key \<Longrightarrow> texts k (omitempty key s)"
  using reads_leaf(1) by (simp_all add: texts_def omitempty_def)

lemma reads_marshal:
  assumes "texts k fs" and "Suc k \<le> max_depth"
  shows "reads (Suc k) (marshal_struct fs) (JObj (parsed fs))"
proof -
  have "list_all (\<lambda>(key, raw, v). plain key \<and> reads k raw v) (parsed fs)"
    using assms(1) by (auto simp: texts_def parsed_def list_all_iff)
  moreover have "map (\<lambda>(key, raw, v). (key, raw)) (parsed fs) = fs"
    by (simp add: parsed_def comp_def case_prod_unfold)
  ultimately show ?thesis using reads_struct by fastforce
qed

lemma val_struct: "texts k fs \<Longrightarrow> Suc k \<le> max_depth \<Longrightarrow> val (marshal_struct fs) = JObj (parsed fs)"
  using reads_val reads_marshal by blast

lemma reads_struct_val [text_intros]:
  "texts k fs \<Longrightarrow> Suc k \<le> max_depth \<Longrightarrow> reads (Suc k) (marshal_struct fs) (val (marshal_struct fs))"
  by (simp add: val_struct reads_marshal)

lemma reads_array_map:
  assumes "list_all (\<lambda>x. reads k (f x) (val (f x))) xs"
  shows "reads (Suc k) (marshal_array (map f xs)) (JArr (map (\<lambda>x. val (f x)) xs))"
  using reads_array [of k "map (\<lambda>x. (f x, val (f x))) xs"] assms by (simp add: list_all_iff comp_def)

text \<open>So decoding the text of a struct is decoding the members it was written with.\<close>

lemma unmarshal_marshal [member_simps]:
  assumes "texts k fs" and "Suc k \<le> max_depth"
  shows "unmarshal_struct (marshal_struct fs) = Some (parsed fs)"
  using reads_parse [OF reads_marshal [OF assms] assms(2)] by (simp add: unmarshal_struct_def)

lemma parsed_simps [member_simps]:
  "parsed [] = []" "parsed ((key, raw) # fs) = (key, raw, val raw) # parsed fs"
  "parsed (fs @ gs) = parsed fs @ parsed gs"
  "parsed (omitempty key s) = (if s = [] then [] else [(key, marshal_string s, JStr (to_valid s))])"
  by (simp_all add: parsed_def omitempty_def val_leaf)

lemma field_simps [member_simps]:
  "field name [] = []"
  "field name (m # ms) = (if fold_key (fst m) = fold_key name then [snd m] else []) @ field name ms"
  "field name (ms @ ns) = field name ms @ field name ns"
  by (simp_all add: field_def)

lemmas decode_simps [member_simps] = string_field_def struct_field_def

end
