(* ===== verification/Reap_Bodies.thy ===== *)
theory Reap_Bodies
  imports Reap_Client Json_Text
begin

text \<open>
  The request structs of \<open>internal/reap/client.go\<close> as \<open>json.Unmarshal\<close> decodes them, by the tags of
  their fields: the server decodes its callers' bodies into the same structs it marshals for REAP. Every
  text the client marshals is read back, and where the struct is decoded too, as the same struct.
\<close>

section \<open>Decoding the other kinds of fields\<close>

fun dec_int :: "int \<Rightarrow> (string \<times> json) list \<Rightarrow> int option" where
  "dec_int cur [] = Some cur"
| "dec_int cur ((raw, v) # vs) =
     (case v of
        JNum l \<Rightarrow> (case ParseInt64 l of (i, None) \<Rightarrow> dec_int i vs | (_, Some _) \<Rightarrow> None)
      | JNull \<Rightarrow> dec_int cur vs | _ \<Rightarrow> None)"

fun dec_bool :: "bool \<Rightarrow> (string \<times> json) list \<Rightarrow> bool option" where
  "dec_bool cur [] = Some cur"
| "dec_bool cur ((raw, v) # vs) =
     (case v of JBool b \<Rightarrow> dec_bool b vs | JNull \<Rightarrow> dec_bool cur vs | _ \<Rightarrow> None)"

fun dec_bool_ptr :: "bool option \<Rightarrow> (string \<times> json) list \<Rightarrow> bool option option" where
  \<comment> \<open>a \<open>*bool\<close>: \<open>null\<close> makes it nil again\<close>
  "dec_bool_ptr cur [] = Some cur"
| "dec_bool_ptr cur ((raw, v) # vs) =
     (case v of JBool b \<Rightarrow> dec_bool_ptr (Some b) vs | JNull \<Rightarrow> dec_bool_ptr None vs | _ \<Rightarrow> None)"

fun dec_float :: "(string \<Rightarrow> float64 option) \<Rightarrow> float64 \<Rightarrow> (string \<times> json) list \<Rightarrow> float64 option" where
  \<comment> \<open>\<open>pf\<close> is \<open>strconv.ParseFloat\<close>, None for a number beyond the range\<close>
  "dec_float pf cur [] = Some cur"
| "dec_float pf cur ((raw, v) # vs) =
     (case v of
        JNum l \<Rightarrow> (case pf l of Some x \<Rightarrow> dec_float pf x vs | None \<Rightarrow> None)
      | JNull \<Rightarrow> dec_float pf cur vs | _ \<Rightarrow> None)"

fun dec_ptr :: "members option \<Rightarrow> (string \<times> json) list \<Rightarrow> members option option" where
  \<comment> \<open>a pointer to a struct: a later object is decoded into the struct already there\<close>
  "dec_ptr cur [] = Some cur"
| "dec_ptr cur ((raw, v) # vs) =
     (case v of
        JObj ms \<Rightarrow> dec_ptr (Some ((case cur of None \<Rightarrow> [] | Some old \<Rightarrow> old) @ ms)) vs
      | JNull \<Rightarrow> dec_ptr None vs | _ \<Rightarrow> None)"

fun merge_elems :: "members list \<Rightarrow> json list \<Rightarrow> members list option" where
  \<comment> \<open>the elements of an array, each decoded into the element of the backing array\<close>
  "merge_elems bk [] = Some bk"
| "merge_elems bk (j # js) =
     (let old = (case bk of [] \<Rightarrow> [] | b # _ \<Rightarrow> b) in
      case j of
        JObj ms \<Rightarrow> map_option (\<lambda>r. (old @ ms) # r) (merge_elems (tl bk) js)
      | JNull \<Rightarrow> map_option (\<lambda>r. old # r) (merge_elems (tl bk) js)
      | _ \<Rightarrow> None)"

fun dec_structs :: "members list \<Rightarrow> nat option \<Rightarrow> (string \<times> json) list \<Rightarrow> members list option option" where
  \<comment> \<open>a slice of structs: the backing array and the length, None for the nil slice\<close>
  "dec_structs bk len [] = Some (map_option (\<lambda>n. take n bk) len)"
| "dec_structs bk len ((raw, v) # vs) =
     (case v of
        JArr js \<Rightarrow>
          if js = [] then dec_structs [] (Some 0) vs
          else Option.bind (merge_elems bk js) (\<lambda>b. dec_structs b (Some (length js)) vs)
      | JNull \<Rightarrow> dec_structs [] None vs
      | _ \<Rightarrow> None)"

definition int_field :: "string \<Rightarrow> members \<Rightarrow> int option" where
  "int_field name ms = dec_int 0 (field name ms)"

definition bool_field :: "string \<Rightarrow> members \<Rightarrow> bool option" where
  "bool_field name ms = dec_bool False (field name ms)"

definition bool_ptr_field :: "string \<Rightarrow> members \<Rightarrow> bool option option" where
  "bool_ptr_field name ms = dec_bool_ptr None (field name ms)"

definition float_field :: "(string \<Rightarrow> float64 option) \<Rightarrow> string \<Rightarrow> members \<Rightarrow> float64 option" where
  "float_field pf name ms = dec_float pf ''0'' (field name ms)"

definition ptr_field :: "string \<Rightarrow> (members \<Rightarrow> 'a option) \<Rightarrow> members \<Rightarrow> 'a option option" where
  "ptr_field name rd ms = Option.bind (dec_ptr None (field name ms))
     (\<lambda>p. case p of None \<Rightarrow> Some None | Some fs \<Rightarrow> map_option Some (rd fs))"

fun read_all :: "('a \<Rightarrow> 'b option) \<Rightarrow> 'a list \<Rightarrow> 'b list option" where
  "read_all rd [] = Some []"
| "read_all rd (x # xs) = Option.bind (rd x) (\<lambda>y. map_option (\<lambda>ys. y # ys) (read_all rd xs))"

definition structs_field :: "string \<Rightarrow> (members \<Rightarrow> 'a option) \<Rightarrow> members \<Rightarrow> 'a list option option" where
  "structs_field name rd ms = Option.bind (dec_structs [] None (field name ms))
     (\<lambda>p. case p of None \<Rightarrow> Some None | Some es \<Rightarrow> map_option Some (read_all rd es))"

section \<open>Decoding the structs\<close>

definition read_signer :: "members \<Rightarrow> Signer option" where
  "read_signer ms =
     Option.bind (string_field ''address'' ms) (\<lambda>a.
     Option.bind (string_field ''message'' ms) (\<lambda>m.
     Option.bind (string_field ''signature'' ms) (\<lambda>s.
     Some \<lparr>sg_Address = a, sg_Message = m, sg_Signature = s\<rparr>)))"

definition read_signers :: "members \<Rightarrow> Signers option" where
  "read_signers ms =
     Option.bind (ptr_field ''evm'' read_signer ms) (\<lambda>e.
     Option.bind (ptr_field ''svm'' read_signer ms) (\<lambda>s.
     Some \<lparr>sg_EVM = e, sg_SVM = s\<rparr>))"

definition read_address :: "members \<Rightarrow> CardShippingAddress option" where
  "read_address ms =
     Option.bind (string_field ''line1'' ms) (\<lambda>l1.
     Option.bind (string_field ''line2'' ms) (\<lambda>l2.
     Option.bind (string_field ''zone'' ms) (\<lambda>z.
     Option.bind (string_field ''city'' ms) (\<lambda>c.
     Option.bind (string_field ''postalCode'' ms) (\<lambda>p.
     Option.bind (string_field ''country'' ms) (\<lambda>k.
     Some \<lparr>sa_Line1 = l1, sa_Line2 = l2, sa_Zone = z, sa_City = c, sa_PostalCode = p, sa_Country = k\<rparr>))))))"

definition read_recipient :: "members \<Rightarrow> CardShipmentRecipient option" where
  "read_recipient ms =
     Option.bind (string_field ''firstName'' ms) (\<lambda>f.
     Option.bind (string_field ''lastName'' ms) (\<lambda>l.
     Option.bind (string_field ''phoneNumber'' ms) (\<lambda>p.
     Option.bind (int_field ''dialCode'' ms) (\<lambda>d.
     Option.bind (string_field ''email'' ms) (\<lambda>e.
     Some \<lparr>sr_FirstName = f, sr_LastName = l, sr_PhoneNumber = p, sr_DialCode = d, sr_Email = e\<rparr>)))))"

definition read_courier :: "members \<Rightarrow> CardShipmentCourier option" where
  "read_courier ms =
     Option.bind (string_field ''type'' ms) (\<lambda>t.
     Option.bind (string_field ''name'' ms) (\<lambda>n. Some \<lparr>co_Type = t, co_Name = n\<rparr>))"

definition read_member :: "members \<Rightarrow> CardShipmentMember option" where
  "read_member ms =
     Option.bind (string_field ''cardId'' ms) (\<lambda>i.
     Option.bind (string_field ''cardDesignId'' ms) (\<lambda>d.
     Option.bind (struct_field ''shippingAddress'' ms) (\<lambda>am.
     Option.bind (read_address am) (\<lambda>a.
     Some \<lparr>cm_CardID = i, cm_CardDesignID = d, cm_ShippingAddress = a\<rparr>))))"

definition read_create_shipment :: "members \<Rightarrow> CreateCardShipmentRequest option" where
  "read_create_shipment ms =
     Option.bind (Option.bind (struct_field ''destinationAddress'' ms) read_address) (\<lambda>a.
     Option.bind (Option.bind (struct_field ''recipient'' ms) read_recipient) (\<lambda>r.
     Option.bind (Option.bind (struct_field ''courier'' ms) read_courier) (\<lambda>c.
     Option.bind (structs_field ''cards'' read_member ms) (\<lambda>cs.
     Some \<lparr>cs_DestinationAddress = a, cs_Recipient = r, cs_Courier = c, cs_Cards = cs\<rparr>))))"

definition read_update_shipment :: "members \<Rightarrow> UpdateCardShipmentRequest option" where
  "read_update_shipment ms =
     Option.bind (Option.bind (struct_field ''destinationAddress'' ms) read_address) (\<lambda>a.
     Option.bind (Option.bind (struct_field ''recipient'' ms) read_recipient) (\<lambda>r.
     Option.bind (Option.bind (struct_field ''courier'' ms) read_courier) (\<lambda>c.
     Some \<lparr>us_DestinationAddress = a, us_Recipient = r, us_Courier = c\<rparr>)))"

definition read_company_address :: "members \<Rightarrow> CompanyAddress option" where
  "read_company_address ms =
     Option.bind (string_field ''line1'' ms) (\<lambda>l1.
     Option.bind (string_field ''line2'' ms) (\<lambda>l2.
     Option.bind (string_field ''city'' ms) (\<lambda>c.
     Option.bind (string_field ''state'' ms) (\<lambda>s.
     Option.bind (string_field ''postalCode'' ms) (\<lambda>p.
     Option.bind (string_field ''country'' ms) (\<lambda>k.
     Some \<lparr>ad_Line1 = l1, ad_Line2 = l2, ad_City = c, ad_State = s, ad_PostalCode = p, ad_Country = k\<rparr>))))))"

definition read_company_details :: "members \<Rightarrow> CompanyApplicationDetails option" where
  "read_company_details ms =
     Option.bind (string_field ''legalEntityName'' ms) (\<lambda>n.
     Option.bind (string_field ''registrationNumber'' ms) (\<lambda>r.
     Option.bind (string_field ''country'' ms) (\<lambda>c.
     Option.bind (Option.bind (struct_field ''registeredAddress'' ms) read_company_address) (\<lambda>ra.
     Option.bind (Option.bind (struct_field ''operationalAddress'' ms) read_company_address) (\<lambda>oa.
     Some \<lparr>cd_LegalEntityName = n, cd_RegistrationNumber = r, cd_Country = c,
           cd_RegisteredAddress = ra, cd_OperationalAddress = oa\<rparr>)))))"

definition read_company_status :: "members \<Rightarrow> SimulateCompanyStatusRequest option" where
  "read_company_status ms =
     Option.bind (string_field ''status'' ms) (\<lambda>s.
     Option.bind (ptr_field ''applicationDetails'' read_company_details ms) (\<lambda>d.
     Some \<lparr>sc_Status = s, sc_ApplicationDetails = d\<rparr>))"

definition read_merchant :: "members \<Rightarrow> SimulationMerchant option" where
  "read_merchant ms =
     Option.bind (string_field ''name'' ms) (\<lambda>n.
     Option.bind (string_field ''city'' ms) (\<lambda>c.
     Option.bind (string_field ''postCode'' ms) (\<lambda>p.
     Option.bind (string_field ''state'' ms) (\<lambda>s.
     Option.bind (string_field ''country'' ms) (\<lambda>k.
     Option.bind (string_field ''mccCode'' ms) (\<lambda>m.
     Option.bind (string_field ''mccCategory'' ms) (\<lambda>g.
     Some \<lparr>me_Name = n, me_City = c, me_PostCode = p, me_State = s, me_Country = k, me_MCCCode = m,
           me_MCCCategory = g\<rparr>)))))))"

definition read_simulate :: "(string \<Rightarrow> float64 option) \<Rightarrow> members \<Rightarrow> SimulateCardTransactionRequest option" where
  "read_simulate pf ms =
     Option.bind (string_field ''cardId'' ms) (\<lambda>i.
     Option.bind (float_field pf ''amount'' ms) (\<lambda>a.
     Option.bind (string_field ''transactionId'' ms) (\<lambda>t.
     Option.bind (float_field pf ''originalAmount'' ms) (\<lambda>oa.
     Option.bind (string_field ''originalCurrency'' ms) (\<lambda>oc.
     Option.bind (string_field ''channel'' ms) (\<lambda>c.
     Option.bind (string_field ''digitalWallet'' ms) (\<lambda>w.
     Option.bind (string_field ''declineReason'' ms) (\<lambda>r.
     Option.bind (ptr_field ''merchant'' read_merchant ms) (\<lambda>m.
     Some \<lparr>st_CardID = i, st_Amount = a, st_TransactionID = t, st_OriginalAmount = oa,
           st_OriginalCurrency = oc, st_Channel = c, st_DigitalWallet = w, st_DeclineReason = r,
           st_Merchant = m\<rparr>)))))))))"

section \<open>What is marshalled is read back\<close>

text \<open>The structs with every string made valid UTF-8: what the text of a struct says.\<close>

definition valid_signer :: "Signer \<Rightarrow> Signer" where
  "valid_signer s = \<lparr>sg_Address = to_valid (sg_Address s), sg_Message = to_valid (sg_Message s),
     sg_Signature = to_valid (sg_Signature s)\<rparr>"

definition valid_signers :: "Signers \<Rightarrow> Signers" where
  "valid_signers s = \<lparr>sg_EVM = map_option valid_signer (sg_EVM s), sg_SVM = map_option valid_signer (sg_SVM s)\<rparr>"

definition valid_address :: "CardShippingAddress \<Rightarrow> CardShippingAddress" where
  "valid_address a = \<lparr>sa_Line1 = to_valid (sa_Line1 a), sa_Line2 = to_valid (sa_Line2 a),
     sa_Zone = to_valid (sa_Zone a), sa_City = to_valid (sa_City a),
     sa_PostalCode = to_valid (sa_PostalCode a), sa_Country = to_valid (sa_Country a)\<rparr>"

definition valid_recipient :: "CardShipmentRecipient \<Rightarrow> CardShipmentRecipient" where
  "valid_recipient r = \<lparr>sr_FirstName = to_valid (sr_FirstName r), sr_LastName = to_valid (sr_LastName r),
     sr_PhoneNumber = to_valid (sr_PhoneNumber r), sr_DialCode = sr_DialCode r,
     sr_Email = to_valid (sr_Email r)\<rparr>"

definition valid_courier :: "CardShipmentCourier \<Rightarrow> CardShipmentCourier" where
  "valid_courier c = \<lparr>co_Type = to_valid (co_Type c), co_Name = to_valid (co_Name c)\<rparr>"

definition valid_member :: "CardShipmentMember \<Rightarrow> CardShipmentMember" where
  "valid_member m = \<lparr>cm_CardID = to_valid (cm_CardID m), cm_CardDesignID = to_valid (cm_CardDesignID m),
     cm_ShippingAddress = valid_address (cm_ShippingAddress m)\<rparr>"

definition valid_create_shipment :: "CreateCardShipmentRequest \<Rightarrow> CreateCardShipmentRequest" where
  "valid_create_shipment r = \<lparr>cs_DestinationAddress = valid_address (cs_DestinationAddress r),
     cs_Recipient = valid_recipient (cs_Recipient r), cs_Courier = valid_courier (cs_Courier r),
     cs_Cards = map_option (map valid_member) (cs_Cards r)\<rparr>"

definition valid_update_shipment :: "UpdateCardShipmentRequest \<Rightarrow> UpdateCardShipmentRequest" where
  "valid_update_shipment r = \<lparr>us_DestinationAddress = valid_address (us_DestinationAddress r),
     us_Recipient = valid_recipient (us_Recipient r), us_Courier = valid_courier (us_Courier r)\<rparr>"

definition omit_vals :: "string \<Rightarrow> (string \<times> json) list" where
  "omit_vals s = (if s = [] then [] else [(marshal_string s, JStr (to_valid s))])"

lemma omit_field:
  "field name (parsed (omitempty key s)) = (if fold_key key = fold_key name then omit_vals s else [])"
  "dec_string [] (omit_vals s) = Some (to_valid s)"
  by (simp_all add: parsed_simps field_simps omit_vals_def)

lemmas read_simps = field_simps parsed_simps(1-3) omit_field decode_simps int_field_def bool_field_def ptr_field_def
  structs_field_def omitnil_def val_leaf

text \<open>
  \<open>carries k rd txt x\<close>: the text is an object of at most \<open>k\<close> levels, and decoding it with \<open>rd\<close> gives \<open>x\<close>.
\<close>

definition carries :: "nat \<Rightarrow> (members \<Rightarrow> 'a option) \<Rightarrow> string \<Rightarrow> 'a \<Rightarrow> bool" where
  "carries k rd txt x \<longleftrightarrow> k \<le> max_depth \<and> (\<exists>ms. reads k txt (JObj ms) \<and> rd ms = Some x)"

lemma carriesI: "texts k fs \<Longrightarrow> Suc k \<le> max_depth \<Longrightarrow> rd (parsed fs) = Some x \<Longrightarrow> carries (Suc k) rd (marshal_struct fs) x"
  unfolding carries_def using reads_marshal by blast

lemma carriesE:
  assumes "carries k rd txt x"
  obtains ms where "val txt = JObj ms" "rd ms = Some x" "reads k txt (val txt)"
  using assms reads_val unfolding carries_def by metis

lemma carries_mono: "carries k rd txt x \<Longrightarrow> k \<le> k' \<Longrightarrow> k' \<le> max_depth \<Longrightarrow> carries k' rd txt x"
  unfolding carries_def using reads_mono by blast

lemma carries_unmarshal: "carries k rd txt x \<Longrightarrow> Option.bind (unmarshal_struct txt) rd = Some x"
  by (auto simp: carries_def unmarshal_struct_def dest: reads_parse)

lemma carries_field: "carries k rd txt x \<Longrightarrow> plain key \<Longrightarrow> texts k [(key, txt)]"
  by (auto simp: texts_def elim: carriesE)

lemma carries_struct_field:
  "carries k rd txt x \<Longrightarrow> Option.bind (dec_struct [(txt, val txt)]) rd = Some x"
  by (auto elim: carriesE)

lemma texts_omitnil:
  assumes "\<And>x. carries k rd (js x) (f x)" and "plain key"
  shows "texts k (omitnil key js p)"
  using carries_field [OF assms] by (cases p) (simp_all add: omitnil_def texts_def)

lemma omitnil_field:
  assumes "\<And>x. carries k rd (js x) (f x)"
  shows "Option.bind (dec_ptr None (case p of None \<Rightarrow> [] | Some x \<Rightarrow> [(js x, val (js x))]))
     (\<lambda>q. case q of None \<Rightarrow> Some None | Some fs \<Rightarrow> map_option Some (rd fs)) = Some (map_option f p)"
proof (cases p)
  case (Some a)
  obtain ms where "val (js a) = JObj ms" "rd ms = Some (f a)" using carriesE [OF assms] by metis
  then show ?thesis using Some by simp
qed simp

lemma parsed_omitnil: "parsed (omitnil key js p) = (case p of None \<Rightarrow> [] | Some x \<Rightarrow> [(key, js x, val (js x))])"
  by (simp add: omitnil_def parsed_def split: option.split)

lemma field_omitnil:
  "field name (case p of None \<Rightarrow> [] | Some x \<Rightarrow> [(key, js x, val (js x))])
     = (if fold_key key = fold_key name then (case p of None \<Rightarrow> [] | Some x \<Rightarrow> [(js x, val (js x))]) else [])"
  by (simp add: field_def split: option.split)

lemma merge_elems_fresh:
  assumes "\<And>x. carries k rd (js x) (f x)"
  shows "\<exists>es. merge_elems [] (map (\<lambda>x. val (js x)) xs) = Some es \<and> length es = length xs
     \<and> read_all rd es = Some (map f xs)"
proof (induction xs)
  case (Cons x xs)
  obtain ms where "val (js x) = JObj ms" "rd ms = Some (f x)" using carriesE [OF assms] by metis
  then show ?case using Cons by auto
qed simp

lemma structs_field_array:
  assumes "\<And>x. carries k rd (js x) (f x)" and "Suc k \<le> max_depth"
    and "field name ms = [(raw, val (marshal_array (map js xs)))]"
  shows "structs_field name rd ms = Some (Some (map f xs))"
proof -
  have "list_all (\<lambda>x. reads k (js x) (val (js x))) xs"
    using assms(1) by (auto simp: list_all_iff elim: carriesE)
  then have "val (marshal_array (map js xs)) = JArr (map (\<lambda>x. val (js x)) xs)"
    by (intro reads_val [OF reads_array_map]) (use assms(2) in simp_all)
  moreover obtain es where es: "merge_elems [] (map (\<lambda>x. val (js x)) xs) = Some es"
    "length es = length xs" "read_all rd es = Some (map f xs)"
    using merge_elems_fresh [of k rd js f xs, OF assms(1)] by blast
  ultimately show ?thesis using assms(3) by (auto simp: structs_field_def)
qed

lemma reads_array_carries [text_intros]:
  assumes "\<And>x. carries k rd (js x) (f x)" and "Suc k \<le> max_depth"
  shows "reads (Suc k) (marshal_array (map js xs)) (val (marshal_array (map js xs)))"
proof -
  have "list_all (\<lambda>x. reads k (js x) (val (js x))) xs"
    using assms(1) by (auto simp: list_all_iff elim: carriesE)
  from reads_array_map [OF this] reads_val [OF reads_array_map [OF this] assms(2)] show ?thesis by simp
qed

subsection \<open>Struct by struct\<close>

lemma carries_signer: "carries 1 read_signer (json_signer s) (valid_signer s)"
  unfolding json_signer_def One_nat_def
  by (rule carriesI, intro text_intros)
    (simp_all add: plain_def read_signer_def valid_signer_def read_simps)

lemma carries_signers: "carries 2 read_signers (json_signers s) (valid_signers s)"
  unfolding json_signers_def numeral_2_eq_2
  by (rule carriesI, intro text_intros texts_omitnil [OF carries_signer [unfolded One_nat_def]])
    (simp_all add: plain_def max_depth_def read_signers_def valid_signers_def read_simps [unfolded omitnil_def] parsed_omitnil field_omitnil
      omitnil_field [OF carries_signer])

lemma carries_address: "carries 1 read_address (json_address a) (valid_address a)"
  unfolding json_address_def One_nat_def
  by (rule carriesI, intro text_intros)
    (simp_all add: plain_def read_address_def valid_address_def read_simps)

lemma carries_recipient:
  "in_int64 (sr_DialCode r) \<Longrightarrow> carries 1 read_recipient (json_recipient r) (valid_recipient r)"
  unfolding json_recipient_def One_nat_def
  by (rule carriesI, intro text_intros)
    (simp_all add: plain_def read_recipient_def valid_recipient_def read_simps, simp add: Itoa_def ParseInt64_FormatInt)

lemma carries_courier: "carries 1 read_courier (json_courier c) (valid_courier c)"
  unfolding json_courier_def One_nat_def
  by (rule carriesI, intro text_intros)
    (simp_all add: plain_def read_courier_def valid_courier_def read_simps)

lemma carries_member: "carries 2 read_member (json_member m) (valid_member m)"
proof -
  obtain am where am: "val (json_address (cm_ShippingAddress m)) = JObj am"
    "read_address am = Some (valid_address (cm_ShippingAddress m))"
    "reads 1 (json_address (cm_ShippingAddress m)) (val (json_address (cm_ShippingAddress m)))"
    by (rule carriesE [OF carries_address])
  show ?thesis
    unfolding json_member_def numeral_2_eq_2
    by (rule carriesI, intro text_intros am(3) [unfolded One_nat_def])
      (simp_all add: plain_def max_depth_def read_member_def valid_member_def read_simps am)
qed

lemma carries_shipment_parts:
  assumes "in_int64 (sr_DialCode r)"
  shows "\<exists>am rm cm. val (json_address a) = JObj am \<and> read_address am = Some (valid_address a)
     \<and> val (json_recipient r) = JObj rm \<and> read_recipient rm = Some (valid_recipient r)
     \<and> val (json_courier c) = JObj cm \<and> read_courier cm = Some (valid_courier c)
     \<and> texts 1 [(''destinationAddress'', json_address a), (''recipient'', json_recipient r), (''courier'', json_courier c)]"
proof -
  obtain am where a: "val (json_address a) = JObj am" "read_address am = Some (valid_address a)"
    "reads 1 (json_address a) (JObj am)"
    using carriesE [OF carries_address] by metis
  obtain rm where r: "val (json_recipient r) = JObj rm" "read_recipient rm = Some (valid_recipient r)"
    "reads 1 (json_recipient r) (JObj rm)"
    using carriesE [OF carries_recipient [OF assms]] by metis
  obtain cm where c: "val (json_courier c) = JObj cm" "read_courier cm = Some (valid_courier c)"
    "reads 1 (json_courier c) (JObj cm)"
    using carriesE [OF carries_courier] by metis
  show ?thesis using a r c by (simp add: texts_def plain_def)
qed

lemma texts_mono: "texts k fs \<Longrightarrow> k \<le> k' \<Longrightarrow> texts k' fs"
  unfolding texts_def list_all_iff using reads_mono by fastforce

lemma carries_create_shipment:
  assumes "in_int64 (sr_DialCode (cs_Recipient r))"
  shows "carries 4 read_create_shipment (json_create_shipment r) (valid_create_shipment r)"
proof -
  obtain am rm cm where P: "val (json_address (cs_DestinationAddress r)) = JObj am"
      "read_address am = Some (valid_address (cs_DestinationAddress r))"
      "val (json_recipient (cs_Recipient r)) = JObj rm" "read_recipient rm = Some (valid_recipient (cs_Recipient r))"
      "val (json_courier (cs_Courier r)) = JObj cm" "read_courier cm = Some (valid_courier (cs_Courier r))"
    and t: "texts 1 [(''destinationAddress'', json_address (cs_DestinationAddress r)),
      (''recipient'', json_recipient (cs_Recipient r)), (''courier'', json_courier (cs_Courier r))]"
    using carries_shipment_parts [OF assms] by metis
  define cards where "cards = (case cs_Cards r of None \<Rightarrow> ''null'' | Some ms \<Rightarrow> marshal_array (map json_member ms))"
  have cards: "reads 3 cards (val cards)"
    using reads_array_carries [OF carries_member] by (auto simp: cards_def max_depth_def reads_leaf split: option.split)
  have sf: "structs_field ''cards'' read_member ms = Some (map_option (map valid_member) (cs_Cards r))"
    if "field ''cards'' ms = [(cards, val cards)]" for ms
  proof (cases "cs_Cards r")
    case None
    then show ?thesis using that by (simp add: structs_field_def cards_def val_leaf)
  next
    case (Some xs)
    then have "structs_field ''cards'' read_member ms = Some (Some (map valid_member xs))"
      by (intro structs_field_array [OF carries_member, where ms = ms and raw = cards]) (use that in \<open>simp_all add: cards_def max_depth_def\<close>)
    then show ?thesis using Some by simp
  qed
  let ?fs = "[(''destinationAddress'', json_address (cs_DestinationAddress r)),
      (''recipient'', json_recipient (cs_Recipient r)), (''courier'', json_courier (cs_Courier r)), (''cards'', cards)]"
  have t3: "texts 3 ?fs" using texts_mono [OF t, of 3] cards by (simp add: texts_def plain_def)
  have c: "field ''cards'' (parsed ?fs) = [(cards, val cards)]" by (simp add: field_simps parsed_simps)
  have "read_create_shipment (parsed ?fs) = Some (valid_create_shipment r)"
    unfolding read_create_shipment_def sf [OF c]
    by (simp add: valid_create_shipment_def read_simps P)
  from carriesI [where rd = read_create_shipment, OF t3 _ this] show ?thesis
    unfolding json_create_shipment_def cards_def [symmetric] by (simp add: max_depth_def)
qed

lemma carries_update_shipment:
  assumes "in_int64 (sr_DialCode (us_Recipient r))"
  shows "carries 2 read_update_shipment (json_update_shipment r) (valid_update_shipment r)"
proof -
  obtain am rm cm where P: "val (json_address (us_DestinationAddress r)) = JObj am"
      "read_address am = Some (valid_address (us_DestinationAddress r))"
      "val (json_recipient (us_Recipient r)) = JObj rm" "read_recipient rm = Some (valid_recipient (us_Recipient r))"
      "val (json_courier (us_Courier r)) = JObj cm" "read_courier cm = Some (valid_courier (us_Courier r))"
    and t: "texts 1 [(''destinationAddress'', json_address (us_DestinationAddress r)),
      (''recipient'', json_recipient (us_Recipient r)), (''courier'', json_courier (us_Courier r))]"
    using carries_shipment_parts [OF assms] by metis
  let ?fs = "[(''destinationAddress'', json_address (us_DestinationAddress r)),
      (''recipient'', json_recipient (us_Recipient r)), (''courier'', json_courier (us_Courier r))]"
  have "read_update_shipment (parsed ?fs) = Some (valid_update_shipment r)"
    unfolding read_update_shipment_def by (simp add: valid_update_shipment_def read_simps P)
  from carriesI [where rd = read_update_shipment, OF t _ this] show ?thesis
    unfolding json_update_shipment_def by (simp add: max_depth_def numeral_2_eq_2)
qed

subsection \<open>The simulation's structs\<close>

definition valid_company_address :: "CompanyAddress \<Rightarrow> CompanyAddress" where
  "valid_company_address a = \<lparr>ad_Line1 = to_valid (ad_Line1 a), ad_Line2 = to_valid (ad_Line2 a),
     ad_City = to_valid (ad_City a), ad_State = to_valid (ad_State a),
     ad_PostalCode = to_valid (ad_PostalCode a), ad_Country = to_valid (ad_Country a)\<rparr>"

definition valid_company_details :: "CompanyApplicationDetails \<Rightarrow> CompanyApplicationDetails" where
  "valid_company_details d = \<lparr>cd_LegalEntityName = to_valid (cd_LegalEntityName d),
     cd_RegistrationNumber = to_valid (cd_RegistrationNumber d), cd_Country = to_valid (cd_Country d),
     cd_RegisteredAddress = valid_company_address (cd_RegisteredAddress d),
     cd_OperationalAddress = valid_company_address (cd_OperationalAddress d)\<rparr>"

definition valid_company_status :: "SimulateCompanyStatusRequest \<Rightarrow> SimulateCompanyStatusRequest" where
  "valid_company_status r = \<lparr>sc_Status = to_valid (sc_Status r),
     sc_ApplicationDetails = map_option valid_company_details (sc_ApplicationDetails r)\<rparr>"

definition valid_merchant :: "SimulationMerchant \<Rightarrow> SimulationMerchant" where
  "valid_merchant m = \<lparr>me_Name = to_valid (me_Name m), me_City = to_valid (me_City m),
     me_PostCode = to_valid (me_PostCode m), me_State = to_valid (me_State m),
     me_Country = to_valid (me_Country m), me_MCCCode = to_valid (me_MCCCode m),
     me_MCCCategory = to_valid (me_MCCCategory m)\<rparr>"

definition valid_simulate :: "SimulateCardTransactionRequest \<Rightarrow> SimulateCardTransactionRequest" where
  \<comment> \<open>a negative zero that \<open>omitempty\<close> leaves out comes bk as zero\<close>
  "valid_simulate r = \<lparr>st_CardID = to_valid (st_CardID r), st_Amount = st_Amount r,
     st_TransactionID = to_valid (st_TransactionID r),
     st_OriginalAmount = (if st_OriginalAmount r = ''-0'' then ''0'' else st_OriginalAmount r),
     st_OriginalCurrency = to_valid (st_OriginalCurrency r), st_Channel = to_valid (st_Channel r),
     st_DigitalWallet = to_valid (st_DigitalWallet r), st_DeclineReason = to_valid (st_DeclineReason r),
     st_Merchant = map_option valid_merchant (st_Merchant r)\<rparr>"

lemma carries_company_address: "carries 1 read_company_address (json_company_address a) (valid_company_address a)"
  unfolding json_company_address_def One_nat_def
  by (rule carriesI, intro text_intros)
    (simp_all add: plain_def read_company_address_def valid_company_address_def read_simps)

lemma carries_company_details: "carries 2 read_company_details (json_company_details d) (valid_company_details d)"
proof -
  obtain rm where rm: "val (json_company_address (cd_RegisteredAddress d)) = JObj rm"
    "read_company_address rm = Some (valid_company_address (cd_RegisteredAddress d))"
    "reads 1 (json_company_address (cd_RegisteredAddress d)) (val (json_company_address (cd_RegisteredAddress d)))"
    by (rule carriesE [OF carries_company_address])
  obtain om where om: "val (json_company_address (cd_OperationalAddress d)) = JObj om"
    "read_company_address om = Some (valid_company_address (cd_OperationalAddress d))"
    "reads 1 (json_company_address (cd_OperationalAddress d)) (val (json_company_address (cd_OperationalAddress d)))"
    by (rule carriesE [OF carries_company_address])
  show ?thesis
    unfolding json_company_details_def numeral_2_eq_2
    by (rule carriesI, intro text_intros rm(3) [unfolded One_nat_def] om(3) [unfolded One_nat_def])
      (simp_all add: plain_def max_depth_def read_company_details_def valid_company_details_def read_simps rm om)
qed

lemma carries_company_status: "carries 3 read_company_status (json_company_status r) (valid_company_status r)"
  unfolding json_company_status_def numeral_3_eq_3
  by (rule carriesI, intro text_intros texts_omitnil [OF carries_company_details [unfolded numeral_2_eq_2]])
    (simp_all add: plain_def max_depth_def read_company_status_def valid_company_status_def
      read_simps [unfolded omitnil_def] parsed_omitnil field_omitnil omitnil_field [OF carries_company_details])

lemma carries_merchant: "carries 1 read_merchant (json_merchant m) (valid_merchant m)"
  unfolding json_merchant_def One_nat_def
  by (rule carriesI, intro text_intros)
    (simp_all add: plain_def read_merchant_def valid_merchant_def read_simps)

lemma texts_number: "number_text l \<Longrightarrow> plain key \<Longrightarrow> texts k [(key, l)]"
  by (simp add: texts_def val_number reads_number)

lemma texts_omitzero: "number_text l \<Longrightarrow> plain key \<Longrightarrow> texts k (omitzero key l)"
  by (simp add: omitzero_def texts_number texts_intros)

definition zero_vals :: "float64 \<Rightarrow> (string \<times> json) list" where
  "zero_vals l = (if l = ''0'' \<or> l = ''-0'' then [] else [(l, val l)])"

lemma omitzero_field:
  "field name (parsed (omitzero key l)) = (if fold_key key = fold_key name then zero_vals l else [])"
  "number_text l \<Longrightarrow> pf l = Some l \<Longrightarrow> dec_float pf ''0'' (zero_vals l) = Some (if l = ''-0'' then ''0'' else l)"
  by (simp_all add: parsed_simps field_simps omitzero_def zero_vals_def val_number)

lemma carries_simulate:
  assumes "number_text (st_Amount r)" and "number_text (st_OriginalAmount r)"
    and "pf (st_Amount r) = Some (st_Amount r)" and "pf (st_OriginalAmount r) = Some (st_OriginalAmount r)"
  shows "carries 2 (read_simulate pf) (json_simulate r) (valid_simulate r)"
proof -
  have m: "texts 1 (omitnil ''merchant'' json_merchant (st_Merchant r))"
    by (rule texts_omitnil [OF carries_merchant]) (simp add: plain_def)
  have a: "reads 1 (st_Amount r) (val (st_Amount r))" using assms(1) by (simp add: val_number reads_number)
  show ?thesis
    unfolding json_simulate_def numeral_2_eq_2
    by (rule carriesI, intro text_intros m [unfolded One_nat_def] a [unfolded One_nat_def] texts_omitzero assms(2))
      (simp_all add: plain_def max_depth_def read_simulate_def valid_simulate_def float_field_def
        read_simps [unfolded omitnil_def] parsed_omitnil field_omitnil omitnil_field [OF carries_merchant]
        omitzero_field val_number assms)
qed

end
