(* ===== verification/Webhook_Service.thy ===== *)
theory Webhook_Service
  imports Notification Token_Event_Stores Reap_Webhook Reap_Bodies
begin

text \<open>
  \<open>internal/service/webhook.go\<close>: a delivery is verified, recorded by its event ID, and, the first
  time only, turned into a notification for the vault it concerns.
\<close>

section \<open>Resolving the vault\<close>

definition subject_payload :: "string \<Rightarrow> (string \<times> string \<times> string \<times> string list) option" where
  \<comment> \<open>the \<open>id\<close>, \<open>cardId\<close>, \<open>accountId\<close> and \<open>cards[].cardId\<close> of the event's data\<close>
  "subject_payload payload = do {
     ms \<leftarrow> unmarshal_struct payload;
     i \<leftarrow> string_field ''id'' ms;
     c \<leftarrow> string_field ''cardId'' ms;
     a \<leftarrow> string_field ''accountId'' ms;
     cs \<leftarrow> structs_field ''cards'' (string_field ''cardId'') ms;
     Some (i, c, a, case cs of None \<Rightarrow> [] | Some ids \<Rightarrow> ids) }"

definition eventSubjectIDs :: "string \<Rightarrow> string \<Rightarrow> string \<times> string \<times> string" where
  "eventSubjectIDs eventType payload =
     (case subject_payload payload of
        None \<Rightarrow> ([], [], [])
      | Some (i, c, a, cards) \<Rightarrow>
          (let c1 = (if c = [] \<and> cards \<noteq> [] then hd cards else c);
               cardID = (if c1 = [] \<and> eventType = ''CARD_STATUS_UPDATED'' then i else c1);
               accountID = (if a = [] \<and> eventType = ''ACCOUNT_STATUS_UPDATED'' then i else a) in
           if cardID \<noteq> [] then (cardID, [], [])
           else if accountID \<noteq> [] then ([], accountID, [])
           else if eventType = ''USER_APPLICATION_STATUS_UPDATED'' \<and> i \<noteq> [] then ([], [], i)
           else ([], [], [])))"

definition resolveVault :: "env \<Rightarrow> string \<Rightarrow> string \<Rightarrow> string eff" where
  "resolveVault env eventType payload =
     (case eventSubjectIDs eventType payload of (cardID, accountID, userID) \<Rightarrow>
        if cardID \<noteq> [] then cardownership_OwnerOf env cardID
        else if accountID \<noteq> [] then accountownership_OwnerOf env accountID
        else if userID \<noteq> [] then GetPublicKeyByReapUserID env userID
        else ret [])"

section \<open>Handling a delivery\<close>

definition vault_request :: "env \<Rightarrow> string \<Rightarrow> string \<Rightarrow> string \<Rightarrow> string \<Rightarrow> notification_Request" where
  "vault_request env pk cc eventType payload =
     \<lparr>n_VaultID = VaultID (crypto_lib env) pk cc, n_Type = ''generic'', n_Title = ''Vultisig Card'',
      n_Body = notificationBody (unicode_lower env) eventType payload\<rparr>"

definition notifyVault :: "env \<Rightarrow> string \<Rightarrow> string \<Rightarrow> unit eff" where
  "notifyVault env eventType payload =
     (if \<not> notifications env then ret ()
      else attempt (resolveVault env eventType payload) (\<lambda>r. case r of
        Inl _ \<Rightarrow> ret ()
      | Inr publicKey \<Rightarrow>
          if publicKey = [] then ret ()
          else attempt (GetHexChainCode env publicKey) (\<lambda>r. case r of
            Inl _ \<Rightarrow> ret ()
          | Inr hexChainCode \<Rightarrow>
              if hexChainCode = [] then ret ()
              else attempt (Notify env (vault_request env publicKey hexChainCode eventType payload))
                     (\<lambda>_. ret ()))))"

definition envelope :: "string \<Rightarrow> (string \<times> string \<times> string) option" where
  "envelope rawBody = do {
     ms \<leftarrow> unmarshal_struct rawBody;
     i \<leftarrow> string_field ''id'' ms;
     ty \<leftarrow> string_field ''type'' ms;
     (if i = [] \<or> ty = [] then None else Some (i, ty, dec_raw (field ''data'' ms))) }"

definition HandleEvent :: "env \<Rightarrow> string \<Rightarrow> string \<Rightarrow> unit eff" where
  "HandleEvent env rawBody signatureHeader =
     andThen (time_now env) (\<lambda>now.
       case VerifyWebhookSignature (crypto_lib env) (webhookSecret env) rawBody signatureHeader now of
         Inl e \<Rightarrow> fail e
       | Inr _ \<Rightarrow>
           (case envelope rawBody of
              None \<Rightarrow> fail ErrInvalidWebhookPayload
            | Some (i, ty, payload) \<Rightarrow>
                andThen (reapwebhookevent_Record env i ty rawBody) (\<lambda>inserted.
                  if \<not> inserted then ret ()
                  else andThen (notifyVault env ty payload) (\<lambda>_. ret ()))))"

section \<open>The subject of an event\<close>

text \<open>At most one of the three IDs is set.\<close>

lemma eventSubjectIDs_one:
  "eventSubjectIDs ty payload = (c, a, u) \<Longrightarrow>
     (c = [] \<or> a = []) \<and> (c = [] \<or> u = []) \<and> (a = [] \<or> u = [])"
  by (auto simp: eventSubjectIDs_def Let_def split: option.splits if_splits)

definition vault_of_event :: "db \<Rightarrow> string \<Rightarrow> string \<Rightarrow> string \<Rightarrow> bool" where
  \<comment> \<open>the vault \<open>pk\<close> is the recorded owner of the event's subject\<close>
  "vault_of_event d ty payload pk \<longleftrightarrow>
     (case eventSubjectIDs ty payload of (c, a, u) \<Rightarrow>
        if c \<noteq> [] then owner_in (card_ownership d) c = Some pk
        else if a \<noteq> [] then owner_in (account_ownership d) a = Some pk
        else u \<noteq> [] \<and> reap_user_of d pk = Some u)"

lemma resolveVault_db: "keeps_db w (snd (resolveVault env ty payload w))"
  unfolding resolveVault_def by (auto intro!: unwritten_intros split: prod.splits)

lemma resolveVault_Inr:
  assumes "resolveVault env ty payload w = (Inr pk, w')" and "pk \<noteq> []" and "db_ok (wdb w)"
  shows "vault_of_event (wdb w) ty payload pk"
proof -
  obtain c a u where s: "eventSubjectIDs ty payload = (c, a, u)" by (cases "eventSubjectIDs ty payload")
  consider (card) "c \<noteq> []" | (account) "c = []" "a \<noteq> []" | (user) "c = []" "a = []" "u \<noteq> []"
    using assms(1,2) s by (cases "c = []"; cases "a = []"; cases "u = []") (auto simp: resolveVault_def)
  then show ?thesis
  proof cases
    case card
    then show ?thesis
      using assms(1,2) s card_store.ownerof_Inr [of env c w pk w']
      by (auto simp: resolveVault_def vault_of_event_def split: option.splits)
  next
    case account
    then show ?thesis
      using assms(1,2) s account_store.ownerof_Inr [of env a w pk w']
      by (auto simp: resolveVault_def vault_of_event_def split: option.splits)
  next
    case user
    then show ?thesis
      using assms s GetPublicKeyByReapUserID_inverse [OF assms(3), of env u pk w']
      by (simp add: resolveVault_def vault_of_event_def)
  qed
qed

section \<open>Frames\<close>

lemma resolveVault_frames [evo_intros, silent_intros, unqueued_intros]:
  "evolves w (snd (resolveVault env ty payload w))" "keeps_sent w (snd (resolveVault env ty payload w))"
  "keeps_tasks w (snd (resolveVault env ty payload w))"
  unfolding resolveVault_def
  by (auto intro!: evo_intros silent_intros unqueued_intros split: prod.splits)

lemma notifyVault_frames [evo_intros, silent_intros, unwritten_intros]:
  "evolves w (snd (notifyVault env ty payload w))" "keeps_sent w (snd (notifyVault env ty payload w))"
  "keeps_db w (snd (notifyVault env ty payload w))"
  unfolding notifyVault_def
  by (auto intro!: evo_intros silent_intros unwritten_intros resolveVault_db split: sum.splits)

lemma HandleEvent_evolves [evo_intros]: "evolves w (snd (HandleEvent env raw h w))"
  unfolding HandleEvent_def
  by (auto intro!: evo_intros split: sum.splits option.splits prod.splits)

lemma HandleEvent_silent [silent_intros]: "keeps_sent w (snd (HandleEvent env raw h w))"
  unfolding HandleEvent_def
  by (auto intro!: silent_intros split: sum.splits option.splits prod.splits)

section \<open>Notifications go to the owner, once\<close>

lemma notifyVault_total: "fst (notifyVault env ty payload w) = Inr ()"
  by (auto simp: notifyVault_def attempt_def split: sum.splits prod.splits)

lemma GetHexChainCode_Inr:
  assumes "GetHexChainCode env pk w = (Inr cc, w')" and "cc \<noteq> []"
  shows "chain_code_of (wdb w) pk = Some cc" and "tasks w' = tasks w"
proof -
  show "chain_code_of (wdb w) pk = Some cc"
    using assms by (auto simp: GetHexChainCode_eq split: if_splits option.splits)
  show "tasks w' = tasks w" using mapping_op_unqueued(3) [of w env pk] assms by (simp add: keeps_tasks_def)
qed

definition notified :: "env \<Rightarrow> db \<Rightarrow> string \<Rightarrow> string \<Rightarrow> string \<Rightarrow> bool" where
  \<comment> \<open>\<open>task\<close> is the notification of the event for the vault it belongs to\<close>
  "notified env d ty payload task \<longleftrightarrow>
     (\<exists>pk cc. vault_of_event d ty payload pk \<and> chain_code_of d pk = Some cc
        \<and> task = json_notification (vault_request env pk cc ty payload))"

lemma notifyVault_tasks:
  assumes "db_ok (wdb w)"
  shows "tasks (snd (notifyVault env ty payload w)) = tasks w
     \<or> (\<exists>task. tasks (snd (notifyVault env ty payload w)) = tasks w @ [task]
               \<and> notified env (wdb w) ty payload task)"
proof -
  obtain r w1 where rv: "resolveVault env ty payload w = (r, w1)" by fastforce
  have w1: "wdb w1 = wdb w" "tasks w1 = tasks w"
    using resolveVault_db [of w env ty payload] resolveVault_frames(3) [of w env ty payload] rv
    by (simp_all add: keeps_db_def keeps_tasks_def)
  show ?thesis
  proof (cases "notifications env \<and> (\<exists>pk. r = Inr pk \<and> pk \<noteq> [])")
    case False
    then show ?thesis using rv w1 by (cases r) (auto simp: notifyVault_def attempt_def)
  next
    case True
    then obtain pk where pk: "r = Inr pk" "pk \<noteq> []" and nt: "notifications env" by blast
    note v = resolveVault_Inr [OF rv [unfolded pk(1)] pk(2) assms]
    obtain q w2 where gc: "GetHexChainCode env pk w1 = (q, w2)" by fastforce
    have w2: "tasks w2 = tasks w"
      using mapping_op_unqueued(3) [of w1 env pk] gc w1 by (simp add: keeps_tasks_def)
    show ?thesis
    proof (cases "\<exists>cc. q = Inr cc \<and> cc \<noteq> []")
      case False
      then show ?thesis using rv pk nt gc w2 by (cases q) (auto simp: notifyVault_def attempt_def)
    next
      case True
      then obtain cc where cc: "q = Inr cc" "cc \<noteq> []" by blast
      have "notified env (wdb w) ty payload (json_notification (vault_request env pk cc ty payload))"
        using v GetHexChainCode_Inr(1) [OF gc [unfolded cc(1)] cc(2)] w1 unfolding notified_def by metis
      moreover have "tasks (snd (notifyVault env ty payload w))
          = tasks (snd (Notify env (vault_request env pk cc ty payload) w2))"
        using rv pk nt gc cc by (simp add: notifyVault_def attempt_def split: prod.split)
      ultimately show ?thesis using Notify_tasks w2 by metis
    qed
  qed
qed

text \<open>What a delivery does, case by case.\<close>

lemma HandleEvent_cases:
  obtains
    (rejected) e where "HandleEvent env raw h w = (Inl e, w\<lparr>tick := Suc (tick w)\<rparr>)"
      "if \<not> webhook_signed (crypto_lib env) (webhookSecret env) raw h (clock env (tick w))
       then e = ErrInvalidWebhookSignature else e = ErrInvalidWebhookPayload \<and> envelope raw = None"
  | (db_error) i ty p w1 where "envelope raw = Some (i, ty, p)" "HandleEvent env raw h w = (Inl ErrDb, w1)"
      "webhook_signed (crypto_lib env) (webhookSecret env) raw h (clock env (tick w))"
      "tasks w1 = tasks w" "evolves w w1" "map_of (webhook_events (wdb w)) i \<noteq> None \<Longrightarrow> wdb w1 = wdb w"
  | (redelivered) i ty p w1 where "envelope raw = Some (i, ty, p)" "HandleEvent env raw h w = (Inr (), w1)"
      "webhook_signed (crypto_lib env) (webhookSecret env) raw h (clock env (tick w))"
      "map_of (webhook_events (wdb w)) i \<noteq> None" "wdb w1 = wdb w" "tasks w1 = tasks w"
  | (fresh) i ty p w1 where "envelope raw = Some (i, ty, p)"
      "HandleEvent env raw h w = (Inr (), snd (notifyVault env ty p w1))"
      "webhook_signed (crypto_lib env) (webhookSecret env) raw h (clock env (tick w))"
      "map_of (webhook_events (wdb w)) i = None" "tasks w1 = tasks w" "evolves w w1"
      "\<exists>r. e_type r = ty \<and> e_payload r = raw
         \<and> wdb w1 = (wdb w)\<lparr>webhook_events := table_insert i r (webhook_events (wdb w))\<rparr>"
proof -
  let ?w0 = "w\<lparr>tick := Suc (tick w)\<rparr>"
  let ?v = "VerifyWebhookSignature (crypto_lib env) (webhookSecret env) raw h (clock env (tick w))"
  have run: "HandleEvent env raw h w = (case ?v of Inl e \<Rightarrow> fail e
       | Inr _ \<Rightarrow> (case envelope raw of None \<Rightarrow> fail ErrInvalidWebhookPayload
            | Some (i, ty, payload) \<Rightarrow>
                andThen (reapwebhookevent_Record env i ty raw) (\<lambda>inserted.
                  if \<not> inserted then ret ()
                  else andThen (notifyVault env ty payload) (\<lambda>_. ret ())))) ?w0"
    by (simp add: HandleEvent_def andThen_def time_now_def)
  have signed: "?v = Inr () \<longleftrightarrow> webhook_signed (crypto_lib env) (webhookSecret env) raw h (clock env (tick w))"
    by (rule VerifyWebhookSignature_signed)
  show ?thesis
  proof (cases ?v)
    case (Inl e)
    then show ?thesis using run signed VerifyWebhookSignature_error [OF Inl]
      by (intro rejected [of e]) auto
  next
    case v: (Inr u)
    show ?thesis
    proof (cases "envelope raw")
      case None
      then show ?thesis using run v signed by (intro rejected [of ErrInvalidWebhookPayload]) auto
    next
      case (Some x)
      obtain i ty p where x: "envelope raw = Some (i, ty, p)" using Some by (cases x) simp
      obtain r w1 where rec: "reapwebhookevent_Record env i ty raw ?w0 = (r, w1)" by fastforce
      have f: "evolves w w1" "tasks w1 = tasks w"
        using token_event_frames(3) [of ?w0 env i ty raw] token_event_unqueued(3) [of ?w0 env i ty raw] rec
        by (auto simp: keeps_tasks_def evolves_def)
      show ?thesis
      proof (cases r)
        case (Inl e)
        have "e = ErrDb \<and> (map_of (webhook_events (wdb w)) i \<noteq> None \<longrightarrow> wdb w1 = wdb w)"
          using rec Inl unfolding reapwebhookevent_Record_def
          by (cases rule: db_exec_cases [of env "sql_event_insert i ty raw" ?w0])
            (auto simp: andThen_def sql_event_insert_def split: option.splits)
        then show ?thesis using run v x rec Inl f signed by (intro db_error [OF x, of w1]) (auto simp: andThen_Inl)
      next
        case (Inr b)
        note R = reapwebhookevent_Record_Inr [OF rec [unfolded Inr], simplified]
        show ?thesis
        proof (cases b)
          case False
          then show ?thesis using run v x rec Inr R f signed
            by (intro redelivered [OF x, of w1]) (simp_all add: andThen_Inr)
        next
          case True
          obtain w2 where nv: "notifyVault env ty p w1 = (Inr (), w2)"
            using notifyVault_total [of env ty p w1] by (metis prod.collapse)
          then show ?thesis using run v x rec Inr R f True signed
            by (intro fresh [OF x, of w1]) (simp_all add: andThen_Inr)
        qed
      qed
    qed
  qed
qed

end
