(* ===== verification/Card_Service.thy ===== *)
theory Card_Service
  imports User_Service
begin

text \<open>
  \<open>internal/service/card.go\<close>: creating a card and acting on one. Every action on a card by its ID
  is behind a check of the recorded owner; a 3DS challenge is fetched first, to learn its card.
\<close>

section \<open>Creating and listing\<close>

definition CardService_CreateCard :: "env \<Rightarrow> string \<Rightarrow> CreateCardRequest \<Rightarrow> string \<Rightarrow> (int \<times> string) eff" where
  "CardService_CreateCard env publicKey req idempotencyKey =
     andThen (resolveReapUserID env publicKey) (\<lambda>u.
     andThen (accountownership_IsOwner env publicKey (cc_AccountID req)) (\<lambda>owned.
       if \<not> owned then fail ErrResourceNotOwned
       else
     andThen (Client_CreateCard env (req\<lparr>cc_UserID := u\<rparr>) idempotencyKey) (\<lambda>(status, body).
       if \<not> is_2xx status then ret (status, body)
       else (case unmarshal_string_field ''id'' body of
           None \<Rightarrow> fail (ErrNew ''reap: create card response missing id'')
         | Some i \<Rightarrow>
             if i = [] then fail (ErrNew ''reap: create card response missing id'')
             else
               andThen (cardownership_Record env publicKey i) (\<lambda>_.
               andThen (usercardownership_Record env u i) (\<lambda>_.
               ret (status, body)))))))"

definition CardService_ListCards :: "env \<Rightarrow> string \<Rightarrow> url_values \<Rightarrow> (int \<times> string) eff" where
  "CardService_ListCards env publicKey query =
     andThen (resolveReapUserID env publicKey) (\<lambda>u.
       Client_ListCards env (Values_Set query ''userId'' u))"

section \<open>Actions on a card\<close>

definition CardService_checkOwnership :: "env \<Rightarrow> string \<Rightarrow> string \<Rightarrow> unit eff" where
  "CardService_checkOwnership env publicKey cardID =
     andThen (cardownership_IsOwner env publicKey cardID)
       (\<lambda>owned. if owned then ret () else fail ErrResourceNotOwned)"

definition CardService_GetCard ::
    "env \<Rightarrow> string \<Rightarrow> string \<Rightarrow> (int \<times> string) eff" where
  "CardService_GetCard env publicKey i =
     andThen (CardService_checkOwnership env publicKey i)
       (\<lambda>_. Client_GetCard env i)"

definition CardService_DeleteCard ::
    "env \<Rightarrow> string \<Rightarrow> string \<Rightarrow> (int \<times> string) eff" where
  "CardService_DeleteCard env publicKey i =
     andThen (CardService_checkOwnership env publicKey i)
       (\<lambda>_. Client_DeleteCard env i)"

definition CardService_UpdateCardPin ::
    "env \<Rightarrow> string \<Rightarrow> string \<Rightarrow> string \<Rightarrow> (int \<times> string) eff" where
  "CardService_UpdateCardPin env publicKey i pin =
     andThen (CardService_checkOwnership env publicKey i)
       (\<lambda>_. Client_UpdateCardPin env i pin)"

definition CardService_FreezeCard ::
    "env \<Rightarrow> string \<Rightarrow> string \<Rightarrow> (int \<times> string) eff" where
  "CardService_FreezeCard env publicKey i =
     andThen (CardService_checkOwnership env publicKey i)
       (\<lambda>_. Client_FreezeCard env i)"

definition CardService_UnfreezeCard ::
    "env \<Rightarrow> string \<Rightarrow> string \<Rightarrow> (int \<times> string) eff" where
  "CardService_UnfreezeCard env publicKey i =
     andThen (CardService_checkOwnership env publicKey i)
       (\<lambda>_. Client_UnfreezeCard env i)"

definition CardService_RevealCardDetails ::
    "env \<Rightarrow> string \<Rightarrow> string \<Rightarrow> string \<Rightarrow> bool \<Rightarrow> (int \<times> string) eff" where
  "CardService_RevealCardDetails env publicKey i stylesheetURL showCopyPanButton =
     andThen (CardService_checkOwnership env publicKey i)
       (\<lambda>_. Client_RevealCardDetails env i stylesheetURL showCopyPanButton)"

definition CardService_UpdateCard3DSChallengeMethod ::
    "env \<Rightarrow> string \<Rightarrow> string \<Rightarrow> string \<Rightarrow> (int \<times> string) eff" where
  "CardService_UpdateCard3DSChallengeMethod env publicKey i meth =
     andThen (CardService_checkOwnership env publicKey i)
       (\<lambda>_. Client_UpdateCard3DSChallengeMethod env i meth)"

definition CardService_ActivatePhysicalCard ::
    "env \<Rightarrow> string \<Rightarrow> string \<Rightarrow> string \<Rightarrow> (int \<times> string) eff" where
  "CardService_ActivatePhysicalCard env publicKey i activationCode =
     andThen (CardService_checkOwnership env publicKey i)
       (\<lambda>_. Client_ActivatePhysicalCard env i activationCode)"

definition CardService_GetCardActivationCode ::
    "env \<Rightarrow> string \<Rightarrow> string \<Rightarrow> (int \<times> string) eff" where
  "CardService_GetCardActivationCode env publicKey i =
     andThen (CardService_checkOwnership env publicKey i)
       (\<lambda>_. Client_GetCardActivationCode env i)"

definition CardService_PushProvisionCard ::
    "env \<Rightarrow> string \<Rightarrow> string \<Rightarrow> string \<Rightarrow> string \<Rightarrow> string \<Rightarrow> string \<Rightarrow> (int \<times> string) eff" where
  "CardService_PushProvisionCard env publicKey i provider walletAccountID deviceID idempotencyKey =
     andThen (CardService_checkOwnership env publicKey i)
       (\<lambda>_. Client_PushProvisionCard env i provider walletAccountID deviceID idempotencyKey)"

section \<open>3DS challenges\<close>

definition challengeCardID :: "env \<Rightarrow> string \<Rightarrow> (int \<times> string \<times> string) eff" where
  \<comment> \<open>the status and body of the challenge, and the card it is for, empty unless the status is 2xx\<close>
  "challengeCardID env i =
     andThen (Client_GetCard3DSChallenge env i) (\<lambda>(status, body).
       if \<not> is_2xx status then ret (status, body, [])
       else (case unmarshal_string_field ''cardId'' body of
           None \<Rightarrow> fail (ErrNew ''reap: get card 3ds challenge response missing cardId'')
         | Some c \<Rightarrow>
             if c = [] then fail (ErrNew ''reap: get card 3ds challenge response missing cardId'')
             else ret (status, body, c)))"

definition CardService_RespondToCard3DSChallenge :: "env \<Rightarrow> string \<Rightarrow> string \<Rightarrow> bool \<Rightarrow> (int \<times> string) eff" where
  "CardService_RespondToCard3DSChallenge env publicKey i approve =
     andThen (challengeCardID env i) (\<lambda>(status, body, cardID).
       if cardID = [] then ret (status, body)
       else andThen (CardService_checkOwnership env publicKey cardID)
              (\<lambda>_. Client_RespondToCard3DSChallenge env i approve))"

definition CardService_GetCard3DSChallenge :: "env \<Rightarrow> string \<Rightarrow> string \<Rightarrow> (int \<times> string) eff" where
  "CardService_GetCard3DSChallenge env publicKey i =
     andThen (challengeCardID env i) (\<lambda>(status, body, cardID).
       if cardID = [] then ret (status, body)
       else andThen (CardService_checkOwnership env publicKey cardID) (\<lambda>_. ret (status, body)))"

section \<open>The gate in front of every action\<close>

datatype card_action =
    GetCard | DeleteCard | UpdateCardPin string | FreezeCard | UnfreezeCard
  | RevealCardDetails string bool | UpdateCard3DSChallengeMethod string | ActivatePhysicalCard string
  | GetCardActivationCode | PushProvisionCard string string string string

fun card_service :: "env \<Rightarrow> string \<Rightarrow> string \<Rightarrow> card_action \<Rightarrow> (int \<times> string) eff" where
  "card_service env pk i GetCard = CardService_GetCard env pk i"
| "card_service env pk i DeleteCard = CardService_DeleteCard env pk i"
| "card_service env pk i (UpdateCardPin pin) = CardService_UpdateCardPin env pk i pin"
| "card_service env pk i FreezeCard = CardService_FreezeCard env pk i"
| "card_service env pk i UnfreezeCard = CardService_UnfreezeCard env pk i"
| "card_service env pk i (RevealCardDetails stylesheetURL showCopyPanButton) = CardService_RevealCardDetails env pk i stylesheetURL showCopyPanButton"
| "card_service env pk i (UpdateCard3DSChallengeMethod meth) = CardService_UpdateCard3DSChallengeMethod env pk i meth"
| "card_service env pk i (ActivatePhysicalCard activationCode) = CardService_ActivatePhysicalCard env pk i activationCode"
| "card_service env pk i GetCardActivationCode = CardService_GetCardActivationCode env pk i"
| "card_service env pk i (PushProvisionCard provider walletAccountID deviceID idempotencyKey) = CardService_PushProvisionCard env pk i provider walletAccountID deviceID idempotencyKey"

fun card_request :: "env \<Rightarrow> string \<Rightarrow> card_action \<Rightarrow> (int \<times> string) eff" where
  "card_request env i GetCard = Client_GetCard env i"
| "card_request env i DeleteCard = Client_DeleteCard env i"
| "card_request env i (UpdateCardPin pin) = Client_UpdateCardPin env i pin"
| "card_request env i FreezeCard = Client_FreezeCard env i"
| "card_request env i UnfreezeCard = Client_UnfreezeCard env i"
| "card_request env i (RevealCardDetails stylesheetURL showCopyPanButton) = Client_RevealCardDetails env i stylesheetURL showCopyPanButton"
| "card_request env i (UpdateCard3DSChallengeMethod meth) = Client_UpdateCard3DSChallengeMethod env i meth"
| "card_request env i (ActivatePhysicalCard activationCode) = Client_ActivatePhysicalCard env i activationCode"
| "card_request env i GetCardActivationCode = Client_GetCardActivationCode env i"
| "card_request env i (PushProvisionCard provider walletAccountID deviceID idempotencyKey) = Client_PushProvisionCard env i provider walletAccountID deviceID idempotencyKey"

lemmas card_action_defs =
  CardService_GetCard_def
  CardService_DeleteCard_def
  CardService_UpdateCardPin_def
  CardService_FreezeCard_def
  CardService_UnfreezeCard_def
  CardService_RevealCardDetails_def
  CardService_UpdateCard3DSChallengeMethod_def
  CardService_ActivatePhysicalCard_def
  CardService_GetCardActivationCode_def
  CardService_PushProvisionCard_def

lemma CardService_check_then:
  "andThen (CardService_checkOwnership env pk k) (\<lambda>_. act) w
     = owned_then env (owner_in (card_ownership (wdb w)) k) pk act w"
  unfolding CardService_checkOwnership_def by (rule card_gate_then)

text \<open>Each of the ten actions is its request behind the check, and nothing else.\<close>

lemma card_service_gated:
  "card_service env pk i a w = owned_then env (owner_in (card_ownership (wdb w)) i) pk (card_request env i a) w"
  by (cases a) (simp_all add: card_action_defs CardService_check_then)

section \<open>Frames\<close>

lemma CardService_checkOwnership_frames [evo_intros, silent_intros, unqueued_intros, unwritten_intros]:
  "evolves w (snd (CardService_checkOwnership env pk k w))"
  "keeps_sent w (snd (CardService_checkOwnership env pk k w))"
  "keeps_tasks w (snd (CardService_checkOwnership env pk k w))"
  "keeps_db w (snd (CardService_checkOwnership env pk k w))"
  unfolding CardService_checkOwnership_def
  by (auto intro!: evo_intros silent_intros unqueued_intros unwritten_intros)

lemma card_request_frames [evo_intros, unqueued_intros, unwritten_intros]:
  "evolves w (snd (card_request env i a w))" "keeps_tasks w (snd (card_request env i a w))"
  "keeps_db w (snd (card_request env i a w))"
  by (cases a; simp add: client_defs Client_do_evolves Client_do_keeps)+

lemma owned_then_frames:
  "(\<And>w. evolves w (snd (act w))) \<Longrightarrow> evolves w (snd (owned_then env own pk act w))"
  "(\<And>w. keeps_tasks w (snd (act w))) \<Longrightarrow> keeps_tasks w (snd (owned_then env own pk act w))"
  "(\<And>w. keeps_db w (snd (act w))) \<Longrightarrow> keeps_db w (snd (owned_then env own pk act w))"
proof -
  have "evolves w (w\<lparr>tick := Suc (tick w)\<rparr>)" by (simp add: evolves_def)
  then show "(\<And>w. evolves w (snd (act w))) \<Longrightarrow> evolves w (snd (owned_then env own pk act w))"
    by (auto simp: owned_then_def intro: evolves_trans)
qed (auto simp: owned_then_def keeps_tasks_def keeps_db_def)

lemma card_service_evolves [evo_intros]: "evolves w (snd (card_service env pk i a w))"
  unfolding card_service_gated by (intro owned_then_frames card_request_frames)

lemma card_other_evolves [evo_intros]:
  "evolves w (snd (CardService_CreateCard env pk req k w))"
  "evolves w (snd (CardService_ListCards env pk q w))"
  "evolves w (snd (CardService_RespondToCard3DSChallenge env pk i b w))"
  "evolves w (snd (CardService_GetCard3DSChallenge env pk i w))"
  unfolding CardService_CreateCard_def CardService_ListCards_def challengeCardID_def
    CardService_RespondToCard3DSChallenge_def CardService_GetCard3DSChallenge_def client_defs
  by (auto intro!: evo_intros split: prod.splits option.splits)

end
