(* ===== verification/Card_Shipment_Service.thy ===== *)
theory Card_Shipment_Service
  imports Card_Service Reap_Bodies
begin

text \<open>
  \<open>internal/service/cardshipment.go\<close>: a shipment belongs to the vault that owns every card in it.
  REAP is asked for the shipment first, and its cards are checked one by one; the request that
  changes it follows only then.
\<close>

definition ShipmentService_checkCardOwnership :: "env \<Rightarrow> string \<Rightarrow> string \<Rightarrow> unit eff" where
  "ShipmentService_checkCardOwnership env publicKey cardID =
     andThen (cardownership_IsOwner env publicKey cardID)
       (\<lambda>owned. if owned then ret () else fail ErrResourceNotOwned)"

fun check_members :: "env \<Rightarrow> string \<Rightarrow> CardShipmentMember list \<Rightarrow> unit eff" where
  \<comment> \<open>the loop of \<open>checkShipmentMembers\<close>\<close>
  "check_members env publicKey [] = ret ()"
| "check_members env publicKey (m # ms) =
     (if cm_CardID m = [] then fail ErrMissingScopeFilter
      else andThen (ShipmentService_checkCardOwnership env publicKey (cm_CardID m))
             (\<lambda>_. check_members env publicKey ms))"

definition checkShipmentMembers :: "env \<Rightarrow> string \<Rightarrow> CardShipmentMember list \<Rightarrow> unit eff" where
  "checkShipmentMembers env publicKey members =
     (if members = [] then fail ErrMissingScopeFilter else check_members env publicKey members)"

definition card_ids :: "string \<Rightarrow> string list option" where
  \<comment> \<open>\<open>cards[].cardId\<close> of a resource, None where it does not decode\<close>
  "card_ids body =
     map_option (\<lambda>cs. case cs of None \<Rightarrow> [] | Some ids \<Rightarrow> ids)
       (Option.bind (unmarshal_struct body) (structs_field ''cards'' (string_field ''cardId'')))"

definition shipmentCardIDs :: "string \<Rightarrow> string list res" where
  "shipmentCardIDs body =
     (case card_ids body of
        None \<Rightarrow> Inl (ErrNew ''json'')
      | Some ids \<Rightarrow>
          (let cardIDs = filter (\<lambda>c. c \<noteq> []) ids in
           if cardIDs = [] then Inl (ErrNew ''reap: get card shipment response missing cards.cardId'')
           else Inr cardIDs))"

fun check_cards :: "env \<Rightarrow> string \<Rightarrow> string list \<Rightarrow> unit eff" where
  \<comment> \<open>the loop of \<open>fetchOwnedShipment\<close>\<close>
  "check_cards env publicKey [] = ret ()"
| "check_cards env publicKey (c # cs) =
     andThen (ShipmentService_checkCardOwnership env publicKey c) (\<lambda>_. check_cards env publicKey cs)"

definition fetchOwnedShipment :: "env \<Rightarrow> string \<Rightarrow> string \<Rightarrow> (int \<times> string) eff" where
  "fetchOwnedShipment env publicKey i =
     andThen (Client_GetCardShipment env i) (\<lambda>(status, body).
       if \<not> is_2xx status then ret (status, body)
       else (case shipmentCardIDs body of
           Inl e \<Rightarrow> fail e
         | Inr cs \<Rightarrow> andThen (check_cards env publicKey cs) (\<lambda>_. ret (status, body))))"

definition ShipmentService_CreateCardShipment :: "env \<Rightarrow> string \<Rightarrow> CreateCardShipmentRequest \<Rightarrow> (int \<times> string) eff" where
  "ShipmentService_CreateCardShipment env publicKey req =
     andThen (checkShipmentMembers env publicKey (case cs_Cards req of None \<Rightarrow> [] | Some ms \<Rightarrow> ms))
       (\<lambda>_. Client_CreateCardShipment env req)"

definition ShipmentService_ListCardShipments :: "env \<Rightarrow> string \<Rightarrow> url_values \<Rightarrow> (int \<times> string) eff" where
  "ShipmentService_ListCardShipments env publicKey query =
     (let cardID = Values_Get query ''cardId'' in
      if cardID = [] then fail ErrMissingScopeFilter
      else andThen (ShipmentService_checkCardOwnership env publicKey cardID)
             (\<lambda>_. Client_ListCardShipments env (Values_Set query ''cardId'' cardID)))"

definition ShipmentService_GetCardShipment :: "env \<Rightarrow> string \<Rightarrow> string \<Rightarrow> (int \<times> string) eff" where
  "ShipmentService_GetCardShipment env publicKey i = fetchOwnedShipment env publicKey i"

definition ShipmentService_DeleteCardShipment :: "env \<Rightarrow> string \<Rightarrow> string \<Rightarrow> (int \<times> string) eff" where
  "ShipmentService_DeleteCardShipment env publicKey i =
     andThen (fetchOwnedShipment env publicKey i) (\<lambda>(status, body).
       if \<not> is_2xx status then ret (status, body) else Client_DeleteCardShipment env i)"

definition ShipmentService_UpdateCardShipment ::
    "env \<Rightarrow> string \<Rightarrow> string \<Rightarrow> UpdateCardShipmentRequest \<Rightarrow> (int \<times> string) eff" where
  "ShipmentService_UpdateCardShipment env publicKey i req =
     andThen (fetchOwnedShipment env publicKey i) (\<lambda>(status, body).
       if \<not> is_2xx status then ret (status, body) else Client_UpdateCardShipment env i req)"

definition ShipmentService_AddCardToShipment ::
    "env \<Rightarrow> string \<Rightarrow> string \<Rightarrow> CardShipmentMember \<Rightarrow> (int \<times> string) eff" where
  "ShipmentService_AddCardToShipment env publicKey i m =
     andThen (fetchOwnedShipment env publicKey i) (\<lambda>(status, body).
       if \<not> is_2xx status then ret (status, body)
       else if cm_CardID m = [] then fail ErrMissingScopeFilter
       else andThen (ShipmentService_checkCardOwnership env publicKey (cm_CardID m))
              (\<lambda>_. Client_AddCardToShipment env i m))"

definition ShipmentService_RemoveCardFromShipment ::
    "env \<Rightarrow> string \<Rightarrow> string \<Rightarrow> string \<Rightarrow> (int \<times> string) eff" where
  "ShipmentService_RemoveCardFromShipment env publicKey i memberID =
     andThen (fetchOwnedShipment env publicKey i) (\<lambda>(status, body).
       if \<not> is_2xx status then ret (status, body) else Client_RemoveCardFromShipment env i memberID)"

definition ShipmentService_SubmitCardShipment :: "env \<Rightarrow> string \<Rightarrow> string \<Rightarrow> string \<Rightarrow> (int \<times> string) eff" where
  "ShipmentService_SubmitCardShipment env publicKey i idempotencyKey =
     andThen (fetchOwnedShipment env publicKey i) (\<lambda>(status, body).
       if \<not> is_2xx status then ret (status, body) else Client_SubmitCardShipment env i idempotencyKey)"

section \<open>The loops check every card\<close>

definition owns_card :: "db \<Rightarrow> string \<Rightarrow> string \<Rightarrow> bool" where
  "owns_card d pk c \<longleftrightarrow> owner_in (card_ownership d) c = Some pk"

lemma Shipment_check_run:
  "ShipmentService_checkCardOwnership env pk c w =
     (if db_fault env (tick w) \<noteq> NoFault then Inl ErrDb
      else if owns_card (wdb w) pk c then Inr () else Inl ErrResourceNotOwned, w\<lparr>tick := Suc (tick w)\<rparr>)"
  by (simp add: ShipmentService_checkCardOwnership_def andThen_def isowner_run owns_card_def)

lemma check_cards_run:
  "check_cards env pk cs w = (r, w') \<Longrightarrow>
     wdb w' = wdb w \<and> sent w' = sent w \<and> tasks w' = tasks w
     \<and> (r = Inr () \<and> list_all (owns_card (wdb w) pk) cs \<or> r \<in> {Inl ErrDb, Inl ErrResourceNotOwned})"
proof (induction cs arbitrary: w)
  case (Cons c cs)
  let ?w1 = "w\<lparr>tick := Suc (tick w)\<rparr>"
  show ?case
  proof (cases "db_fault env (tick w) = NoFault \<and> owns_card (wdb w) pk c")
    case True
    with Cons.prems have "check_cards env pk cs ?w1 = (r, w')"
      by (simp add: andThen_def Shipment_check_run)
    from Cons.IH [OF this] True show ?thesis by simp
  next
    case False
    with Cons.prems show ?thesis by (auto simp: andThen_def Shipment_check_run split: if_splits)
  qed
qed simp

lemma check_members_run:
  "check_members env pk ms w = (r, w') \<Longrightarrow>
     wdb w' = wdb w \<and> sent w' = sent w \<and> tasks w' = tasks w
     \<and> (r = Inr () \<and> list_all (\<lambda>m. owns_card (wdb w) pk (cm_CardID m)) ms
        \<or> r \<in> {Inl ErrDb, Inl ErrResourceNotOwned, Inl ErrMissingScopeFilter})"
proof (induction ms arbitrary: w)
  case (Cons m ms)
  let ?w1 = "w\<lparr>tick := Suc (tick w)\<rparr>"
  show ?case
  proof (cases "cm_CardID m \<noteq> [] \<and> db_fault env (tick w) = NoFault \<and> owns_card (wdb w) pk (cm_CardID m)")
    case True
    with Cons.prems have "check_members env pk ms ?w1 = (r, w')"
      by (simp add: andThen_def Shipment_check_run)
    from Cons.IH [OF this] True show ?thesis by simp
  next
    case False
    with Cons.prems show ?thesis by (auto simp: andThen_def Shipment_check_run split: if_splits)
  qed
qed simp

text \<open>
  A 2xx out of \<open>fetchOwnedShipment\<close> is REAP's answer for a shipment all of whose cards the vault
  owns; one request, a GET, has been sent.
\<close>

lemma fetchOwnedShipment_run:
  assumes "fetchOwnedShipment env pk i w = (r, w')"
  shows "wdb w' = wdb w" and "tasks w' = tasks w"
    and "sent w' = sent w @ [reap_request env ''GET'' (pathf ''/card-shipments/%s'' [i]) None id]"
    and "r = Inr (st, body) \<Longrightarrow> is_2xx st \<Longrightarrow>
           \<exists>cs. shipmentCardIDs body = Inr cs \<and> list_all (owns_card (wdb w) pk) cs"
proof -
  obtain a w1 where c: "Client_GetCardShipment env i w = (a, w1)" by fastforce
  note C = Client_do_run(1-3) [OF c [unfolded Client_GetCardShipment_def]]
  let ?early = "w' = w1 \<and> (\<forall>st body. r = Inr (st, body) \<longrightarrow> \<not> is_2xx st)"
  have "?early \<or> (\<exists>st0 body0 cs r1. a = Inr (st0, body0) \<and> shipmentCardIDs body0 = Inr cs
      \<and> check_cards env pk cs w1 = (r1, w') \<and> r = map_sum id (\<lambda>_. (st0, body0)) r1)"
  proof (cases a)
    case (Inl e)
    then show ?thesis using assms c by (auto simp: fetchOwnedShipment_def andThen_Inl)
  next
    case (Inr sb)
    obtain st0 body0 where sb: "sb = (st0, body0)" by (cases sb)
    show ?thesis
    proof (cases "is_2xx st0 \<and> (\<exists>cs. shipmentCardIDs body0 = Inr cs)")
      case False
      then show ?thesis using assms c Inr sb
        by (cases "shipmentCardIDs body0") (auto simp: fetchOwnedShipment_def andThen_Inr split: if_splits)
    next
      case True
      then obtain cs where cs: "shipmentCardIDs body0 = Inr cs" by blast
      obtain r1 w2 where k: "check_cards env pk cs w1 = (r1, w2)" by fastforce
      then show ?thesis using assms c Inr sb True cs
        by (intro disjI2 exI [of _ st0] exI [of _ body0] exI [of _ cs] exI [of _ r1])
          (cases r1; auto simp: fetchOwnedShipment_def andThen_def)
    qed
  qed
  then show "wdb w' = wdb w" "tasks w' = tasks w"
    "sent w' = sent w @ [reap_request env ''GET'' (pathf ''/card-shipments/%s'' [i]) None id]"
    "r = Inr (st, body) \<Longrightarrow> is_2xx st \<Longrightarrow>
       \<exists>cs. shipmentCardIDs body = Inr cs \<and> list_all (owns_card (wdb w) pk) cs"
    using C by (auto dest!: check_cards_run)
qed

section \<open>Frames\<close>

lemma shipment_check_frames [evo_intros, silent_intros, unqueued_intros, unwritten_intros]:
  "evolves w (snd (ShipmentService_checkCardOwnership env pk k w))"
  "keeps_sent w (snd (ShipmentService_checkCardOwnership env pk k w))"
  "keeps_tasks w (snd (ShipmentService_checkCardOwnership env pk k w))"
  "keeps_db w (snd (ShipmentService_checkCardOwnership env pk k w))"
  unfolding ShipmentService_checkCardOwnership_def
  by (auto intro!: evo_intros silent_intros unqueued_intros unwritten_intros)

lemma shipment_loop_evolves [evo_intros]:
  "evolves w (snd (check_cards env pk cs w))" "evolves w (snd (check_members env pk ms w))"
proof -
  show "evolves w (snd (check_cards env pk cs w))"
    by (induction cs arbitrary: w) (auto intro!: evo_intros shipment_check_frames)
  show "evolves w (snd (check_members env pk ms w))"
    by (induction ms arbitrary: w) (auto intro!: evo_intros shipment_check_frames)
qed

lemmas shipment_service_defs =
  ShipmentService_CreateCardShipment_def ShipmentService_ListCardShipments_def
  ShipmentService_GetCardShipment_def ShipmentService_DeleteCardShipment_def
  ShipmentService_UpdateCardShipment_def ShipmentService_AddCardToShipment_def
  ShipmentService_RemoveCardFromShipment_def ShipmentService_SubmitCardShipment_def

lemma shipment_service_evolves [evo_intros]:
  "evolves w (snd (ShipmentService_CreateCardShipment env pk req w))"
  "evolves w (snd (ShipmentService_ListCardShipments env pk q w))"
  "evolves w (snd (ShipmentService_GetCardShipment env pk i w))"
  "evolves w (snd (ShipmentService_DeleteCardShipment env pk i w))"
  "evolves w (snd (ShipmentService_UpdateCardShipment env pk i u w))"
  "evolves w (snd (ShipmentService_AddCardToShipment env pk i m w))"
  "evolves w (snd (ShipmentService_RemoveCardFromShipment env pk i mid w))"
  "evolves w (snd (ShipmentService_SubmitCardShipment env pk i k w))"
  unfolding shipment_service_defs fetchOwnedShipment_def checkShipmentMembers_def client_defs Let_def
  by (auto intro!: evo_intros split: prod.splits sum.splits)

end
