(* ===== verification/Scoped_Services.thy ===== *)
theory Scoped_Services
  imports Card_Shipment_Service
begin

text \<open>
  \<open>internal/service/activity.go\<close>, \<open>cardtransaction.go\<close>, \<open>carddesign.go\<close>, \<open>fraudalert.go\<close>: the calls whose
  scope is not in the path. A list query must name a card (or account) the caller owns, and what is
  forwarded names that one and no other; a transaction or an alert is fetched to learn its card.
\<close>

section \<open>CardDesignService\<close>

definition CardDesignService_ListCardDesigns :: "env \<Rightarrow> url_values \<Rightarrow> (int \<times> string) eff" where
  "CardDesignService_ListCardDesigns env query = Client_ListCardDesigns env query"

definition CardDesignService_GetCardDesign :: "env \<Rightarrow> string \<Rightarrow> (int \<times> string) eff" where
  "CardDesignService_GetCardDesign env i = Client_GetCardDesign env i"

section \<open>CardTransactionService\<close>

definition CardTransactionService_GetCardTransaction :: "env \<Rightarrow> string \<Rightarrow> string \<Rightarrow> (int \<times> string) eff" where
  "CardTransactionService_GetCardTransaction env publicKey i =
     andThen (Client_GetCardTransaction env i) (\<lambda>(status, body).
       if \<not> is_2xx status then ret (status, body)
       else (case unmarshal_string_field ''cardId'' body of
           None \<Rightarrow> fail (ErrNew ''reap: get card transaction response missing cardId'')
         | Some c \<Rightarrow>
             if c = [] then fail (ErrNew ''reap: get card transaction response missing cardId'')
             else andThen (cardownership_IsOwner env publicKey c)
                    (\<lambda>owned. if \<not> owned then fail ErrResourceNotOwned else ret (status, body))))"

section \<open>ActivityService\<close>

definition ActivityService_ListActivities :: "env \<Rightarrow> string \<Rightarrow> url_values \<Rightarrow> (int \<times> string) eff" where
  "ActivityService_ListActivities env publicKey query0 =
     (let query = Values_Del (Values_Del query0 ''userId'') ''ownerId'';
          accountID = Values_Get query ''accountId'';
          cardID = Values_Get query ''cardId'' in
      if accountID = [] \<and> cardID = [] then fail ErrMissingScopeFilter
      else
        let query1 = (if cardID \<noteq> [] then Values_Set query ''cardId'' cardID else query);
            query2 = (if accountID \<noteq> [] then Values_Set query1 ''accountId'' accountID else query1) in
        andThen
          (if cardID \<noteq> [] then
             andThen (cardownership_IsOwner env publicKey cardID)
               (\<lambda>owned. if \<not> owned then fail ErrResourceNotOwned else ret ())
           else ret ()) (\<lambda>_.
        andThen
          (if accountID \<noteq> [] then
             andThen (accountownership_IsOwner env publicKey accountID)
               (\<lambda>owned. if \<not> owned then fail ErrResourceNotOwned else ret ())
           else ret ()) (\<lambda>_.
        Client_ListActivities env query2)))"

section \<open>FraudAlertService\<close>

definition transactionCardID :: "env \<Rightarrow> string \<Rightarrow> (int \<times> string \<times> string) eff" where
  "transactionCardID env transactionID =
     andThen (Client_GetCardTransaction env transactionID) (\<lambda>(status, body).
       if \<not> is_2xx status then ret (status, body, [])
       else (case unmarshal_string_field ''cardId'' body of
           None \<Rightarrow> fail (ErrNew ''reap: get card transaction response missing cardId'')
         | Some c \<Rightarrow>
             if c = [] then fail (ErrNew ''reap: get card transaction response missing cardId'')
             else ret (status, body, c)))"

definition alertCardID :: "env \<Rightarrow> string \<Rightarrow> (int \<times> string \<times> string) eff" where
  "alertCardID env alertID =
     andThen (Client_GetFraudAlert env alertID) (\<lambda>(status, body).
       if \<not> is_2xx status then ret (status, body, [])
       else (case unmarshal_string_field ''cardId'' body of
           None \<Rightarrow> fail (ErrNew ''reap: get fraud alert response missing cardId'')
         | Some c \<Rightarrow>
             if c = [] then fail (ErrNew ''reap: get fraud alert response missing cardId'')
             else ret (status, body, c)))"

definition FraudAlertService_checkCardOwnership :: "env \<Rightarrow> string \<Rightarrow> string \<Rightarrow> unit eff" where
  "FraudAlertService_checkCardOwnership env publicKey cardID =
     andThen (cardownership_IsOwner env publicKey cardID)
       (\<lambda>owned. if owned then ret () else fail ErrResourceNotOwned)"

definition fraud_list_scoped :: "env \<Rightarrow> string \<Rightarrow> url_values \<Rightarrow> string \<Rightarrow> (int \<times> string) eff" where
  \<comment> \<open>the end of \<open>ListFraudAlerts\<close>, once the card is known\<close>
  "fraud_list_scoped env publicKey query cardID =
     andThen (FraudAlertService_checkCardOwnership env publicKey cardID) (\<lambda>_.
       Client_ListFraudAlerts env (Values_Set (Values_Del query ''transactionId'') ''cardId'' cardID))"

definition FraudAlertService_ListFraudAlerts :: "env \<Rightarrow> string \<Rightarrow> url_values \<Rightarrow> (int \<times> string) eff" where
  "FraudAlertService_ListFraudAlerts env publicKey query =
     (let cardID = Values_Get query ''cardId'' in
      if cardID = [] then
        (let transactionID = Values_Get query ''transactionId'' in
         if transactionID = [] then fail ErrMissingScopeFilter
         else andThen (transactionCardID env transactionID) (\<lambda>(status, body, c).
                if c = [] then ret (status, body) else fraud_list_scoped env publicKey query c))
      else fraud_list_scoped env publicKey query cardID)"

definition FraudAlertService_ReportFraud :: "env \<Rightarrow> string \<Rightarrow> ReportFraudRequest \<Rightarrow> string \<Rightarrow> (int \<times> string) eff" where
  "FraudAlertService_ReportFraud env publicKey req idempotencyKey =
     andThen (transactionCardID env (rf_TransactionID req)) (\<lambda>(status, body, c).
       if c = [] then ret (status, body)
       else andThen (FraudAlertService_checkCardOwnership env publicKey c)
              (\<lambda>_. Client_ReportFraud env req idempotencyKey))"

definition FraudAlertService_GetFraudAlert :: "env \<Rightarrow> string \<Rightarrow> string \<Rightarrow> (int \<times> string) eff" where
  "FraudAlertService_GetFraudAlert env publicKey i =
     andThen (alertCardID env i) (\<lambda>(status, body, c).
       if c = [] then ret (status, body)
       else andThen (FraudAlertService_checkCardOwnership env publicKey c) (\<lambda>_. ret (status, body)))"

definition FraudAlertService_RespondToFraudAlert ::
    "env \<Rightarrow> string \<Rightarrow> string \<Rightarrow> RespondToFraudAlertRequest \<Rightarrow> string \<Rightarrow> (int \<times> string) eff" where
  "FraudAlertService_RespondToFraudAlert env publicKey i req idempotencyKey =
     andThen (alertCardID env i) (\<lambda>(status, body, c).
       if c = [] then ret (status, body)
       else andThen (FraudAlertService_checkCardOwnership env publicKey c)
              (\<lambda>_. Client_RespondToFraudAlert env i req idempotencyKey))"

section \<open>Fetch, then check\<close>

text \<open>
  The three lookups of a card (of a transaction, an alert, a challenge) have one form: a GET, whose
  answer names the card. What follows a lookup of that form is verified once.
\<close>

definition fetched_card :: "int \<Rightarrow> string \<Rightarrow> string \<Rightarrow> bool" where
  \<comment> \<open>REAP answered 2xx with a body whose \<open>cardId\<close> is \<open>c\<close>\<close>
  "fetched_card status body c \<longleftrightarrow> is_2xx status \<and> unmarshal_string_field ''cardId'' body = Some c \<and> c \<noteq> []"

locale card_lookup =
  fixes look :: "env \<Rightarrow> string \<Rightarrow> (int \<times> string \<times> string) eff"
    and path :: "string \<Rightarrow> string"
  assumes look_sent: "sent (snd (look env i w)) = sent w @ [reap_request env ''GET'' (path i) None id]"
    and look_db: "wdb (snd (look env i w)) = wdb w"
    and look_tasks: "tasks (snd (look env i w)) = tasks w"
    and look_Inr: "look env i w = (Inr (st, body, c), w') \<Longrightarrow>
          (c = [] \<and> \<not> is_2xx st) \<or> fetched_card st body c"
    and look_answer: "look env i w = (Inr (st, body, c), w') \<Longrightarrow>
          reap_answer env (Suc (tick w)) (reap_request env ''GET'' (path i) None id) = Some (st, body)"
begin

text \<open>
  Behind the lookup and the check, the action runs only when the card REAP named is the caller's:
  otherwise the lookup is the only request sent.
\<close>

lemma lookup_then:
  fixes act :: "int \<Rightarrow> string \<Rightarrow> (int \<times> string) eff"
  assumes "andThen (look env i) (\<lambda>(status, body, c).
       if c = [] then ret (status, body)
       else andThen (andThen (cardownership_IsOwner env pk c)
              (\<lambda>owned. if owned then ret () else fail ErrResourceNotOwned)) (\<lambda>_. act status body)) w = (r, w')"
  obtains
    (no_card) "sent w' = sent w @ [reap_request env ''GET'' (path i) None id]" "wdb w' = wdb w"
      "tasks w' = tasks w" "(\<exists>e. r = Inl e) \<or> (\<exists>st body. r = Inr (st, body) \<and> \<not> is_2xx st)"
  | (owned) st body c w1 where "fetched_card st body c" "owns_card (wdb w) pk c"
      "reap_answer env (Suc (tick w)) (reap_request env ''GET'' (path i) None id) = Some (st, body)"
      "sent w1 = sent w @ [reap_request env ''GET'' (path i) None id]" "wdb w1 = wdb w"
      "tasks w1 = tasks w" "act st body w1 = (r, w')"
proof (cases "look env i w")
  case (Pair x w1)
  note L = look_sent [of env i w] look_db [of env i w] look_tasks [of env i w]
  show ?thesis
  proof (cases x)
    case (Inl e)
    then show ?thesis using assms Pair L by (intro no_card) (auto simp: andThen_def)
  next
    case (Inr y)
    obtain st body c where y: "y = (st, body, c)" by (cases y)
    note R = look_Inr [of env i w st body c w1] look_answer [of env i w st body c w1]
    show ?thesis
    proof (cases "c = []")
      case True
      then show ?thesis using assms Pair L R Inr y
        by (intro no_card) (auto simp: andThen_def fetched_card_def)
    next
      case False
      have "owned_then env (owner_in (card_ownership (wdb w1)) c) pk (act st body) w1 = (r, w')"
        using assms Pair Inr y False by (simp add: andThen_Inr card_gate_then)
      moreover have "sent w1 = sent w @ [reap_request env ''GET'' (path i) None id]"
        "wdb w1 = wdb w" "tasks w1 = tasks w" using L Pair by simp_all
      moreover have "fetched_card st body c"
        "reap_answer env (Suc (tick w)) (reap_request env ''GET'' (path i) None id) = Some (st, body)"
        using R Pair Inr y False by auto
      ultimately show ?thesis
        by (cases "db_fault env (tick w1) = NoFault \<and> owns_card (wdb w) pk c")
          (auto simp: owned_then_def owns_card_def split: if_splits
            intro: no_card owned [of st body c "w1\<lparr>tick := Suc (tick w1)\<rparr>"])
    qed
  qed
qed

end

lemma fetch_shape:
  assumes "f = andThen (Client_do env ''GET'' p None id) (\<lambda>(status, body).
       if \<not> is_2xx status then ret (status, body, [])
       else (case unmarshal_string_field ''cardId'' body of
           None \<Rightarrow> fail e
         | Some c \<Rightarrow> if c = [] then fail e else ret (status, body, c)))"
  shows "sent (snd (f w)) = sent w @ [reap_request env ''GET'' p None id]"
    and "wdb (snd (f w)) = wdb w" and "tasks (snd (f w)) = tasks w"
    and "f w = (Inr (st, body, c), w') \<Longrightarrow> (c = [] \<and> \<not> is_2xx st) \<or> fetched_card st body c"
    and "f w = (Inr (st, body, c), w') \<Longrightarrow>
          reap_answer env (Suc (tick w)) (reap_request env ''GET'' p None id) = Some (st, body)"
proof -
  obtain a w1 where c: "Client_do env ''GET'' p None id w = (a, w1)" by fastforce
  note C = Client_do_run(1-3) [OF c] and A = Client_do_run(5) [OF c]
  show "sent (snd (f w)) = sent w @ [reap_request env ''GET'' p None id]"
    "wdb (snd (f w)) = wdb w" "tasks (snd (f w)) = tasks w"
    using c C unfolding assms
    by (auto simp: andThen_def split: sum.splits prod.splits option.splits)
  show "(c = [] \<and> \<not> is_2xx st) \<or> fetched_card st body c" if "f w = (Inr (st, body, c), w')"
    using that c unfolding assms
    by (auto simp: andThen_def fetched_card_def split: sum.splits prod.splits option.splits if_splits)
  show "reap_answer env (Suc (tick w)) (reap_request env ''GET'' p None id) = Some (st, body)"
    if "f w = (Inr (st, body, c), w')"
    using that c A unfolding assms
    by (auto simp: andThen_def split: sum.splits prod.splits option.splits if_splits)
qed

interpretation transaction_lookup: card_lookup transactionCardID "\<lambda>i. pathf ''/card-transactions/%s'' [i]"
  by unfold_locales
    (rule fetch_shape [OF transactionCardID_def [unfolded Client_GetCardTransaction_def]]; assumption?)+

interpretation alert_lookup: card_lookup alertCardID "\<lambda>i. pathf ''/fraud-alerts/%s'' [i]"
  by unfold_locales
    (rule fetch_shape [OF alertCardID_def [unfolded Client_GetFraudAlert_def]]; assumption?)+

interpretation challenge_lookup: card_lookup challengeCardID "\<lambda>i. pathf ''/card-3ds-challenges/%s'' [i]"
  by unfold_locales
    (rule fetch_shape [OF challengeCardID_def [unfolded Client_GetCard3DSChallenge_def]]; assumption?)+

section \<open>Frames\<close>

lemma scoped_evolves [evo_intros]:
  "evolves w (snd (CardTransactionService_GetCardTransaction env pk i w))"
  "evolves w (snd (ActivityService_ListActivities env pk q w))"
  "evolves w (snd (FraudAlertService_ListFraudAlerts env pk q w))"
  "evolves w (snd (FraudAlertService_ReportFraud env pk r k w))"
  "evolves w (snd (FraudAlertService_GetFraudAlert env pk i w))"
  "evolves w (snd (FraudAlertService_RespondToFraudAlert env pk i a k w))"
  unfolding CardTransactionService_GetCardTransaction_def ActivityService_ListActivities_def
    FraudAlertService_ListFraudAlerts_def FraudAlertService_ReportFraud_def fraud_list_scoped_def
    FraudAlertService_GetFraudAlert_def FraudAlertService_RespondToFraudAlert_def transactionCardID_def
    alertCardID_def FraudAlertService_checkCardOwnership_def client_defs Let_def
  by (auto intro!: evo_intros split: prod.splits option.splits)

end
