(* ===== verification/Simulation_Service.thy ===== *)
theory Simulation_Service
  imports Scoped_Services
begin

text \<open>
  \<open>internal/service/simulation.go\<close>: the sandbox endpoints. A simulated card transaction checks the
  card of the request and, when the request names an existing transaction, that transaction's card.
\<close>

definition SimulationService_checkCardOwnership :: "env \<Rightarrow> string \<Rightarrow> string \<Rightarrow> unit eff" where
  "SimulationService_checkCardOwnership env publicKey cardID =
     andThen (cardownership_IsOwner env publicKey cardID)
       (\<lambda>owned. if owned then ret () else fail ErrResourceNotOwned)"

definition SimulationService_checkAccountOwnership :: "env \<Rightarrow> string \<Rightarrow> string \<Rightarrow> unit eff" where
  "SimulationService_checkAccountOwnership env publicKey accountID =
     andThen (accountownership_IsOwner env publicKey accountID)
       (\<lambda>owned. if owned then ret () else fail ErrResourceNotOwned)"

definition checkTransactionOwnership :: "env \<Rightarrow> string \<Rightarrow> string \<Rightarrow> unit eff" where
  "checkTransactionOwnership env publicKey transactionID =
     (if transactionID = [] then ret ()
      else andThen (Client_GetCardTransaction env transactionID) (\<lambda>(status, body).
        if \<not> is_2xx status then fail ErrResourceNotOwned
        else (case unmarshal_string_field ''cardId'' body of
            None \<Rightarrow> fail (ErrNew ''reap: get card transaction response missing cardId'')
          | Some c \<Rightarrow>
              if c = [] then fail (ErrNew ''reap: get card transaction response missing cardId'')
              else SimulationService_checkCardOwnership env publicKey c)))"

definition SimulationService_SimulateUserApplicationStatus ::
    "env \<Rightarrow> string \<Rightarrow> string \<Rightarrow> string \<Rightarrow> (int \<times> string) eff" where
  "SimulationService_SimulateUserApplicationStatus env publicKey userID status =
     andThen (resolveReapUserID env publicKey) (\<lambda>u.
       if u \<noteq> userID then fail ErrResourceNotOwned
       else Client_SimulateUserApplicationStatus env userID status)"

definition SimulationService_SimulateCompanyStatus ::
    "env \<Rightarrow> string \<Rightarrow> SimulateCompanyStatusRequest \<Rightarrow> (int \<times> string) eff" where
  "SimulationService_SimulateCompanyStatus env companyID req = fail ErrResourceNotOwned"

definition SimulationService_SimulateAccountStatus ::
    "env \<Rightarrow> string \<Rightarrow> string \<Rightarrow> string \<Rightarrow> (int \<times> string) eff" where
  "SimulationService_SimulateAccountStatus env publicKey i status =
     andThen (SimulationService_checkAccountOwnership env publicKey i)
       (\<lambda>_. Client_SimulateAccountStatus env i status)"

definition SimulationService_SimulateCardStatus ::
    "env \<Rightarrow> string \<Rightarrow> string \<Rightarrow> string \<Rightarrow> (int \<times> string) eff" where
  "SimulationService_SimulateCardStatus env publicKey i status =
     andThen (SimulationService_checkCardOwnership env publicKey i)
       (\<lambda>_. Client_SimulateCardStatus env i status)"

definition SimulationService_SimulateAuthorization ::
    "env \<Rightarrow> string \<Rightarrow> SimulateCardTransactionRequest \<Rightarrow> (int \<times> string) eff" where
  "SimulationService_SimulateAuthorization env publicKey req =
     andThen (SimulationService_checkCardOwnership env publicKey (st_CardID req)) (\<lambda>_.
     andThen (checkTransactionOwnership env publicKey (st_TransactionID req)) (\<lambda>_.
     Client_SimulateAuthorization env req))"

definition SimulationService_SimulateThreeDSAuthorization ::
    "env \<Rightarrow> string \<Rightarrow> SimulateCardTransactionRequest \<Rightarrow> (int \<times> string) eff" where
  "SimulationService_SimulateThreeDSAuthorization env publicKey req =
     andThen (SimulationService_checkCardOwnership env publicKey (st_CardID req))
       (\<lambda>_. Client_SimulateThreeDSAuthorization env req)"

definition SimulationService_SimulateDecline ::
    "env \<Rightarrow> string \<Rightarrow> SimulateCardTransactionRequest \<Rightarrow> (int \<times> string) eff" where
  "SimulationService_SimulateDecline env publicKey req =
     andThen (SimulationService_checkCardOwnership env publicKey (st_CardID req)) (\<lambda>_.
     andThen (checkTransactionOwnership env publicKey (st_TransactionID req)) (\<lambda>_.
     Client_SimulateDecline env req))"

definition SimulationService_SimulateClearing ::
    "env \<Rightarrow> string \<Rightarrow> SimulateCardTransactionRequest \<Rightarrow> (int \<times> string) eff" where
  "SimulationService_SimulateClearing env publicKey req =
     andThen (SimulationService_checkCardOwnership env publicKey (st_CardID req)) (\<lambda>_.
     andThen (checkTransactionOwnership env publicKey (st_TransactionID req)) (\<lambda>_.
     Client_SimulateClearing env req))"

definition SimulationService_SimulateReversal ::
    "env \<Rightarrow> string \<Rightarrow> SimulateCardTransactionRequest \<Rightarrow> (int \<times> string) eff" where
  "SimulationService_SimulateReversal env publicKey req =
     andThen (SimulationService_checkCardOwnership env publicKey (st_CardID req)) (\<lambda>_.
     andThen (checkTransactionOwnership env publicKey (st_TransactionID req)) (\<lambda>_.
     Client_SimulateReversal env req))"

definition SimulationService_SimulateRefund ::
    "env \<Rightarrow> string \<Rightarrow> SimulateCardTransactionRequest \<Rightarrow> (int \<times> string) eff" where
  "SimulationService_SimulateRefund env publicKey req =
     andThen (SimulationService_checkCardOwnership env publicKey (st_CardID req)) (\<lambda>_.
     andThen (checkTransactionOwnership env publicKey (st_TransactionID req)) (\<lambda>_.
     Client_SimulateRefund env req))"

lemmas simulation_defs =
  SimulationService_SimulateUserApplicationStatus_def SimulationService_SimulateCompanyStatus_def
  SimulationService_SimulateAccountStatus_def SimulationService_SimulateCardStatus_def
  SimulationService_SimulateAuthorization_def SimulationService_SimulateThreeDSAuthorization_def
  SimulationService_SimulateDecline_def SimulationService_SimulateClearing_def
  SimulationService_SimulateReversal_def SimulationService_SimulateRefund_def

section \<open>The check of a transaction\<close>

lemma Simulation_card_then:
  "andThen (SimulationService_checkCardOwnership env pk k) (\<lambda>_. act) w
     = owned_then env (owner_in (card_ownership (wdb w)) k) pk act w"
  unfolding SimulationService_checkCardOwnership_def by (rule card_gate_then)

lemma Simulation_account_then:
  "andThen (SimulationService_checkAccountOwnership env pk k) (\<lambda>_. act) w
     = owned_then env (owner_in (account_ownership (wdb w)) k) pk act w"
  unfolding SimulationService_checkAccountOwnership_def by (rule account_gate_then)

text \<open>
  A transaction passes the check only when REAP, asked now, says its card is one the vault owns;
  whatever the outcome, at most the GET that asks has been sent.
\<close>

lemma checkTransactionOwnership_run:
  assumes "checkTransactionOwnership env pk t w = (r, w')"
  shows "wdb w' = wdb w" and "tasks w' = tasks w"
    and "sent w' = sent w \<or> t \<noteq> [] \<and>
           sent w' = sent w @ [reap_request env ''GET'' (pathf ''/card-transactions/%s'' [t]) None id]"
    and "r = Inr () \<Longrightarrow> t = [] \<or> (\<exists>st body c. fetched_card st body c \<and> owns_card (wdb w) pk c
           \<and> reap_answer env (Suc (tick w)) (reap_request env ''GET'' (pathf ''/card-transactions/%s'' [t]) None id)
               = Some (st, body))"
proof -
  let ?q = "reap_request env ''GET'' (pathf ''/card-transactions/%s'' [t]) None id"
  let ?ok = "\<exists>st body c. fetched_card st body c \<and> owns_card (wdb w) pk c
      \<and> reap_answer env (Suc (tick w)) ?q = Some (st, body)"
  have "wdb w' = wdb w \<and> tasks w' = tasks w \<and> (sent w' = sent w \<or> t \<noteq> [] \<and> sent w' = sent w @ [?q])
      \<and> (r = Inr () \<longrightarrow> t = [] \<or> ?ok)"
  proof (cases "t = []")
    case True
    then show ?thesis using assms by (simp add: checkTransactionOwnership_def)
  next
    case False
    obtain a w1 where c: "Client_GetCardTransaction env t w = (a, w1)" by fastforce
    note C = Client_do_run(1-3) [OF c [unfolded Client_GetCardTransaction_def]]
    have A: "a = Inr (st, body) \<Longrightarrow> reap_answer env (Suc (tick w)) ?q = Some (st, body)" for st body
      using Client_do_run(5) [OF c [unfolded Client_GetCardTransaction_def]] by (auto split: option.splits)
    from False assms c C show ?thesis
      unfolding checkTransactionOwnership_def SimulationService_checkCardOwnership_def
      by (auto simp: andThen_def isowner_run fetched_card_def owns_card_def
          split: sum.splits prod.splits option.splits if_splits dest!: A)
  qed
  then show "wdb w' = wdb w" "tasks w' = tasks w" "sent w' = sent w \<or> t \<noteq> [] \<and> sent w' = sent w @ [?q]"
    "r = Inr () \<Longrightarrow> t = [] \<or> ?ok" by blast+
qed

section \<open>Frames\<close>

lemma simulation_check_frames [evo_intros, unqueued_intros, unwritten_intros]:
  "evolves w (snd (SimulationService_checkCardOwnership env pk k w))"
  "evolves w (snd (SimulationService_checkAccountOwnership env pk k w))"
  "evolves w (snd (checkTransactionOwnership env pk t w))"
  unfolding SimulationService_checkCardOwnership_def SimulationService_checkAccountOwnership_def
    checkTransactionOwnership_def client_defs
  by (auto intro!: evo_intros split: prod.splits option.splits)

lemma simulation_evolves [evo_intros]:
  "evolves w (snd (SimulationService_SimulateUserApplicationStatus env pk u s w))"
  "evolves w (snd (SimulationService_SimulateCompanyStatus env ci cr w))"
  "evolves w (snd (SimulationService_SimulateAccountStatus env pk i s w))"
  "evolves w (snd (SimulationService_SimulateCardStatus env pk i s w))"
  "evolves w (snd (SimulationService_SimulateAuthorization env pk r w))"
  "evolves w (snd (SimulationService_SimulateThreeDSAuthorization env pk r w))"
  "evolves w (snd (SimulationService_SimulateDecline env pk r w))"
  "evolves w (snd (SimulationService_SimulateClearing env pk r w))"
  "evolves w (snd (SimulationService_SimulateReversal env pk r w))"
  "evolves w (snd (SimulationService_SimulateRefund env pk r w))"
  unfolding simulation_defs client_defs
  by (auto intro!: evo_intros)

end
