(* ===== verification/Server.thy ===== *)
theory Server
  imports Auth_Service Webhook_Service Simulation_Service
begin

text \<open>
  \<open>cmd/server/server.go\<close>: the HTTP handlers, the routes and which of them stand behind
  \<open>RequireAuth\<close>. A handler's inputs are what Echo hands it: the vault of the token's claims, path and
  query parameters, the idempotency header (empty when absent) and the request body as \<open>c.Bind\<close>
  decoded it, None when it did not. The request logger is in
  \<open>Lifecycle\<close>; Echo's router, its other middleware and the listener are not modelled.
\<close>

section \<open>Answers\<close>

definition internal_error :: resp where
  "internal_error = error_json 500 ''internal error''"

definition invalid_request :: resp where
  "invalid_request = error_json 400 ''invalid request''"

definition key_required :: resp where
  "key_required = error_json 400 ''Idempotency-Key header is required''"

definition user_errors :: "goerr \<Rightarrow> resp" where
  "user_errors e = (if e = ErrNoReapUser then error_json 404 ''no reap user for this vault'' else internal_error)"

definition owned_errors :: "goerr \<Rightarrow> resp" where
  "owned_errors e = (if e = ErrResourceNotOwned then error_json 404 ''not found'' else internal_error)"

definition scope_errors :: "string \<Rightarrow> goerr \<Rightarrow> resp" where
  "scope_errors msg e = (if e = ErrMissingScopeFilter then error_json 400 msg else owned_errors e)"

definition answer :: "(goerr \<Rightarrow> resp) \<Rightarrow> (int \<times> string) eff \<Rightarrow> handler" where
  \<comment> \<open>the closing \<open>switch\<close> of a handler: an error through its table, REAP's answer as it is\<close>
  "answer errs m = handle m (\<lambda>r. case r of Inl e \<Rightarrow> reply (errs e) | Inr (status, body) \<Rightarrow> reply (Blob status body))"

section \<open>Public handlers\<close>

definition Server_health :: "env \<Rightarrow> handler" where
  \<comment> \<open>\<open>pool.Ping\<close> is a statement without effect\<close>
  "Server_health env = handle (db_exec env (\<lambda>now d. (Inr (), d))) (\<lambda>r. case r of
     Inl _ \<Rightarrow> reply (Text 503 ''db unavailable'') | Inr _ \<Rightarrow> reply (Text 200 ''ok''))"

definition Server_nonce :: "env \<Rightarrow> url_values \<Rightarrow> handler" where
  "Server_nonce env query =
     (let publicKey = Values_Get query ''public_key'' in
      if publicKey = [] then reply invalid_request
      else handle (GetNonce env publicKey) (\<lambda>r. case r of
        Inl _ \<Rightarrow> reply internal_error
      | Inr n \<Rightarrow> reply (JSON 200 [(''nonce'', FormatInt n)])))"

definition Server_auth :: "env \<Rightarrow> (string \<times> string \<times> int \<times> string) option \<Rightarrow> handler" where
  "Server_auth env bound =
     (case bound of
        None \<Rightarrow> reply invalid_request
      | Some (publicKey, chainCode, nonce, signature) \<Rightarrow>
          if publicKey = [] \<or> chainCode = [] \<or> signature = [] then reply invalid_request
          else handle (Authenticate env publicKey chainCode nonce signature) (\<lambda>r. case r of
            Inr token \<Rightarrow> reply (JSON 200 [(''access_token'', marshal_string token),
                                         (''token_type'', marshal_string ''Bearer'')])
          | Inl e \<Rightarrow>
              if e = ErrInvalidSignature \<or> e = ErrNonceUsed
              then reply (error_json 401 ''invalid signature or nonce'')
              else reply internal_error))"

definition Server_reapWebhook :: "env \<Rightarrow> string option \<Rightarrow> string \<Rightarrow> handler" where
  "Server_reapWebhook env rawBody signatureHeader =
     (case rawBody of
        None \<Rightarrow> reply invalid_request
      | Some raw \<Rightarrow> handle (HandleEvent env raw signatureHeader) (\<lambda>r. case r of
          Inl e \<Rightarrow>
            if e = ErrInvalidWebhookSignature then reply (error_json 400 ''invalid signature'')
            else if e = ErrInvalidWebhookPayload then reply (error_json 400 ''invalid payload'')
            else reply internal_error
        | Inr _ \<Rightarrow> reply (NoContent 200)))"

section \<open>Protected handlers\<close>

definition create_user_errors :: "goerr \<Rightarrow> resp" where
  "create_user_errors e =
     (if e = ErrReapUserExists then error_json 409 ''reap user already exists''
      else if e = ErrReapUserCreateInFlight then error_json 409 ''reap user creation already in progress''
      else internal_error)"

definition Server_createUser ::
    "env \<Rightarrow> string \<Rightarrow> string \<Rightarrow> (string \<times> string \<times> string \<times> string \<times> string) option \<Rightarrow> handler" where
  \<comment> \<open>\<open>realIP\<close> is Echo's view of the client address\<close>
  "Server_createUser env pk realIP bound =
     (case bound of
        None \<Rightarrow> reply invalid_request
      | Some (email, phone, firstName, lastName, terms) \<Rightarrow>
          if email = [] \<or> phone = [] \<or> terms = [] then reply invalid_request
          else answer create_user_errors (UserService_CreateUser env pk
            \<lparr>cu_Email = email, cu_PhoneNumber = phone, cu_FirstName = firstName, cu_LastName = lastName,
             cu_TermsAcceptance = \<lparr>ta_Version = terms, ta_IPAddress = realIP\<rparr>\<rparr>))"

definition Server_getUser :: "env \<Rightarrow> string \<Rightarrow> handler" where
  "Server_getUser env pk =
     answer user_errors (UserService_GetUser env pk)"

definition Server_updateUserEmail :: "env \<Rightarrow> string \<Rightarrow> string option \<Rightarrow> handler" where
  "Server_updateUserEmail env pk bound =
     (case bound of
        None \<Rightarrow> reply invalid_request
      | Some email \<Rightarrow>
          if email = [] then reply invalid_request
          else answer user_errors (UserService_UpdateEmail env pk email))"

definition Server_updateUserPhone :: "env \<Rightarrow> string \<Rightarrow> string option \<Rightarrow> handler" where
  "Server_updateUserPhone env pk bound =
     (case bound of
        None \<Rightarrow> reply invalid_request
      | Some phone \<Rightarrow>
          if phone = [] then reply invalid_request
          else answer user_errors (UserService_UpdatePhoneNumber env pk phone))"

definition Server_advanceUserApplication ::
    "env \<Rightarrow> string \<Rightarrow> string option \<Rightarrow> string \<Rightarrow> handler" where
  "Server_advanceUserApplication env pk rawBody idempotencyKey =
     (case rawBody of
        None \<Rightarrow> reply invalid_request
      | Some body \<Rightarrow>
          if idempotencyKey = [] then reply key_required
          else answer user_errors (UserService_AdvanceUserApplication env pk body idempotencyKey))"

definition Server_createAccount ::
    "env \<Rightarrow> string \<Rightarrow> string \<Rightarrow> Signers option option \<Rightarrow> handler" where
  "Server_createAccount env pk idempotencyKey bound =
     (if idempotencyKey = [] then reply key_required
      else (case bound of
        None \<Rightarrow> reply invalid_request
      | Some signers \<Rightarrow>
          answer user_errors (AccountService_CreateAccount env pk signers idempotencyKey)))"

definition Server_listAccounts :: "env \<Rightarrow> string \<Rightarrow> url_values \<Rightarrow> handler" where
  "Server_listAccounts env pk query =
     answer user_errors (AccountService_ListAccounts env pk
       (fst (Atoi (Values_Get query ''limit''))) (Values_Get query ''cursor''))"

definition Server_generateSignerMessage :: "env \<Rightarrow> handler" where
  "Server_generateSignerMessage env  =
     answer (\<lambda>_. internal_error) (AccountService_GenerateSignerMessage env)"

definition Server_getAccount :: "env \<Rightarrow> string \<Rightarrow> string \<Rightarrow> handler" where
  "Server_getAccount env pk i =
     answer owned_errors (AccountService_GetAccount env pk i)"

definition Server_getAccountBalance :: "env \<Rightarrow> string \<Rightarrow> string \<Rightarrow> handler" where
  "Server_getAccountBalance env pk i =
     answer owned_errors (AccountService_GetAccountBalance env pk i)"

definition Server_getAccountAssets :: "env \<Rightarrow> string \<Rightarrow> string \<Rightarrow> handler" where
  "Server_getAccountAssets env pk i =
     answer owned_errors (AccountService_GetAccountAssets env pk i)"

definition Server_createCard ::
    "env \<Rightarrow> string \<Rightarrow> string \<Rightarrow> (string \<times> string \<times> string \<times> string) option \<Rightarrow> handler" where
  "Server_createCard env pk idempotencyKey bound =
     (if idempotencyKey = [] then reply key_required
      else (case bound of
        None \<Rightarrow> reply invalid_request
      | Some (accountID, ty, meth, design) \<Rightarrow>
          if accountID = [] \<or> ty = [] then reply invalid_request
          else answer user_errors (CardService_CreateCard env pk
            \<lparr>cc_UserID = [], cc_AccountID = accountID, cc_Type = ty, cc_ThreeDSChallengeMethod = meth,
             cc_CardDesignID = design\<rparr> idempotencyKey)))"

definition Server_listCards :: "env \<Rightarrow> string \<Rightarrow> url_values \<Rightarrow> handler" where
  "Server_listCards env pk query =
     answer user_errors (CardService_ListCards env pk query)"

definition Server_getCard :: "env \<Rightarrow> string \<Rightarrow> string \<Rightarrow> handler" where
  "Server_getCard env pk i =
     answer owned_errors (CardService_GetCard env pk i)"

definition Server_deleteCard :: "env \<Rightarrow> string \<Rightarrow> string \<Rightarrow> handler" where
  "Server_deleteCard env pk i =
     answer owned_errors (CardService_DeleteCard env pk i)"

definition Server_updateCardPin ::
    "env \<Rightarrow> string \<Rightarrow> string \<Rightarrow> string option \<Rightarrow> handler" where
  "Server_updateCardPin env pk i bound =
     (case bound of
        None \<Rightarrow> reply invalid_request
      | Some pin \<Rightarrow>
          if pin = [] then reply invalid_request
          else answer owned_errors (CardService_UpdateCardPin env pk i pin))"

definition Server_freezeCard :: "env \<Rightarrow> string \<Rightarrow> string \<Rightarrow> handler" where
  "Server_freezeCard env pk i =
     answer owned_errors (CardService_FreezeCard env pk i)"

definition Server_unfreezeCard :: "env \<Rightarrow> string \<Rightarrow> string \<Rightarrow> handler" where
  "Server_unfreezeCard env pk i =
     answer owned_errors (CardService_UnfreezeCard env pk i)"

definition Server_revealCardDetails ::
    "env \<Rightarrow> string \<Rightarrow> string \<Rightarrow> (string \<times> bool) option \<Rightarrow> handler" where
  "Server_revealCardDetails env pk i bound =
     (case bound of
        None \<Rightarrow> reply invalid_request
      | Some (stylesheetURL, showCopyPanButton) \<Rightarrow>
          answer owned_errors (CardService_RevealCardDetails env pk i stylesheetURL showCopyPanButton))"

definition Server_updateCard3DSChallengeMethod ::
    "env \<Rightarrow> string \<Rightarrow> string \<Rightarrow> string option \<Rightarrow> handler" where
  "Server_updateCard3DSChallengeMethod env pk i bound =
     (case bound of
        None \<Rightarrow> reply invalid_request
      | Some meth \<Rightarrow>
          if meth = [] then reply invalid_request
          else answer owned_errors (CardService_UpdateCard3DSChallengeMethod env pk i meth))"

definition Server_activatePhysicalCard ::
    "env \<Rightarrow> string \<Rightarrow> string \<Rightarrow> string option \<Rightarrow> handler" where
  "Server_activatePhysicalCard env pk i bound =
     (case bound of
        None \<Rightarrow> reply invalid_request
      | Some code \<Rightarrow>
          if code = [] then reply invalid_request
          else answer owned_errors (CardService_ActivatePhysicalCard env pk i code))"

definition Server_getCardActivationCode :: "env \<Rightarrow> string \<Rightarrow> string \<Rightarrow> handler" where
  "Server_getCardActivationCode env pk i =
     answer owned_errors (CardService_GetCardActivationCode env pk i)"

definition Server_pushProvisionCard ::
    "env \<Rightarrow> string \<Rightarrow> string \<Rightarrow> string \<Rightarrow> (string \<times> string \<times> string) option \<Rightarrow> handler" where
  "Server_pushProvisionCard env pk i idempotencyKey bound =
     (case bound of
        None \<Rightarrow> reply invalid_request
      | Some (provider, walletAccountID, deviceID) \<Rightarrow>
          if provider = [] \<or> walletAccountID = [] \<or> deviceID = [] then reply invalid_request
          else if idempotencyKey = [] then reply key_required
          else answer owned_errors (CardService_PushProvisionCard env pk i provider walletAccountID deviceID idempotencyKey))"

definition Server_respondToCard3DSChallenge ::
    "env \<Rightarrow> string \<Rightarrow> string \<Rightarrow> bool option option \<Rightarrow> handler" where
  "Server_respondToCard3DSChallenge env pk i bound =
     (case bound of
        Some (Some approve) \<Rightarrow> answer owned_errors (CardService_RespondToCard3DSChallenge env pk i approve)
      | _ \<Rightarrow> reply invalid_request)"

definition Server_getCard3DSChallenge :: "env \<Rightarrow> string \<Rightarrow> string \<Rightarrow> handler" where
  "Server_getCard3DSChallenge env pk i =
     answer owned_errors (CardService_GetCard3DSChallenge env pk i)"

definition Server_createCardShipment ::
    "env \<Rightarrow> string \<Rightarrow> CreateCardShipmentRequest option \<Rightarrow> handler" where
  "Server_createCardShipment env pk bound =
     (case bound of
        None \<Rightarrow> reply invalid_request
      | Some req \<Rightarrow>
          answer (scope_errors ''at least one owned card is required'') (ShipmentService_CreateCardShipment env pk req))"

definition Server_listCardShipments :: "env \<Rightarrow> string \<Rightarrow> url_values \<Rightarrow> handler" where
  "Server_listCardShipments env pk query =
     answer (scope_errors ''cardId filter is required'')
       (ShipmentService_ListCardShipments env pk query)"

definition Server_getCardShipment :: "env \<Rightarrow> string \<Rightarrow> string \<Rightarrow> handler" where
  "Server_getCardShipment env pk i =
     answer owned_errors (ShipmentService_GetCardShipment env pk i)"

definition Server_deleteCardShipment :: "env \<Rightarrow> string \<Rightarrow> string \<Rightarrow> handler" where
  "Server_deleteCardShipment env pk i =
     answer owned_errors (ShipmentService_DeleteCardShipment env pk i)"

definition Server_updateCardShipment ::
    "env \<Rightarrow> string \<Rightarrow> string \<Rightarrow> UpdateCardShipmentRequest option \<Rightarrow> handler" where
  "Server_updateCardShipment env pk i bound =
     (case bound of
        None \<Rightarrow> reply invalid_request
      | Some req \<Rightarrow>
          answer owned_errors (ShipmentService_UpdateCardShipment env pk i req))"

definition Server_addCardToShipment ::
    "env \<Rightarrow> string \<Rightarrow> string \<Rightarrow> CardShipmentMember option \<Rightarrow> handler" where
  "Server_addCardToShipment env pk i bound =
     (case bound of
        None \<Rightarrow> reply invalid_request
      | Some req \<Rightarrow>
          answer (scope_errors ''cardId is required'') (ShipmentService_AddCardToShipment env pk i req))"

definition Server_removeCardFromShipment ::
    "env \<Rightarrow> string \<Rightarrow> string \<Rightarrow> string \<Rightarrow> handler" where
  "Server_removeCardFromShipment env pk i memberID =
     answer owned_errors (ShipmentService_RemoveCardFromShipment env pk i memberID)"

definition Server_submitCardShipment ::
    "env \<Rightarrow> string \<Rightarrow> string \<Rightarrow> string \<Rightarrow> handler" where
  "Server_submitCardShipment env pk i idempotencyKey =
     (if idempotencyKey = [] then reply key_required
      else answer owned_errors (ShipmentService_SubmitCardShipment env pk i idempotencyKey))"

definition Server_listCardDesigns :: "env \<Rightarrow> url_values \<Rightarrow> handler" where
  "Server_listCardDesigns env query =
     answer (\<lambda>_. internal_error) (CardDesignService_ListCardDesigns env query)"

definition Server_getCardDesign :: "env \<Rightarrow> string \<Rightarrow> handler" where
  "Server_getCardDesign env i =
     answer (\<lambda>_. internal_error) (CardDesignService_GetCardDesign env i)"

definition Server_getCardTransaction :: "env \<Rightarrow> string \<Rightarrow> string \<Rightarrow> handler" where
  "Server_getCardTransaction env pk i =
     answer owned_errors (CardTransactionService_GetCardTransaction env pk i)"

definition Server_listActivities :: "env \<Rightarrow> string \<Rightarrow> url_values \<Rightarrow> handler" where
  "Server_listActivities env pk query =
     answer (scope_errors ''accountId or cardId filter is required'')
       (ActivityService_ListActivities env pk query)"

definition Server_reportFraud ::
    "env \<Rightarrow> string \<Rightarrow> string \<Rightarrow> (string \<times> string \<times> string) option \<Rightarrow> handler" where
  "Server_reportFraud env pk idempotencyKey bound =
     (case bound of
        None \<Rightarrow> reply invalid_request
      | Some (transactionID, ty, notifiedAt) \<Rightarrow>
          if transactionID = [] \<or> ty = [] then reply invalid_request
          else if idempotencyKey = [] then reply key_required
          else answer owned_errors (FraudAlertService_ReportFraud env pk
            \<lparr>rf_TransactionID = transactionID, rf_Type = ty, rf_CardholderNotifiedAt = notifiedAt\<rparr> idempotencyKey))"

definition Server_listFraudAlerts :: "env \<Rightarrow> string \<Rightarrow> url_values \<Rightarrow> handler" where
  "Server_listFraudAlerts env pk query =
     answer (scope_errors ''cardId or transactionId filter is required'')
       (FraudAlertService_ListFraudAlerts env pk query)"

definition Server_getFraudAlert :: "env \<Rightarrow> string \<Rightarrow> string \<Rightarrow> handler" where
  "Server_getFraudAlert env pk i =
     answer owned_errors (FraudAlertService_GetFraudAlert env pk i)"

definition Server_respondToFraudAlert ::
    "env \<Rightarrow> string \<Rightarrow> string \<Rightarrow> string \<Rightarrow> (string \<times> string) option \<Rightarrow> handler" where
  "Server_respondToFraudAlert env pk i idempotencyKey bound =
     (case bound of
        None \<Rightarrow> reply invalid_request
      | Some (response, ty) \<Rightarrow>
          if response = [] then reply invalid_request
          else if idempotencyKey = [] then reply key_required
          else answer owned_errors (FraudAlertService_RespondToFraudAlert env pk i
            \<lparr>ra_Response = response, ra_Type = ty\<rparr> idempotencyKey))"

section \<open>Simulation handlers\<close>

definition Server_simulateUserApplicationStatus ::
    "env \<Rightarrow> string \<Rightarrow> string \<Rightarrow> string option \<Rightarrow> handler" where
  "Server_simulateUserApplicationStatus env pk i bound =
     (case bound of
        None \<Rightarrow> reply invalid_request
      | Some status \<Rightarrow>
          if status = [] then reply invalid_request
          else answer (\<lambda>e. if e = ErrNoReapUser then error_json 404 ''no reap user for this vault'' else owned_errors e) (SimulationService_SimulateUserApplicationStatus env pk i status))"

definition Server_simulateCompanyStatus ::
    "env \<Rightarrow> string \<Rightarrow> SimulateCompanyStatusRequest option \<Rightarrow> handler" where
  "Server_simulateCompanyStatus env i bound =
     (case bound of
        None \<Rightarrow> reply invalid_request
      | Some req \<Rightarrow>
          if sc_Status req = [] then reply invalid_request
          else answer owned_errors (SimulationService_SimulateCompanyStatus env i req))"

definition Server_simulateAccountStatus ::
    "env \<Rightarrow> string \<Rightarrow> string \<Rightarrow> string option \<Rightarrow> handler" where
  "Server_simulateAccountStatus env pk i bound =
     (case bound of
        None \<Rightarrow> reply invalid_request
      | Some status \<Rightarrow>
          if status = [] then reply invalid_request
          else answer owned_errors (SimulationService_SimulateAccountStatus env pk i status))"

definition Server_simulateCardStatus ::
    "env \<Rightarrow> string \<Rightarrow> string \<Rightarrow> string option \<Rightarrow> handler" where
  "Server_simulateCardStatus env pk i bound =
     (case bound of
        None \<Rightarrow> reply invalid_request
      | Some status \<Rightarrow>
          if status = [] then reply invalid_request
          else answer owned_errors (SimulationService_SimulateCardStatus env pk i status))"

definition Server_simulateAuthorization ::
    "env \<Rightarrow> string \<Rightarrow> SimulateCardTransactionRequest option \<Rightarrow> handler" where
  "Server_simulateAuthorization env pk bound =
     (case bound of
        None \<Rightarrow> reply invalid_request
      | Some req \<Rightarrow>
          if st_CardID req = [] then reply invalid_request
          else answer owned_errors (SimulationService_SimulateAuthorization env pk req))"

definition Server_simulateThreeDSAuthorization ::
    "env \<Rightarrow> string \<Rightarrow> SimulateCardTransactionRequest option \<Rightarrow> handler" where
  "Server_simulateThreeDSAuthorization env pk bound =
     (case bound of
        None \<Rightarrow> reply invalid_request
      | Some req \<Rightarrow>
          if st_CardID req = [] then reply invalid_request
          else answer owned_errors (SimulationService_SimulateThreeDSAuthorization env pk req))"

definition Server_simulateDecline ::
    "env \<Rightarrow> string \<Rightarrow> SimulateCardTransactionRequest option \<Rightarrow> handler" where
  "Server_simulateDecline env pk bound =
     (case bound of
        None \<Rightarrow> reply invalid_request
      | Some req \<Rightarrow>
          if st_CardID req = [] then reply invalid_request
          else answer owned_errors (SimulationService_SimulateDecline env pk req))"

definition Server_simulateClearing ::
    "env \<Rightarrow> string \<Rightarrow> SimulateCardTransactionRequest option \<Rightarrow> handler" where
  "Server_simulateClearing env pk bound =
     (case bound of
        None \<Rightarrow> reply invalid_request
      | Some req \<Rightarrow>
          if st_CardID req = [] then reply invalid_request
          else answer owned_errors (SimulationService_SimulateClearing env pk req))"

definition Server_simulateReversal ::
    "env \<Rightarrow> string \<Rightarrow> SimulateCardTransactionRequest option \<Rightarrow> handler" where
  "Server_simulateReversal env pk bound =
     (case bound of
        None \<Rightarrow> reply invalid_request
      | Some req \<Rightarrow>
          if st_CardID req = [] \<or> st_TransactionID req = [] then reply invalid_request
          else answer owned_errors (SimulationService_SimulateReversal env pk req))"

definition Server_simulateRefund ::
    "env \<Rightarrow> string \<Rightarrow> SimulateCardTransactionRequest option \<Rightarrow> handler" where
  "Server_simulateRefund env pk bound =
     (case bound of
        None \<Rightarrow> reply invalid_request
      | Some req \<Rightarrow>
          if st_CardID req = [] then reply invalid_request
          else answer owned_errors (SimulationService_SimulateRefund env pk req))"

section \<open>Routes\<close>

text \<open>
  A matched request: the route and the inputs of its handler. The public routes, the protected ones
  and the sandbox-only simulation routes are three types, as they are three groups in \<open>NewServer\<close>.
\<close>

datatype public_call =
    Health
  | Nonce url_values
  | Auth "((string \<times> string \<times> int \<times> string) option)"
  | Reap_Webhook_Delivery "(string option)" string

datatype user_call =
    Create_User string "((string \<times> string \<times> string \<times> string \<times> string) option)"
  | Get_User
  | Update_User_Email "(string option)"
  | Update_User_Phone "(string option)"
  | Advance_User_Application "(string option)" string
  | Create_Account string "(Signers option option)"
  | List_Accounts url_values
  | Generate_Signer_Message
  | Get_Account string
  | Get_Account_Balance string
  | Get_Account_Assets string
  | Create_Card string "((string \<times> string \<times> string \<times> string) option)"
  | List_Cards url_values
  | Get_Card string
  | Delete_Card string
  | Update_Card_Pin string "(string option)"
  | Freeze_Card string
  | Unfreeze_Card string
  | Reveal_Card_Details string "((string \<times> bool) option)"
  | Update_Card_3DS_Method string "(string option)"
  | Activate_Physical_Card string "(string option)"
  | Get_Card_Activation_Code string
  | Push_Provision_Card string string "((string \<times> string \<times> string) option)"
  | Get_Card_3DS_Challenge string
  | Respond_To_Card_3DS_Challenge string "(bool option option)"
  | Create_Card_Shipment "(CreateCardShipmentRequest option)"
  | List_Card_Shipments url_values
  | Get_Card_Shipment string
  | Delete_Card_Shipment string
  | Update_Card_Shipment string "(UpdateCardShipmentRequest option)"
  | Add_Card_To_Shipment string "(CardShipmentMember option)"
  | Remove_Card_From_Shipment string string
  | Submit_Card_Shipment string string
  | List_Card_Designs url_values
  | Get_Card_Design string
  | Get_Card_Transaction string
  | List_Activities url_values
  | Report_Fraud string "((string \<times> string \<times> string) option)"
  | List_Fraud_Alerts url_values
  | Get_Fraud_Alert string
  | Respond_To_Fraud_Alert string string "((string \<times> string) option)"

datatype simulation_call =
    Simulate_User_Application string "(string option)"
  | Simulate_Company_Status string "(SimulateCompanyStatusRequest option)"
  | Simulate_Account_Status string "(string option)"
  | Simulate_Card_Status string "(string option)"
  | Simulate_Authorization "(SimulateCardTransactionRequest option)"
  | Simulate_3DS_Authorization "(SimulateCardTransactionRequest option)"
  | Simulate_Decline "(SimulateCardTransactionRequest option)"
  | Simulate_Clearing "(SimulateCardTransactionRequest option)"
  | Simulate_Reversal "(SimulateCardTransactionRequest option)"
  | Simulate_Refund "(SimulateCardTransactionRequest option)"

datatype call = Public public_call | Protected user_call | Simulation simulation_call

fun public_route :: "public_call \<Rightarrow> string \<times> string" where
  "public_route Health = (''GET'', ''/health'')"
| "public_route (Nonce _) = (''GET'', ''/nonce'')"
| "public_route (Auth _) = (''POST'', ''/auth'')"
| "public_route (Reap_Webhook_Delivery _ _) = (''POST'', ''/webhooks/reap'')"

fun user_route :: "user_call \<Rightarrow> string \<times> string" where
  "user_route (Create_User _ _) = (''POST'', ''/user'')"
| "user_route Get_User = (''GET'', ''/user'')"
| "user_route (Update_User_Email _) = (''PUT'', ''/user/email'')"
| "user_route (Update_User_Phone _) = (''PUT'', ''/user/phone'')"
| "user_route (Advance_User_Application _ _) = (''POST'', ''/user/application'')"
| "user_route (Create_Account _ _) = (''POST'', ''/account'')"
| "user_route (List_Accounts _) = (''GET'', ''/account'')"
| "user_route Generate_Signer_Message = (''GET'', ''/account/signer-message'')"
| "user_route (Get_Account _) = (''GET'', ''/account/:id'')"
| "user_route (Get_Account_Balance _) = (''GET'', ''/account/:id/balance'')"
| "user_route (Get_Account_Assets _) = (''GET'', ''/account/:id/assets'')"
| "user_route (Create_Card _ _) = (''POST'', ''/card'')"
| "user_route (List_Cards _) = (''GET'', ''/card'')"
| "user_route (Get_Card _) = (''GET'', ''/card/:id'')"
| "user_route (Delete_Card _) = (''DELETE'', ''/card/:id'')"
| "user_route (Update_Card_Pin _ _) = (''PUT'', ''/card/:id/pin'')"
| "user_route (Freeze_Card _) = (''POST'', ''/card/:id/freeze'')"
| "user_route (Unfreeze_Card _) = (''POST'', ''/card/:id/unfreeze'')"
| "user_route (Reveal_Card_Details _ _) = (''POST'', ''/card/:id/reveal'')"
| "user_route (Update_Card_3DS_Method _ _) = (''PUT'', ''/card/:id/3ds-challenge-method'')"
| "user_route (Activate_Physical_Card _ _) = (''POST'', ''/card/:id/activate'')"
| "user_route (Get_Card_Activation_Code _) = (''GET'', ''/card/:id/activation-code'')"
| "user_route (Push_Provision_Card _ _ _) = (''POST'', ''/card/:id/push-provisioning'')"
| "user_route (Get_Card_3DS_Challenge _) = (''GET'', ''/card-3ds-challenges/:id'')"
| "user_route (Respond_To_Card_3DS_Challenge _ _) = (''POST'', ''/card-3ds-challenges/:id/respond'')"
| "user_route (Create_Card_Shipment _) = (''POST'', ''/card-shipments'')"
| "user_route (List_Card_Shipments _) = (''GET'', ''/card-shipments'')"
| "user_route (Get_Card_Shipment _) = (''GET'', ''/card-shipments/:id'')"
| "user_route (Delete_Card_Shipment _) = (''DELETE'', ''/card-shipments/:id'')"
| "user_route (Update_Card_Shipment _ _) = (''PATCH'', ''/card-shipments/:id'')"
| "user_route (Add_Card_To_Shipment _ _) = (''POST'', ''/card-shipments/:id/cards'')"
| "user_route (Remove_Card_From_Shipment _ _) = (''DELETE'', ''/card-shipments/:id/cards/:memberId'')"
| "user_route (Submit_Card_Shipment _ _) = (''POST'', ''/card-shipments/:id/submit'')"
| "user_route (List_Card_Designs _) = (''GET'', ''/card-designs'')"
| "user_route (Get_Card_Design _) = (''GET'', ''/card-designs/:id'')"
| "user_route (Get_Card_Transaction _) = (''GET'', ''/card-transactions/:id'')"
| "user_route (List_Activities _) = (''GET'', ''/activities'')"
| "user_route (Report_Fraud _ _) = (''POST'', ''/fraud-alerts'')"
| "user_route (List_Fraud_Alerts _) = (''GET'', ''/fraud-alerts'')"
| "user_route (Get_Fraud_Alert _) = (''GET'', ''/fraud-alerts/:id'')"
| "user_route (Respond_To_Fraud_Alert _ _ _) = (''POST'', ''/fraud-alerts/:id/respond'')"

fun simulation_route :: "simulation_call \<Rightarrow> string \<times> string" where
  "simulation_route (Simulate_User_Application _ _) = (''POST'', ''/simulation/users/:id/application'')"
| "simulation_route (Simulate_Company_Status _ _) = (''POST'', ''/simulation/companies/:id/status'')"
| "simulation_route (Simulate_Account_Status _ _) = (''POST'', ''/simulation/accounts/:id/status'')"
| "simulation_route (Simulate_Card_Status _ _) = (''POST'', ''/simulation/cards/:id/status'')"
| "simulation_route (Simulate_Authorization _) = (''POST'', ''/simulation/card-transactions/authorization'')"
| "simulation_route (Simulate_3DS_Authorization _) = (''POST'', ''/simulation/card-transactions/authorization-with-3ds'')"
| "simulation_route (Simulate_Decline _) = (''POST'', ''/simulation/card-transactions/decline'')"
| "simulation_route (Simulate_Clearing _) = (''POST'', ''/simulation/card-transactions/clearing'')"
| "simulation_route (Simulate_Reversal _) = (''POST'', ''/simulation/card-transactions/reversal'')"
| "simulation_route (Simulate_Refund _) = (''POST'', ''/simulation/card-transactions/refund'')"

fun serve_public :: "env \<Rightarrow> public_call \<Rightarrow> handler" where
  "serve_public env Health = Server_health env"
| "serve_public env (Nonce a) = Server_nonce env a"
| "serve_public env (Auth a) = Server_auth env a"
| "serve_public env (Reap_Webhook_Delivery a b) = Server_reapWebhook env a b"

fun serve_user :: "env \<Rightarrow> string \<Rightarrow> user_call \<Rightarrow> handler" where
  "serve_user env pk (Create_User a b) = Server_createUser env pk a b"
| "serve_user env pk Get_User = Server_getUser env pk"
| "serve_user env pk (Update_User_Email a) = Server_updateUserEmail env pk a"
| "serve_user env pk (Update_User_Phone a) = Server_updateUserPhone env pk a"
| "serve_user env pk (Advance_User_Application a b) = Server_advanceUserApplication env pk a b"
| "serve_user env pk (Create_Account a b) = Server_createAccount env pk a b"
| "serve_user env pk (List_Accounts a) = Server_listAccounts env pk a"
| "serve_user env pk Generate_Signer_Message = Server_generateSignerMessage env"
| "serve_user env pk (Get_Account a) = Server_getAccount env pk a"
| "serve_user env pk (Get_Account_Balance a) = Server_getAccountBalance env pk a"
| "serve_user env pk (Get_Account_Assets a) = Server_getAccountAssets env pk a"
| "serve_user env pk (Create_Card a b) = Server_createCard env pk a b"
| "serve_user env pk (List_Cards a) = Server_listCards env pk a"
| "serve_user env pk (Get_Card a) = Server_getCard env pk a"
| "serve_user env pk (Delete_Card a) = Server_deleteCard env pk a"
| "serve_user env pk (Update_Card_Pin a b) = Server_updateCardPin env pk a b"
| "serve_user env pk (Freeze_Card a) = Server_freezeCard env pk a"
| "serve_user env pk (Unfreeze_Card a) = Server_unfreezeCard env pk a"
| "serve_user env pk (Reveal_Card_Details a b) = Server_revealCardDetails env pk a b"
| "serve_user env pk (Update_Card_3DS_Method a b) = Server_updateCard3DSChallengeMethod env pk a b"
| "serve_user env pk (Activate_Physical_Card a b) = Server_activatePhysicalCard env pk a b"
| "serve_user env pk (Get_Card_Activation_Code a) = Server_getCardActivationCode env pk a"
| "serve_user env pk (Push_Provision_Card a b c) = Server_pushProvisionCard env pk a b c"
| "serve_user env pk (Get_Card_3DS_Challenge a) = Server_getCard3DSChallenge env pk a"
| "serve_user env pk (Respond_To_Card_3DS_Challenge a b) = Server_respondToCard3DSChallenge env pk a b"
| "serve_user env pk (Create_Card_Shipment a) = Server_createCardShipment env pk a"
| "serve_user env pk (List_Card_Shipments a) = Server_listCardShipments env pk a"
| "serve_user env pk (Get_Card_Shipment a) = Server_getCardShipment env pk a"
| "serve_user env pk (Delete_Card_Shipment a) = Server_deleteCardShipment env pk a"
| "serve_user env pk (Update_Card_Shipment a b) = Server_updateCardShipment env pk a b"
| "serve_user env pk (Add_Card_To_Shipment a b) = Server_addCardToShipment env pk a b"
| "serve_user env pk (Remove_Card_From_Shipment a b) = Server_removeCardFromShipment env pk a b"
| "serve_user env pk (Submit_Card_Shipment a b) = Server_submitCardShipment env pk a b"
| "serve_user env pk (List_Card_Designs a) = Server_listCardDesigns env a"
| "serve_user env pk (Get_Card_Design a) = Server_getCardDesign env a"
| "serve_user env pk (Get_Card_Transaction a) = Server_getCardTransaction env pk a"
| "serve_user env pk (List_Activities a) = Server_listActivities env pk a"
| "serve_user env pk (Report_Fraud a b) = Server_reportFraud env pk a b"
| "serve_user env pk (List_Fraud_Alerts a) = Server_listFraudAlerts env pk a"
| "serve_user env pk (Get_Fraud_Alert a) = Server_getFraudAlert env pk a"
| "serve_user env pk (Respond_To_Fraud_Alert a b c) = Server_respondToFraudAlert env pk a b c"

fun serve_simulation :: "env \<Rightarrow> string \<Rightarrow> simulation_call \<Rightarrow> handler" where
  "serve_simulation env pk (Simulate_User_Application a b) = Server_simulateUserApplicationStatus env pk a b"
| "serve_simulation env pk (Simulate_Company_Status a b) = Server_simulateCompanyStatus env a b"
| "serve_simulation env pk (Simulate_Account_Status a b) = Server_simulateAccountStatus env pk a b"
| "serve_simulation env pk (Simulate_Card_Status a b) = Server_simulateCardStatus env pk a b"
| "serve_simulation env pk (Simulate_Authorization a) = Server_simulateAuthorization env pk a"
| "serve_simulation env pk (Simulate_3DS_Authorization a) = Server_simulateThreeDSAuthorization env pk a"
| "serve_simulation env pk (Simulate_Decline a) = Server_simulateDecline env pk a"
| "serve_simulation env pk (Simulate_Clearing a) = Server_simulateClearing env pk a"
| "serve_simulation env pk (Simulate_Reversal a) = Server_simulateReversal env pk a"
| "serve_simulation env pk (Simulate_Refund a) = Server_simulateRefund env pk a"

definition Server_serve :: "env \<Rightarrow> string \<Rightarrow> string \<Rightarrow> call \<Rightarrow> handler" where
  \<comment> \<open>the server \<open>NewServer\<close> builds for \<open>reapEnv\<close>, on a request with this \<open>Authorization\<close> header\<close>
  "Server_serve env reapEnv authHeader c =
     (case c of
        Public p \<Rightarrow> serve_public env p
      | Protected u \<Rightarrow> RequireAuth env (\<lambda>cl. serve_user env (cl_PublicKey cl) u) authHeader
      | Simulation s \<Rightarrow>
          if reapEnv = ''sandbox''
          then RequireAuth env (\<lambda>cl. serve_simulation env (cl_PublicKey cl) s) authHeader
          else reply (HTTPError 404 ''Not Found''))"

lemmas handler_defs =
  Server_getUser_def Server_updateUserEmail_def Server_updateUserPhone_def
  Server_advanceUserApplication_def Server_createAccount_def Server_listAccounts_def
  Server_generateSignerMessage_def Server_getAccount_def Server_getAccountBalance_def
  Server_getAccountAssets_def Server_createCard_def Server_listCards_def Server_getCard_def
  Server_deleteCard_def Server_updateCardPin_def Server_freezeCard_def Server_unfreezeCard_def
  Server_revealCardDetails_def Server_updateCard3DSChallengeMethod_def
  Server_activatePhysicalCard_def Server_getCardActivationCode_def Server_pushProvisionCard_def
  Server_respondToCard3DSChallenge_def Server_getCard3DSChallenge_def
  Server_createCardShipment_def Server_listCardShipments_def Server_getCardShipment_def
  Server_deleteCardShipment_def Server_updateCardShipment_def Server_addCardToShipment_def
  Server_removeCardFromShipment_def Server_submitCardShipment_def Server_listCardDesigns_def
  Server_getCardDesign_def Server_getCardTransaction_def Server_listActivities_def
  Server_reportFraud_def Server_listFraudAlerts_def Server_getFraudAlert_def
  Server_respondToFraudAlert_def Server_simulateUserApplicationStatus_def
  Server_simulateCompanyStatus_def Server_simulateAccountStatus_def
  Server_simulateCardStatus_def Server_simulateAuthorization_def
  Server_simulateThreeDSAuthorization_def Server_simulateDecline_def
  Server_simulateClearing_def Server_simulateReversal_def Server_simulateRefund_def Server_createUser_def

lemmas public_handler_defs = Server_health_def Server_nonce_def Server_auth_def Server_reapWebhook_def

section \<open>Frames\<close>

lemma reply_frame [simp]: "snd (reply r w) = w"
  by (simp add: reply_def)

lemma handle_evolves:
  assumes "\<And>w. evolves w (snd (m w))" and "\<And>r w. evolves w (snd (k r w))"
  shows "evolves w (snd (handle m k w))"
  using evolves_trans [OF assms(1) [of w] assms(2) [of "snd (m w)" "fst (m w)"]]
  by (auto simp: handle_def split: prod.split)

lemma answer_evolves [evo_intros]: "(\<And>w. evolves w (snd (m w))) \<Longrightarrow> evolves w (snd (answer errs m w))"
  unfolding answer_def by (rule handle_evolves) (auto split: sum.split)

lemma design_evolves [evo_intros]:
  "evolves w (snd (CardDesignService_ListCardDesigns env q w))"
  "evolves w (snd (CardDesignService_GetCardDesign env i w))"
  unfolding CardDesignService_ListCardDesigns_def CardDesignService_GetCardDesign_def client_defs
  by (rule evo_intros)+

text \<open>Whatever is asked, by whomever: the database only moves up, and keeps its constraints.\<close>

lemma serve_public_evolves: "evolves w (snd (serve_public env p w))"
  by (cases p)
    (auto simp: public_handler_defs Let_def intro!: handle_evolves evo_intros stmt_ok_read
      split: option.split sum.split prod.split)

lemma card_action_evolves [evo_intros]:
  "evolves w (snd (CardService_GetCard env pk i w))" "evolves w (snd (CardService_DeleteCard env pk i w))"
  "evolves w (snd (CardService_UpdateCardPin env pk i a w))" "evolves w (snd (CardService_FreezeCard env pk i w))"
  "evolves w (snd (CardService_UnfreezeCard env pk i w))"
  "evolves w (snd (CardService_RevealCardDetails env pk i a b w))"
  "evolves w (snd (CardService_UpdateCard3DSChallengeMethod env pk i a w))"
  "evolves w (snd (CardService_ActivatePhysicalCard env pk i a w))"
  "evolves w (snd (CardService_GetCardActivationCode env pk i w))"
  "evolves w (snd (CardService_PushProvisionCard env pk i a c d e w))"
  unfolding card_action_defs client_defs by (rule evo_intros)+

lemma serve_user_evolves: "evolves w (snd (serve_user env pk u w))"
  by (cases u)
    (auto simp: handler_defs intro!: evo_intros split: option.split prod.split)

lemma serve_simulation_evolves: "evolves w (snd (serve_simulation env pk s w))"
  by (cases s)
    (auto simp: handler_defs intro!: evo_intros split: option.split)

lemma RequireAuth_evolves:
  assumes "\<And>cl w. evolves w (snd (nxt cl w))"
  shows "evolves w (snd (RequireAuth env nxt h w))"
proof -
  have "evolves w (snd (admit env nxt cl tok w))" for cl tok w
  proof -
    have "evolves w (w\<lparr>tick := tick w + 2\<rparr>)" by (simp add: evolves_def)
    then show ?thesis using evolves_trans [OF _ assms]
      by (auto simp: admit_def Let_def split: option.split)
  qed
  then show ?thesis unfolding RequireAuth_def Let_def ValidateToken_def
    by (auto intro!: handle_evolves evo_intros split: sum.split option.split)
qed

lemma Server_serve_evolves_lemma: "evolves w (snd (Server_serve env reapEnv h c w))"
  by (cases c)
    (simp_all add: Server_serve_def serve_public_evolves RequireAuth_evolves serve_user_evolves
      serve_simulation_evolves)

end
