(* ===== verification/Vaultkey.thy ===== *)
theory Vaultkey
  imports Auth_Service
begin

text \<open>
  \<open>cmd/vaultkey/main.go\<close>: the command that derives a vault's keys from a mnemonic and signs the
  server's challenge. The packages it uses beyond those of the server (Keccak, Ed25519, BIP39, the
  signing half of \<open>ecdsa\<close>) are the parameter \<open>vault_lib\<close>.
\<close>

record vault_lib =
  Keccak256 :: "string \<Rightarrow> string"
  SerializeUncompressed :: "point \<Rightarrow> string"
  PrivSerialize :: "int \<Rightarrow> string"
  ecdsa_Sign :: "int \<Rightarrow> string \<Rightarrow> string"  \<comment> \<open>key, hash; DER\<close>
  SignCompact :: "int \<Rightarrow> string \<Rightarrow> string"  \<comment> \<open>recovery code, r, s\<close>
  ed25519_Public :: "string \<Rightarrow> string"  \<comment> \<open>of the key made from a seed\<close>
  ed25519_Sign :: "string \<Rightarrow> string \<Rightarrow> string"
  IsMnemonicValid :: "string \<Rightarrow> bool"
  NewMnemonic :: "string option"  \<comment> \<open>a new one from fresh entropy, None if that fails\<close>
  NewSeed :: "string \<Rightarrow> string \<Rightarrow> string"
  unicode_trim :: "string \<Rightarrow> string"  \<comment> \<open>\<open>strings.TrimSpace\<close> of text that is not pure ASCII\<close>

section \<open>Ethereum\<close>

definition checksum_case :: "string \<Rightarrow> string \<Rightarrow> string" where
  \<comment> \<open>the loop of \<open>ethAddress\<close>: a letter is upper case where the hash has a digit of 8 or more\<close>
  "checksum_case addrHex hashHex =
     map (\<lambda>i. let c = addrHex ! i in
            if 97 \<le> byte c \<and> byte c \<le> 102 \<and> byte (hashHex ! i) \<ge> 56 then char_of (byte c - 32) else c)
       [0..<length addrHex]"

definition ethAddress :: "vault_lib \<Rightarrow> point \<Rightarrow> string" where
  "ethAddress V pub =
     (let addr = drop 12 (Keccak256 V (tl (SerializeUncompressed V pub)));
          addrHex = hex_EncodeToString addr;
          hashHex = hex_EncodeToString (Keccak256 V addrHex)
      in ''0x'' @ checksum_case addrHex hashHex)"

definition personalSignHash :: "vault_lib \<Rightarrow> string \<Rightarrow> string" where
  "personalSignHash V msg =
     copy32 (Keccak256 V (CHR 0x19 # ''Ethereum Signed Message:'' @ [CHR 0x0A] @ Itoa (int (length msg)) @ msg))"

definition signPersonal :: "vault_lib \<Rightarrow> int \<Rightarrow> string \<Rightarrow> string" where
  \<comment> \<open>r, s and the recovery code, moved to the end\<close>
  "signPersonal V priv hash =
     (let compact = SignCompact V priv hash in take 64 (tl compact) @ [hd compact])"

section \<open>Solana\<close>

record solanaExtendedKey =
  so_seed :: string
  so_chainCode :: string

definition solanaPath :: "32 word list" where "solanaPath = [44, 501, 0, 0]"

definition solanaMasterFromSeed :: "crypto \<Rightarrow> string \<Rightarrow> solanaExtendedKey" where
  "solanaMasterFromSeed C seed =
     (let sum = hmac_sha512 C ''ed25519 seed'' seed in
      \<lparr>so_seed = copy32 (take 32 sum), so_chainCode = copy32 (drop 32 sum)\<rparr>)"

definition hardenedChild :: "crypto \<Rightarrow> solanaExtendedKey \<Rightarrow> 32 word \<Rightarrow> solanaExtendedKey" where
  "hardenedChild C k index =
     (let bs = AppendUint32 (char_of (0::nat) # so_seed k) (or index HardenedOffset);
          sum = hmac_sha512 C (so_chainCode k) bs
      in \<lparr>so_seed = copy32 (take 32 sum), so_chainCode = copy32 (drop 32 sum)\<rparr>)"

definition solana_derivePath :: "crypto \<Rightarrow> solanaExtendedKey \<Rightarrow> 32 word list \<Rightarrow> solanaExtendedKey" where
  "solana_derivePath C k path = foldl (hardenedChild C) k path"

section \<open>Base58\<close>

definition base58Alphabet :: string where
  "base58Alphabet = ''123456789ABCDEFGHJKLMNPQRSTUVWXYZabcdefghijkmnopqrstuvwxyz''"

definition SetBytes :: "string \<Rightarrow> nat" where
  \<comment> \<open>\<open>big.Int.SetBytes\<close>: big-endian\<close>
  "SetBytes s = foldl (\<lambda>a c. 256 * a + byte c) 0 s"

fun base58_digits :: "nat \<Rightarrow> string" where
  \<comment> \<open>the loop \<open>for x.Sign() > 0\<close>, least significant digit first\<close>
  "base58_digits x = (if x = 0 then [] else (base58Alphabet ! (x mod 58)) # base58_digits (x div 58))"

declare base58_digits.simps [simp del]

definition base58Encode :: "string \<Rightarrow> string" where
  "base58Encode input =
     (let out = base58_digits (SetBytes input)
                @ map (\<lambda>_. base58Alphabet ! 0) (takeWhile (\<lambda>b. byte b = 0) input)
      in rev out)"

section \<open>The command\<close>

definition TrimSpace :: "vault_lib \<Rightarrow> string \<Rightarrow> string" where
  "TrimSpace V s =
     (let sp = (\<lambda>c. byte c \<in> {9, 10, 11, 12, 13, 32}) in
      if is_ascii s then rev (dropWhile sp (rev (dropWhile sp s))) else unicode_trim V s)"

definition print_field :: "string \<Rightarrow> string \<Rightarrow> string" where
  "print_field label val =
     (let l = label @ '':'' in l @ replicate (20 - length l) CHR '' '' @ val)"

record vault_flags =
  f_mnemonicFile :: string
  f_passphrase :: string
  f_nonce :: int
  f_message :: string
  f_messageFile :: string

definition load_mnemonic :: "vault_lib \<Rightarrow> (string \<Rightarrow> string option) \<Rightarrow> vault_flags \<Rightarrow> string + string" where
  \<comment> \<open>the mnemonic of the file, or a new one when there is none; \<open>Inl\<close> is \<open>log.Fatal\<close>\<close>
  "load_mnemonic V read_file fl =
     (case (if f_mnemonicFile fl = [] then Some []
            else map_option (TrimSpace V) (read_file (f_mnemonicFile fl))) of
        None \<Rightarrow> Inl ''read mnemonic file''
      | Some m \<Rightarrow>
          if m = [] then (case NewMnemonic V of None \<Rightarrow> Inl ''generate mnemonic'' | Some n \<Rightarrow> Inr n)
          else if \<not> IsMnemonicValid V m then Inl ''invalid mnemonic''
          else Inr m)"

definition sign_nonce :: "crypto \<Rightarrow> vault_lib \<Rightarrow> int \<Rightarrow> int \<Rightarrow> string" where
  \<comment> \<open>\<open>sigHex\<close>: the challenge for a nonce, signed with the ETH key\<close>
  "sign_nonce C V priv nonce = hex_EncodeToString (ecdsa_Sign V priv (Sum256 C (FormatInt nonce)))"

definition quoted :: "string \<Rightarrow> string" where
  \<comment> \<open>\<open>%q\<close>, of text that needs no escape\<close>
  "quoted s = CHR 0x22 # s @ [CHR 0x22]"

definition vaultkey_fields :: "crypto \<Rightarrow> vault_lib \<Rightarrow> string \<Rightarrow> ExtendedPrivateKey \<Rightarrow> ExtendedPrivateKey
    \<Rightarrow> solanaExtendedKey \<Rightarrow> string list" where
  "vaultkey_fields C V mnemonic root eth solana =
     [print_field ''Mnemonic'' mnemonic,
      print_field ''Root Private Key'' (hex_EncodeToString (PrivSerialize V (xp_Priv root))),
      print_field ''Root Public Key'' (hex_EncodeToString (SerializeCompressed C (PubKey C (xp_Priv root)))),
      print_field ''Root Chain Code'' (hex_EncodeToString (xp_ChainCode root)),
      print_field ''ETH Path'' ''m/44/60/0/0/0 (unhardened)'',
      print_field ''ETH Private Key'' (hex_EncodeToString (PrivSerialize V (xp_Priv eth))),
      print_field ''ETH Public Key'' (hex_EncodeToString (SerializeCompressed C (PubKey C (xp_Priv eth)))),
      print_field ''ETH Address'' (ethAddress V (PubKey C (xp_Priv eth))),
      [],
      print_field ''Solana Path'' (''m/44'' @ [CHR 0x27] @ ''/501'' @ [CHR 0x27] @ ''/0'' @ [CHR 0x27]
        @ ''/0'' @ [CHR 0x27] @ '' (hardened, SLIP-0010)''),
      print_field ''Solana Private Key'' (hex_EncodeToString (so_seed solana)),
      print_field ''Solana Address'' (base58Encode (ed25519_Public V (so_seed solana)))]"

definition vaultkey_auth :: "crypto \<Rightarrow> vault_lib \<Rightarrow> int \<Rightarrow> ExtendedPrivateKey \<Rightarrow> ExtendedPrivateKey \<Rightarrow> string list" where
  "vaultkey_auth C V nonce root eth =
     (if nonce < 0 then []
      else
        let sigHex = sign_nonce C V (xp_Priv eth) nonce in
        [[], print_field ''Nonce'' (FormatInt nonce), print_field ''ETH Signature (DER)'' sigHex, [],
         ''POST /auth body:   {'' @ quoted ''public_key'' @ '':''
           @ quoted (hex_EncodeToString (SerializeCompressed C (PubKey C (xp_Priv root)))) @ '',''
           @ quoted ''chain_code'' @ '':'' @ quoted (hex_EncodeToString (xp_ChainCode root)) @ '',''
           @ quoted ''nonce'' @ '':'' @ FormatInt nonce @ '',''
           @ quoted ''signature'' @ '':'' @ quoted sigHex @ ''}''])"

definition vaultkey_message :: "crypto \<Rightarrow> vault_lib \<Rightarrow> string \<Rightarrow> ExtendedPrivateKey \<Rightarrow> solanaExtendedKey
    \<Rightarrow> string + string list" where
  "vaultkey_message C V msg eth solana =
     (if msg = [] then Inr []
      else if json_parse msg = None then Inl ''message is not valid JSON''
      else
        let h = personalSignHash V msg in
        Inr [[], print_field ''Message'' msg, print_field ''EIP-191 Hash'' (hex_EncodeToString h),
          print_field ''ETH Signature'' (''0x'' @ hex_EncodeToString (signPersonal V (xp_Priv eth) h)
            @ '' (r||s||v, for ecrecover '' @ map char_of [226::nat, 128, 148]
            @ '' e.g. REAP'' @ [CHR 0x27] @ ''s Signers.evm)''),
          print_field ''Solana Signature'' (base58Encode (ed25519_Sign V (so_seed solana) msg)
            @ '' (base58, for REAP'' @ [CHR 0x27] @ ''s Signers.svm)'')])"

definition vaultkey_main :: "crypto \<Rightarrow> vault_lib \<Rightarrow> (string \<Rightarrow> string option) \<Rightarrow> vault_flags
    \<Rightarrow> string list \<times> string option" where
  \<comment> \<open>the lines printed, and the message of the \<open>log.Fatal\<close> that ended it, if one did\<close>
  "vaultkey_main C V read_file fl =
     (case load_mnemonic V read_file fl of
        Inl e \<Rightarrow> ([], Some e)
      | Inr mnemonic \<Rightarrow>
          (let root = MasterFromSeed C (NewSeed V mnemonic (f_passphrase fl)) in
           case ExtendedPrivateKey_DerivePath C root ETHPath of
             Inl _ \<Rightarrow> ([], Some ''derive eth key'')
           | Inr eth \<Rightarrow>
               (let solana = solana_derivePath C
                      (solanaMasterFromSeed C (NewSeed V mnemonic (f_passphrase fl))) solanaPath;
                    out = vaultkey_fields C V mnemonic root eth solana
                            @ vaultkey_auth C V (f_nonce fl) root eth in
                case (if f_messageFile fl = [] then Some (f_message fl) else read_file (f_messageFile fl)) of
                  None \<Rightarrow> (out, Some ''read message file'')
                | Some msg \<Rightarrow>
                    (case vaultkey_message C V msg eth solana of
                       Inl e \<Rightarrow> (out, Some e)
                     | Inr ls \<Rightarrow> (out @ ls, None)))))"

section \<open>Base58 can be read back\<close>

fun digit_of :: "string \<Rightarrow> char \<Rightarrow> nat option" where
  "digit_of [] c = None"
| "digit_of (a # as) c = (if a = c then Some 0 else map_option Suc (digit_of as c))"

definition base58_value :: "string \<Rightarrow> nat option" where
  "base58_value s = foldl (\<lambda>acc c. Option.bind acc (\<lambda>a. map_option (\<lambda>d. 58 * a + d) (digit_of base58Alphabet c)))
     (Some 0) s"

fun Bytes :: "nat \<Rightarrow> string" where
  \<comment> \<open>\<open>big.Int.Bytes\<close>: big-endian, no leading zero\<close>
  "Bytes n = (if n = 0 then [] else Bytes (n div 256) @ [char_of (n mod 256)])"

declare Bytes.simps [simp del]

definition base58Decode :: "string \<Rightarrow> string option" where
  "base58Decode s =
     (let z = length (takeWhile (\<lambda>c. c = CHR ''1'') s) in
      map_option (\<lambda>n. replicate z (char_of (0::nat)) @ Bytes n) (base58_value (drop z s)))"

lemma SetBytes_snoc: "SetBytes (s @ [c]) = 256 * SetBytes s + byte c"
  by (simp add: SetBytes_def)

lemma SetBytes_pos: "byte c \<noteq> 0 \<Longrightarrow> SetBytes (c # s) > 0"
  by (induction s rule: rev_induct) (simp add: SetBytes_def, metis SetBytes_snoc add_gr_0 append_Cons nat_0_less_mult_iff zero_less_numeral)

lemma Bytes_SetBytes: "s = [] \<or> byte (hd s) \<noteq> 0 \<Longrightarrow> Bytes (SetBytes s) = s"
proof (induction s rule: rev_induct)
  case Nil
  then show ?case by (simp add: SetBytes_def Bytes.simps)
next
  case (snoc c s)
  have pos: "SetBytes (s @ [c]) > 0"
    using snoc.prems SetBytes_pos [of "hd (s @ [c])" "tl (s @ [c])"] by simp
  have ih: "Bytes (SetBytes s) = s" using snoc by (cases s) auto
  have b: "byte c < 256" by (rule byte_less)
  have "Bytes (SetBytes (s @ [c])) = Bytes (SetBytes (s @ [c]) div 256) @ [char_of (SetBytes (s @ [c]) mod 256)]"
    using pos Bytes.simps [of "SetBytes (s @ [c])"] by simp
  also have "SetBytes (s @ [c]) div 256 = SetBytes s" using b by (simp add: SetBytes_snoc)
  also have "SetBytes (s @ [c]) mod 256 = byte c" using b by (simp add: SetBytes_snoc)
  finally show ?case using ih by simp
qed

lemma SetBytes_leading: "SetBytes s = SetBytes (dropWhile (\<lambda>b. byte b = 0) s)"
  by (induction s) (auto simp: SetBytes_def)

lemma alphabet_length: "length base58Alphabet = 58"
  by (simp add: base58Alphabet_def)

lemma digit_of_nth: "distinct as \<Longrightarrow> i < length as \<Longrightarrow> digit_of as (as ! i) = Some i"
  by (induction as arbitrary: i) (auto simp: nth_Cons split: nat.splits)

lemma alphabet_digit: "i < 58 \<Longrightarrow> digit_of base58Alphabet (base58Alphabet ! i) = Some i"
  by (rule digit_of_nth) (simp_all add: base58Alphabet_def)

lemma base58_value_digits: "base58_value (rev (base58_digits n)) = Some n"
proof (induction n rule: base58_digits.induct)
  case (1 n)
  show ?case
  proof (cases "n = 0")
    case True
    then show ?thesis by (simp add: base58_digits.simps base58_value_def)
  next
    case False
    then have "base58_value (rev (base58_digits n)) = Some (58 * (n div 58) + n mod 58)"
      using 1 alphabet_digit [of "n mod 58"] base58_digits.simps [of n] by (simp add: base58_value_def)
    then show ?thesis by simp
  qed
qed

lemma base58_digits_last: "n > 0 \<Longrightarrow> base58_digits n \<noteq> [] \<and> last (base58_digits n) \<noteq> CHR ''1''"
proof (induction n rule: base58_digits.induct)
  case (1 n)
  show ?case
  proof (cases "n div 58 = 0")
    case True
    then have "n < 58" by simp
    then have "digit_of base58Alphabet (base58Alphabet ! n) = Some n" by (rule alphabet_digit)
    moreover have "digit_of base58Alphabet (CHR ''1'') = Some 0" by (simp add: base58Alphabet_def)
    ultimately have "base58Alphabet ! n \<noteq> CHR ''1''" using \<open>n > 0\<close> by auto
    then show ?thesis using True 1 \<open>n < 58\<close> base58_digits.simps [of n] base58_digits.simps [of 0] by simp
  next
    case False
    then show ?thesis using 1 base58_digits.simps [of n] by auto
  qed
qed

lemma base58Decode_Encode: "base58Decode (base58Encode s) = Some s"
proof -
  let ?z = "takeWhile (\<lambda>b. byte b = 0) s" and ?r = "dropWhile (\<lambda>b. byte b = 0) s"
  let ?d = "rev (base58_digits (SetBytes s))"
  have one: "base58Alphabet ! 0 = CHR ''1''" by (simp add: base58Alphabet_def)
  have e: "base58Encode s = replicate (length ?z) CHR ''1'' @ ?d"
    by (simp add: base58Encode_def one map_replicate_const)
  have d: "?d = [] \<or> hd ?d \<noteq> CHR ''1''"
    using base58_digits_last [of "SetBytes s"] base58_digits.simps [of 0]
    by (cases "SetBytes s = 0") (auto simp: hd_rev)
  then have tw: "takeWhile (\<lambda>c. c = CHR ''1'') ?d = []" by (cases ?d) auto
  have z: "takeWhile (\<lambda>c. c = CHR ''1'') (base58Encode s) = replicate (length ?z) CHR ''1''"
    unfolding e by (simp add: takeWhile_append tw)
  have "Bytes (SetBytes s) = ?r"
    unfolding SetBytes_leading [of s]
    by (rule Bytes_SetBytes) (metis (mono_tags, lifting) hd_dropWhile)
  moreover have "?z = replicate (length ?z) (char_of (0::nat))"
  proof (rule replicate_eqI)
    fix y assume "y \<in> set ?z"
    then have "byte y = 0" by (auto dest: set_takeWhileD)
    then show "y = char_of (0::nat)" by (metis char_of_char)
  qed simp
  ultimately have "replicate (length ?z) (char_of (0::nat)) @ Bytes (SetBytes s) = s"
    by (metis takeWhile_dropWhile_id)
  then show ?thesis
    by (simp add: base58Decode_def z) (simp add: e base58_value_digits)
qed

interpretation base58: codec base58Encode base58Decode "\<lambda>_. True"
  by unfold_locales (rule base58Decode_Encode)

section \<open>What the command signs, the server accepts\<close>

definition ecdsa_laws :: "crypto \<Rightarrow> vault_lib \<Rightarrow> bool" where
  \<comment> \<open>a signature verifies under the signer's public key, and public keys parse back\<close>
  "ecdsa_laws C V \<longleftrightarrow>
     (\<forall>k h. is_scalar C k \<and> k \<noteq> 0 \<longrightarrow>
        (\<exists>sig. ParseDERSignature C (ecdsa_Sign V k h) = Some sig \<and> sig_Verify C sig h (PubKey C k)))
     \<and> (\<forall>k. is_scalar C k \<and> k \<noteq> 0 \<longrightarrow>
        ParsePubKey C (SerializeCompressed C (PubKey C k)) = Some (PubKey C k))"

lemma TrimPrefix_hex: "TrimPrefix (hex_EncodeToString s) ''0x'' = hex_EncodeToString s"
proof -
  have "CHR ''x'' \<notin> set (hex_EncodeToString s)" by (auto dest!: hex_EncodeToString_chars)
  then show ?thesis
    by (auto simp: TrimPrefix_def) (metis in_set_takeD list.set_intros(1,2))
qed

lemma copy32_length [simp]: "length (copy32 s) = 32"
  by (simp add: copy32_def)

lemma copy32_id: "length s = 32 \<Longrightarrow> copy32 s = s"
  by (simp add: copy32_def)

lemma derived_scalar:
  assumes "curve_laws C" and "is_scalar C (xp_Priv k)" and "xp_Priv k \<noteq> 0"
    and "ExtendedPrivateKey_DerivePath C k path = Inr k'"
  shows "is_scalar C (xp_Priv k') \<and> xp_Priv k' \<noteq> 0"
  using assms(2-4)
proof (induction path arbitrary: k)
  case (Cons i path)
  then obtain k1 where c: "ExtendedPrivateKey_Child C k i = Inr k1"
    and p: "ExtendedPrivateKey_DerivePath C k1 path = Inr k'"
    by (auto split: sum.splits)
  show ?case
    using Cons.IH [OF _ _ p] Child_scalar [OF assms(1) Cons.prems(1) c] by blast
qed simp

lemma vault_signature_verifies:
  assumes "curve_laws C" and "ecdsa_laws C V"
    and "is_scalar C (xp_Priv root)" and "xp_Priv root \<noteq> 0" and "length (xp_ChainCode root) = 32"
    and "ExtendedPrivateKey_DerivePath C root ETHPath = Inr eth"
  shows "verifySignature C (hex_EncodeToString (SerializeCompressed C (PubKey C (xp_Priv root))))
           (hex_EncodeToString (xp_ChainCode root)) n (sign_nonce C V (xp_Priv eth) n)"
proof -
  let ?pk = "PubKey C (xp_Priv root)"
  have eth: "is_scalar C (xp_Priv eth)" "xp_Priv eth \<noteq> 0"
    using derived_scalar [OF assms(1,3,4,6)] by auto
  have parse: "ParsePubKey C (SerializeCompressed C ?pk) = Some ?pk"
    using assms(2,3,4) by (simp add: ecdsa_laws_def)
  have path: "ExtendedPublicKey_DerivePath C \<lparr>xq_Pub = ?pk, xq_ChainCode = xp_ChainCode root\<rparr> ETHPath
      = Inr (neuter C eth)"
    using DerivePath_agree [OF assms(1,3,6)] by (simp add: neuter_def)
  obtain sig where sig: "ParseDERSignature C (ecdsa_Sign V (xp_Priv eth) (Sum256 C (FormatInt n))) = Some sig"
    "sig_Verify C sig (Sum256 C (FormatInt n)) (PubKey C (xp_Priv eth))"
    using assms(2) eth unfolding ecdsa_laws_def by blast
  show ?thesis
    unfolding verifySignature_def sign_nonce_def TrimPrefix_hex hex_roundtrip option.case
    using assms(5) parse path sig by (simp add: copy32_id neuter_def)
qed

end
