(* ===== verification/Interleaving.thy ===== *)
theory Interleaving
  imports Auth_Service Ownership
begin

text \<open>
  Concurrent requests. Every store function is one SQL statement, which Postgres runs atomically on
  the row it locks, so what any number of requests do to the database is an interleaving of such
  statements, at whatever times, from whichever requests, with results lost or seen. A state is the
  database together with the history of the calls so far, the latest first.
\<close>

section \<open>The statements as steps\<close>

datatype db_call =
    Claim_nonce string int string
  | Claim_create string int
  | Release_create string
  | Set_user string string
  | Insert_token string string int
  | Touch_token string
  | Record_card string string
  | Record_account string string
  | Record_user_card string string
  | Record_event string string string

definition counted :: "'a stmt \<Rightarrow> nat stmt" where
  \<comment> \<open>a statement whose row count the code does not look at\<close>
  "counted s now d = (case s now d of (Inl e, d') \<Rightarrow> (Inl e, d') | (Inr _, d') \<Rightarrow> (Inr 1, d'))"

fun call_stmt :: "db_call \<Rightarrow> nat stmt" where
  "call_stmt (Claim_nonce pk n cc) = sql_claim_nonce pk n cc"
| "call_stmt (Claim_create pk stale) = sql_claim_create pk stale"
| "call_stmt (Release_create pk) = counted (sql_release_create pk)"
| "call_stmt (Set_user pk u) = sql_set_reap_user pk u"
| "call_stmt (Insert_token i pk e) = counted (sql_token_insert i pk e)"
| "call_stmt (Touch_token i) = counted (sql_token_touch i)"
| "call_stmt (Record_card pk c) = counted (sql_card_insert pk c)"
| "call_stmt (Record_account pk a) = counted (sql_account_insert pk a)"
| "call_stmt (Record_user_card u c) = counted (sql_user_card_insert u c)"
| "call_stmt (Record_event i ty p) = sql_event_insert i ty p"

type_synonym history = "(db_call \<times> int \<times> bool) list"

inductive db_step :: "db \<times> history \<Rightarrow> db \<times> history \<Rightarrow> bool" where
  db_stepI: "call_stmt c now d = (r, d') \<Longrightarrow> db_step (d, h) (d', (c, now, r = Inr 1) # h)"

inductive_cases db_stepE: "db_step (d, h) t"

definition db_start :: "db \<times> history \<Rightarrow> bool" where
  "db_start s \<longleftrightarrow> s = (empty_db, [])"

abbreviation db_reachable :: "db \<times> history \<Rightarrow> bool" where
  "db_reachable \<equiv> reachable db_start db_step"

lemma counted_parts:
  "snd (counted s now d) = snd (s now d)" "fst (counted s now d) = Inl e \<longleftrightarrow> fst (s now d) = Inl e"
  by (auto simp: counted_def split: prod.splits sum.splits)

lemma stmt_ok_counted: "stmt_ok s \<Longrightarrow> stmt_ok (counted s)"
  by (simp add: stmt_ok_def counted_parts)

lemma call_stmt_ok: "stmt_ok (call_stmt c)"
  by (cases c) (auto intro: stmt_oks stmt_ok_counted)

lemma db_step_cases:
  assumes "db_step (d, h) t"
  obtains c now r d' where "call_stmt c now d = (r, d')" and "t = (d', (c, now, r = Inr 1) # h)"
    and "db_le d d'" and "db_ok d \<Longrightarrow> db_ok d'"
proof -
  obtain c now r d' where c: "call_stmt c now d = (r, d')" and t: "t = (d', (c, now, r = Inr 1) # h)"
    using assms by (rule db_stepE) auto
  have "db_le d d'" "db_ok d \<Longrightarrow> db_ok d'"
    using call_stmt_ok [of c] c unfolding stmt_ok_def by (metis snd_conv)+
  then show thesis using c t that by blast
qed

section \<open>The constraints hold throughout\<close>

interpretation constraints: invariant_system db_start db_step "\<lambda>s. db_ok (fst s)"
proof unfold_locales
  show "db_start s \<Longrightarrow> db_ok (fst s)" for s by (simp add: db_start_def db_ok_empty)
  show "db_step s t \<Longrightarrow> db_ok (fst t)" if "db_ok (fst s)" for s t
    using that by (cases s) (auto elim: db_step_cases)
qed

section \<open>A nonce is claimed once\<close>

definition won_nonces :: "history \<Rightarrow> (string \<times> int) list" where
  "won_nonces h = List.map_filter
     (\<lambda>(c, now, won). case c of Claim_nonce pk n cc \<Rightarrow> if won then Some (pk, n) else None | _ \<Rightarrow> None) h"

definition nonces_spent :: "db \<times> history \<Rightarrow> bool" where
  \<comment> \<open>every nonce won so far is below its vault's current one, and none was won twice\<close>
  "nonces_spent s \<longleftrightarrow> distinct (won_nonces (snd s))
     \<and> (\<forall>(pk, n) \<in> set (won_nonces (snd s)). mapping_of (fst s) pk \<noteq> None \<and> n < nonce_of (fst s) pk)"

lemma won_nonces_simps [simp]:
  "won_nonces [] = []"
  "won_nonces ((c, now, won) # h) =
     (case c of Claim_nonce pk n cc \<Rightarrow> if won then [(pk, n)] else [] | _ \<Rightarrow> []) @ won_nonces h"
  by (auto simp: won_nonces_def map_filter_def split: db_call.split)

lemma mapping_of_stays: "db_le d d' \<Longrightarrow> mapping_of d pk \<noteq> None \<Longrightarrow> mapping_of d' pk \<noteq> None"
  by (fastforce simp: db_le_def rows_le_def mapping_of_def)

lemma nonces_spent_mono:
  assumes "nonces_spent (d, h)" and "db_le d d'"
  shows "\<forall>(pk, n) \<in> set (won_nonces h). mapping_of d' pk \<noteq> None \<and> n < nonce_of d' pk"
  using assms nonce_of_mono [OF assms(2)] mapping_of_stays [OF assms(2)]
  by (fastforce simp: nonces_spent_def)

interpretation nonces: invariant_system db_start db_step nonces_spent
proof unfold_locales
  show "db_start s \<Longrightarrow> nonces_spent s" for s by (simp add: db_start_def nonces_spent_def)
  show "db_step s t \<Longrightarrow> nonces_spent t" if inv: "nonces_spent s" for s t
  proof -
    assume "db_step s t"
    moreover obtain d h where s: "s = (d, h)" by (cases s)
    ultimately obtain c now r d' where c: "call_stmt c now d = (r, d')"
      and t: "t = (d', (c, now, r = Inr 1) # h)" and le: "db_le d d'"
      by (auto elim: db_step_cases)
    note old = nonces_spent_mono [OF inv [unfolded s] le]
    show "nonces_spent t"
    proof (cases "\<exists>pk n cc. c = Claim_nonce pk n cc \<and> r = Inr 1")
      case True
      then obtain pk n cc where k: "c = Claim_nonce pk n cc" "r = Inr 1" by blast
      have w: "sql_claim_nonce pk n cc now d = (Inr 1, d')" using c k by simp
      note post = sql_claim_nonce_post [OF w]
      have "mapping_of d' pk \<noteq> None"
        using post(2) by (cases "mapping_of d' pk") (simp_all add: chain_code_of_def)
      moreover have "(pk, n) \<notin> set (won_nonces h)"
        using inv post(5) unfolding s nonces_spent_def by auto
      ultimately show ?thesis using old inv post(1) k
        unfolding t s nonces_spent_def by auto
    next
      case False
      then show ?thesis using old inv unfolding t s nonces_spent_def
        by (auto split: db_call.splits)
    qed
  qed
qed

section \<open>One user creation at a time\<close>

fun open_claim :: "string \<Rightarrow> history \<Rightarrow> int option" where
  \<comment> \<open>when the last claim won for the vault was taken, unless it was given back since\<close>
  "open_claim pk [] = None"
| "open_claim pk ((c, now, won) # h) =
     (case c of
        Claim_create p stale \<Rightarrow> if p = pk \<and> won then Some now else open_claim pk h
      | Release_create p \<Rightarrow> if p = pk then None else open_claim pk h
      | Set_user p u \<Rightarrow> if p = pk \<and> won then None else open_claim pk h
      | _ \<Rightarrow> open_claim pk h)"

definition claims_marked :: "db \<times> history \<Rightarrow> bool" where
  \<comment> \<open>an open claim is the one marked on the vault's row, which has no REAP user yet\<close>
  "claims_marked s \<longleftrightarrow> (\<forall>pk t. open_claim pk (snd s) = Some t \<longrightarrow>
     (\<exists>r. mapping_of (fst s) pk = Some r \<and> m_create_started_at r = Some t \<and> m_reap_user_id r = None))"

definition create_mark :: "db \<Rightarrow> string \<Rightarrow> (int option \<times> string option) option" where
  "create_mark d pk = map_option (\<lambda>r. (m_create_started_at r, m_reap_user_id r)) (mapping_of d pk)"

lemma claims_marked_iff:
  "claims_marked s \<longleftrightarrow>
     (\<forall>pk t. open_claim pk (snd s) = Some t \<longrightarrow> create_mark (fst s) pk = Some (Some t, None))"
  by (auto simp: claims_marked_def create_mark_def)

text \<open>Which statements touch the mark of a vault that has a row.\<close>

lemma create_mark_step:
  assumes "call_stmt c now d = (r, d')" and "mapping_of d pk \<noteq> None"
  shows "create_mark d' pk = (case c of
      Claim_create p stale \<Rightarrow> if p = pk \<and> r = Inr 1 then Some (Some now, None) else create_mark d pk
    | Release_create p \<Rightarrow> if p = pk \<and> reap_user_of d pk = None then Some (None, None) else create_mark d pk
    | Set_user p u \<Rightarrow> if p = pk \<and> r = Inr 1 then Some (None, Some u) else create_mark d pk
    | _ \<Rightarrow> create_mark d pk)"
proof (cases c)
  case (Claim_nonce p n cc)
  then show ?thesis using assms
    by (auto simp: sql_claim_nonce_def create_mark_def mapping_updates split: if_splits option.splits)
next
  case (Claim_create p stale)
  then show ?thesis using assms
    by (auto simp: sql_claim_create_def create_mark_def mapping_updates split: if_splits option.splits)
next
  case (Release_create p)
  then show ?thesis using assms
    by (auto simp: sql_release_create_def counted_def create_mark_def reap_user_of_def mapping_updates
        split: if_splits option.splits)
next
  case (Set_user p u)
  then show ?thesis using assms
    by (auto simp: sql_set_reap_user_def create_mark_def mapping_updates split: if_splits option.splits)
qed (use assms in \<open>auto simp: counted_def create_mark_def mapping_of_def sql_token_insert_def
  sql_token_touch_def sql_card_insert_def sql_account_insert_def sql_user_card_insert_def
  sql_event_insert_def split: if_splits option.splits\<close>)

lemma claim_wins_mark:
  "sql_claim_create pk stale now d = (Inr 1, d') \<Longrightarrow> create_mark d' pk = Some (Some now, None)"
  by (auto simp: sql_claim_create_def create_mark_def new_mapping_def mapping_updates
      split: if_splits option.splits)

interpretation claims: invariant_system db_start db_step claims_marked
proof unfold_locales
  show "db_start s \<Longrightarrow> claims_marked s" for s by (simp add: db_start_def claims_marked_def)
  show "db_step s t \<Longrightarrow> claims_marked t" if inv: "claims_marked s" for s t
  proof -
    assume "db_step s t"
    moreover obtain d h where s: "s = (d, h)" by (cases s)
    ultimately obtain c now r d' where c: "call_stmt c now d = (r, d')"
      and t: "t = (d', (c, now, r = Inr 1) # h)" by (auto elim: db_step_cases)
    have "create_mark d' pk = Some (Some tm, None)"
      if op: "open_claim pk ((c, now, r = Inr 1) # h) = Some tm" for pk tm
    proof (cases "\<exists>stale. c = Claim_create pk stale \<and> r = Inr 1")
      case True
      then show ?thesis using op c claim_wins_mark by auto
    next
      case False
      then have o: "open_claim pk h = Some tm" and nc: "c \<noteq> Release_create pk"
        "\<And>u. c = Set_user pk u \<Longrightarrow> r \<noteq> Inr 1"
        using op by (auto split: db_call.splits if_splits)
      then have "create_mark d pk = Some (Some tm, None)" using inv unfolding s claims_marked_iff by auto
      moreover from this have "mapping_of d pk \<noteq> None" by (auto simp: create_mark_def)
      ultimately show ?thesis using create_mark_step [OF c, of pk] False nc
        by (auto split: db_call.splits if_splits)
    qed
    then show "claims_marked t" unfolding t claims_marked_iff by auto
  qed
qed

lemma claim_after_open:
  assumes "db_reachable (d, h)" and "open_claim pk h = Some t"
    and "call_stmt (Claim_create pk stale) now d = (Inr 1, d')"
  shows "t + stale < now"
proof -
  have "claims_marked (d, h)" using assms(1) by (rule claims.reachable_inv)
  then obtain r where "mapping_of d pk = Some r" "m_create_started_at r = Some t" "m_reap_user_id r = None"
    using assms(2) unfolding claims_marked_def by auto
  then show ?thesis using assms(3) by (auto simp: sql_claim_create_def split: if_splits)
qed

end
