(* ===== verification/Samples.thy ===== *)
theory Samples
  imports Vaultkey Interleaving Startup
begin

text \<open>
  A concrete environment, with small functions in place of the packages and of the outside, on which
  the hypotheses of the properties are shown to be satisfiable. The laws the properties assume of
  the packages are proved of it.
\<close>

definition sample_token :: "string \<Rightarrow> claims \<Rightarrow> string" where
  "sample_token key cl =
     CHR ''t'' # hex_EncodeToString (cl_ID cl) @ CHR ''.'' # hex_EncodeToString (cl_PublicKey cl)"

definition sample_parse :: "int \<Rightarrow> string \<Rightarrow> (bool \<Rightarrow> string option) \<Rightarrow> claims option" where
  "sample_parse now tok kf =
     (case Cut (tl tok) CHR ''.'' of (a, b, _) \<Rightarrow>
        (case (hex_DecodeString a, hex_DecodeString b, kf True) of
           (Some i, Some p, Some _) \<Rightarrow>
             Some \<lparr>cl_ID = i, cl_IssuedAt = None, cl_ExpiresAt = None, cl_PublicKey = p\<rparr>
         | _ \<Rightarrow> None))"

text \<open>The scalars are the residues modulo 1009 and the group is their additive group.\<close>

definition sample_crypto :: crypto where
  "sample_crypto = \<lparr>hmac_sha256 = (\<lambda>k m. ''mac''), hmac_sha512 = (\<lambda>k m. replicate 64 CHR ''h''),
     Sum256 = (\<lambda>s. s), curve_N = 1009,
     SetByteSlice = (\<lambda>s. (3, False)), AddScalar = (\<lambda>a b. (a + b) mod 1009),
     PrivKeyFromBytes = (\<lambda>s. 5), PubKey = (\<lambda>k. (k, 1)),
     ParsePubKey = (\<lambda>s. if s = [] then None else Some (int (byte (hd s)) + 256 * int (byte (hd (tl s))), 1)),
     SerializeCompressed = (\<lambda>p. [char_of (nat (fst p) mod 256), char_of (nat (fst p) div 256)]),
     ScalarBaseMult = (\<lambda>k. (k, 1)), AddPoints = (\<lambda>p q. ((fst p + fst q) mod 1009, 1)),
     ParseDERSignature = (\<lambda>s. Some (1, 1)), sig_Verify = (\<lambda>s h p. True),
     jwt_sign = (\<lambda>key cl. Some (sample_token key cl)), jwt_parse = sample_parse\<rparr>"

definition sample_lib :: vault_lib where
  "sample_lib = \<lparr>Keccak256 = (\<lambda>s. replicate 32 CHR ''k''), SerializeUncompressed = (\<lambda>p. replicate 65 CHR ''u''),
     PrivSerialize = (\<lambda>k. replicate 32 CHR ''p''), ecdsa_Sign = (\<lambda>k h. ''sig''),
     SignCompact = (\<lambda>k h. replicate 65 CHR ''s''), ed25519_Public = (\<lambda>s. replicate 32 CHR ''e''),
     ed25519_Sign = (\<lambda>s m. replicate 64 CHR ''e''), IsMnemonicValid = (\<lambda>m. True), NewMnemonic = Some ''words'',
     NewSeed = (\<lambda>m p. m), unicode_trim = id\<rparr>"

definition sample_env :: env where
  "sample_env = \<lparr>db_fault = (\<lambda>n. NoFault), clock = (\<lambda>n. 1000000), reap_answer = (\<lambda>n r. Some (200, ''{\"id\":\"x\"}'')),
     rand_read = (\<lambda>n. Some ''id''), enqueue_ok = (\<lambda>n p. True), unicode_lower = id,
     reap = \<lparr>baseURL = ''b'', apiKey = ''k'', stats = None\<rparr>, jwtSecret = ''js'', webhookSecret = ''ws'',
     crypto_lib = sample_crypto, notifications = True\<rparr>"

lemma sample_env_simps [simp]:
  "db_fault sample_env = (\<lambda>n. NoFault)" "clock sample_env = (\<lambda>n. 1000000)"
  "crypto_lib sample_env = sample_crypto" "jwtSecret sample_env = ''js''" "webhookSecret sample_env = ''ws''"
  "rand_read sample_env = (\<lambda>n. Some ''id'')" "enqueue_ok sample_env = (\<lambda>n p. True)"
  "notifications sample_env" "reap_answer sample_env = (\<lambda>n r. Some (200, ''{\"id\":\"x\"}''))"
  "unicode_lower sample_env = id"
  by (simp_all add: sample_env_def)

lemma hex_no_dot: "CHR ''.'' \<notin> set (hex_EncodeToString s)"
  by (auto dest!: hex_EncodeToString_chars)

lemma sample_jwt_laws: "jwt_laws sample_crypto"
proof -
  have "sample_parse now (sample_token key cl) kf
      = Some \<lparr>cl_ID = cl_ID cl, cl_IssuedAt = None, cl_ExpiresAt = None, cl_PublicKey = cl_PublicKey cl\<rparr>"
    if "kf True = Some key" for now key cl kf
    using that Cut_found [OF hex_no_dot, of "cl_ID cl" "hex_EncodeToString (cl_PublicKey cl)"]
    by (simp add: sample_parse_def sample_token_def hex_roundtrip)
  then show ?thesis
    by (auto simp: jwt_laws_def sample_crypto_def) (simp add: sample_token_def)
qed

lemma sample_curve_laws: "curve_laws sample_crypto"
  by (simp add: curve_laws_def sample_crypto_def is_scalar_def)

lemma sample_crypto_simps [simp]:
  "PubKey sample_crypto = (\<lambda>k. (k, 1))" "curve_N sample_crypto = 1009"
  "hmac_sha256 sample_crypto = (\<lambda>k m. ''mac'')" "jwt_parse sample_crypto = sample_parse"
  "sig_Verify sample_crypto = (\<lambda>s h p. True)" "ParseDERSignature sample_crypto = (\<lambda>s. Some (1, 1))"
  by (simp_all add: sample_crypto_def)

lemma sample_point_parses:
  assumes "0 \<le> k" and "k < 1009"
  shows "ParsePubKey sample_crypto (SerializeCompressed sample_crypto (k, 1)) = Some (k, 1)"
proof -
  have "nat k div 256 < 256" using assms by auto
  then show ?thesis using assms by (simp add: sample_crypto_def byte_char_of zmod_int zdiv_int)
qed

lemma sample_ecdsa_laws: "ecdsa_laws sample_crypto sample_lib"
  unfolding ecdsa_laws_def
  by (intro conjI allI impI) (simp_all add: is_scalar_def sample_point_parses)

text \<open>
  A vault \<open>pk\<close> with REAP user \<open>u\<close>, an account \<open>a\<close> and a card \<open>c\<close>, next to another vault's card \<open>d\<close>.
\<close>

definition sample_db :: db where
  "sample_db = empty_db\<lparr>
     mappings := [(''pk'', (new_mapping 0)\<lparr>m_reap_user_id := Some ''u'', m_hex_chain_code := Some ''cc'', m_nonce := 1\<rparr>)],
     card_ownership := [(''c'', \<lparr>o_owner = ''pk'', o_created_at = 0\<rparr>), (''d'', \<lparr>o_owner = ''other'', o_created_at = 0\<rparr>)],
     account_ownership := [(''a'', \<lparr>o_owner = ''pk'', o_created_at = 0\<rparr>)]\<rparr>"

definition sample_world :: world where
  "sample_world = init_world\<lparr>wdb := sample_db\<rparr>"

lemma sample_world_simps [simp]:
  "tick sample_world = 0" "sent sample_world = []" "tasks sample_world = []" "metrics sample_world = []"
  "wdb sample_world = sample_db"
  by (simp_all add: sample_world_def init_world_def)

lemma sample_db_simps [simp]:
  "reap_user_of sample_db ''pk'' = Some ''u''" "chain_code_of sample_db ''pk'' = Some ''cc''"
  "nonce_of sample_db ''pk'' = 1"
  "owner_in (card_ownership sample_db) i = (if i = ''c'' then Some ''pk'' else if i = ''d'' then Some ''other'' else None)"
  "owner_in (account_ownership sample_db) i = (if i = ''a'' then Some ''pk'' else None)"
  "owner_in (user_card_ownership sample_db) i = None"
  by (simp_all add: sample_db_def empty_db_def reap_user_of_def chain_code_of_def nonce_of_def mapping_of_def
      new_mapping_def owner_in_def)

lemma sample_db_ok: "db_ok sample_db"
  by (simp add: db_ok_def sample_db_def empty_db_def new_mapping_def table_ok_def)

definition sample_answer :: "int \<Rightarrow> string \<Rightarrow> env" where
  \<comment> \<open>the sample environment with REAP always answering this\<close>
  "sample_answer st body = sample_env\<lparr>reap_answer := \<lambda>n r. Some (st, body)\<rparr>"

lemma sample_answer_simps [simp]:
  "db_fault (sample_answer st body) = (\<lambda>n. NoFault)" "clock (sample_answer st body) = (\<lambda>n. 1000000)"
  "crypto_lib (sample_answer st body) = sample_crypto" "reap_answer (sample_answer st body) = (\<lambda>n r. Some (st, body))"
  by (simp_all add: sample_answer_def)

text \<open>Running the services on the samples: every step is a rewrite.\<close>

lemma Client_do_unmetered:
  assumes "stats (reap env) = None"
  shows "Client_do env m p b opts w =
    (case reap_answer env (Suc (tick w)) (reap_request env m p b opts) of
       None \<Rightarrow> Inl ErrTransport | Some a \<Rightarrow> Inr a,
     w\<lparr>sent := sent w @ [reap_request env m p b opts], tick := tick w + 3\<rparr>)"
  using assms
  by (simp add: Client_do_def andThen_def attempt_def time_now_def http_Do_def Client_report_def
     statsd_Count_def statsd_Timing_def statsd_send_def Let_def split: option.split)

lemma sample_stats [simp]: "stats (reap sample_env) = None" "stats (reap (sample_answer st body)) = None"
  by (simp_all add: sample_answer_def sample_env_def)

lemma sample_id: "unmarshal_string_field ''id'' ''{\"id\":\"x\"}'' = Some ''x''"
  by code_simp

lemmas run_simps = andThen_def resolveReapUserID_run isowner_run client_defs Client_do_unmetered
  is_2xx_def sample_id cardownership_Record_def usercardownership_Record_def accountownership_Record_def
  db_exec_def sql_card_insert_def sql_user_card_insert_def sql_account_insert_def

definition sample_card_request :: CreateCardRequest where
  "sample_card_request = \<lparr>cc_UserID = ''someone'', cc_AccountID = ''a'', cc_Type = ''Virtual'',
     cc_ThreeDSChallengeMethod = [], cc_CardDesignID = []\<rparr>"

lemma sample_CreateCard:
  "\<exists>w'. CardService_CreateCard sample_env ''pk'' sample_card_request ''k'' sample_world
     = (Inr (200, ''{\"id\":\"x\"}''), w')"
  by (rule exI [of _ "snd (CardService_CreateCard sample_env ''pk'' sample_card_request ''k'' sample_world)"])
    (simp add: CardService_CreateCard_def run_simps sample_card_request_def)

lemma sample_CreateAccount:
  "\<exists>w'. AccountService_CreateAccount sample_env ''pk'' None ''k'' sample_world
     = (Inr (200, ''{\"id\":\"x\"}''), w')"
  by (rule exI [of _ "snd (AccountService_CreateAccount sample_env ''pk'' None ''k'' sample_world)"])
    (simp add: AccountService_CreateAccount_def run_simps)

definition sample_user :: CreateUserRequest where
  "sample_user = \<lparr>cu_Email = ''e'', cu_PhoneNumber = ''1'', cu_FirstName = [], cu_LastName = [],
     cu_TermsAcceptance = \<lparr>ta_Version = ''1'', ta_IPAddress = []\<rparr>\<rparr>"

lemma sample_CreateUser:
  "\<exists>w'. UserService_CreateUser sample_env ''new'' sample_user sample_world = (Inr (200, ''{\"id\":\"x\"}''), w')"
  by (rule exI [of _ "snd (UserService_CreateUser sample_env ''new'' sample_user sample_world)"])
    (simp add: UserService_CreateUser_def run_simps attempt_def ClaimReapUserCreate_def SetReapUserID_def
      sql_claim_create_def sql_set_reap_user_def mapping_of_def sample_db_def empty_db_def new_mapping_def
      table_insert_def table_set_def)

section \<open>A vault that authenticates twice\<close>

lemma sample_child:
  "ExtendedPublicKey_Child sample_crypto \<lparr>xq_Pub = p, xq_ChainCode = cc\<rparr> i =
    (if i \<ge> HardenedOffset then Inl errHardened
     else Inr \<lparr>xq_Pub = ((3 + fst p) mod 1009, 1), xq_ChainCode = copy32 (drop 32 (replicate 64 CHR ''h''))\<rparr>)"
  by (simp add: ExtendedPublicKey_Child_def sample_crypto_def)

lemma sample_verifies: "verifySignature sample_crypto ''0101'' (replicate 64 CHR ''0'') n ''00''"
proof -
  have "hex_DecodeString (TrimPrefix ''0101'' ''0x'') = Some [CHR 0x01, CHR 0x01]" by code_simp
  moreover have "hex_DecodeString (TrimPrefix (replicate 64 CHR ''0'') ''0x'') = Some (replicate 32 (CHR 0x00))" by code_simp
  moreover have "hex_DecodeString (TrimPrefix ''00'' ''0x'') = Some [CHR 0x00]" by code_simp
  moreover have "ParsePubKey sample_crypto [CHR 0x01, CHR 0x01] = Some (257, 1)" by (simp add: sample_crypto_def)
  moreover have "\<exists>q. ExtendedPublicKey_DerivePath sample_crypto \<lparr>xq_Pub = (257, 1), xq_ChainCode = cc\<rparr> ETHPath = Inr q" for cc
    by (simp add: ETHPath_def sample_child HardenedOffset_def)
  ultimately show ?thesis by (auto simp: verifySignature_def split: sum.splits)
    (metis Inl_Inr_False)
qed

definition sample_pk :: string where "sample_pk = ''0101''"

definition sample_cc :: string where "sample_cc = replicate 64 CHR ''0''"

definition second_env :: env where
  "second_env = sample_env\<lparr>rand_read := \<lambda>n. Some ''jd''\<rparr>"
lemma sample_sign: "jwt_sign sample_crypto key cl = Some (sample_token key cl)"
  by (simp add: sample_crypto_def)

lemma sample_Authenticate:
  "\<exists>tok w' t. Authenticate sample_env sample_pk sample_cc 0 ''00'' init_world = (Inr tok, w')
     \<and> map_of (vault_tokens (wdb w')) = (map_of (vault_tokens (wdb init_world)))(hex_EncodeToString ''id'' \<mapsto> t)"
  by (rule Authenticate_runs)
    (auto simp: init_world_def empty_db_def nonce_of_def chain_code_of_def mapping_of_def int4_param_def int4_max_def sample_sign sample_verifies sample_pk_def sample_cc_def)

lemma hex_ids: "hex_EncodeToString ''id'' \<noteq> hex_EncodeToString ''jd''" by code_simp

lemma second_simps [simp]:
  "crypto_lib second_env = sample_crypto" "jwtSecret second_env = ''js''" "db_fault second_env = (\<lambda>n. NoFault)"
  "rand_read second_env = (\<lambda>n. Some ''jd'')" "clock second_env = (\<lambda>n. 1000000)"
  by (simp_all add: second_env_def)

lemma second_normalize: "normalize_chain_code second_env = normalize_chain_code sample_env"
  by (rule ext) (simp add: normalize_chain_code_def second_env_def)

lemma sample_Authenticate_again:
  "\<exists>tok w' tok' w2. Authenticate sample_env sample_pk sample_cc 0 ''00'' init_world = (Inr tok, w')
     \<and> Authenticate second_env sample_pk sample_cc 1 ''00'' w' = (Inr tok', w2)"
proof -
  obtain tok w' t where a: "Authenticate sample_env sample_pk sample_cc 0 ''00'' init_world = (Inr tok, w')"
    and m: "map_of (vault_tokens (wdb w')) = (map_of (vault_tokens (wdb init_world)))(hex_EncodeToString ''id'' \<mapsto> t)"
    using sample_Authenticate by blast
  have "\<exists>tok' w2 t. Authenticate second_env sample_pk sample_cc 1 ''00'' w' = (Inr tok', w2)
     \<and> map_of (vault_tokens (wdb w2)) = (map_of (vault_tokens (wdb w')))(hex_EncodeToString ''jd'' \<mapsto> t)"
    by (rule Authenticate_runs)
     (use Authenticate_Inr(4,5) [OF a] m hex_ids in \<open>auto simp: init_world_def empty_db_def int4_param_def int4_max_def sample_sign sample_verifies sample_pk_def sample_cc_def second_normalize simp del: hex_EncodeToString.simps\<close>)
  with a show ?thesis by blast
qed

end
