(* ===== verification/Properties_Access.thy ===== *)
theory Properties_Access
  imports Startup Samples
begin

text \<open>
  Who may act on what: the properties of the ownership checks, from the services to the server, and
  of what a request behind them tells REAP.
\<close>

section \<open>Cards and accounts named in the path\<close>

text \<open>
  Each of the ten actions on a card (get, delete, PIN, freeze, unfreeze, reveal, 3DS method,
  activate, activation code, push provisioning) sends its request to REAP exactly when the card is
  recorded as the calling vault's; otherwise it is refused, with no request sent, no task queued and
  the database as it was.
\<close>

lemma card_action_gate:
  "if owner_in (card_ownership (wdb w)) i = Some pk \<and> db_fault env (tick w) = NoFault
   then card_service env pk i a w = card_request env i a (w\<lparr>tick := Suc (tick w)\<rparr>)
   else refused w (card_service env pk i a w)"
  by (simp add: card_service_gated owned_then_def refused_def)

text \<open>
  The same for the three reads of an account (account, balance, assets) and for the simulated
  status of an account and of a card.
\<close>

lemma account_action_gate:
  "if owner_in (account_ownership (wdb w)) i = Some pk \<and> db_fault env (tick w) = NoFault
   then AccountService_GetAccount env pk i w = Client_GetAccount env i (w\<lparr>tick := Suc (tick w)\<rparr>)
      \<and> AccountService_GetAccountBalance env pk i w = Client_GetAccountBalance env i (w\<lparr>tick := Suc (tick w)\<rparr>)
      \<and> AccountService_GetAccountAssets env pk i w = Client_GetAccountAssets env i (w\<lparr>tick := Suc (tick w)\<rparr>)
      \<and> SimulationService_SimulateAccountStatus env pk i s w
          = Client_SimulateAccountStatus env i s (w\<lparr>tick := Suc (tick w)\<rparr>)
   else refused w (AccountService_GetAccount env pk i w)
      \<and> refused w (AccountService_GetAccountBalance env pk i w)
      \<and> refused w (AccountService_GetAccountAssets env pk i w)
      \<and> refused w (SimulationService_SimulateAccountStatus env pk i s w)"
  by (simp add: AccountService_GetAccount_def AccountService_GetAccountBalance_def
      AccountService_GetAccountAssets_def AccountService_checkOwnership_def account_gate_then
      SimulationService_SimulateAccountStatus_def SimulationService_checkAccountOwnership_def
      owned_then_def refused_def)

text \<open>
  C1. Each of the ten actions on a card (get, delete, PIN, freeze, unfreeze, reveal, 3DS method,
  activate, activation code, push provisioning) sends its request to REAP exactly when the card is
  recorded as the calling vault's, and each of the three reads of an account and its simulated
  status exactly when the account is; otherwise it is refused, with no request sent, no task queued
  and the database as it was.
\<close>

theorem owned_actions_gated:
  "(if owner_in (card_ownership (wdb w)) i = Some pk \<and> db_fault env (tick w) = NoFault
    then card_service env pk i a w = card_request env i a (w\<lparr>tick := Suc (tick w)\<rparr>)
    else refused w (card_service env pk i a w))
   \<and> (if owner_in (account_ownership (wdb w)) i = Some pk \<and> db_fault env (tick w) = NoFault
      then AccountService_GetAccount env pk i w = Client_GetAccount env i (w\<lparr>tick := Suc (tick w)\<rparr>)
         \<and> AccountService_GetAccountBalance env pk i w = Client_GetAccountBalance env i (w\<lparr>tick := Suc (tick w)\<rparr>)
         \<and> AccountService_GetAccountAssets env pk i w = Client_GetAccountAssets env i (w\<lparr>tick := Suc (tick w)\<rparr>)
         \<and> SimulationService_SimulateAccountStatus env pk i s w
             = Client_SimulateAccountStatus env i s (w\<lparr>tick := Suc (tick w)\<rparr>)
      else refused w (AccountService_GetAccount env pk i w)
         \<and> refused w (AccountService_GetAccountBalance env pk i w)
         \<and> refused w (AccountService_GetAccountAssets env pk i w)
         \<and> refused w (SimulationService_SimulateAccountStatus env pk i s w))"
  by (rule conjI, rule card_action_gate, rule account_action_gate)

section \<open>Requests of the vault's own REAP user\<close>

definition unresolved :: "world \<Rightarrow> 'a res \<times> world \<Rightarrow> bool" where
  \<comment> \<open>a refusal because no REAP user is known for the vault\<close>
  "unresolved w out \<longleftrightarrow> fst out \<in> {Inl ErrDb, Inl ErrNoReapUser} \<and> wdb (snd out) = wdb w
     \<and> sent (snd out) = sent w \<and> tasks (snd out) = tasks w"

lemma resolved_then:
  "andThen (resolveReapUserID env pk) act w =
     (if db_fault env (tick w) = NoFault \<and> reap_user_of (wdb w) pk \<notin> {None, Some []}
      then act (the (reap_user_of (wdb w) pk)) (w\<lparr>tick := Suc (tick w)\<rparr>)
      else (if db_fault env (tick w) = NoFault then Inl ErrNoReapUser else Inl ErrDb, w\<lparr>tick := Suc (tick w)\<rparr>))"
  by (auto simp: andThen_def resolveReapUserID_run split: option.split)

text \<open>
  C2. The calls on the user itself, the list of accounts, the list of cards and the simulated
  application status name no resource the caller could choose: what goes to REAP is the request for
  the REAP user recorded for the vault (any \<open>userId\<close> of the caller replaced, any other \<open>userID\<close> in
  the simulation path refused); with none recorded nothing is sent.
\<close>

theorem user_actions_scoped:
  "if db_fault env (tick w) = NoFault \<and> reap_user_of (wdb w) pk \<notin> {None, Some []}
   then (let u = the (reap_user_of (wdb w) pk); w1 = w\<lparr>tick := Suc (tick w)\<rparr> in
      UserService_GetUser env pk w = Client_GetUser env u w1
      \<and> UserService_UpdateEmail env pk email w = Client_UpdateEmail env u email w1
      \<and> UserService_UpdatePhoneNumber env pk phone w = Client_UpdatePhoneNumber env u phone w1
      \<and> UserService_AdvanceUserApplication env pk body key w = Client_AdvanceUserApplication env u body key w1
      \<and> AccountService_ListAccounts env pk limit cursor w = Client_ListAccounts env u limit cursor w1
      \<and> CardService_ListCards env pk query w = Client_ListCards env (Values_Set query ''userId'' u) w1
      \<and> SimulationService_SimulateUserApplicationStatus env pk userID status w
          = (if u = userID then Client_SimulateUserApplicationStatus env u status w1
             else (Inl ErrResourceNotOwned, w1)))
   else unresolved w (UserService_GetUser env pk w)
      \<and> unresolved w (UserService_UpdateEmail env pk email w)
      \<and> unresolved w (UserService_UpdatePhoneNumber env pk phone w)
      \<and> unresolved w (UserService_AdvanceUserApplication env pk body key w)
      \<and> unresolved w (AccountService_ListAccounts env pk limit cursor w)
      \<and> unresolved w (CardService_ListCards env pk query w)
      \<and> unresolved w (SimulationService_SimulateUserApplicationStatus env pk userID status w)"
  by (cases "reap_user_of (wdb w) pk")
    (simp_all add: user_service_defs AccountService_ListAccounts_def CardService_ListCards_def
      SimulationService_SimulateUserApplicationStatus_def resolved_then unresolved_def Let_def)

section \<open>Creating a card or an account\<close>

lemma CreateCard_Inr:
  assumes "CardService_CreateCard env pk req key w = (Inr (st, body), w')" and "is_2xx st"
  shows "\<exists>u i w1 w2 w3 w4. resolveReapUserID env pk w = (Inr u, w1)
     \<and> accountownership_IsOwner env pk (cc_AccountID req) w1 = (Inr True, w2)
     \<and> Client_CreateCard env (req\<lparr>cc_UserID := u\<rparr>) key w2 = (Inr (st, body), w3)
     \<and> unmarshal_string_field ''id'' body = Some i \<and> i \<noteq> []
     \<and> cardownership_Record env pk i w3 = (Inr (), w4) \<and> usercardownership_Record env u i w4 = (Inr (), w')"
  using assms unfolding CardService_CreateCard_def
  by (elim andThen_InrE) (auto split: if_splits option.splits prod.splits elim!: andThen_InrE simp: fail_def)

lemma resolve_Inr:
  assumes "resolveReapUserID env pk w = (Inr u, w1)"
  shows "reap_user_of (wdb w) pk = Some u" and "wdb w1 = wdb w" and "sent w1 = sent w"
  using assms by (auto simp: resolveReapUserID_run split: if_splits option.splits)

lemma Record_steps:
  "cardownership_Record env pk i w = (Inr (), w') \<Longrightarrow>
     card_ownership (wdb w') = insert_new i \<lparr>o_owner = pk, o_created_at = clock env (tick w)\<rparr> (card_ownership (wdb w))
     \<and> user_card_ownership (wdb w') = user_card_ownership (wdb w) \<and> sent w' = sent w"
  "usercardownership_Record env u i w = (Inr (), w') \<Longrightarrow>
     user_card_ownership (wdb w') = insert_new i \<lparr>o_owner = u, o_created_at = clock env (tick w)\<rparr> (user_card_ownership (wdb w))
     \<and> card_ownership (wdb w') = card_ownership (wdb w) \<and> sent w' = sent w"
  "accountownership_Record env pk i w = (Inr (), w') \<Longrightarrow>
     account_ownership (wdb w') = insert_new i \<lparr>o_owner = pk, o_created_at = clock env (tick w)\<rparr> (account_ownership (wdb w))
     \<and> sent w' = sent w"
  unfolding cardownership_Record_def usercardownership_Record_def accountownership_Record_def
  by (auto simp: sql_card_insert_def sql_user_card_insert_def sql_account_insert_def db_exec_def Let_def
      split: fault.splits)

lemma CreateCard_owner:
  assumes "CardService_CreateCard env pk req key w = (Inr (st, body), w')" and "is_2xx st"
  shows "\<exists>u i. reap_user_of (wdb w) pk = Some u
     \<and> owner_in (account_ownership (wdb w)) (cc_AccountID req) = Some pk
     \<and> sent w' = sent w @ [reap_request env ''POST'' ''/cards/'' (Some (json_create_card (req\<lparr>cc_UserID := u\<rparr>)))
                             (idempotency key)]
     \<and> unmarshal_string_field ''id'' body = Some i \<and> i \<noteq> []
     \<and> owner_in (card_ownership (wdb w')) i
         = Some (case owner_in (card_ownership (wdb w)) i of None \<Rightarrow> pk | Some p \<Rightarrow> p)
     \<and> owner_in (user_card_ownership (wdb w')) i
         = Some (case owner_in (user_card_ownership (wdb w)) i of None \<Rightarrow> u | Some p \<Rightarrow> p)"
proof -
  obtain u i w1 w2 w3 w4 where s: "resolveReapUserID env pk w = (Inr u, w1)"
    "accountownership_IsOwner env pk (cc_AccountID req) w1 = (Inr True, w2)"
    "Client_CreateCard env (req\<lparr>cc_UserID := u\<rparr>) key w2 = (Inr (st, body), w3)"
    "unmarshal_string_field ''id'' body = Some i" "i \<noteq> []"
    "cardownership_Record env pk i w3 = (Inr (), w4)" "usercardownership_Record env u i w4 = (Inr (), w')"
    using CreateCard_Inr [OF assms] by blast
  note C = Client_do_run(1,2) [OF s(3) [unfolded Client_CreateCard_def]]
  have o: "owner_in (account_ownership (wdb w1)) (cc_AccountID req) = Some pk" "wdb w2 = wdb w1" "sent w2 = sent w1"
    using s(2) by (auto simp: isowner_run split: if_splits)
  show ?thesis
    using resolve_Inr [OF s(1)] o C s(4,5) Record_steps(1) [OF s(6)] Record_steps(2) [OF s(7)]
    by (auto simp: owner_in_insert_new split: option.splits)
qed

text \<open>
  C3. A card creation that succeeds was for an account recorded as the caller's and for the caller's
  REAP user, whatever user the body named; the one request sent says so; and the card REAP created is
  recorded for the vault and for the REAP user, unless a record of that ID was there before, which
  stays.
\<close>

theorem CreateCard_records_owner:
  assumes "CardService_CreateCard env pk req key w = (Inr (st, body), w')" and "is_2xx st"
  shows "\<exists>u i. reap_user_of (wdb w) pk = Some u
     \<and> owner_in (account_ownership (wdb w)) (cc_AccountID req) = Some pk
     \<and> sent w' = sent w @ [reap_request env ''POST'' ''/cards/'' (Some (json_create_card (req\<lparr>cc_UserID := u\<rparr>)))
                             (idempotency key)]
     \<and> unmarshal_string_field ''id'' body = Some i \<and> i \<noteq> []
     \<and> owner_in (card_ownership (wdb w')) i
         = Some (case owner_in (card_ownership (wdb w)) i of None \<Rightarrow> pk | Some p \<Rightarrow> p)
     \<and> owner_in (user_card_ownership (wdb w')) i
         = Some (case owner_in (user_card_ownership (wdb w)) i of None \<Rightarrow> u | Some p \<Rightarrow> p)"
  by (rule CreateCard_owner [OF assms])

theorem CreateCard_records_owner_witness:
  "\<exists>w'. CardService_CreateCard sample_env ''pk'' sample_card_request ''k'' sample_world
      = (Inr (200, ''{\"id\":\"x\"}''), w')
     \<and> owner_in (card_ownership (wdb w')) ''x'' = Some ''pk'' \<and> owner_in (user_card_ownership (wdb w')) ''x'' = Some ''u''"
proof -
  obtain w' where run: "CardService_CreateCard sample_env ''pk'' sample_card_request ''k'' sample_world
     = (Inr (200, ''{\"id\":\"x\"}''), w')"
    using sample_CreateCard by blast
  have "owner_in (card_ownership (wdb w')) ''x'' = Some ''pk'' \<and> owner_in (user_card_ownership (wdb w')) ''x'' = Some ''u''"
    using CreateCard_records_owner [OF run] by (auto simp: is_2xx_def sample_id)
  with run show ?thesis by blast
qed

text \<open>
  C4. The same for an account: it is created for the vault's REAP user and recorded as the vault's.
\<close>

theorem CreateAccount_records_owner:
  assumes "AccountService_CreateAccount env pk signers key w = (Inr (st, body), w')" and "is_2xx st"
  shows "\<exists>u i. reap_user_of (wdb w) pk = Some u
     \<and> sent w' = sent w @ [reap_request env ''POST'' ''/accounts/''
          (Some (json_create_account \<lparr>ca_OwnerID = u, ca_Signers = signers\<rparr>)) (idempotency key)]
     \<and> unmarshal_string_field ''id'' body = Some i \<and> i \<noteq> []
     \<and> owner_in (account_ownership (wdb w')) i
         = Some (case owner_in (account_ownership (wdb w)) i of None \<Rightarrow> pk | Some p \<Rightarrow> p)"
proof -
  obtain u i w1 w2 where s: "resolveReapUserID env pk w = (Inr u, w1)"
    "Client_CreateAccount env \<lparr>ca_OwnerID = u, ca_Signers = signers\<rparr> key w1 = (Inr (st, body), w2)"
    "unmarshal_string_field ''id'' body = Some i" "i \<noteq> []"
    "accountownership_Record env pk i w2 = (Inr (), w')"
    using assms unfolding AccountService_CreateAccount_def
    by (elim andThen_InrE) (auto split: if_splits option.splits prod.splits elim!: andThen_InrE simp: fail_def)
  note C = Client_do_run(1,2) [OF s(2) [unfolded Client_CreateAccount_def]]
  show ?thesis
    using resolve_Inr [OF s(1)] C s(3,4) Record_steps(3) [OF s(5)]
    by (auto simp: owner_in_insert_new split: option.splits)
qed

theorem CreateAccount_records_owner_witness:
  "\<exists>w'. AccountService_CreateAccount sample_env ''pk'' None ''k'' sample_world
      = (Inr (200, ''{\"id\":\"x\"}''), w') \<and> owner_in (account_ownership (wdb w')) ''x'' = Some ''pk''"
proof -
  obtain w' where run: "AccountService_CreateAccount sample_env ''pk'' None ''k'' sample_world
     = (Inr (200, ''{\"id\":\"x\"}''), w')"
    using sample_CreateAccount by blast
  have "owner_in (account_ownership (wdb w')) ''x'' = Some ''pk''"
    using CreateAccount_records_owner [OF run] by (auto simp: is_2xx_def sample_id)
  with run show ?thesis by blast
qed

text \<open>
  C5. A card created under a new ID is the creator's for good: in every later state of the program,
  under any environment, each of the ten actions on it goes through for that vault (given the
  database answers) and is refused to every other.
\<close>

theorem created_card_reserved:
  assumes "CardService_CreateCard env pk req key w = (Inr (st, body), w')" and "is_2xx st"
    and "unmarshal_string_field ''id'' body = Some i" and "owner_in (card_ownership (wdb w)) i = None"
    and "evolves w' w2"
  shows "if pk' = pk \<and> db_fault env' (tick w2) = NoFault
     then card_service env' pk' i a w2 = card_request env' i a (w2\<lparr>tick := Suc (tick w2)\<rparr>)
     else refused w2 (card_service env' pk' i a w2)"
proof -
  have "owner_in (card_ownership (wdb w')) i = Some pk"
    using CreateCard_owner [OF assms(1,2)] assms(3,4) by auto
  then have "owner_in (card_ownership (wdb w2)) i = Some pk"
    by (rule card_store.owner_stable [OF assms(5)])
  then show ?thesis by (simp add: card_service_gated owned_then_def refused_def)
qed

theorem created_card_reserved_witness:
  "\<exists>w'. card_service sample_env ''pk'' ''x'' FreezeCard w'
       = card_request sample_env ''x'' FreezeCard (w'\<lparr>tick := Suc (tick w')\<rparr>)
     \<and> refused w' (card_service sample_env ''other'' ''x'' FreezeCard w')"
proof -
  obtain w' where "CardService_CreateCard sample_env ''pk'' sample_card_request ''k'' sample_world
     = (Inr (200, ''{\"id\":\"x\"}''), w')"
    using sample_CreateCard by blast
  note R = created_card_reserved [OF this _ sample_id _ evolves_refl, where env' = sample_env and a = FreezeCard]
  from R [where pk' = "''pk''"] R [where pk' = "''other''"] show ?thesis
    by (intro exI [of _ w']) (simp add: is_2xx_def)
qed

section \<open>Shipments\<close>

text \<open>The calls on an existing shipment, and the request each one makes once its cards are checked.\<close>

datatype shipment_action =
    Get_Shipment | Delete_Shipment | Update_Shipment UpdateCardShipmentRequest
  | Add_Card CardShipmentMember | Remove_Card string | Submit_Shipment string

fun shipment_service :: "env \<Rightarrow> string \<Rightarrow> string \<Rightarrow> shipment_action \<Rightarrow> (int \<times> string) eff" where
  "shipment_service env pk i Get_Shipment = ShipmentService_GetCardShipment env pk i"
| "shipment_service env pk i Delete_Shipment = ShipmentService_DeleteCardShipment env pk i"
| "shipment_service env pk i (Update_Shipment r) = ShipmentService_UpdateCardShipment env pk i r"
| "shipment_service env pk i (Add_Card m) = ShipmentService_AddCardToShipment env pk i m"
| "shipment_service env pk i (Remove_Card m) = ShipmentService_RemoveCardFromShipment env pk i m"
| "shipment_service env pk i (Submit_Shipment k) = ShipmentService_SubmitCardShipment env pk i k"

definition shipment_get :: "env \<Rightarrow> string \<Rightarrow> http_req" where
  "shipment_get env i = reap_request env ''GET'' (pathf ''/card-shipments/%s'' [i]) None id"

fun shipment_request :: "env \<Rightarrow> string \<Rightarrow> shipment_action \<Rightarrow> http_req" where
  "shipment_request env i Get_Shipment = shipment_get env i"
| "shipment_request env i Delete_Shipment =
     reap_request env ''DELETE'' (pathf ''/card-shipments/%s'' [i]) None id"
| "shipment_request env i (Update_Shipment r) =
     reap_request env ''PATCH'' (pathf ''/card-shipments/%s'' [i]) (Some (json_update_shipment r)) id"
| "shipment_request env i (Add_Card m) =
     reap_request env ''POST'' (pathf ''/card-shipments/%s/cards'' [i]) (Some (json_member m)) id"
| "shipment_request env i (Remove_Card m) =
     reap_request env ''DELETE'' (pathf ''/card-shipments/%s/cards/%s'' [i, m]) None id"
| "shipment_request env i (Submit_Shipment k) =
     reap_request env ''POST'' (pathf ''/card-shipments/%s/submit'' [i]) None (idempotency k)"

definition shipment_owned :: "env \<Rightarrow> string \<Rightarrow> string \<Rightarrow> world \<Rightarrow> bool" where
  \<comment> \<open>REAP, asked for the shipment in this state, names its cards, and the vault owns each of them\<close>
  "shipment_owned env pk i w \<longleftrightarrow>
     (\<exists>st body cs. reap_answer env (Suc (tick w)) (shipment_get env i) = Some (st, body) \<and> is_2xx st
        \<and> shipmentCardIDs body = Inr cs \<and> cs \<noteq> [] \<and> list_all (owns_card (wdb w) pk) cs)"

lemma shipmentCardIDs_nonempty: "shipmentCardIDs body = Inr cs \<Longrightarrow> cs \<noteq> []"
  by (auto simp: shipmentCardIDs_def Let_def split: option.splits if_splits)

lemma fetchOwned_answer:
  assumes "fetchOwnedShipment env pk i w = (Inr (st, body), w')"
  shows "reap_answer env (Suc (tick w)) (shipment_get env i) = Some (st, body)"
proof -
  obtain a w1 where c: "Client_GetCardShipment env i w = (a, w1)" by fastforce
  note A = Client_do_run(5) [OF c [unfolded Client_GetCardShipment_def]]
  show ?thesis using assms c A unfolding fetchOwnedShipment_def shipment_get_def
    by (auto simp: andThen_def split: sum.splits prod.splits option.splits if_splits)
qed

lemma fetchOwned_then:
  assumes "andThen (fetchOwnedShipment env pk i) (\<lambda>(status, body).
       if \<not> is_2xx status then ret (status, body) else act) w = (r, w')"
  obtains (kept) "sent w' = sent w @ [shipment_get env i]" "wdb w' = wdb w" "tasks w' = tasks w"
      "(\<exists>e. r = Inl e) \<or> (\<exists>st body. r = Inr (st, body) \<and> \<not> is_2xx st)"
  | (owned) w1 where "shipment_owned env pk i w" "sent w1 = sent w @ [shipment_get env i]" "wdb w1 = wdb w"
      "tasks w1 = tasks w" "act w1 = (r, w')"
proof -
  obtain a w1 where f: "fetchOwnedShipment env pk i w = (a, w1)" by fastforce
  note F = fetchOwnedShipment_run [OF f, folded shipment_get_def]
  show thesis
  proof (cases "\<exists>st body. a = Inr (st, body) \<and> is_2xx st")
    case False
    then show ?thesis using assms f F(1-3)
      by (intro kept) (auto simp: andThen_def split: sum.splits prod.splits if_splits)
  next
    case True
    then obtain st body where a: "a = Inr (st, body)" "is_2xx st" by blast
    have "shipment_owned env pk i w"
      using F(4) [OF a] a fetchOwned_answer [OF f [unfolded a(1)]] shipmentCardIDs_nonempty
      unfolding shipment_owned_def by blast
    moreover have "act w1 = (r, w')" using assms f a by (simp add: andThen_Inr)
    ultimately show ?thesis using F(1-3) by (intro owned [of w1])
  qed
qed

text \<open>Every call but the read is one request behind \<open>fetchOwnedShipment\<close>; adding a card checks that card.\<close>

definition shipment_added_owned :: "db \<Rightarrow> string \<Rightarrow> shipment_action \<Rightarrow> bool" where
  "shipment_added_owned d pk a = (case a of Add_Card m \<Rightarrow> owns_card d pk (cm_CardID m) | _ \<Rightarrow> True)"

definition shipment_tail :: "env \<Rightarrow> string \<Rightarrow> string \<Rightarrow> shipment_action \<Rightarrow> (int \<times> string) eff \<Rightarrow> bool" where
  "shipment_tail env pk i a act \<longleftrightarrow> (\<forall>w1 r w2. act w1 = (r, w2) \<longrightarrow>
     wdb w2 = wdb w1 \<and> tasks w2 = tasks w1
     \<and> (sent w2 = sent w1 \<or> sent w2 = sent w1 @ [shipment_request env i a] \<and> shipment_added_owned (wdb w1) pk a))"

lemma Client_do_facts:
  "Client_do env m p b opts w = (r, w') \<Longrightarrow>
     sent w' = sent w @ [reap_request env m p b opts] \<and> wdb w' = wdb w \<and> tasks w' = tasks w"
  by (auto dest: Client_do_run(1) Client_do_run(2) Client_do_run(3))

lemma shipment_tail_request:
  assumes "shipment_service env pk i a = andThen (fetchOwnedShipment env pk i)
      (\<lambda>(status, body). if \<not> is_2xx status then ret (status, body) else Client_do env m p b opts)"
    and "shipment_request env i a = reap_request env m p b opts" and "\<And>d. shipment_added_owned d pk a"
  shows "\<exists>act. shipment_tail env pk i a act \<and> shipment_service env pk i a
     = andThen (fetchOwnedShipment env pk i) (\<lambda>(status, body). if \<not> is_2xx status then ret (status, body) else act)"
  using assms by (intro exI [of _ "Client_do env m p b opts"]) (auto simp: shipment_tail_def dest!: Client_do_facts)

lemma shipment_tail_add:
  "shipment_tail env pk i (Add_Card m)
     (if cm_CardID m = [] then fail ErrMissingScopeFilter
      else andThen (ShipmentService_checkCardOwnership env pk (cm_CardID m)) (\<lambda>_. Client_AddCardToShipment env i m))"
  by (auto simp: shipment_tail_def andThen_def Shipment_check_run client_defs shipment_added_owned_def
      split: if_splits dest!: Client_do_facts)

lemma shipment_service_shape:
  assumes "a \<noteq> Get_Shipment"
  shows "\<exists>act. shipment_tail env pk i a act \<and> shipment_service env pk i a
     = andThen (fetchOwnedShipment env pk i) (\<lambda>(status, body). if \<not> is_2xx status then ret (status, body) else act)"
proof (cases a)
  case Delete_Shipment
  show ?thesis unfolding Delete_Shipment
    by (rule shipment_tail_request [OF _ shipment_request.simps(2)])
      (simp_all add: shipment_service_defs client_defs shipment_added_owned_def cong: if_cong)
next
  case (Update_Shipment r)
  show ?thesis unfolding Update_Shipment
    by (rule shipment_tail_request [OF _ shipment_request.simps(3)])
      (simp_all add: shipment_service_defs client_defs shipment_added_owned_def cong: if_cong)
next
  case (Add_Card m)
  then show ?thesis using shipment_tail_add [of env pk i m]
    by (auto simp: ShipmentService_AddCardToShipment_def)
next
  case (Remove_Card m)
  show ?thesis unfolding Remove_Card
    by (rule shipment_tail_request [OF _ shipment_request.simps(5)])
      (simp_all add: shipment_service_defs client_defs shipment_added_owned_def cong: if_cong)
next
  case (Submit_Shipment k)
  show ?thesis unfolding Submit_Shipment
    by (rule shipment_tail_request [OF _ shipment_request.simps(6)])
      (simp_all add: shipment_service_defs client_defs shipment_added_owned_def cong: if_cong)
qed (use assms in simp)

text \<open>
  A shipment is fetched first. The request that changes it (delete, update, add or remove a card,
  submit) follows only when every card REAP names in it is recorded as the caller's, and, for an
  added card, that card is the caller's too; the database is never written.
\<close>

lemma shipment_change_gate:
  "(let out = shipment_service env pk i a w in
    wdb (snd out) = wdb w \<and> tasks (snd out) = tasks w
    \<and> (sent (snd out) = sent w @ [shipment_get env i]
       \<or> shipment_owned env pk i w \<and> shipment_added_owned (wdb w) pk a
         \<and> sent (snd out) = sent w @ [shipment_get env i, shipment_request env i a]))"
proof -
  obtain r w' where out: "shipment_service env pk i a w = (r, w')" by fastforce
  show ?thesis
  proof (cases "a = Get_Shipment")
    case True
    then show ?thesis using out fetchOwnedShipment_run(1-3)
      by (simp add: ShipmentService_GetCardShipment_def shipment_get_def)
  next
    case False
    then obtain act where act: "shipment_tail env pk i a act" "shipment_service env pk i a
       = andThen (fetchOwnedShipment env pk i) (\<lambda>(status, body). if \<not> is_2xx status then ret (status, body) else act)"
      using shipment_service_shape by blast
    from out [unfolded act(2)] show ?thesis
      by (rule fetchOwned_then) (use act(1) out in \<open>fastforce simp: shipment_tail_def\<close>)+
  qed
qed

end
