(* ===== verification/Properties_Scoped.thy ===== *)
theory Properties_Scoped
  imports Properties_Access
begin

text \<open>
  The calls whose resource is only known after asking REAP, the list queries, and the simulated
  transactions: nothing that changes or shows a resource goes through unless the card behind it is
  recorded as the caller's.
\<close>

section \<open>Creating a shipment\<close>

text \<open>
  A shipment is created only with a non-empty list of cards, each named and each recorded as the
  caller's; otherwise nothing is sent and the error says so. The database is never written.
\<close>

lemma CreateCardShipment_gate:
  "(let out = ShipmentService_CreateCardShipment env pk req w in
    wdb (snd out) = wdb w \<and> tasks (snd out) = tasks w
    \<and> (sent (snd out) = sent w \<and> fst out \<in> {Inl ErrDb, Inl ErrResourceNotOwned, Inl ErrMissingScopeFilter}
       \<or> (\<exists>ms. cs_Cards req = Some ms \<and> ms \<noteq> [] \<and> list_all (\<lambda>m. owns_card (wdb w) pk (cm_CardID m)) ms
            \<and> sent (snd out) = sent w
                @ [reap_request env ''POST'' ''/card-shipments/'' (Some (json_create_shipment req)) id])))"
proof (cases "cs_Cards req = None \<or> cs_Cards req = Some []")
  case True
  then show ?thesis by (auto simp: ShipmentService_CreateCardShipment_def checkShipmentMembers_def andThen_def)
next
  case False
  then obtain ms where ms: "cs_Cards req = Some ms" "ms \<noteq> []" by auto
  obtain r w1 where c: "check_members env pk ms w = (r, w1)" by fastforce
  note C = check_members_run [OF c]
  show ?thesis
  proof (cases r)
    case (Inl e)
    then show ?thesis using ms c C
      by (auto simp: ShipmentService_CreateCardShipment_def checkShipmentMembers_def andThen_def Let_def)
  next
    case (Inr u)
    obtain r2 w2 where d: "Client_CreateCardShipment env req w1 = (r2, w2)" by fastforce
    show ?thesis using ms c C Inr d Client_do_facts [OF d [unfolded Client_CreateCardShipment_def]]
      by (auto simp: ShipmentService_CreateCardShipment_def checkShipmentMembers_def andThen_def Let_def)
  qed
qed

text \<open>
  C6. A shipment is created only with a non-empty list of cards, each named and each recorded as the
  caller's; otherwise nothing is sent and the error says so. A request on an existing one is preceded by
  its fetch, and the request that changes it (delete, update, add or remove a card, submit) follows only when
  every card REAP names in it is recorded as the caller's, and, for an added card, that card is the
  caller's too. The database is never written.
\<close>

theorem shipments_gated:
  "(let out = ShipmentService_CreateCardShipment env pk req w in
    wdb (snd out) = wdb w \<and> tasks (snd out) = tasks w
    \<and> (sent (snd out) = sent w \<and> fst out \<in> {Inl ErrDb, Inl ErrResourceNotOwned, Inl ErrMissingScopeFilter}
       \<or> (\<exists>ms. cs_Cards req = Some ms \<and> ms \<noteq> [] \<and> list_all (\<lambda>m. owns_card (wdb w) pk (cm_CardID m)) ms
            \<and> sent (snd out) = sent w
                @ [reap_request env ''POST'' ''/card-shipments/'' (Some (json_create_shipment req)) id])))
   \<and> (let out = shipment_service env pk i a w in
    wdb (snd out) = wdb w \<and> tasks (snd out) = tasks w
    \<and> (sent (snd out) = sent w @ [shipment_get env i]
       \<or> shipment_owned env pk i w \<and> shipment_added_owned (wdb w) pk a
         \<and> sent (snd out) = sent w @ [shipment_get env i, shipment_request env i a]))"
  by (rule conjI, rule CreateCardShipment_gate, rule shipment_change_gate)

section \<open>Reads behind a fetched card\<close>

datatype scoped_read = Transaction | Challenge | Alert | Shipment

fun read_service :: "scoped_read \<Rightarrow> env \<Rightarrow> string \<Rightarrow> string \<Rightarrow> (int \<times> string) eff" where
  "read_service Transaction env pk i = CardTransactionService_GetCardTransaction env pk i"
| "read_service Challenge env pk i = CardService_GetCard3DSChallenge env pk i"
| "read_service Alert env pk i = FraudAlertService_GetFraudAlert env pk i"
| "read_service Shipment env pk i = ShipmentService_GetCardShipment env pk i"

fun read_path :: "scoped_read \<Rightarrow> string \<Rightarrow> string" where
  "read_path Transaction i = pathf ''/card-transactions/%s'' [i]"
| "read_path Challenge i = pathf ''/card-3ds-challenges/%s'' [i]"
| "read_path Alert i = pathf ''/fraud-alerts/%s'' [i]"
| "read_path Shipment i = pathf ''/card-shipments/%s'' [i]"

definition body_owned :: "scoped_read \<Rightarrow> db \<Rightarrow> string \<Rightarrow> string \<Rightarrow> bool" where
  \<comment> \<open>the body names a card, or cards, all the vault's\<close>
  "body_owned k d pk body \<longleftrightarrow>
     (if k = Shipment then (\<exists>cs. shipmentCardIDs body = Inr cs \<and> cs \<noteq> [] \<and> list_all (owns_card d pk) cs)
      else (\<exists>c. unmarshal_string_field ''cardId'' body = Some c \<and> c \<noteq> [] \<and> owns_card d pk c))"

text \<open>The three single-card reads have the form the contract \<open>card_lookup\<close> is about.\<close>

lemma GetCardTransaction_form:
  "CardTransactionService_GetCardTransaction env pk i w =
     andThen (transactionCardID env i) (\<lambda>(status, body, c).
       if c = [] then ret (status, body)
       else andThen (andThen (cardownership_IsOwner env pk c)
              (\<lambda>owned. if owned then ret () else fail ErrResourceNotOwned)) (\<lambda>_. ret (status, body))) w"
  unfolding CardTransactionService_GetCardTransaction_def transactionCardID_def
  by (auto simp: andThen_def split: sum.splits prod.splits option.splits)

lemma read_service_post:
  assumes "read_service k env pk i w = (r, w')"
  shows "wdb w' = wdb w" and "tasks w' = tasks w"
    and "sent w' = sent w @ [reap_request env ''GET'' (read_path k i) None id]"
    and "r = Inr (st, body) \<Longrightarrow> is_2xx st \<Longrightarrow> body_owned k (wdb w) pk body"
proof -
  let ?q = "reap_request env ''GET'' (read_path k i) None id"
  have "wdb w' = wdb w \<and> tasks w' = tasks w \<and> sent w' = sent w @ [?q]
      \<and> (r = Inr (st, body) \<longrightarrow> is_2xx st \<longrightarrow> body_owned k (wdb w) pk body)"
  proof (cases k)
    case Transaction
    then have "CardTransactionService_GetCardTransaction env pk i w = (r, w')" using assms by simp
    from this [unfolded GetCardTransaction_form] show ?thesis unfolding Transaction read_path.simps
      by (rule transaction_lookup.lookup_then) (auto simp: body_owned_def fetched_card_def)
  next
    case Challenge
    then have "CardService_GetCard3DSChallenge env pk i w = (r, w')" using assms by simp
    from this [unfolded CardService_GetCard3DSChallenge_def CardService_checkOwnership_def] show ?thesis
      unfolding Challenge read_path.simps
      by (rule challenge_lookup.lookup_then) (auto simp: body_owned_def fetched_card_def)
  next
    case Alert
    then have "FraudAlertService_GetFraudAlert env pk i w = (r, w')" using assms by simp
    from this [unfolded FraudAlertService_GetFraudAlert_def FraudAlertService_checkCardOwnership_def] show ?thesis
      unfolding Alert read_path.simps
      by (rule alert_lookup.lookup_then) (auto simp: body_owned_def fetched_card_def)
  next
    case Shipment
    then have f: "fetchOwnedShipment env pk i w = (r, w')"
      using assms by (simp add: ShipmentService_GetCardShipment_def)
    then show ?thesis using fetchOwnedShipment_run [OF f] Shipment shipmentCardIDs_nonempty
      by (auto simp: body_owned_def)
  qed
  then show "wdb w' = wdb w" "tasks w' = tasks w" "sent w' = sent w @ [?q]"
    "r = Inr (st, body) \<Longrightarrow> is_2xx st \<Longrightarrow> body_owned k (wdb w) pk body" by blast+
qed

text \<open>
  C7. Reading a card transaction, a 3DS challenge, a fraud alert or a shipment sends the one GET and
  nothing else; REAP's answer is handed on with a 2xx status only when the card it names (every card
  of the shipment) is recorded as the caller's.
\<close>

theorem scoped_reads_owned:
  assumes "read_service k env pk i w = (Inr (st, body), w')" and "is_2xx st"
  shows "body_owned k (wdb w) pk body \<and> wdb w' = wdb w \<and> tasks w' = tasks w
     \<and> sent w' = sent w @ [reap_request env ''GET'' (read_path k i) None id]"
  using read_service_post [OF assms(1)] assms(2) by blast

lemma sample_card_body: "unmarshal_string_field ''cardId'' ''{\"cardId\":\"c\"}'' = Some ''c''"
  by code_simp

theorem scoped_reads_owned_witness:
  "body_owned Transaction sample_db ''pk'' ''{\"cardId\":\"c\"}''"
proof -
  have "fst (read_service Transaction (sample_answer 200 ''{\"cardId\":\"c\"}'') ''pk'' ''t'' sample_world)
      = Inr (200, ''{\"cardId\":\"c\"}'')"
    by (simp add: CardTransactionService_GetCardTransaction_def run_simps sample_card_body)
  then have "read_service Transaction (sample_answer 200 ''{\"cardId\":\"c\"}'') ''pk'' ''t'' sample_world
      = (Inr (200, ''{\"cardId\":\"c\"}''),
         snd (read_service Transaction (sample_answer 200 ''{\"cardId\":\"c\"}'') ''pk'' ''t'' sample_world))"
    by (simp add: prod_eq_iff)
  from scoped_reads_owned [OF this] show ?thesis by (simp add: is_2xx_def)
qed

section \<open>Writes behind a fetched card\<close>

datatype scoped_write =
    Respond_Challenge string bool
  | Report_Fraud_On ReportFraudRequest string
  | Respond_Alert string RespondToFraudAlertRequest string

fun write_service :: "env \<Rightarrow> string \<Rightarrow> scoped_write \<Rightarrow> (int \<times> string) eff" where
  "write_service env pk (Respond_Challenge i b) = CardService_RespondToCard3DSChallenge env pk i b"
| "write_service env pk (Report_Fraud_On r k) = FraudAlertService_ReportFraud env pk r k"
| "write_service env pk (Respond_Alert i r k) = FraudAlertService_RespondToFraudAlert env pk i r k"

fun write_lookup :: "env \<Rightarrow> scoped_write \<Rightarrow> http_req" where
  "write_lookup env (Respond_Challenge i b) = reap_request env ''GET'' (pathf ''/card-3ds-challenges/%s'' [i]) None id"
| "write_lookup env (Report_Fraud_On r k) =
     reap_request env ''GET'' (pathf ''/card-transactions/%s'' [rf_TransactionID r]) None id"
| "write_lookup env (Respond_Alert i r k) = reap_request env ''GET'' (pathf ''/fraud-alerts/%s'' [i]) None id"

fun write_request :: "env \<Rightarrow> scoped_write \<Rightarrow> http_req" where
  "write_request env (Respond_Challenge i b) = reap_request env ''POST'' (pathf ''/card-3ds-challenges/%s/respond'' [i])
     (Some (marshal_struct [(''approve'', marshal_bool b)])) id"
| "write_request env (Report_Fraud_On r k) =
     reap_request env ''POST'' ''/fraud-alerts/'' (Some (json_report_fraud r)) (idempotency_opt k)"
| "write_request env (Respond_Alert i r k) =
     reap_request env ''POST'' (pathf ''/fraud-alerts/%s/respond'' [i]) (Some (json_respond_alert r)) (idempotency_opt k)"

definition write_allowed :: "env \<Rightarrow> string \<Rightarrow> scoped_write \<Rightarrow> world \<Rightarrow> bool" where
  \<comment> \<open>REAP, asked in this state, names a card the vault owns\<close>
  "write_allowed env pk a w \<longleftrightarrow>
     (\<exists>st body c. reap_answer env (Suc (tick w)) (write_lookup env a) = Some (st, body)
        \<and> fetched_card st body c \<and> owns_card (wdb w) pk c)"

lemma Fraud_check_form:
  "FraudAlertService_checkCardOwnership env pk c = andThen (cardownership_IsOwner env pk c)
     (\<lambda>owned. if owned then ret () else fail ErrResourceNotOwned)"
  by (rule FraudAlertService_checkCardOwnership_def)

text \<open>
  C8. Answering a 3DS challenge, reporting a transaction as fraud and answering a fraud alert first
  ask REAP for the card behind it; the POST follows only when that card is recorded as the caller's.
\<close>

theorem scoped_writes_gated:
  "(let out = write_service env pk a w in
    wdb (snd out) = wdb w \<and> tasks (snd out) = tasks w
    \<and> (sent (snd out) = sent w @ [write_lookup env a]
       \<or> write_allowed env pk a w \<and> sent (snd out) = sent w @ [write_lookup env a, write_request env a]))"
proof -
  obtain r w' where out: "write_service env pk a w = (r, w')" by fastforce
  show ?thesis
  proof (cases a)
    case (Respond_Challenge i b)
    from out [unfolded Respond_Challenge write_service.simps CardService_RespondToCard3DSChallenge_def
        CardService_checkOwnership_def] show ?thesis
      by (rule challenge_lookup.lookup_then)
        (use Respond_Challenge out in \<open>auto simp: write_allowed_def client_defs dest!: Client_do_facts\<close>)
  next
    case (Report_Fraud_On q k)
    from out [unfolded Report_Fraud_On write_service.simps FraudAlertService_ReportFraud_def Fraud_check_form]
    show ?thesis
      by (rule transaction_lookup.lookup_then)
        (use Report_Fraud_On out in \<open>auto simp: write_allowed_def client_defs dest!: Client_do_facts\<close>)
  next
    case (Respond_Alert i q k)
    from out [unfolded Respond_Alert write_service.simps FraudAlertService_RespondToFraudAlert_def Fraud_check_form]
    show ?thesis
      by (rule alert_lookup.lookup_then)
        (use Respond_Alert out in \<open>auto simp: write_allowed_def client_defs dest!: Client_do_facts\<close>)
  qed
qed

section \<open>List queries\<close>

definition names_only :: "url_values \<Rightarrow> string \<Rightarrow> string \<Rightarrow> bool" where
  \<comment> \<open>the query carries the one value \<open>v\<close> for the parameter\<close>
  "names_only q k v \<longleftrightarrow> map_of q k = Some [v]"

lemma fraud_list_scoped_run:
  assumes "fraud_list_scoped env pk query c w = (r, w')"
  shows "wdb w' = wdb w \<and> tasks w' = tasks w \<and>
    (sent w' = sent w \<or> owns_card (wdb w) pk c \<and> (\<exists>q. names_only q ''cardId'' c \<and> map_of q ''transactionId'' = None
       \<and> sent w' = sent w @ [reap_request env ''GET'' (''/fraud-alerts/?'' @ Values_Encode q) None id]))"
proof -
  let ?q = "Values_Set (Values_Del query ''transactionId'') ''cardId'' c"
  have "fraud_list_scoped env pk query c w
      = owned_then env (owner_in (card_ownership (wdb w)) c) pk (Client_ListFraudAlerts env ?q) w"
    unfolding fraud_list_scoped_def Fraud_check_form by (rule card_gate_then)
  then have run: "owned_then env (owner_in (card_ownership (wdb w)) c) pk (Client_ListFraudAlerts env ?q) w = (r, w')"
    using assms by simp
  have q: "names_only ?q ''cardId'' c" "map_of ?q ''transactionId'' = None"
    by (simp_all add: names_only_def values_simps)
  show ?thesis
  proof (cases "db_fault env (tick w) = NoFault \<and> owns_card (wdb w) pk c")
    case True
    then have "Client_ListFraudAlerts env ?q (w\<lparr>tick := Suc (tick w)\<rparr>) = (r, w')"
      using run by (simp add: owned_then_def owns_card_def)
    from Client_do_facts [OF this [unfolded Client_ListFraudAlerts_def]] show ?thesis using q True by auto
  next
    case False
    then show ?thesis using run by (auto simp: owned_then_def owns_card_def split: if_splits)
  qed
qed

text \<open>
  A list of fraud alerts leaves the server only with one \<open>cardId\<close>, of a card recorded as the
  caller's, and no \<open>transactionId\<close>: when the caller names a transaction instead of a card, REAP is
  asked for the transaction's card first.
\<close>

lemma ListFraudAlerts_scope:
  "(let out = FraudAlertService_ListFraudAlerts env pk query w in
    wdb (snd out) = wdb w \<and> tasks (snd out) = tasks w
    \<and> (\<exists>pre. pre \<in> {[], [reap_request env ''GET''
                (pathf ''/card-transactions/%s'' [Values_Get query ''transactionId'']) None id]}
       \<and> (sent (snd out) = sent w @ pre
          \<or> (\<exists>c q. owns_card (wdb w) pk c \<and> names_only q ''cardId'' c \<and> map_of q ''transactionId'' = None
               \<and> sent (snd out) = sent w @ pre
                   @ [reap_request env ''GET'' (''/fraud-alerts/?'' @ Values_Encode q) None id]))))"
proof -
  obtain r w' where out: "FraudAlertService_ListFraudAlerts env pk query w = (r, w')" by fastforce
  let ?t = "Values_Get query ''transactionId''"
  let ?pre = "[reap_request env ''GET'' (pathf ''/card-transactions/%s'' [?t]) None id]"
  let ?C = "Values_Get query ''cardId''"
  show ?thesis
  proof (cases "?C = [] \<and> ?t \<noteq> []")
    case False
    then show ?thesis
    proof (cases "?C = []")
      case True
      with False show ?thesis by (auto simp: FraudAlertService_ListFraudAlerts_def)
    next
      case C: False
      with out have "fraud_list_scoped env pk query ?C w = (r, w')"
        by (simp add: FraudAlertService_ListFraudAlerts_def)
      from fraud_list_scoped_run [OF this] out show ?thesis
        unfolding Let_def by (intro conjI exI [of _ "[]"]) auto
    qed
  next
    case True
    obtain x w1 where x: "transactionCardID env ?t w = (x, w1)" by fastforce
    have w1: "wdb w1 = wdb w" "tasks w1 = tasks w" "sent w1 = sent w @ ?pre"
      using transaction_lookup.look_db [of env ?t w] transaction_lookup.look_tasks [of env ?t w]
        transaction_lookup.look_sent [of env ?t w] x by simp_all
    have eq: "FraudAlertService_ListFraudAlerts env pk query w = andThen (transactionCardID env ?t)
        (\<lambda>(status, body, c). if c = [] then ret (status, body) else fraud_list_scoped env pk query c) w"
      using True by (simp add: FraudAlertService_ListFraudAlerts_def)
    show ?thesis
    proof (cases "\<exists>st body c. x = Inr (st, body, c) \<and> c \<noteq> []")
      case False
      then have "w' = w1" using out [unfolded eq] x by (auto simp: andThen_def split: sum.splits prod.splits)
      then show ?thesis using out w1 unfolding Let_def by (intro conjI exI [of _ ?pre]) auto
    next
      case True
      then obtain c where "fraud_list_scoped env pk query c w1 = (r, w')"
        using out [unfolded eq] x by (auto simp: andThen_Inr)
      from fraud_list_scoped_run [OF this] w1 out show ?thesis
        unfolding Let_def by (intro conjI exI [of _ ?pre]) auto
    qed
  qed
qed

text \<open>
  A list of shipments leaves the server only with one \<open>cardId\<close>, of a card recorded as the caller's.
  A list of activities leaves it with at least one of \<open>cardId\<close> and \<open>accountId\<close>, and each of the two that
  the server read (the first value of the parameter) is recorded as the caller's and is then the only
  value of its parameter; \<open>userId\<close> and \<open>ownerId\<close> never leave it.
\<close>

lemma list_filters_scope:
  "(let out = ShipmentService_ListCardShipments env pk query w in
    wdb (snd out) = wdb w \<and> tasks (snd out) = tasks w
    \<and> (sent (snd out) = sent w
       \<or> (\<exists>c q. owns_card (wdb w) pk c \<and> names_only q ''cardId'' c
            \<and> sent (snd out) = sent w @ [reap_request env ''GET'' (''/card-shipments/?'' @ Values_Encode q) None id])))
   \<and> (let out = ActivityService_ListActivities env pk query w;
          c = Values_Get query ''cardId''; a = Values_Get query ''accountId'' in
    wdb (snd out) = wdb w \<and> tasks (snd out) = tasks w
    \<and> (sent (snd out) = sent w
       \<or> (\<exists>q. sent (snd out) = sent w @ [reap_request env ''GET'' (''/activities/?'' @ Values_Encode q) None id]
            \<and> \<not> (c = [] \<and> a = [])
            \<and> (c = [] \<or> owns_card (wdb w) pk c \<and> names_only q ''cardId'' c)
            \<and> (a = [] \<or> owner_in (account_ownership (wdb w)) a = Some pk \<and> names_only q ''accountId'' a)
            \<and> map_of q ''userId'' = None \<and> map_of q ''ownerId'' = None)))"
proof
  obtain r w' where out: "ShipmentService_ListCardShipments env pk query w = (r, w')" by fastforce
  show "let out = ShipmentService_ListCardShipments env pk query w in
    wdb (snd out) = wdb w \<and> tasks (snd out) = tasks w
    \<and> (sent (snd out) = sent w
       \<or> (\<exists>c q. owns_card (wdb w) pk c \<and> names_only q ''cardId'' c
            \<and> sent (snd out) = sent w @ [reap_request env ''GET'' (''/card-shipments/?'' @ Values_Encode q) None id]))"
    using out
    by (auto simp: ShipmentService_ListCardShipments_def Let_def andThen_def Shipment_check_run client_defs
        names_only_def values_simps split: if_splits dest!: Client_do_facts)
      (metis fun_upd_same map_of_Values_Set)
next
  let ?c = "Values_Get query ''cardId''" and ?a = "Values_Get query ''accountId''"
  obtain r w' where out: "ActivityService_ListActivities env pk query w = (r, w')" by fastforce
  let ?q0 = "Values_Del (Values_Del query ''userId'') ''ownerId''"
  let ?q1 = "if ?c \<noteq> [] then Values_Set ?q0 ''cardId'' ?c else ?q0"
  let ?q = "if ?a \<noteq> [] then Values_Set ?q1 ''accountId'' ?a else ?q1"
  have "wdb w' = wdb w \<and> tasks w' = tasks w \<and> (sent w' = sent w
      \<or> sent w' = sent w @ [reap_request env ''GET'' (''/activities/?'' @ Values_Encode ?q) None id]
        \<and> \<not> (?c = [] \<and> ?a = []) \<and> (?c = [] \<or> owns_card (wdb w) pk ?c)
        \<and> (?a = [] \<or> owner_in (account_ownership (wdb w)) ?a = Some pk))"
    using out unfolding ActivityService_ListActivities_def
    by (auto simp: Let_def values_simps andThen_def isowner_run owns_card_def client_defs
        split: if_splits dest!: Client_do_facts)
  moreover have "?c = [] \<or> names_only ?q ''cardId'' ?c" "?a = [] \<or> names_only ?q ''accountId'' ?a"
    "map_of ?q ''userId'' = None" "map_of ?q ''ownerId'' = None"
    by (simp_all add: names_only_def values_simps)
  ultimately show "let out = ActivityService_ListActivities env pk query w; c = ?c; a = ?a in
    wdb (snd out) = wdb w \<and> tasks (snd out) = tasks w
    \<and> (sent (snd out) = sent w
       \<or> (\<exists>q. sent (snd out) = sent w @ [reap_request env ''GET'' (''/activities/?'' @ Values_Encode q) None id]
            \<and> \<not> (c = [] \<and> a = [])
            \<and> (c = [] \<or> owns_card (wdb w) pk c \<and> names_only q ''cardId'' c)
            \<and> (a = [] \<or> owner_in (account_ownership (wdb w)) a = Some pk \<and> names_only q ''accountId'' a)
            \<and> map_of q ''userId'' = None \<and> map_of q ''ownerId'' = None))"
    unfolding out Let_def by (auto intro!: exI [of _ ?q])
qed

text \<open>
  C9. A list of fraud alerts leaves the server only with one \<open>cardId\<close>, of a card recorded as the
  caller's, and no \<open>transactionId\<close> (when the caller names a transaction instead of a card, REAP is asked
  for the transaction's card first), and a list of shipments only with one \<open>cardId\<close>, of a card recorded
  as the caller's. A list of activities leaves it with at least one of \<open>cardId\<close> and \<open>accountId\<close>, and each
  of the two that the server read (the first value of the parameter) is recorded as the caller's and is
  then the only value of its parameter; \<open>userId\<close> and \<open>ownerId\<close> never leave it.
\<close>

theorem lists_scoped:
  "(let out = FraudAlertService_ListFraudAlerts env pk query w in
    wdb (snd out) = wdb w \<and> tasks (snd out) = tasks w
    \<and> (\<exists>pre. pre \<in> {[], [reap_request env ''GET''
                (pathf ''/card-transactions/%s'' [Values_Get query ''transactionId'']) None id]}
       \<and> (sent (snd out) = sent w @ pre
          \<or> (\<exists>c q. owns_card (wdb w) pk c \<and> names_only q ''cardId'' c \<and> map_of q ''transactionId'' = None
               \<and> sent (snd out) = sent w @ pre
                   @ [reap_request env ''GET'' (''/fraud-alerts/?'' @ Values_Encode q) None id]))))
   \<and> (let out = ShipmentService_ListCardShipments env pk query w in
    wdb (snd out) = wdb w \<and> tasks (snd out) = tasks w
    \<and> (sent (snd out) = sent w
       \<or> (\<exists>c q. owns_card (wdb w) pk c \<and> names_only q ''cardId'' c
            \<and> sent (snd out) = sent w @ [reap_request env ''GET'' (''/card-shipments/?'' @ Values_Encode q) None id])))
   \<and> (let out = ActivityService_ListActivities env pk query w;
          c = Values_Get query ''cardId''; a = Values_Get query ''accountId'' in
    wdb (snd out) = wdb w \<and> tasks (snd out) = tasks w
    \<and> (sent (snd out) = sent w
       \<or> (\<exists>q. sent (snd out) = sent w @ [reap_request env ''GET'' (''/activities/?'' @ Values_Encode q) None id]
            \<and> \<not> (c = [] \<and> a = [])
            \<and> (c = [] \<or> owns_card (wdb w) pk c \<and> names_only q ''cardId'' c)
            \<and> (a = [] \<or> owner_in (account_ownership (wdb w)) a = Some pk \<and> names_only q ''accountId'' a)
            \<and> map_of q ''userId'' = None \<and> map_of q ''ownerId'' = None)))"
  by (rule conjI, rule ListFraudAlerts_scope, rule list_filters_scope)


section \<open>Simulated card transactions\<close>

datatype simulated = Authorization | ThreeDS_Authorization | Decline | Clearing | Reversal | Refund

fun simulate_service :: "simulated \<Rightarrow> env \<Rightarrow> string \<Rightarrow> SimulateCardTransactionRequest \<Rightarrow> (int \<times> string) eff" where
  "simulate_service Authorization = SimulationService_SimulateAuthorization"
| "simulate_service ThreeDS_Authorization = SimulationService_SimulateThreeDSAuthorization"
| "simulate_service Decline = SimulationService_SimulateDecline"
| "simulate_service Clearing = SimulationService_SimulateClearing"
| "simulate_service Reversal = SimulationService_SimulateReversal"
| "simulate_service Refund = SimulationService_SimulateRefund"

fun simulate_path :: "simulated \<Rightarrow> string" where
  "simulate_path Authorization = ''/simulation/card-transactions/authorization''"
| "simulate_path ThreeDS_Authorization = ''/simulation/card-transactions/authorization-with-3ds''"
| "simulate_path Decline = ''/simulation/card-transactions/decline''"
| "simulate_path Clearing = ''/simulation/card-transactions/clearing''"
| "simulate_path Reversal = ''/simulation/card-transactions/reversal''"
| "simulate_path Refund = ''/simulation/card-transactions/refund''"

definition simulate_post :: "env \<Rightarrow> simulated \<Rightarrow> SimulateCardTransactionRequest \<Rightarrow> http_req" where
  "simulate_post env k req = reap_request env ''POST'' (simulate_path k) (Some (json_simulate req)) id"

definition transaction_get :: "env \<Rightarrow> string \<Rightarrow> http_req" where
  "transaction_get env t = reap_request env ''GET'' (pathf ''/card-transactions/%s'' [t]) None id"

definition transaction_owned :: "env \<Rightarrow> string \<Rightarrow> string \<Rightarrow> world \<Rightarrow> bool" where
  \<comment> \<open>REAP, asked in this state, says the transaction is on a card the vault owns\<close>
  "transaction_owned env pk t w \<longleftrightarrow>
     (\<exists>st body c. reap_answer env (Suc (tick w)) (transaction_get env t) = Some (st, body)
        \<and> fetched_card st body c \<and> owns_card (wdb w) pk c)"

text \<open>The five that check the transaction of the request as well.\<close>

lemma simulate_checked_run:
  assumes "andThen (SimulationService_checkCardOwnership env pk (st_CardID req)) (\<lambda>_.
     andThen (checkTransactionOwnership env pk (st_TransactionID req)) (\<lambda>_. Client_do env m p b opts)) w = (r, w')"
  defines "t \<equiv> st_TransactionID req"
  shows "wdb w' = wdb w \<and> tasks w' = tasks w
    \<and> (sent w' = sent w \<or> sent w' = sent w @ [transaction_get env t]
       \<or> owns_card (wdb w) pk (st_CardID req)
         \<and> (t = [] \<and> sent w' = sent w @ [reap_request env m p b opts]
            \<or> transaction_owned env pk t (w\<lparr>tick := Suc (tick w)\<rparr>)
              \<and> sent w' = sent w @ [transaction_get env t, reap_request env m p b opts]))"
proof (cases "db_fault env (tick w) = NoFault \<and> owns_card (wdb w) pk (st_CardID req)")
  case False
  then show ?thesis using assms(1) by (auto simp: Simulation_card_then owned_then_def owns_card_def split: if_splits)
next
  case True
  let ?w1 = "w\<lparr>tick := Suc (tick w)\<rparr>"
  have run: "andThen (checkTransactionOwnership env pk t) (\<lambda>_. Client_do env m p b opts) ?w1 = (r, w')"
    using assms(1) True by (simp add: Simulation_card_then owned_then_def owns_card_def t_def)
  obtain x w2 where x: "checkTransactionOwnership env pk t ?w1 = (x, w2)" by fastforce
  note X = checkTransactionOwnership_run [OF x, simplified, folded transaction_get_def]
  show ?thesis
  proof (cases x)
    case (Inl e)
    then have "w' = w2" using run x by (simp add: andThen_Inl)
    then show ?thesis using X(1-3) by auto
  next
    case (Inr u)
    then have c: "Client_do env m p b opts w2 = (r, w')" using run x by (simp add: andThen_Inr)
    have "t = [] \<or> sent w2 = sent w @ [transaction_get env t]"
      using x Inr unfolding checkTransactionOwnership_def Client_GetCardTransaction_def transaction_get_def
      by (auto simp: andThen_def SimulationService_checkCardOwnership_def isowner_run
          split: sum.splits prod.splits option.splits if_splits dest!: Client_do_facts)
    moreover have "t = [] \<or> transaction_owned env pk t ?w1"
      using X(4) Inr by (auto simp: transaction_owned_def transaction_get_def)
    ultimately show ?thesis using X(1-3) Client_do_facts [OF c] True by auto
  qed
qed

text \<open>
  C10. A simulated card transaction is sent only for a card recorded as the caller's, and, when the
  request names an existing transaction, only after REAP said that one is on a card of the caller's
  too. The simulated 3DS authorization is the exception: it checks the card alone.
\<close>

theorem simulated_transactions_gated:
  "(let out = simulate_service k env pk req w; t = st_TransactionID req in
    wdb (snd out) = wdb w \<and> tasks (snd out) = tasks w
    \<and> (sent (snd out) = sent w \<or> sent (snd out) = sent w @ [transaction_get env t]
       \<or> owns_card (wdb w) pk (st_CardID req)
         \<and> (t = [] \<and> sent (snd out) = sent w @ [simulate_post env k req]
            \<or> transaction_owned env pk t (w\<lparr>tick := Suc (tick w)\<rparr>)
              \<and> sent (snd out) = sent w @ [transaction_get env t, simulate_post env k req]
            \<or> k = ThreeDS_Authorization \<and> sent (snd out) = sent w @ [simulate_post env k req])))"
proof -
  obtain r w' where out: "simulate_service k env pk req w = (r, w')" by fastforce
  show ?thesis
  proof (cases "k = ThreeDS_Authorization")
    case True
    then show ?thesis using out
      by (auto simp: simulation_defs Simulation_card_then owned_then_def owns_card_def client_defs
          simulateCardTransaction_def simulate_post_def Let_def split: if_splits dest!: Client_do_facts)
  next
    case False
    then have "andThen (SimulationService_checkCardOwnership env pk (st_CardID req)) (\<lambda>_.
       andThen (checkTransactionOwnership env pk (st_TransactionID req)) (\<lambda>_.
         Client_do env ''POST'' (simulate_path k) (Some (json_simulate req)) id)) w = (r, w')"
      using out by (cases k) (simp_all add: simulation_defs client_defs)
    from simulate_checked_run [OF this] show ?thesis using out by (auto simp: Let_def simulate_post_def)
  qed
qed

end
