(* ===== verification/Properties_Identity.thy ===== *)
theory Properties_Identity
  imports Properties_Scoped
begin

text \<open>
  Who the caller is: authentication, its replay protection, the tokens and the routes behind them,
  the REAP user of a vault, and all of it under concurrent requests.
\<close>

section \<open>Authentication\<close>

text \<open>
  C11. A token is handed out only for the vault's current nonce, under a signature that verifies with
  the key derived from the public key and chain code, and with the chain code recorded for the vault
  (or none yet). Afterwards the nonce is spent, the chain code (normalized) is recorded and the token
  is on record for the vault, unrevoked, for the thirty minutes after some instant of the call.
\<close>

theorem Authenticate_success:
  assumes "Authenticate env pk cc n sg w = (Inr tok, w')"
  shows "nonce_of (wdb w) pk = n \<and> verifySignature (crypto_lib env) pk cc n sg
     \<and> chain_code_of (wdb w) pk \<in> {None, Some (normalize_chain_code env cc)}
     \<and> nonce_of (wdb w') pk = n + 1 \<and> chain_code_of (wdb w') pk = Some (normalize_chain_code env cc)
     \<and> (\<exists>k. tick w \<le> k \<and> k < tick w' \<and> token_recorded env tok pk (clock env k) (wdb w'))"
  using Authenticate_Inr [OF assms] by blast

theorem Authenticate_success_witness:
  "\<exists>tok w'. Authenticate sample_env sample_pk sample_cc 0 ''00'' init_world = (Inr tok, w')
     \<and> nonce_of (wdb w') sample_pk = 1"
proof -
  obtain tok w' where run: "Authenticate sample_env sample_pk sample_cc 0 ''00'' init_world = (Inr tok, w')"
    using sample_Authenticate by blast
  from Authenticate_success [OF run] have "nonce_of (wdb w') sample_pk = 1" by simp
  with run show ?thesis by blast
qed

text \<open>
  C12. With another nonce than the current one, or a signature that does not verify, the answer is one
  of three errors and the database, the requests and the tasks are as they were.
\<close>

theorem Authenticate_refuses:
  "nonce_of (wdb w) pk = n \<and> verifySignature (crypto_lib env) pk cc n sg
   \<or> fst (Authenticate env pk cc n sg w) \<in> {Inl ErrDb, Inl ErrNonceUsed, Inl ErrInvalidSignature}
     \<and> wdb (snd (Authenticate env pk cc n sg w)) = wdb w
     \<and> sent (snd (Authenticate env pk cc n sg w)) = sent w
     \<and> tasks (snd (Authenticate env pk cc n sg w)) = tasks w"
  using Authenticate_refused [of w pk n env cc sg] Authenticate_silent [of w env pk cc n sg]
    Authenticate_unqueued [of w env pk cc n sg]
  by (auto simp: keeps_sent_def keeps_tasks_def)

text \<open>
  C13. The vault's next nonce under a right signature and its chain code does get a token, when the
  database answers its three statements, the random source gives a token ID not yet on record and the
  signer signs.
\<close>

theorem Authenticate_succeeds:
  assumes "nonce_of (wdb w) pk = n" and "verifySignature (crypto_lib env) pk cc n sg" and "int4_param n"
    and "chain_code_of (wdb w) pk \<in> {None, Some (normalize_chain_code env cc)}"
    and "\<forall>k. tick w \<le> k \<and> k \<le> tick w + 4 \<longrightarrow> db_fault env k = NoFault"
    and "rand_read env (tick w + 2) = Some b" and "map_of (vault_tokens (wdb w)) (hex_EncodeToString b) = None"
    and "\<And>cl. jwt_sign (crypto_lib env) (jwtSecret env) cl \<noteq> None"
  shows "\<exists>tok w'. Authenticate env pk cc n sg w = (Inr tok, w')"
  using Authenticate_runs [OF assms] by blast

theorem Authenticate_succeeds_witness:
  "\<exists>tok w'. Authenticate sample_env sample_pk sample_cc 0 ''00'' init_world = (Inr tok, w')"
  by (rule Authenticate_succeeds [where b = "''id''"])
    (auto simp: init_world_def empty_db_def nonce_of_def chain_code_of_def mapping_of_def int4_param_def int4_max_def sample_sign sample_verifies sample_pk_def sample_cc_def)

text \<open>
  C14. No replay, and one chain code: whatever the program does after a vault authenticated with a
  nonce, under any environment, a later authentication of the same public key uses a larger nonce and
  the same chain code up to a leading 0x and letter case.
\<close>

theorem Authenticate_no_replay:
  assumes "Authenticate env pk cc n sg w = (Inr tok, w1)" and "evolves w1 w2"
    and "Authenticate env' pk cc' n' sg' w2 = (Inr tok', w3)"
  shows "n < n' \<and> normalize_chain_code env' cc' = normalize_chain_code env cc"
  using Authenticate_later [OF assms] by blast

theorem Authenticate_no_replay_witness:
  "\<exists>tok w1 tok' w2. Authenticate sample_env sample_pk sample_cc 0 ''00'' init_world = (Inr tok, w1)
     \<and> Authenticate second_env sample_pk sample_cc 1 ''00'' w1 = (Inr tok', w2)
     \<and> normalize_chain_code second_env sample_cc = normalize_chain_code sample_env sample_cc"
proof -
  obtain tok w1 tok' w2 where run: "Authenticate sample_env sample_pk sample_cc 0 ''00'' init_world = (Inr tok, w1)"
    "Authenticate second_env sample_pk sample_cc 1 ''00'' w1 = (Inr tok', w2)"
    using sample_Authenticate_again by blast
  from Authenticate_no_replay [OF run(1) evolves_refl run(2)] run show ?thesis by blast
qed




section \<open>Tokens and routes\<close>

text \<open>
  C15. The token of a successful authentication passes \<open>RequireAuth\<close> in every later state, as the vault
  that authenticated, until a second before its thirty minutes are over, when the database answers;
  this uses the documented behaviour of the JWT library, \<open>jwt_laws\<close>.
\<close>

theorem issued_token_admitted:
  assumes "jwt_laws (crypto_lib env)" and "Authenticate env pk cc n sg w = (Inr tok, w1)"
  shows "\<exists>k0. tick w \<le> k0 \<and> k0 < tick w1 \<and>
     (\<forall>w2 nxt. evolves w1 w2 \<and> db_fault env (Suc (tick w2)) = NoFault
        \<and> (\<forall>k. tick w2 \<le> k \<and> k \<le> tick w2 + 3 \<longrightarrow> clock env k + 10 ^ 9 \<le> clock env k0 + accessTokenDuration)
        \<longrightarrow> (\<exists>cl w3. cl_PublicKey cl = pk \<and> RequireAuth env nxt (''Bearer '' @ tok) w2 = nxt cl w3))"
proof -
  obtain k0 where k: "tick w \<le> k0" "k0 < tick w1" "token_recorded env tok pk (clock env k0) (wdb w1)"
    using Authenticate_Inr(6) [OF assms(2)] by blast
  have "\<exists>cl w3. cl_PublicKey cl = pk \<and> RequireAuth env nxt (''Bearer '' @ tok) w2 = nxt cl w3"
    if "evolves w1 w2" "db_fault env (Suc (tick w2)) = NoFault"
      "\<forall>k. tick w2 \<le> k \<and> k \<le> tick w2 + 3 \<longrightarrow> clock env k + 10 ^ 9 \<le> clock env k0 + accessTokenDuration" for w2 nxt
  proof (rule token_admits [OF assms(1) _ that(2)])
    show "token_recorded env tok pk (clock env k0) (wdb w2)"
      using token_recorded_mono [OF k(3)] that(1) by (simp add: evolves_def)
  qed (use that(3) in simp)
  with k show ?thesis by blast
qed

theorem issued_token_admitted_witness:
  "\<exists>tok w1 (cl :: claims) w3. Authenticate sample_env sample_pk sample_cc 0 ''00'' init_world = (Inr tok, w1)
     \<and> cl_PublicKey cl = sample_pk
     \<and> RequireAuth sample_env (\<lambda>cl. reply (Text 200 (cl_PublicKey cl))) (''Bearer '' @ tok) w1
         = (Text 200 sample_pk, w3)"
proof -
  obtain tok w1 where run: "Authenticate sample_env sample_pk sample_cc 0 ''00'' init_world = (Inr tok, w1)"
    using sample_Authenticate by blast
  have "jwt_laws (crypto_lib sample_env)" using sample_jwt_laws by simp
  from issued_token_admitted [OF this run]
  have "\<exists>cl w3. cl_PublicKey cl = sample_pk \<and> RequireAuth sample_env nxt (''Bearer '' @ tok) w1 = nxt cl w3" for nxt
    by (elim exE conjE allE [of _ w1] allE [of _ nxt] impE) (simp_all add: accessTokenDuration_def, blast)
  from this [of "\<lambda>cl. reply (Text 200 (cl_PublicKey cl))"]
  have "\<exists>(cl :: claims) w3. cl_PublicKey cl = sample_pk
     \<and> RequireAuth sample_env (\<lambda>cl. reply (Text 200 (cl_PublicKey cl))) (''Bearer '' @ tok) w1 = (Text 200 sample_pk, w3)"
    by (auto simp: reply_def [of _ "_ :: world"])
  with run show ?thesis by blast
qed

definition served_as :: "env \<Rightarrow> string \<Rightarrow> (string \<Rightarrow> handler) \<Rightarrow> world \<Rightarrow> resp \<times> world \<Rightarrow> bool" where
  "served_as env h run w out \<longleftrightarrow>
     (\<exists>cl w1. auth_passed env h w cl \<and> out = run (cl_PublicKey cl) w1 \<and> sent w1 = sent w \<and> tasks w1 = tasks w
        \<and> only_touched (wdb w) (wdb w1) \<and> evolves w w1)"

text \<open>
  A protected route without a token that passes (a Bearer token that parses under the server's
  secret and an HMAC method, recorded, unrevoked, unexpired) answers 401 or 500, sends nothing, queues
  nothing and changes nothing but a token's time of last use; with one, it runs its handler as the
  token's vault, and nothing was sent or queued before that. The simulation routes are protected in the
  same way, and exist in the sandbox only.
\<close>

lemma protected_calls_need_token:
  "(auth_refused w (Server_serve env reapEnv h (Protected u) w)
     \<or> served_as env h (\<lambda>pk. serve_user env pk u) w (Server_serve env reapEnv h (Protected u) w))
   \<and> (if reapEnv = ''sandbox''
      then auth_refused w (Server_serve env reapEnv h (Simulation s) w)
        \<or> served_as env h (\<lambda>pk. serve_simulation env pk s) w (Server_serve env reapEnv h (Simulation s) w)
      else Server_serve env reapEnv h (Simulation s) w = (HTTPError 404 ''Not Found'', w))"
proof -
  have H: "auth_refused w (RequireAuth env (\<lambda>cl. run (cl_PublicKey cl)) h w)
      \<or> served_as env h run w (RequireAuth env (\<lambda>cl. run (cl_PublicKey cl)) h w)" for run
    by (rule RequireAuth_cases [of w env "\<lambda>cl. run (cl_PublicKey cl)" h]) (auto simp: served_as_def)
  show ?thesis using H [of "\<lambda>pk. serve_user env pk u"] H [of "\<lambda>pk. serve_simulation env pk s"]
    by (simp add: Server_serve_def reply_def)
qed

text \<open>
  Every request, with any header and any parameters, to any route, moves the state one way only:
  the key and uniqueness constraints of the database are kept, no row disappears, nonces do not go
  back, recorded REAP users, chain codes, owners and events do not change, tokens are not revived.
\<close>

lemma every_request_evolves:
  "evolves w (snd (Server_serve env reapEnv h c w))"
  by (rule Server_serve_evolves_lemma)

section \<open>Concurrent requests\<close>

text \<open>
  C32. In any interleaving of any statements of any number of requests, no nonce of a vault is claimed
  twice, and every claimed one is below the vault's current nonce.
\<close>

theorem nonce_claimed_once:
  assumes "db_reachable (d, h)"
  shows "distinct (won_nonces h) \<and> (\<forall>(pk, n) \<in> set (won_nonces h). n < nonce_of d pk)"
  using nonces.reachable_inv [OF assms] by (auto simp: nonces_spent_def)

lemma reach_one:
  "call_stmt c now empty_db = (r, d) \<Longrightarrow> db_reachable (d, [(c, now, r = Inr 1)])"
  by (metis db_start_def db_stepI reachable.intros)

lemma sample_claimed:
  "\<exists>d. db_reachable (d, [(Claim_nonce ''pk'' 0 ''cc'', 5, True)])"
proof -
  have "call_stmt (Claim_nonce ''pk'' 0 ''cc'') 5 empty_db = (Inr 1, snd (call_stmt (Claim_nonce ''pk'' 0 ''cc'') 5 empty_db))"
    by (simp add: sql_claim_nonce_def empty_db_def mapping_of_def int4_param_def int4_max_def)
  from reach_one [OF this] show ?thesis by (metis (full_types))
qed

theorem nonce_claimed_once_witness:
  "\<exists>d. db_reachable (d, [(Claim_nonce ''pk'' 0 ''cc'', 5, True)]) \<and> 0 < nonce_of d ''pk''"
proof -
  obtain d where r: "db_reachable (d, [(Claim_nonce ''pk'' 0 ''cc'', 5, True)])" using sample_claimed by blast
  from nonce_claimed_once [OF r] have "0 < nonce_of d ''pk''" by simp
  with r show ?thesis by blast
qed

text \<open>
  C33. A claim of a vault's user creation, won in any interleaving while an earlier claim of the vault
  is open (neither given back nor turned into a recorded user), comes more than the stale period after
  that one: two creations never run at once within it.
\<close>

theorem creation_claimed_once:
  assumes "db_reachable (d, h)" and "open_claim pk h = Some t"
    and "call_stmt (Claim_create pk stale) now d = (Inr 1, d')"
  shows "t + stale < now"
  using claim_after_open [OF assms] .

theorem creation_claimed_once_witness:
  "\<exists>d d'. db_reachable (d, [(Claim_create ''pk'' 10, 5, True)])
     \<and> call_stmt (Claim_create ''pk'' 10) 16 d = (Inr 1, d') \<and> 5 + 10 < (16::int)"
proof -
  define d where "d = snd (call_stmt (Claim_create ''pk'' 10) 5 empty_db)"
  have c: "call_stmt (Claim_create ''pk'' 10) 5 empty_db = (Inr 1, d)"
    by (simp add: d_def sql_claim_create_def empty_db_def mapping_of_def)
  have r: "db_reachable (d, [(Claim_create ''pk'' 10, 5, True)])" using reach_one [OF c] by simp
  have "call_stmt (Claim_create ''pk'' 10) 16 d = (Inr 1, snd (call_stmt (Claim_create ''pk'' 10) 16 d))"
    by (simp add: d_def sql_claim_create_def empty_db_def mapping_of_def table_insert_def new_mapping_def)
  from creation_claimed_once [OF r _ this] this r show ?thesis by auto
qed

section \<open>The REAP user of a vault\<close>

definition creation_free :: "env \<Rightarrow> string \<Rightarrow> world \<Rightarrow> bool" where
  \<comment> \<open>the vault has no REAP user and no creation begun within the stale period\<close>
  "creation_free env pk w \<longleftrightarrow> reap_user_of (wdb w) pk = None
     \<and> (case Option.bind (mapping_of (wdb w) pk) m_create_started_at of None \<Rightarrow> True
        | Some t \<Rightarrow> t + reapUserCreateStale < clock env (tick w))"

lemma ClaimReapUserCreate_run:
  assumes "ClaimReapUserCreate env pk reapUserCreateStale w = (r, w1)"
  shows "sent w1 = sent w" and "tasks w1 = tasks w" and "r \<in> {Inl ErrDb, Inr True, Inr False}"
    and "r = Inr True \<Longrightarrow> creation_free env pk w
           \<and> create_mark (wdb w1) pk = Some (Some (clock env (tick w)), None)"
    and "r = Inr False \<or> \<not> creation_free env pk w \<Longrightarrow> wdb w1 = wdb w"
proof -
  let ?st = "sql_claim_create pk reapUserCreateStale"
  let ?now = "clock env (tick w)"
  obtain x d where s: "?st ?now (wdb w) = (x, d)" by fastforce
  have x: "x = Inr 1 \<and> creation_free env pk w \<or> x = Inr 0 \<and> d = wdb w"
    using s by (auto simp: sql_claim_create_def creation_free_def reap_user_of_def algebra_simps
        split: if_splits option.splits)
  have m: "x = Inr 1 \<Longrightarrow> create_mark d pk = Some (Some ?now, None)"
    using s claim_wins_mark by simp
  have "sent w1 = sent w \<and> tasks w1 = tasks w \<and> (r = Inl ErrDb
      \<or> r = Inr True \<and> creation_free env pk w \<and> create_mark (wdb w1) pk = Some (Some ?now, None)
      \<or> r = Inr False \<and> wdb w1 = wdb w) \<and> (creation_free env pk w \<or> wdb w1 = wdb w)"
    using assms x m unfolding ClaimReapUserCreate_def andThen_def
    by (cases rule: db_exec_cases [of env ?st w]) (auto simp: s)
  then show "sent w1 = sent w" "tasks w1 = tasks w" "r \<in> {Inl ErrDb, Inr True, Inr False}"
    "r = Inr True \<Longrightarrow> creation_free env pk w \<and> create_mark (wdb w1) pk = Some (Some ?now, None)"
    "r = Inr False \<or> \<not> creation_free env pk w \<Longrightarrow> wdb w1 = wdb w"
    by auto
qed

definition create_request :: "env \<Rightarrow> CreateUserRequest \<Rightarrow> http_req" where
  "create_request env req = reap_request env ''POST'' ''/users/'' (Some (json_create_user req)) id"

lemma CreateUser_refused:
  assumes "ClaimReapUserCreate env pk reapUserCreateStale w = (Inr False, w1)"
  shows "sent (snd (UserService_CreateUser env pk req w)) = sent w"
    and "wdb (snd (UserService_CreateUser env pk req w)) = wdb w"
    and "fst (UserService_CreateUser env pk req w) \<in> {Inl ErrDb,
           Inl (if reap_user_of (wdb w) pk \<in> {None, Some []} then ErrReapUserCreateInFlight else ErrReapUserExists)}"
  using assms ClaimReapUserCreate_run(1) [OF assms] ClaimReapUserCreate_run(5) [OF assms]
  by (auto simp: UserService_CreateUser_def andThen_def GetReapUserID_eq split: option.splits)

lemma releaseCreateClaim_run: "releaseCreateClaim env pk w = (Inr (), snd (ReleaseReapUserCreate env pk w))"
  by (simp add: releaseCreateClaim_def attempt_def split: sum.split prod.split)

lemma CreateUser_run:
  assumes "ClaimReapUserCreate env pk reapUserCreateStale w = (Inr True, w1)"
    and "Client_CreateUser env req w1 = (r, w2)"
  shows "UserService_CreateUser env pk req w =
    (case r of
       Inl e \<Rightarrow> (Inl e, snd (ReleaseReapUserCreate env pk w2))
     | Inr (st, body) \<Rightarrow>
         if \<not> is_2xx st then (Inr (st, body), snd (ReleaseReapUserCreate env pk w2))
         else (case unmarshal_string_field ''id'' body of
             None \<Rightarrow> (Inl (ErrNew ''reap: create user response missing id''), w2)
           | Some i \<Rightarrow>
               if i = [] then (Inl (ErrNew ''reap: create user response missing id''), w2)
               else (case SetReapUserID env pk i w2 of
                   (Inl e, w3) \<Rightarrow> (Inl e, w3)
                 | (Inr ok, w3) \<Rightarrow> (Inr (st, body), w3))))"
  using assms
  by (cases r) (auto simp: UserService_CreateUser_def andThen_def attempt_def releaseCreateClaim_run
      split: prod.splits sum.splits option.splits)

lemma CreateUser_claimed_sent:
  assumes "ClaimReapUserCreate env pk reapUserCreateStale w = (Inr True, w1)"
  shows "sent (snd (UserService_CreateUser env pk req w)) = sent w @ [create_request env req]"
proof -
  obtain r w2 where c: "Client_CreateUser env req w1 = (r, w2)" by fastforce
  have s: "sent w2 = sent w @ [create_request env req]"
    using Client_do_facts [OF c [unfolded Client_CreateUser_def]] ClaimReapUserCreate_run(1) [OF assms]
    by (simp add: create_request_def)
  have rel: "sent (snd (ReleaseReapUserCreate env pk w2)) = sent w2"
    using mapping_op_silent(8) [of w2 env pk] by (simp add: keeps_sent_def)
  have set: "sent (snd (SetReapUserID env pk i w2)) = sent w2" for i
    using mapping_op_silent(5) [of w2 env pk i] by (simp add: keeps_sent_def)
  show ?thesis using CreateUser_run [OF assms c] s rel
    by (auto split: sum.splits prod.splits option.splits if_splits dest!: arg_cong [where f = "\<lambda>x. sent (snd x)"]
        simp: set)
qed

text \<open>
  C17. Creating a REAP user sends at most one request, and only for a vault with no REAP user and no
  creation begun within the stale period. To any other vault it answers that the user exists, that a
  creation is in flight, or that the database failed, and nothing is sent or changed.
\<close>

theorem CreateUser_claims_first:
  "if creation_free env pk w
   then sent (snd (UserService_CreateUser env pk req w)) \<in> {sent w, sent w @ [create_request env req]}
   else sent (snd (UserService_CreateUser env pk req w)) = sent w \<and> wdb (snd (UserService_CreateUser env pk req w)) = wdb w
     \<and> fst (UserService_CreateUser env pk req w) \<in> {Inl ErrDb,
           Inl (if reap_user_of (wdb w) pk \<in> {None, Some []} then ErrReapUserCreateInFlight else ErrReapUserExists)}"
proof -
  obtain r w1 where c: "ClaimReapUserCreate env pk reapUserCreateStale w = (r, w1)" by fastforce
  note C = ClaimReapUserCreate_run [OF c]
  consider "r = Inl ErrDb" | "r = Inr False" | "r = Inr True" "creation_free env pk w" using C(3,4) by blast
  then show ?thesis
  proof cases
    case 1
    then have "UserService_CreateUser env pk req w = (Inl ErrDb, w1)"
      using c by (simp add: UserService_CreateUser_def andThen_def)
    then show ?thesis using C by auto
  next
    case 2
    then show ?thesis using CreateUser_refused [OF c [unfolded 2]] by simp
  next
    case 3
    then show ?thesis using CreateUser_claimed_sent [OF c [unfolded 3(1)]] by simp
  qed
qed

lemma SetReapUserID_after_claim:
  assumes "create_mark (wdb w) pk = Some (Some t, None)" and "SetReapUserID env pk i w = (Inr ok, w')"
  shows "reap_user_of (wdb w') pk = Some i"
proof -
  obtain n w1 where q: "db_exec env (sql_set_reap_user pk i) w = (Inr n, w1)" and b: "w' = w1"
    using assms(2) unfolding SetReapUserID_def by (auto elim!: andThen_InrE)
  have s: "sql_set_reap_user pk i (clock env (tick w)) (wdb w) = (Inr n, wdb w')"
    using db_exec_Inr(1) [OF q] b by simp
  have "n = 1" using s assms(1)
    by (auto simp: sql_set_reap_user_def create_mark_def split: option.splits if_splits)
  then show ?thesis using sql_set_reap_user_post(1) s by blast
qed

lemma Release_after_claim:
  assumes "create_mark (wdb w) pk = Some (Some t, None)" and "ReleaseReapUserCreate env pk w = (r, w')"
  shows "create_mark (wdb w') pk
           = Some (if db_fault env (tick w) = Lost then Some t else None, None)"
    and "tick w' = Suc (tick w)"
  using assms unfolding ReleaseReapUserCreate_def
  by (cases rule: db_exec_cases [of env "sql_release_create pk" w];
      auto simp: sql_release_create_def create_mark_def mapping_updates split: option.splits)+

text \<open>
  C18. A creation that gives an answer was free to begin and sent one request. A 2xx answer names a
  non-empty ID, which is from then on the vault's REAP user; after any other answer the vault has none,
  and its claim is given back for an immediate retry, unless the database lost that statement.
\<close>

theorem CreateUser_records:
  assumes "UserService_CreateUser env pk req w = (Inr (st, body), w')"
  shows "creation_free env pk w \<and> sent w' = sent w @ [create_request env req]
     \<and> (if is_2xx st
        then \<exists>i. unmarshal_string_field ''id'' body = Some i \<and> i \<noteq> [] \<and> reap_user_of (wdb w') pk = Some i
        else create_mark (wdb w') pk = Some (None, None)
          \<or> create_mark (wdb w') pk = Some (Some (clock env (tick w)), None) \<and> db_fault env (tick w' - 1) = Lost)"
proof -
  obtain c w1 where c: "ClaimReapUserCreate env pk reapUserCreateStale w = (c, w1)" by fastforce
  note C = ClaimReapUserCreate_run [OF c]
  have "c = Inr True"
  proof -
    have "c \<noteq> Inr False" using CreateUser_refused(3) [of env pk w w1 req] c assms by auto
    moreover have "c \<noteq> Inl ErrDb" using c assms by (auto simp: UserService_CreateUser_def andThen_def)
    ultimately show ?thesis using C(3) by blast
  qed
  note c = c [unfolded this] and C = C(4) [OF this]
  obtain r w2 where q: "Client_CreateUser env req w1 = (r, w2)" by fastforce
  have db: "wdb w2 = wdb w1" using Client_do_facts [OF q [unfolded Client_CreateUser_def]] by simp
  have m: "create_mark (wdb w2) pk = Some (Some (clock env (tick w)), None)" using C db by simp
  have run: "if is_2xx st
      then \<exists>i ok. unmarshal_string_field ''id'' body = Some i \<and> i \<noteq> [] \<and> SetReapUserID env pk i w2 = (Inr ok, w')
      else w' = snd (ReleaseReapUserCreate env pk w2)"
    using assms CreateUser_run [OF c q]
    by (auto split: sum.splits prod.splits option.splits if_splits)
  have "if is_2xx st
        then \<exists>i. unmarshal_string_field ''id'' body = Some i \<and> i \<noteq> [] \<and> reap_user_of (wdb w') pk = Some i
        else create_mark (wdb w') pk = Some (None, None)
          \<or> create_mark (wdb w') pk = Some (Some (clock env (tick w)), None) \<and> db_fault env (tick w' - 1) = Lost"
  proof (cases "is_2xx st")
    case True
    then show ?thesis using run SetReapUserID_after_claim [OF m] by auto
  next
    case False
    then obtain x where "ReleaseReapUserCreate env pk w2 = (x, w')" using run by (metis prod.collapse)
    from Release_after_claim [OF m this] show ?thesis using False by auto
  qed
  then show ?thesis using C CreateUser_claimed_sent [OF c, of req] assms by simp
qed

theorem CreateUser_records_witness:
  "\<exists>w'. UserService_CreateUser sample_env ''new'' sample_user sample_world = (Inr (200, ''{\"id\":\"x\"}''), w')
     \<and> reap_user_of (wdb w') ''new'' = Some ''x''"
proof -
  obtain w' where run: "UserService_CreateUser sample_env ''new'' sample_user sample_world
      = (Inr (200, ''{\"id\":\"x\"}''), w')"
    using sample_CreateUser by blast
  have "reap_user_of (wdb w') ''new'' = Some ''x''"
    using CreateUser_records [OF run] by (auto simp: is_2xx_def sample_id)
  with run show ?thesis by blast
qed

end
