(* ===== verification/Properties_Events.thy ===== *)
theory Properties_Events
  imports Properties_Identity
begin

text \<open>
  Webhook deliveries: what is refused, what is recorded, and which vault is told about it, once.
\<close>

section \<open>Signatures\<close>

text \<open>
  The header REAP builds for a body at a time (its timestamp, and the hex MAC of timestamp and
  body) is accepted for that body within five minutes of that time, on both sides
  (\<open>VerifyWebhookSignature_roundtrip\<close>); here, just five minutes later.
\<close>

lemma webhook_header_accepted_sample:
  "VerifyWebhookSignature sample_crypto ''ws'' ''{}'' (webhook_header sample_crypto ''ws'' ''{}'' 1750000000)
     (1750000000 * 10 ^ 9 + 300 * 10 ^ 9) = Inr ()"
  by (rule VerifyWebhookSignature_roundtrip)
    (simp_all add: in_int64_def int64_min_def int64_max_def webhookTimestampTolerance_def)

text \<open>
  C19. A delivery that is not signed, recently, under the webhook secret is refused with the signature
  error, and one that is signed but has no ID or type with the payload error; nothing else happens.
  No other delivery is refused so.
\<close>

theorem bad_deliveries_refused:
  "let signed = webhook_signed (crypto_lib env) (webhookSecret env) raw h (clock env (tick w)) in
   if \<not> signed then HandleEvent env raw h w = (Inl ErrInvalidWebhookSignature, w\<lparr>tick := Suc (tick w)\<rparr>)
   else if envelope raw = None
     then HandleEvent env raw h w = (Inl ErrInvalidWebhookPayload, w\<lparr>tick := Suc (tick w)\<rparr>)
   else fst (HandleEvent env raw h w) \<in> {Inr (), Inl ErrDb}"
  by (rule HandleEvent_cases [of env raw h w]) (auto simp: Let_def split: if_splits)

section \<open>Redelivery\<close>

lemma event_stays:
  assumes "evolves w w'" and "map_of (webhook_events (wdb w)) i \<noteq> None"
  shows "map_of (webhook_events (wdb w')) i \<noteq> None"
  using assms by (fastforce simp: evolves_def db_le_def rows_le_def)

lemma HandleEvent_records:
  assumes "HandleEvent env raw h w = (Inr (), w1)" and "envelope raw = Some (i, ty, p)"
  shows "map_of (webhook_events (wdb w1)) i \<noteq> None"
  by (rule HandleEvent_cases [of env raw h w])
    (use assms notifyVault_frames(3) [of _ env] in \<open>auto simp: keeps_db_def map_of_table_insert\<close>)

lemma HandleEvent_known:
  assumes "map_of (webhook_events (wdb w)) i \<noteq> None" and "envelope raw = Some (i, ty, p)"
  shows "tasks (snd (HandleEvent env raw h w)) = tasks w" and "wdb (snd (HandleEvent env raw h w)) = wdb w"
  by (rule HandleEvent_cases [of env raw h w]; use assms in force)+

text \<open>
  C22. Once a delivery has been acknowledged, no later delivery with the same event ID, at any time and
  with any other contents, queues a notification or changes the database.
\<close>

theorem redelivery_ignored:
  assumes "HandleEvent env raw h w = (Inr (), w1)" and "evolves w1 w2"
    and "envelope raw = Some (i, ty, p)" and "envelope raw' = Some (i, ty', p')"
  shows "tasks (snd (HandleEvent env' raw' h' w2)) = tasks w2 \<and> wdb (snd (HandleEvent env' raw' h' w2)) = wdb w2"
  using HandleEvent_known [OF event_stays [OF assms(2) HandleEvent_records [OF assms(1,3)]] assms(4)] by blast

section \<open>Notifications\<close>

text \<open>Recording an event changes nothing that resolving a vault reads.\<close>

lemma event_insert_frame [simp]:
  "vault_of_event (d\<lparr>webhook_events := t\<rparr>) = vault_of_event d"
  "chain_code_of (d\<lparr>webhook_events := t\<rparr>) = chain_code_of d"
  "notified env (d\<lparr>webhook_events := t\<rparr>) = notified env d"
proof -
  show v: "vault_of_event (d\<lparr>webhook_events := t\<rparr>) = vault_of_event d"
    by (intro ext) (simp add: vault_of_event_def reap_user_of_def mapping_of_def)
  show c: "chain_code_of (d\<lparr>webhook_events := t\<rparr>) = chain_code_of d"
    by (intro ext) (simp add: chain_code_of_def mapping_of_def)
  show "notified env (d\<lparr>webhook_events := t\<rparr>) = notified env d"
    by (intro ext) (simp add: notified_def v c)
qed

text \<open>
  C20. A delivery queues at most one notification, and only when it is signed, its event ID is new and
  the event is about a card, an account or a REAP user recorded for a vault with a recorded chain code:
  the notification is then that vault's, with the text for this event.
\<close>

theorem notification_to_owner_only:
  assumes "db_ok (wdb w)"
  shows "tasks (snd (HandleEvent env raw h w)) = tasks w
     \<or> webhook_signed (crypto_lib env) (webhookSecret env) raw h (clock env (tick w))
       \<and> (\<exists>i ty p task. envelope raw = Some (i, ty, p) \<and> map_of (webhook_events (wdb w)) i = None
            \<and> notified env (wdb w) ty p task
            \<and> tasks (snd (HandleEvent env raw h w)) = tasks w @ [task])"
proof (rule HandleEvent_cases [of env raw h w])
  fix i ty p w1
  assume a: "envelope raw = Some (i, ty, p)" "HandleEvent env raw h w = (Inr (), snd (notifyVault env ty p w1))"
    "webhook_signed (crypto_lib env) (webhookSecret env) raw h (clock env (tick w))"
    "map_of (webhook_events (wdb w)) i = None" "tasks w1 = tasks w" "evolves w w1"
    "\<exists>r. e_type r = ty \<and> e_payload r = raw
       \<and> wdb w1 = (wdb w)\<lparr>webhook_events := table_insert i r (webhook_events (wdb w))\<rparr>"
  have "db_ok (wdb w1)" using a(6) assms by (simp add: evolves_def)
  from notifyVault_tasks [OF this, of env ty p] show ?thesis
    using a by auto
qed auto

lemma resolveVault_runs:
  assumes "db_fault env (tick w) = NoFault" and "db_ok (wdb w)" and "vault_of_event (wdb w) ty p pk"
  shows "resolveVault env ty p w = (Inr pk, w\<lparr>tick := Suc (tick w)\<rparr>)"
proof -
  obtain c a u where s: "eventSubjectIDs ty p = (c, a, u)" by (cases "eventSubjectIDs ty p")
  show ?thesis
  proof (cases "c = [] \<and> a = []")
    case False
    then show ?thesis using assms s
      by (auto simp: resolveVault_def vault_of_event_def isowner_eqs split: if_splits)
  next
    case True
    then have u: "u \<noteq> []" "reap_user_of (wdb w) pk = Some u"
      using assms(3) s by (simp_all add: vault_of_event_def)
    then obtain r where "mapping_of (wdb w) pk = Some r" "m_reap_user_id r = Some u"
      by (auto simp: reap_user_of_def split: Option.bind_splits)
    then have "map_option fst (find (\<lambda>p. m_reap_user_id (snd p) = Some u) (mappings (wdb w))) = Some pk"
      by (rule find_reap_user [OF assms(2)])
    then show ?thesis using True u s assms(1)
      by (auto simp: resolveVault_def GetPublicKeyByReapUserID_def andThen_def db_exec_def
          sql_select_by_reap_user_def)
  qed
qed

lemma notifyVault_runs:
  assumes "notifications env" and "\<forall>n. tick w \<le> n \<and> n \<le> tick w + 1 \<longrightarrow> db_fault env n = NoFault"
    and "\<forall>t. enqueue_ok env (tick w + 2) t" and "db_ok (wdb w)"
    and "vault_of_event (wdb w) ty p pk" and "pk \<noteq> []" and "chain_code_of (wdb w) pk = Some cc" and "cc \<noteq> []"
  shows "tasks (snd (notifyVault env ty p w)) = tasks w @ [json_notification (vault_request env pk cc ty p)]"
proof -
  have f: "db_fault env (tick w) = NoFault" "db_fault env (Suc (tick w)) = NoFault" using assms(2) by simp_all
  have "n_Type (vault_request env pk cc ty p) \<noteq> []" by (simp add: vault_request_def)
  then show ?thesis
    using assms f resolveVault_runs [OF f(1) assms(4,5)]
    by (simp add: notifyVault_def attempt_def GetHexChainCode_eq Notify_def enqueue_def)
qed

lemma HandleEvent_fresh:
  assumes "webhook_signed (crypto_lib env) (webhookSecret env) raw h (clock env (tick w))"
    and "envelope raw = Some (i, ty, p)" and "map_of (webhook_events (wdb w)) i = None"
    and "db_fault env (Suc (tick w)) = NoFault"
  shows "HandleEvent env raw h w = (Inr (), snd (notifyVault env ty p (w\<lparr>tick := tick w + 2,
    wdb := (wdb w)\<lparr>webhook_events := table_insert i
      \<lparr>e_type = ty, e_payload = raw, e_received_at = clock env (Suc (tick w))\<rparr> (webhook_events (wdb w))\<rparr>\<rparr>)))"
    (is "_ = (_, snd (notifyVault env ty p ?w1))")
proof -
  have v: "VerifyWebhookSignature (crypto_lib env) (webhookSecret env) raw h (clock env (tick w)) = Inr ()"
    using assms(1) by (simp only: VerifyWebhookSignature_signed)
  have rec: "reapwebhookevent_Record env i ty raw (w\<lparr>tick := Suc (tick w)\<rparr>) = (Inr True, ?w1)"
    using assms(3,4) by (simp add: reapwebhookevent_Record_def andThen_def db_exec_def sql_event_insert_def)
  obtain w2 where "notifyVault env ty p ?w1 = (Inr (), w2)"
    using notifyVault_total [of env ty p ?w1] by (metis prod.collapse)
  then show ?thesis
    using v rec assms(2) by (simp add: HandleEvent_def andThen_def time_now_def)
qed

text \<open>
  C21. A signed delivery with a new event ID, about a card, an account or a REAP user recorded for a vault
  with a recorded chain code, is acknowledged, recorded with its type and body, and queues that vault's
  notification, when the database and the queue answer and notifications are configured.
\<close>

theorem owned_event_notifies:
  assumes "webhook_signed (crypto_lib env) (webhookSecret env) raw h (clock env (tick w))"
    and "envelope raw = Some (i, ty, p)" and "map_of (webhook_events (wdb w)) i = None"
    and "vault_of_event (wdb w) ty p pk" and "pk \<noteq> []" and "chain_code_of (wdb w) pk = Some cc" and "cc \<noteq> []"
    and "db_ok (wdb w)" and "notifications env"
    and "\<forall>n. tick w < n \<and> n \<le> tick w + 3 \<longrightarrow> db_fault env n = NoFault"
    and "\<forall>t. enqueue_ok env (tick w + 4) t"
  shows "\<exists>w' r. HandleEvent env raw h w = (Inr (), w')
     \<and> tasks w' = tasks w @ [json_notification (vault_request env pk cc ty p)]
     \<and> map_of (webhook_events (wdb w')) i = Some r \<and> e_type r = ty \<and> e_payload r = raw"
proof -
  define r where "r = \<lparr>e_type = ty, e_payload = raw, e_received_at = clock env (Suc (tick w))\<rparr>"
  define w1 where "w1 = w\<lparr>tick := tick w + 2,
    wdb := (wdb w)\<lparr>webhook_events := table_insert i r (webhook_events (wdb w))\<rparr>\<rparr>"
  have f: "db_fault env (Suc (tick w)) = NoFault" using assms(10) by simp
  have run: "HandleEvent env raw h w = (Inr (), snd (notifyVault env ty p w1))"
    using HandleEvent_fresh [OF assms(1-3) f] unfolding w1_def r_def .
  have "db_ok (wdb w1)" using assms(3,8) by (simp add: w1_def db_ok_def table_ok_insert)
  moreover have "\<forall>n. tick w1 \<le> n \<and> n \<le> tick w1 + 1 \<longrightarrow> db_fault env n = NoFault"
    using assms(10) by (simp add: w1_def)
  moreover have "\<forall>t. enqueue_ok env (tick w1 + 2) t" using assms(11) by (simp add: w1_def eval_nat_numeral)
  ultimately have "tasks (snd (notifyVault env ty p w1)) = tasks w @ [json_notification (vault_request env pk cc ty p)]"
    using notifyVault_runs [of env w1 ty p pk cc] assms(4-7,9) by (simp add: w1_def)
  moreover have "wdb (snd (notifyVault env ty p w1)) = wdb w1"
    using notifyVault_frames(3) [of w1 env ty p] by (simp add: keeps_db_def)
  ultimately show ?thesis using run
    by (intro exI [of _ "snd (notifyVault env ty p w1)"] exI [of _ r]) (simp add: w1_def r_def map_of_table_insert assms(3))
qed

text \<open>A delivery about the sample vault's card.\<close>

definition sample_event :: string where
  "sample_event = ''{\"id\":\"e1\",\"type\":\"CARD_STATUS_UPDATED\",\"data\":{\"id\":\"c\"}}''"

definition sample_signed :: string where
  "sample_signed = webhook_header sample_crypto ''ws'' sample_event 0"

lemma sample_envelope: "envelope sample_event = Some (''e1'', ''CARD_STATUS_UPDATED'', ''{\"id\":\"c\"}'')"
  by code_simp

lemma sample_subject: "vault_of_event sample_db ''CARD_STATUS_UPDATED'' ''{\"id\":\"c\"}'' ''pk''"
proof -
  have "eventSubjectIDs ''CARD_STATUS_UPDATED'' ''{\"id\":\"c\"}'' = (''c'', [], [])" by code_simp
  then show ?thesis by (simp add: vault_of_event_def)
qed

lemma sample_event_signed: "webhook_signed sample_crypto ''ws'' sample_event sample_signed 1000000"
  unfolding VerifyWebhookSignature_signed [symmetric] sample_signed_def
  by (rule VerifyWebhookSignature_roundtrip)
    (simp_all add: in_int64_def int64_min_def int64_max_def webhookTimestampTolerance_def)

definition sample_task :: string where
  "sample_task = json_notification
     (vault_request sample_env ''pk'' ''cc'' ''CARD_STATUS_UPDATED'' ''{\"id\":\"c\"}'')"

theorem owned_event_notifies_witness:
  "\<exists>w'. HandleEvent sample_env sample_event sample_signed sample_world = (Inr (), w')
     \<and> tasks w' = [sample_task]"
proof -
  have "\<exists>w' r. HandleEvent sample_env sample_event sample_signed sample_world = (Inr (), w')
     \<and> tasks w' = tasks sample_world @ [json_notification (vault_request sample_env ''pk'' ''cc''
         ''CARD_STATUS_UPDATED'' ''{\"id\":\"c\"}'')]
     \<and> map_of (webhook_events (wdb w')) ''e1'' = Some r \<and> e_type r = ''CARD_STATUS_UPDATED'' \<and> e_payload r = sample_event"
    by (rule owned_event_notifies)
      (simp_all add: sample_event_signed sample_envelope sample_subject sample_db_ok,
       simp_all add: sample_db_def empty_db_def)
  then show ?thesis by (auto simp: sample_task_def)
qed

lemma sample_delivered:
  "\<exists>w'. HandleEvent sample_env sample_event sample_signed sample_world = (Inr (), w')"
  using HandleEvent_fresh [OF _ sample_envelope, of sample_env sample_signed sample_world]
  by (auto simp: sample_event_signed sample_db_def empty_db_def)

theorem redelivery_ignored_witness:
  "\<exists>w'. HandleEvent sample_env sample_event sample_signed sample_world = (Inr (), w')
     \<and> tasks (snd (HandleEvent sample_env sample_event sample_signed w')) = tasks w'"
proof -
  obtain w' where run: "HandleEvent sample_env sample_event sample_signed sample_world = (Inr (), w')"
    using sample_delivered by blast
  from redelivery_ignored [OF run evolves_refl sample_envelope sample_envelope] run show ?thesis by blast
qed

theorem notification_to_owner_only_witness:
  "tasks (snd (HandleEvent sample_env sample_event sample_signed sample_world)) = []
     \<or> (\<exists>ty p task. notified sample_env sample_db ty p task
          \<and> tasks (snd (HandleEvent sample_env sample_event sample_signed sample_world)) = [task])"
  using notification_to_owner_only [of sample_world sample_env sample_event sample_signed] sample_db_ok
  by auto

end
