(* ===== verification/Base58_Loops.thy ===== *)
theory Base58_Loops
  imports Vaultkey "HOL-Library.While_Combinator"
begin

text \<open>
  The loops of \<open>base58Encode\<close> (\<open>cmd/vaultkey\<close>) as the loops they are: \<open>while_option\<close> runs a loop on its
  state and is None where it does not end. Both end, and compute \<open>base58Encode\<close>.
\<close>

section \<open>The loops\<close>

definition divmod_loop :: "nat \<times> string \<Rightarrow> (nat \<times> string) option" where
  \<comment> \<open>\<open>for x.Sign() > 0\<close>, on \<open>x\<close> and \<open>out\<close>\<close>
  "divmod_loop = while_option (\<lambda>(x, out). x > 0)
     (\<lambda>(x, out). (x div 58, out @ [base58Alphabet ! (x mod 58)]))"

definition reverse_loop :: "int \<times> int \<times> string \<Rightarrow> (int \<times> int \<times> string) option" where
  \<comment> \<open>\<open>for i, j := 0, len(out)-1; i < j; i, j = i+1, j-1\<close>, on \<open>i\<close>, \<open>j\<close> and \<open>out\<close>\<close>
  "reverse_loop = while_option (\<lambda>(i, j, out). i < j)
     (\<lambda>(i, j, out). (i + 1, j - 1, out[nat i := out ! nat j, nat j := out ! nat i]))"

definition base58Encode_loops :: "string \<Rightarrow> string option" where
  \<comment> \<open>None if a loop does not end\<close>
  "base58Encode_loops input =
     Option.bind (divmod_loop (SetBytes input, [])) (\<lambda>(x, out).
       let out = out @ map (\<lambda>_. base58Alphabet ! 0) (takeWhile (\<lambda>b. byte b = 0) input) in
       map_option (\<lambda>(i, j, out). out) (reverse_loop (0, int (length out) - 1, out)))"

section \<open>The digits\<close>

lemma divmod_loop_unfold:
  "divmod_loop (x, out) = (if x > 0 then divmod_loop (x div 58, out @ [base58Alphabet ! (x mod 58)]) else Some (x, out))"
  unfolding divmod_loop_def by (subst while_option_unfold) simp

lemma divmod_loop_digits: "divmod_loop (x, out) = Some (0, out @ base58_digits x)"
proof (induction x arbitrary: out rule: base58_digits.induct)
  case (1 x)
  then show ?case by (simp add: divmod_loop_unfold [of x] base58_digits.simps [of x])
qed

text \<open>A turn of the loop makes one digit, and two digits are worth more than a byte.\<close>

lemma base58_digits_length: "n < 256 ^ k \<Longrightarrow> length (base58_digits n) \<le> 2 * k"
proof (induction k arbitrary: n)
  case 0
  then show ?case by (simp add: base58_digits.simps)
next
  case (Suc k)
  have "n div 58 div 58 < 256 ^ k"
    unfolding div_mult2_eq [symmetric] by (rule less_mult_imp_div_less) (use Suc.prems in simp)
  from Suc.IH [OF this] show ?case
    using base58_digits.simps [of n] base58_digits.simps [of "n div 58"] by (simp split: if_splits)
qed

lemma SetBytes_less: "SetBytes s < 256 ^ length s"
proof (induction s rule: rev_induct)
  case (snoc c s)
  have "b < 256 \<Longrightarrow> x < p \<Longrightarrow> 256 * x + b < 256 * p" for b x p :: nat by linarith
  from this [of "byte c"] snoc show ?case by (simp add: SetBytes_snoc)
qed (simp add: SetBytes_def)

lemma base58_turns: "length (base58_digits (SetBytes s)) \<le> 2 * length s"
  by (rule base58_digits_length [OF SetBytes_less])

section \<open>The reversal\<close>

lemma reverse_loop_unfold:
  "reverse_loop (i, j, out) = (if i < j
     then reverse_loop (i + 1, j - 1, out[nat i := out ! nat j, nat j := out ! nat i]) else Some (i, j, out))"
  unfolding reverse_loop_def by (subst while_option_unfold) simp

lemma swap_ends: "(a @ x # m @ y # b)[length a := y, length a + Suc (length m) := x] = (a @ [y]) @ m @ (x # b)"
  by (simp add: list_update_append)

lemma reverse_loop_rev:
  "length a = length b \<Longrightarrow> \<exists>i j. reverse_loop (int (length a), int (length a) + int (length m) - 1, a @ m @ b)
     = Some (i, j, a @ rev m @ b)"
proof (induction m arbitrary: a b rule: length_induct)
  case (1 m)
  show ?case
  proof (cases "length m < 2")
    case True
    then show ?thesis by (cases m) (auto simp: reverse_loop_unfold)
  next
    case False
    then obtain x m' where m': "m = x # m'" "m' \<noteq> []" by (cases m) auto
    then obtain m0 y where m: "m = x # m0 @ [y]" using rev_exhaust [of m'] by auto
    let ?n = "int (length a)" and ?e = "length a + Suc (length m0)"
    have e: "nat (?n + int (length m) - 1) = ?e" "nat (1 + (?n + int (length m0))) = ?e" by (simp_all add: m)
    have at: "(a @ m @ b) ! length a = x" "(a @ m @ b) ! ?e = y" by (simp_all add: m nth_append)
    have "reverse_loop (?n, ?n + int (length m) - 1, a @ m @ b)
        = reverse_loop (?n + 1, ?n + int (length m) - 1 - 1, (a @ [y]) @ m0 @ (x # b))"
      using swap_ends [of a x m0 y b] at
      by (subst reverse_loop_unfold) (simp add: e m)
    also have "\<dots> = reverse_loop (int (length (a @ [y])), int (length (a @ [y])) + int (length m0) - 1,
        (a @ [y]) @ m0 @ (x # b))"
      by (simp add: m algebra_simps)
    finally show ?thesis using 1(1) [rule_format, of m0 "a @ [y]" "x # b"] 1(2) by (simp add: m)
  qed
qed

lemma reverse_loop_whole: "\<exists>i j. reverse_loop (0, int (length out) - 1, out) = Some (i, j, rev out)"
  using reverse_loop_rev [of "[]" "[]" out] by simp

lemma base58Encode_loops_eq: "base58Encode_loops s = Some (base58Encode s)"
proof -
  let ?out = "base58_digits (SetBytes s) @ map (\<lambda>_. base58Alphabet ! 0) (takeWhile (\<lambda>b. byte b = 0) s)"
  obtain i j where "reverse_loop (0, int (length ?out) - 1, ?out) = Some (i, j, rev ?out)"
    using reverse_loop_whole by blast
  then show ?thesis
    by (simp add: base58Encode_loops_def divmod_loop_digits Let_def base58Encode_def del: length_append)
qed

end
