(* ===== verification/Properties_Keys.thy ===== *)
theory Properties_Keys
  imports Properties_Events Base58_Loops
begin

text \<open>
  The two derivations of BIP32, and a vault made by the command logging in to the server.
\<close>

section \<open>Derivation\<close>

definition sample_root :: ExtendedPrivateKey where
  "sample_root = \<lparr>xp_Priv = 5, xp_ChainCode = replicate 32 CHR ''h''\<rparr>"

lemma sample_priv_child:
  assumes "0 \<le> k" and "k < 1000" and "i < HardenedOffset"
  shows "ExtendedPrivateKey_Child sample_crypto \<lparr>xp_Priv = k, xp_ChainCode = cc\<rparr> i
     = Inr \<lparr>xp_Priv = k + 3, xp_ChainCode = replicate 32 CHR ''h''\<rparr>"
proof -
  have "copy32 (drop 32 (replicate 64 CHR ''h'')) = replicate 32 CHR ''h''" by (simp add: copy32_def)
  then show ?thesis using assms
    by (simp add: ExtendedPrivateKey_Child_def sample_crypto_def Let_def)
qed

lemma sample_derived:
  "ExtendedPrivateKey_DerivePath sample_crypto sample_root ETHPath
     = Inr \<lparr>xp_Priv = 20, xp_ChainCode = replicate 32 CHR ''h''\<rparr>"
  by (simp add: sample_root_def ETHPath_def sample_priv_child HardenedOffset_def del: replicate.simps)

text \<open>
  C29. Where private derivation along a path gives a key, public derivation along it from the public
  counterpart gives that key's public counterpart, chain code included: the watch-only derivation the
  server verifies with names the key the vault signs with.
\<close>

theorem derivations_agree:
  assumes "curve_laws C" and "is_scalar C (xp_Priv k)" and "ExtendedPrivateKey_DerivePath C k path = Inr k'"
  shows "ExtendedPublicKey_DerivePath C (neuter C k) path = Inr (neuter C k')"
  by (rule DerivePath_agree [OF assms])

theorem derivations_agree_witness:
  "ExtendedPublicKey_DerivePath sample_crypto (neuter sample_crypto sample_root) ETHPath
     = Inr (neuter sample_crypto \<lparr>xp_Priv = 20, xp_ChainCode = replicate 32 CHR ''h''\<rparr>)"
  by (rule derivations_agree [OF sample_curve_laws _ sample_derived])
    (simp add: is_scalar_def sample_root_def)

text \<open>
  The two disagree on a child key that is zero: private derivation refuses it, while public
  derivation returns the point at infinity as a public key.
\<close>

lemma public_child_at_infinity:
  assumes "curve_laws C" and "is_scalar C (xp_Priv k)" and "i < HardenedOffset"
    and "SetByteSlice C (take 32 (hmac_sha512 C (xp_ChainCode k)
           (AppendUint32 (SerializeCompressed C (PubKey C (xp_Priv k))) i))) = (il, False)"
    and "il \<noteq> 0" and "AddScalar C il (xp_Priv k) = 0"
  shows "(\<exists>e. ExtendedPrivateKey_Child C k i = Inl e)
     \<and> (\<exists>q. ExtendedPublicKey_Child C (neuter C k) i = Inr q \<and> xq_Pub q = ScalarBaseMult C 0)"
  using Child_pub_infinity [OF assms] by blast

section \<open>Logging in\<close>

definition printed_key :: "crypto \<Rightarrow> ExtendedPrivateKey \<Rightarrow> string" where
  "printed_key C root = hex_EncodeToString (SerializeCompressed C (PubKey C (xp_Priv root)))"

definition printed_chain_code :: "ExtendedPrivateKey \<Rightarrow> string" where
  "printed_chain_code root = hex_EncodeToString (xp_ChainCode root)"

text \<open>
  C28. For the vault of a mnemonic and passphrase, the signature the command makes of the vault's current
  nonce, sent with the public key and chain code it prints, gets an access token, when the packages keep their laws and the database and the
  random source answer.
\<close>

theorem vaultkey_logs_in:
  assumes "curve_laws (crypto_lib env)" and "ecdsa_laws (crypto_lib env) V"
    and "root = MasterFromSeed (crypto_lib env) (NewSeed V mnemonic passphrase)" and "xp_Priv root \<noteq> 0"
    and "ExtendedPrivateKey_DerivePath (crypto_lib env) root ETHPath = Inr eth"
    and "nonce_of (wdb w) (printed_key (crypto_lib env) root) = n" and "int4_param n"
    and "chain_code_of (wdb w) (printed_key (crypto_lib env) root)
           \<in> {None, Some (normalize_chain_code env (printed_chain_code root))}"
    and "\<forall>k. tick w \<le> k \<and> k \<le> tick w + 4 \<longrightarrow> db_fault env k = NoFault"
    and "rand_read env (tick w + 2) = Some b" and "map_of (vault_tokens (wdb w)) (hex_EncodeToString b) = None"
    and "\<forall>cl. jwt_sign (crypto_lib env) (jwtSecret env) cl \<noteq> None"
  shows "\<exists>tok w'. Authenticate env (printed_key (crypto_lib env) root) (printed_chain_code root) n
     (sign_nonce (crypto_lib env) V (xp_Priv eth) n) w = (Inr tok, w')"
proof -
  have "is_scalar (crypto_lib env) (xp_Priv root)" "length (xp_ChainCode root) = 32"
    using assms(1,3) by (simp_all add: MasterFromSeed_def Let_def curve_laws_def)
  then have "verifySignature (crypto_lib env) (printed_key (crypto_lib env) root) (printed_chain_code root) n
     (sign_nonce (crypto_lib env) V (xp_Priv eth) n)"
    unfolding printed_key_def printed_chain_code_def using assms(1,2,4,5) by (intro vault_signature_verifies)
  from Authenticate_runs [OF assms(6) this assms(7-11)] assms(12) show ?thesis by blast
qed

lemma sample_master: "sample_root = MasterFromSeed (crypto_lib sample_env) (NewSeed sample_lib ''words'' [])"
  by (simp add: sample_root_def MasterFromSeed_def sample_crypto_def copy32_def)

theorem vaultkey_logs_in_witness:
  "\<exists>tok w'. Authenticate sample_env (printed_key sample_crypto sample_root) (printed_chain_code sample_root) 0
     (sign_nonce sample_crypto sample_lib 20 0) init_world = (Inr tok, w')"
proof -
  have "\<exists>tok w'. Authenticate sample_env (printed_key (crypto_lib sample_env) sample_root) (printed_chain_code sample_root) 0
     (sign_nonce (crypto_lib sample_env) sample_lib (xp_Priv \<lparr>xp_Priv = 20, xp_ChainCode = replicate 32 CHR ''h''\<rparr>) 0)
     init_world = (Inr tok, w')"
    by (rule vaultkey_logs_in [OF _ _ sample_master])
      (simp_all add: sample_curve_laws sample_ecdsa_laws sample_derived sample_sign,
       simp_all add: sample_root_def is_scalar_def init_world_def empty_db_def nonce_of_def chain_code_of_def
        mapping_of_def int4_param_def int4_max_def)
  then show ?thesis by simp
qed

section \<open>Base58\<close>

text \<open>
  C30. The loops of \<open>base58Encode\<close> end on every input, the one over the number after at most two turns for
  each byte, each making one digit; what they leave is the encoding, from which the input can be read back,
  leading zero bytes included.
\<close>

theorem base58_terminates:
  "base58Encode_loops s = Some (base58Encode s)
   \<and> (\<exists>out. divmod_loop (SetBytes s, []) = Some (0, out) \<and> length out \<le> 2 * length s)
   \<and> base58Decode (base58Encode s) = Some s"
  using base58_turns by (simp add: base58Encode_loops_eq divmod_loop_digits base58Decode_Encode)

end
