(* ===== verification/Properties_Wire.thy ===== *)
theory Properties_Wire
  imports Properties_Keys Json_Fuel
begin

text \<open>
  What goes over the wire: the paths of the requests to REAP and the tags of their metrics.
\<close>

section \<open>Templates\<close>

text \<open>
  The format of a path is the join of its segments; a segment is a verb or literal text, and each verb
  takes the next ID.
\<close>

definition template_ok :: "string list \<Rightarrow> bool" where
  "template_ok ts \<longleftrightarrow> ts \<noteq> []
     \<and> list_all (\<lambda>t. t = ''%s'' \<or> CHR ''%'' \<notin> set t \<and> CHR ''/'' \<notin> set t \<and> CHR ''?'' \<notin> set t) ts"

definition verbs :: "string list \<Rightarrow> nat" where
  "verbs ts = length (filter (\<lambda>t. t = ''%s'') ts)"

fun fill :: "string list \<Rightarrow> string list \<Rightarrow> string list" where
  "fill [] ids = []"
| "fill (t # ts) ids =
     (if t = ''%s'' then (case ids of [] \<Rightarrow> t # ts | i # us \<Rightarrow> i # fill ts us) else t # fill ts ids)"

definition read_ids :: "string list \<Rightarrow> string \<Rightarrow> string option list" where
  \<comment> \<open>the receiver's reading of a path against a template\<close>
  "read_ids ts path = map (\<lambda>p. PathUnescape (snd p)) (filter (\<lambda>p. fst p = ''%s'') (zip ts (Split path CHR ''/'')))"

lemma Sprintf_Nil: "Sprintf [] [] = []"
  by (simp add: Sprintf.simps)

lemma Sprintf_text: "CHR ''%'' \<notin> set t \<Longrightarrow> Sprintf (t @ f) args = t @ Sprintf f args"
proof (induction t)
  case (Cons c t)
  then show ?case by (subst append_Cons, subst Sprintf.simps) auto
qed simp

lemma Sprintf_verb: "Sprintf (''%s'' @ f) (a # as) = a @ Sprintf f as"
  by (subst Sprintf.simps) simp

lemma Sprintf_template:
  assumes "template_ok ts" and "verbs ts = length ids"
  shows "Sprintf (Join ts ''/'') ids = Join (fill ts ids) ''/''"
  using assms
proof (induction ts arbitrary: ids)
  case Nil
  then show ?case by (simp add: template_ok_def)
next
  case (Cons t ts)
  show ?case
  proof (cases "ts = []")
    case True
    then show ?thesis using Cons.prems Sprintf_text [of t "[]" "[]"] Sprintf_verb [of "[]"]
      by (cases ids) (auto simp: template_ok_def verbs_def Sprintf_Nil split: if_splits)
  next
    case False
    then have ok: "template_ok ts" using Cons.prems by (simp add: template_ok_def)
    have ne: "fill ts xs \<noteq> []" for xs using False by (cases ts) (auto split: list.splits)
    show ?thesis
    proof (cases "t = ''%s''")
      case True
      then obtain i us where "ids = i # us" "verbs ts = length us"
        using Cons.prems(2) by (cases ids) (auto simp: verbs_def)
      then show ?thesis
        using Cons.IH [OF ok] False True ne Sprintf_text [of "''/''"] Sprintf_verb [of "''/'' @ Join ts ''/''" i us]
        by (simp add: Join_Cons)
    next
      case nv: False
      then have "CHR ''%'' \<notin> set t" "verbs ts = length ids"
        using Cons.prems by (simp_all add: template_ok_def verbs_def)
      then show ?thesis
        using Cons.IH [OF ok] False nv ne Sprintf_text [of "''/''"] Sprintf_text [of t]
        by (simp add: Join_Cons)
    qed
  qed
qed

lemma Split_Join:
  "xs \<noteq> [] \<Longrightarrow> list_all (\<lambda>x. c \<notin> set x) xs \<Longrightarrow> Split (Join xs [c]) c = xs"
proof (induction xs)
  case (Cons x xs)
  then show ?case by (cases "xs = []") (simp_all add: Split_none Join_Cons Split_append_no_sep)
qed simp

lemma fill_spec:
  assumes "template_ok ts" and "verbs ts = length ids"
  shows "length (fill ts ids) = length ts"
    and "map snd (filter (\<lambda>p. fst p = ''%s'') (zip ts (fill ts ids))) = ids"
    and "list_all (\<lambda>x. c \<notin> set x) ids \<Longrightarrow> c \<in> {CHR ''/'', CHR ''?''} \<Longrightarrow> list_all (\<lambda>x. c \<notin> set x) (fill ts ids)"
proof -
  have "list_all (\<lambda>t. t = ''%s'' \<or> CHR ''%'' \<notin> set t \<and> CHR ''/'' \<notin> set t \<and> CHR ''?'' \<notin> set t) ts"
    using assms(1) by (simp add: template_ok_def)
  then have "length (fill ts ids) = length ts \<and> map snd (filter (\<lambda>p. fst p = ''%s'') (zip ts (fill ts ids))) = ids
     \<and> (list_all (\<lambda>x. c \<notin> set x) ids \<and> c \<in> {CHR ''/'', CHR ''?''} \<longrightarrow> list_all (\<lambda>x. c \<notin> set x) (fill ts ids))"
    using assms(2)
  proof (induction ts arbitrary: ids)
    case (Cons t ts)
    show ?case
    proof (cases "t = ''%s''")
      case True
      then obtain i us where "ids = i # us" "verbs ts = length us"
        using Cons.prems(2) by (cases ids) (auto simp: verbs_def)
      then show ?thesis using Cons.IH [of us] Cons.prems(1) True by simp
    next
      case False
      then show ?thesis using Cons.IH [of ids] Cons.prems by (auto simp: verbs_def)
    qed
  qed (simp add: verbs_def)
  then show "length (fill ts ids) = length ts"
    "map snd (filter (\<lambda>p. fst p = ''%s'') (zip ts (fill ts ids))) = ids"
    "list_all (\<lambda>x. c \<notin> set x) ids \<Longrightarrow> c \<in> {CHR ''/'', CHR ''?''} \<Longrightarrow> list_all (\<lambda>x. c \<notin> set x) (fill ts ids)"
    by blast+
qed

lemma pathf_segments:
  assumes "template_ok ts" and "verbs ts = length ids"
  shows "Split (pathf (Join ts ''/'') ids) CHR ''/'' = fill ts (map PathEscape ids)"
proof -
  have v: "verbs ts = length (map PathEscape ids)" using assms(2) by simp
  have "list_all (\<lambda>x. CHR ''/'' \<notin> set x) (map PathEscape ids)"
    by (simp add: list_all_iff PathEscape_no_sep)
  moreover have "fill ts (map PathEscape ids) \<noteq> []"
    using fill_spec(1) [OF assms(1) v] assms(1) by (auto simp: template_ok_def)
  ultimately show ?thesis
    using Split_Join [OF _ fill_spec(3) [OF assms(1) v]] by (simp add: pathf_def Sprintf_template [OF assms(1) v])
qed

lemma path_no_query:
  assumes "template_ok ts" and "verbs ts = length ids"
  shows "CHR ''?'' \<notin> set (pathf (Join ts ''/'') ids)"
proof -
  have v: "verbs ts = length (map PathEscape ids)" using assms(2) by simp
  have "list_all (\<lambda>x. CHR ''?'' \<notin> set x) (map PathEscape ids)"
    by (simp add: list_all_iff PathEscape_no_sep)
  then have "list_all (\<lambda>x. CHR ''?'' \<notin> set x) (fill ts (map PathEscape ids))"
    using fill_spec(3) [OF assms(1) v] by simp
  moreover have "CHR ''?'' \<notin> set (Join xs ''/'')" if "list_all (\<lambda>x. CHR ''?'' \<notin> set x) xs" for xs
    using that by (induction xs "''/''" rule: Join.induct) auto
  ultimately show ?thesis by (simp add: pathf_def Sprintf_template [OF assms(1) v])
qed

text \<open>
  C34. A path built from a template and any IDs, whatever is in them, has the template's segments and no
  others, and reading it against the template gives back exactly those IDs: an ID cannot add a segment,
  or end the path, or stand for another ID.
\<close>

theorem path_ids_roundtrip:
  assumes "template_ok ts" and "verbs ts = length ids"
  shows "read_ids ts (pathf (Join ts ''/'') ids) = map Some ids
     \<and> length (Split (pathf (Join ts ''/'') ids) CHR ''/'') = length ts
     \<and> CHR ''?'' \<notin> set (pathf (Join ts ''/'') ids)"
proof -
  have v: "verbs ts = length (map PathEscape ids)" using assms(2) by simp
  note F = fill_spec [OF assms(1) v]
  have "map PathUnescape (map PathEscape ids) = map Some ids" by (simp add: PathUnescape_PathEscape)
  then have "read_ids ts (pathf (Join ts ''/'') ids) = map Some ids"
    using arg_cong [OF F(2), of "map PathUnescape"]
    by (simp add: read_ids_def pathf_segments [OF assms] comp_def)
  then show ?thesis using F(1) path_no_query [OF assms] by (simp add: pathf_segments [OF assms])
qed

theorem path_ids_roundtrip_witness:
  "read_ids [[], ''card-shipments'', ''%s'', ''cards'', ''%s''] (pathf ''/card-shipments/%s/cards/%s'' [''a/../b?'', ''c''])
     = [Some ''a/../b?'', Some ''c'']"
  using path_ids_roundtrip [of "[[], ''card-shipments'', ''%s'', ''cards'', ''%s'']" "[''a/../b?'', ''c'']"]
  by (simp add: template_ok_def verbs_def)

text \<open>
  An ID of two periods goes out as it is: the request for that card design has the path of the
  parent of the designs, for a receiver that resolves dot segments.
\<close>

lemma dot_segment_unescaped:
  "sent (snd (CardDesignService_GetCardDesign env ''..'' w))
     = sent w @ [reap_request env ''GET'' ''/card-designs/..'' None id]"
proof -
  have "pathf ''/card-designs/%s'' [''..''] = ''/card-designs/..''" by code_simp
  then show ?thesis
    using Client_do_run(1) [of env "''GET''" "''/card-designs/..''" None id w]
    by (simp add: CardDesignService_GetCardDesign_def Client_GetCardDesign_def prod_eq_iff)
qed

section \<open>Metric tags\<close>

definition id_like :: "string \<Rightarrow> bool" where
  \<comment> \<open>an ID of the kind REAP gives out: it has a digit, outside of \<open>3ds\<close>\<close>
  "id_like i \<longleftrightarrow> ContainsAny (RemoveAll (PathEscape i) ''3ds'') ''0123456789''"

definition static_segment :: "string \<Rightarrow> bool" where
  "static_segment t \<longleftrightarrow> \<not> ContainsAny (RemoveAll t ''3ds'') ''0123456789''"

definition metric_segment :: "string \<Rightarrow> string" where
  "metric_segment seg = (if ContainsAny (RemoveAll seg ''3ds'') ''0123456789'' then '':id'' else seg)"

lemma metricPath_segments: "metricPath path = Join (map metric_segment (Split (fst (Cut path CHR ''?'')) CHR ''/'')) ''/''"
  by (simp add: metricPath_def metric_segment_def [abs_def] Let_def)

lemma fill_metric:
  assumes "list_all static_segment ts" and "list_all id_like ids" and "verbs ts = length ids"
  shows "map metric_segment (fill ts (map PathEscape ids)) = map (\<lambda>t. if t = ''%s'' then '':id'' else t) ts"
  using assms
proof (induction ts arbitrary: ids)
  case (Cons t ts)
  show ?case
  proof (cases "t = ''%s''")
    case True
    then obtain i us where "ids = i # us" "verbs ts = length us"
      using Cons.prems(3) by (cases ids) (auto simp: verbs_def)
    then show ?thesis using Cons.IH [of us] Cons.prems True by (simp add: metric_segment_def id_like_def)
  next
    case False
    then show ?thesis using Cons.IH [of ids] Cons.prems by (simp add: verbs_def metric_segment_def static_segment_def)
  qed
qed simp

text \<open>
  The path tag of a request's metrics is its route, with \<open>:id\<close> for every ID and no query: it takes
  one value for each template, whatever the IDs and the query, when the IDs have digits as REAP's do.
\<close>

lemma metric_tag_of_route:
  assumes "template_ok ts" and "verbs ts = length ids"
    and "list_all static_segment ts" and "list_all id_like ids"
  shows "metricPath (pathf (Join ts ''/'') ids) = Join (map (\<lambda>t. if t = ''%s'' then '':id'' else t) ts) ''/''
     \<and> metricPath (pathf (Join ts ''/'') ids @ CHR ''?'' # query)
         = Join (map (\<lambda>t. if t = ''%s'' then '':id'' else t) ts) ''/''"
proof -
  have q: "CHR ''?'' \<notin> set (pathf (Join ts ''/'') ids)" using path_no_query [OF assms(1,2)] .
  show ?thesis
    using q by (simp add: metricPath_segments Cut_none Cut_found pathf_segments [OF assms(1,2)] fill_metric [OF assms(3,4,2)])
qed

lemma metric_tag_of_route_witness:
  "metricPath (pathf ''/cards/%s/freeze'' [''c1'']) = ''/cards/:id/freeze''"
proof -
  have "list_all static_segment [[], ''cards'', ''%s'', ''freeze'']" "list_all id_like [''c1'']" by code_simp+
  from metric_tag_of_route [OF _ _ this] show ?thesis by (simp add: template_ok_def verbs_def)
qed

end
