(* ===== verification/Ledger.thy ===== *)
theory Ledger
  imports Interleaving
begin

text \<open>
  What the stores promise together, as a machine without tables, rows, times or SQL: a ledger of the
  vaults' nonces, chain codes and REAP users, of the owners of cards and accounts, of the tokens given
  out and of the events seen. It has seven moves, each allowed only when nothing is taken back. The
  statements of any number of concurrent requests are shown to refine it.
\<close>

section \<open>Simulation\<close>

text \<open>
  A concrete system simulates an abstract one along an abstraction, under an invariant: each of its steps
  is an abstract step or changes nothing that the abstraction shows.
\<close>

locale simulation = conc: invariant_system cinit cstep inv
  for cinit :: "'c \<Rightarrow> bool" and cstep :: "'c \<Rightarrow> 'c \<Rightarrow> bool" and inv :: "'c \<Rightarrow> bool" +
  fixes ainit :: "'a \<Rightarrow> bool"
    and astep :: "'a \<Rightarrow> 'a \<Rightarrow> bool"
    and absf :: "'c \<Rightarrow> 'a"
  assumes sim_init: "cinit s \<Longrightarrow> ainit (absf s)"
    and sim_step: "inv s \<Longrightarrow> cstep s t \<Longrightarrow> absf t = absf s \<or> astep (absf s) (absf t)"
begin

lemma reachable_abs: "reachable cinit cstep s \<Longrightarrow> reachable ainit astep (absf s)"
proof (induction rule: reachable.induct)
  case (reachable_init s)
  then show ?case by (blast intro: reachable.reachable_init sim_init)
next
  case (reachable_step s t)
  have "inv s" using reachable_step.hyps(1) by (rule conc.reachable_inv)
  then show ?case using sim_step [of s t] reachable_step by (metis reachable.reachable_step)
qed

text \<open>An invariant of the abstract system is one of the concrete system.\<close>

lemma abs_invariant:
  assumes "\<And>a. ainit a \<Longrightarrow> P a" and "\<And>a b. P a \<Longrightarrow> astep a b \<Longrightarrow> P b" and "reachable cinit cstep s"
  shows "P (absf s)"
  using reachable_abs [OF assms(3)] assms(1,2) by (induction rule: reachable.induct) blast+

end

section \<open>The ledger\<close>

record ledger =
  lg_nonce :: "string \<Rightarrow> int"
  lg_chain :: "string \<Rightarrow> string option"
  lg_user :: "string \<Rightarrow> string option"
  lg_card :: "string \<Rightarrow> string option"
  lg_account :: "string \<Rightarrow> string option"
  lg_user_card :: "string \<Rightarrow> string option"
  lg_token :: "string \<Rightarrow> (string \<times> int) option"  \<comment> \<open>the vault and the expiry\<close>
  lg_event :: "string \<Rightarrow> (string \<times> string) option"  \<comment> \<open>the type and the body\<close>

definition ledger_start :: "ledger \<Rightarrow> bool" where
  "ledger_start l \<longleftrightarrow> l = \<lparr>lg_nonce = (\<lambda>_. 0), lg_chain = Map.empty, lg_user = Map.empty, lg_card = Map.empty,
     lg_account = Map.empty, lg_user_card = Map.empty, lg_token = Map.empty, lg_event = Map.empty\<rparr>"

inductive ledger_step :: "ledger \<Rightarrow> ledger \<Rightarrow> bool" where
  spend: "lg_nonce l pk < int4_max \<Longrightarrow> lg_chain l pk \<in> {None, Some cc} \<Longrightarrow>
    ledger_step l (l\<lparr>lg_nonce := (lg_nonce l)(pk := lg_nonce l pk + 1), lg_chain := (lg_chain l)(pk \<mapsto> cc)\<rparr>)"
| assign: "lg_user l pk = None \<Longrightarrow> \<forall>q. lg_user l q \<noteq> Some u \<Longrightarrow>
    ledger_step l (l\<lparr>lg_user := (lg_user l)(pk \<mapsto> u)\<rparr>)"
| own_card: "lg_card l c = None \<Longrightarrow> ledger_step l (l\<lparr>lg_card := (lg_card l)(c \<mapsto> pk)\<rparr>)"
| own_account: "lg_account l a = None \<Longrightarrow> ledger_step l (l\<lparr>lg_account := (lg_account l)(a \<mapsto> pk)\<rparr>)"
| own_user_card: "lg_user_card l c = None \<Longrightarrow> ledger_step l (l\<lparr>lg_user_card := (lg_user_card l)(c \<mapsto> u)\<rparr>)"
| issue: "lg_token l i = None \<Longrightarrow> ledger_step l (l\<lparr>lg_token := (lg_token l)(i \<mapsto> (pk, e))\<rparr>)"
| learn: "lg_event l i = None \<Longrightarrow> ledger_step l (l\<lparr>lg_event := (lg_event l)(i \<mapsto> (ty, body))\<rparr>)"

inductive_cases ledger_stepE: "ledger_step l l'"

abbreviation ledger_reachable :: "ledger \<Rightarrow> bool" where
  "ledger_reachable \<equiv> reachable ledger_start ledger_step"

text \<open>A ledger is below another when that one takes nothing of it back; every move goes up.\<close>

instantiation ledger_ext :: (type) preorder
begin

definition less_eq_ledger_ext :: "'a ledger_scheme \<Rightarrow> 'a ledger_scheme \<Rightarrow> bool" where
  "less_eq_ledger_ext l l' \<longleftrightarrow> lg_nonce l \<le> lg_nonce l' \<and> lg_chain l \<subseteq>\<^sub>m lg_chain l'
     \<and> lg_user l \<subseteq>\<^sub>m lg_user l' \<and> lg_card l \<subseteq>\<^sub>m lg_card l' \<and> lg_account l \<subseteq>\<^sub>m lg_account l'
     \<and> lg_user_card l \<subseteq>\<^sub>m lg_user_card l' \<and> lg_token l \<subseteq>\<^sub>m lg_token l' \<and> lg_event l \<subseteq>\<^sub>m lg_event l'"

definition less_ledger_ext :: "'a ledger_scheme \<Rightarrow> 'a ledger_scheme \<Rightarrow> bool" where
  "less_ledger_ext l l' \<longleftrightarrow> l \<le> l' \<and> \<not> l' \<le> l"

instance
  by standard (auto simp: less_eq_ledger_ext_def less_ledger_ext_def intro: order_trans map_le_trans)

end

lemma map_le_fresh: "m k = None \<Longrightarrow> m \<subseteq>\<^sub>m m(k \<mapsto> v)"
  by (auto simp: map_le_def)

lemma ledger_step_le: "ledger_step l l' \<Longrightarrow> l \<le> l'"
  by (erule ledger_stepE) (auto simp: less_eq_ledger_ext_def le_fun_def map_le_fresh, auto simp: map_le_def)

definition users_apart :: "ledger \<Rightarrow> bool" where
  \<comment> \<open>no two vaults have one REAP user\<close>
  "users_apart l \<longleftrightarrow> (\<forall>p q u. lg_user l p = Some u \<longrightarrow> lg_user l q = Some u \<longrightarrow> p = q)"

lemma users_apart_step: "users_apart l \<Longrightarrow> ledger_step l l' \<Longrightarrow> users_apart l'"
  by (erule ledger_stepE) (auto simp: users_apart_def)

definition ledger_of :: "db \<Rightarrow> ledger" where
  "ledger_of d = \<lparr>lg_nonce = nonce_of d, lg_chain = chain_code_of d, lg_user = reap_user_of d,
     lg_card = owner_in (card_ownership d), lg_account = owner_in (account_ownership d),
     lg_user_card = owner_in (user_card_ownership d),
     lg_token = (\<lambda>i. map_option (\<lambda>t. (t_public_key t, t_expires_at t)) (map_of (vault_tokens d) i)),
     lg_event = (\<lambda>i. map_option (\<lambda>r. (e_type r, e_payload r)) (map_of (webhook_events d) i))\<rparr>"

section \<open>The statements, with nonces that were read\<close>

text \<open>
  \<open>Authenticate\<close> claims a nonce only after it has read that nonce for the vault. A state is the database
  and the nonces read so far, by anyone.
\<close>

type_synonym session = "db \<times> (string \<times> int) set"

definition claim_was_read :: "db_call \<Rightarrow> (string \<times> int) set \<Rightarrow> bool" where
  "claim_was_read c S \<longleftrightarrow> (case c of Claim_nonce pk n cc \<Rightarrow> (pk, n) \<in> S | _ \<Rightarrow> True)"

inductive session_step :: "session \<Rightarrow> session \<Rightarrow> bool" where
  read_nonce: "session_step (d, S) (d, insert (pk, nonce_of d pk) S)"
| run_stmt: "claim_was_read c S \<Longrightarrow> call_stmt c now d = (r, d') \<Longrightarrow> session_step (d, S) (d', S)"

inductive_cases session_stepE: "session_step (d, S) t"

definition session_start :: "session \<Rightarrow> bool" where
  "session_start s \<longleftrightarrow> s = (empty_db, {})"

abbreviation session_reachable :: "session \<Rightarrow> bool" where
  "session_reachable \<equiv> reachable session_start session_step"

definition session_inv :: "session \<Rightarrow> bool" where
  "session_inv s \<longleftrightarrow> db_ok (fst s) \<and> (\<forall>pk. 0 \<le> nonce_of (fst s) pk \<and> nonce_of (fst s) pk \<le> int4_max)
     \<and> (\<forall>(pk, n) \<in> snd s. 0 \<le> n \<and> n \<le> nonce_of (fst s) pk)"

text \<open>What each statement does to the nonces.\<close>

lemma nonce_of_step:
  assumes "call_stmt c now d = (r, d')"
  shows "nonce_of d' pk = nonce_of d pk
     \<or> (\<exists>n cc. c = Claim_nonce pk n cc \<and> r = Inr 1 \<and> nonce_of d' pk = n + 1 \<and> int4_param n
          \<and> (mapping_of d pk = None \<or> nonce_of d pk = n))"
proof (cases c)
  case (Claim_nonce p n cc)
  then show ?thesis using assms
    by (auto simp: sql_claim_nonce_def nonce_of_def new_mapping_def mapping_updates split: if_splits option.splits)
next
  case (Claim_create p stale)
  then show ?thesis using assms
    by (auto simp: sql_claim_create_def nonce_of_def new_mapping_def mapping_updates split: if_splits option.splits)
next
  case (Release_create p)
  then show ?thesis using assms
    by (auto simp: sql_release_create_def counted_def nonce_of_def mapping_updates split: if_splits option.splits)
next
  case (Set_user p u)
  then show ?thesis using assms
    by (auto simp: sql_set_reap_user_def nonce_of_def new_mapping_def mapping_updates split: if_splits option.splits)
qed (use assms in \<open>auto simp: counted_def nonce_of_def mapping_of_def sql_token_insert_def
  sql_token_touch_def sql_card_insert_def sql_account_insert_def sql_user_card_insert_def
  sql_event_insert_def split: if_splits option.splits\<close>)

lemma session_nonces:
  assumes "session_inv (d, S)" and "claim_was_read c S" and "call_stmt c now d = (r, d')"
  shows "0 \<le> nonce_of d' pk \<and> nonce_of d' pk \<le> int4_max \<and> nonce_of d pk \<le> nonce_of d' pk"
  using nonce_of_step [OF assms(3), of pk]
proof
  assume "nonce_of d' pk = nonce_of d pk"
  then show ?thesis using assms(1) by (simp add: session_inv_def)
next
  assume "\<exists>n cc. c = Claim_nonce pk n cc \<and> r = Inr 1 \<and> nonce_of d' pk = n + 1 \<and> int4_param n
        \<and> (mapping_of d pk = None \<or> nonce_of d pk = n)"
  then obtain n cc where n: "c = Claim_nonce pk n cc" "nonce_of d' pk = n + 1" "int4_param n"
    "mapping_of d pk = None \<or> nonce_of d pk = n" by blast
  moreover have "0 \<le> n \<and> n \<le> nonce_of d pk"
    using n(1) assms(1,2) by (auto simp: claim_was_read_def session_inv_def)
  ultimately show ?thesis by (auto simp: int4_param_def nonce_of_def)
qed

lemma session_inv_step:
  assumes "session_inv (d, S)" and "session_step (d, S) t"
  shows "session_inv t"
  using assms(2)
proof (rule session_stepE)
  fix pk assume "t = (d, insert (pk, nonce_of d pk) S)"
  then show ?thesis using assms(1) by (auto simp: session_inv_def)
next
  fix c now r d'
  assume c: "t = (d', S)" "claim_was_read c S" "call_stmt c now d = (r, d')"
  have "db_ok d'" using assms(1) c(3) call_stmt_ok [of c] unfolding stmt_ok_def session_inv_def
    by (metis fst_conv snd_conv)
  then show ?thesis using assms(1) session_nonces [OF assms(1) c(2,3)] unfolding c(1) session_inv_def
    by (fastforce intro: order_trans)
qed

lemma nonce_of_empty [simp]: "nonce_of empty_db pk = 0"
  by (simp add: nonce_of_def mapping_of_def empty_db_def)

interpretation sessions: invariant_system session_start session_step session_inv
proof unfold_locales
  show "session_start s \<Longrightarrow> session_inv s" for s
    by (simp add: session_start_def session_inv_def db_ok_empty int4_max_def)
  show "session_inv s \<Longrightarrow> session_step s t \<Longrightarrow> session_inv t" for s t
    by (cases s) (blast intro: session_inv_step)
qed

section \<open>Every statement is a move of the ledger, or none\<close>

definition moves :: "db \<Rightarrow> db \<Rightarrow> bool" where
  "moves d d' \<longleftrightarrow> ledger_of d' = ledger_of d \<or> ledger_step (ledger_of d) (ledger_of d')"

lemma moves_refl [simp]: "moves d d"
  by (simp add: moves_def)

lemma ledger_of_mappings:
  "ledger_of (d\<lparr>mappings := m\<rparr>) = (ledger_of d)\<lparr>lg_nonce := nonce_of (d\<lparr>mappings := m\<rparr>),
     lg_chain := chain_code_of (d\<lparr>mappings := m\<rparr>), lg_user := reap_user_of (d\<lparr>mappings := m\<rparr>)\<rparr>"
  by (simp add: ledger_of_def)

lemma ledger_of_others:
  "ledger_of (d\<lparr>card_ownership := t\<rparr>) = (ledger_of d)\<lparr>lg_card := owner_in t\<rparr>"
  "ledger_of (d\<lparr>account_ownership := t\<rparr>) = (ledger_of d)\<lparr>lg_account := owner_in t\<rparr>"
  "ledger_of (d\<lparr>user_card_ownership := t\<rparr>) = (ledger_of d)\<lparr>lg_user_card := owner_in t\<rparr>"
  "ledger_of (d\<lparr>vault_tokens := k\<rparr>) = (ledger_of d)\<lparr>lg_token
     := (\<lambda>i. map_option (\<lambda>t. (t_public_key t, t_expires_at t)) (map_of k i))\<rparr>"
  "ledger_of (d\<lparr>webhook_events := e\<rparr>) = (ledger_of d)\<lparr>lg_event
     := (\<lambda>i. map_option (\<lambda>r. (e_type r, e_payload r)) (map_of e i))\<rparr>"
  by (auto simp: ledger_of_def nonce_of_def chain_code_of_def reap_user_of_def mapping_of_def fun_eq_iff)

lemma ledger_of_sel:
  "lg_nonce (ledger_of d) = nonce_of d" "lg_chain (ledger_of d) = chain_code_of d"
  "lg_user (ledger_of d) = reap_user_of d" "lg_card (ledger_of d) = owner_in (card_ownership d)"
  "lg_account (ledger_of d) = owner_in (account_ownership d)"
  "lg_user_card (ledger_of d) = owner_in (user_card_ownership d)"
  "lg_token (ledger_of d) = (\<lambda>i. map_option (\<lambda>t. (t_public_key t, t_expires_at t)) (map_of (vault_tokens d) i))"
  "lg_event (ledger_of d) = (\<lambda>i. map_option (\<lambda>r. (e_type r, e_payload r)) (map_of (webhook_events d) i))"
  by (simp_all add: ledger_of_def)

lemma owner_insert_new_fun:
  "owner_in (insert_new k r t) = (if owner_in t k = None then (owner_in t)(k \<mapsto> o_owner r) else owner_in t)"
  by (auto simp: fun_eq_iff owner_in_insert_new)

text \<open>The statements on a vault's row, by what they leave of the other rows and of this one.\<close>

lemma row_change:
  assumes "d' = d\<lparr>mappings := m\<rparr>" and "\<And>q. q \<noteq> pk \<Longrightarrow> mapping_of d' q = mapping_of d q"
  shows "ledger_of d' = (ledger_of d)\<lparr>lg_nonce := (nonce_of d)(pk := nonce_of d' pk),
     lg_chain := (chain_code_of d)(pk := chain_code_of d' pk), lg_user := (reap_user_of d)(pk := reap_user_of d' pk)\<rparr>"
proof -
  have "nonce_of d' = (nonce_of d)(pk := nonce_of d' pk)" "chain_code_of d' = (chain_code_of d)(pk := chain_code_of d' pk)"
    "reap_user_of d' = (reap_user_of d)(pk := reap_user_of d' pk)"
    using assms(2) by (auto simp: fun_eq_iff nonce_of_def chain_code_of_def reap_user_of_def)
  then show ?thesis using assms(1) by (simp add: ledger_of_mappings)
qed

lemma row_same:
  assumes "d' = d\<lparr>mappings := m\<rparr>" and "\<And>q. q \<noteq> pk \<Longrightarrow> mapping_of d' q = mapping_of d q"
    and "nonce_of d' pk = nonce_of d pk" and "chain_code_of d' pk = chain_code_of d pk"
    and "reap_user_of d' pk = reap_user_of d pk"
  shows "moves d d'"
  unfolding moves_def using row_change [OF assms(1,2)] assms(3-5)
  by (intro disjI1) (simp, simp add: ledger_of_def)

lemma claim_nonce_moves:
  assumes "sql_claim_nonce pk n cc now d = (r, d')" and "0 \<le> n" and "n \<le> nonce_of d pk"
  shows "moves d d'"
proof (cases "r = Inr 1")
  case False
  then show ?thesis using sql_claim_nonce_other [of pk n cc now d] assms(1) by simp
next
  case True
  note P = sql_claim_nonce_post [OF assms(1) [unfolded True]]
  have others: "q \<noteq> pk \<Longrightarrow> mapping_of d' q = mapping_of d q" for q by (rule P(4))
  have n: "nonce_of d pk = n" using P(5) assms(2,3) by (auto simp: nonce_of_def)
  obtain m where m: "d' = d\<lparr>mappings := m\<rparr>" and int: "int4_param n" and cc: "chain_code_of d pk \<in> {None, Some cc}"
    using assms(1) True by (auto simp: sql_claim_nonce_def chain_code_of_def split: if_splits option.splits)
  have "ledger_of d' = (ledger_of d)\<lparr>lg_nonce := (lg_nonce (ledger_of d))(pk := lg_nonce (ledger_of d) pk + 1),
      lg_chain := (lg_chain (ledger_of d))(pk \<mapsto> cc)\<rparr>"
    using row_change [OF m others] P(1-3) n by (simp add: ledger_of_sel)
  moreover have "ledger_step (ledger_of d) \<dots>"
    by (rule ledger_step.spend) (use int cc n in \<open>auto simp: ledger_of_sel int4_param_def\<close>)
  ultimately show ?thesis by (simp add: moves_def)
qed

lemma claim_create_moves: "sql_claim_create pk stale now d = (r, d') \<Longrightarrow> moves d d'"
  unfolding sql_claim_create_def
  by (auto split: option.splits if_splits
      intro!: row_same [OF refl, of pk] simp: mapping_updates nonce_of_def chain_code_of_def reap_user_of_def new_mapping_def)

lemma release_create_moves: "sql_release_create pk now d = (r, d') \<Longrightarrow> moves d d'"
  unfolding sql_release_create_def
  by (auto split: option.splits if_splits
      intro!: row_same [OF refl, of pk] simp: mapping_updates nonce_of_def chain_code_of_def reap_user_of_def)

lemma set_user_moves:
  assumes "sql_set_reap_user pk u now d = (r, d')"
  shows "moves d d'"
proof (cases "r = Inr 1")
  case False
  then have "d' = d" using assms by (auto simp: sql_set_reap_user_def split: if_splits option.splits)
  then show ?thesis by simp
next
  case True
  note P = sql_set_reap_user_post [OF assms [unfolded True]]
  have others: "q \<noteq> pk \<Longrightarrow> mapping_of d' q = mapping_of d q" for q by (rule P(4))
  obtain m where m: "d' = d\<lparr>mappings := m\<rparr>" and u: "u \<notin> set (reap_ids (mappings d))"
    and cc: "chain_code_of d' pk = chain_code_of d pk"
    using assms True by (auto simp: sql_set_reap_user_def chain_code_of_def mapping_updates new_mapping_def
        split: if_splits option.splits)
  have "ledger_of d' = (ledger_of d)\<lparr>lg_user := (lg_user (ledger_of d))(pk \<mapsto> u)\<rparr>"
    using row_change [OF m others] P(1,2) cc by (simp add: ledger_of_sel)
  moreover have "ledger_step (ledger_of d) \<dots>"
    by (rule ledger_step.assign) (use P(3) u in \<open>auto simp: ledger_of_sel dest: reap_user_of_in_ids\<close>)
  ultimately show ?thesis by (simp add: moves_def)
qed

text \<open>The statements that insert into the other tables.\<close>

lemma owner_insert_moves:
  "moves d (snd (sql_card_insert pk c now d))" "moves d (snd (sql_account_insert pk c now d))"
  "moves d (snd (sql_user_card_insert pk c now d))"
  using ledger_step.own_card [of "ledger_of d" c pk] ledger_step.own_account [of "ledger_of d" c pk]
    ledger_step.own_user_card [of "ledger_of d" c pk]
  by (simp_all add: moves_def sql_card_insert_def sql_account_insert_def sql_user_card_insert_def ledger_of_others
      ledger_of_sel owner_insert_new_fun)

lemma token_insert_moves: "moves d (snd (sql_token_insert i pk e now d))"
proof (cases "map_of (vault_tokens d) i")
  case None
  then have "ledger_of (snd (sql_token_insert i pk e now d))
      = (ledger_of d)\<lparr>lg_token := (lg_token (ledger_of d))(i \<mapsto> (pk, pg_timestamp e))\<rparr>"
    by (auto simp: sql_token_insert_def ledger_of_others ledger_of_sel map_of_table_insert fun_eq_iff)
  moreover have "ledger_step (ledger_of d) \<dots>"
    by (rule ledger_step.issue) (simp add: ledger_of_sel None)
  ultimately show ?thesis by (simp add: moves_def)
qed (simp add: sql_token_insert_def)

lemma token_touch_moves: "moves d (snd (sql_token_touch i now d))"
proof (cases "map_of (vault_tokens d) i")
  case (Some t)
  then have "ledger_of (snd (sql_token_touch i now d)) = ledger_of d"
    by (auto simp: sql_token_touch_def ledger_of_others map_of_table_set) (auto simp: ledger_of_def fun_eq_iff)
  then show ?thesis by (simp add: moves_def)
qed (simp add: sql_token_touch_def)

lemma event_insert_moves: "moves d (snd (sql_event_insert i ty p now d))"
proof (cases "map_of (webhook_events d) i")
  case None
  then have "ledger_of (snd (sql_event_insert i ty p now d))
      = (ledger_of d)\<lparr>lg_event := (lg_event (ledger_of d))(i \<mapsto> (ty, p))\<rparr>"
    by (auto simp: sql_event_insert_def ledger_of_others ledger_of_sel map_of_table_insert fun_eq_iff)
  moreover have "ledger_step (ledger_of d) \<dots>"
    by (rule ledger_step.learn) (simp add: ledger_of_sel None)
  ultimately show ?thesis by (simp add: moves_def)
qed (simp add: sql_event_insert_def)

lemmas insert_moves = owner_insert_moves token_insert_moves token_touch_moves event_insert_moves

lemma counted_snd: "counted s now d = (r, d') \<Longrightarrow> d' = snd (s now d)"
  by (auto simp: counted_def split: prod.splits sum.splits)

lemma call_moves:
  assumes "session_inv (d, S)" and "claim_was_read c S" and "call_stmt c now d = (r, d')"
  shows "moves d d'"
proof (cases c)
  case (Claim_nonce pk n cc)
  then have "0 \<le> n" "n \<le> nonce_of d pk" using assms(1,2) by (auto simp: claim_was_read_def session_inv_def)
  then show ?thesis using claim_nonce_moves assms(3) Claim_nonce by simp
next
  case (Claim_create pk stale)
  then show ?thesis using claim_create_moves assms(3) by simp
next
  case (Release_create pk)
  then have "d' = snd (sql_release_create pk now d)" using assms(3) counted_snd by simp
  then show ?thesis using release_create_moves by (metis prod.collapse)
next
  case (Set_user pk u)
  then show ?thesis using set_user_moves assms(3) by simp
next
  case (Record_event i ty p)
  then show ?thesis using event_insert_moves [of d i ty p now] assms(3) by simp
qed (use assms(3) insert_moves in \<open>auto dest!: counted_snd\<close>)

interpretation refinement: simulation session_start session_step session_inv ledger_start ledger_step
  "\<lambda>s. ledger_of (fst s)"
proof unfold_locales
  show "session_start s \<Longrightarrow> ledger_start (ledger_of (fst s))" for s
    by (auto simp: session_start_def ledger_start_def ledger_of_def fun_eq_iff chain_code_of_def reap_user_of_def
        mapping_of_def owner_in_def) (simp_all add: empty_db_def)
  show "session_inv s \<Longrightarrow> session_step s t \<Longrightarrow>
      ledger_of (fst t) = ledger_of (fst s) \<or> ledger_step (ledger_of (fst s)) (ledger_of (fst t))" for s t
  proof -
    assume "session_inv s" "session_step s t"
    moreover obtain d S where "s = (d, S)" by (cases s)
    ultimately have s: "session_inv (d, S)" "session_step (d, S) t" "fst s = d" by simp_all
    have "moves d (fst t)" using s(2)
      by (rule session_stepE) (auto dest: call_moves [OF s(1)])
    then show ?thesis using s(3) by (simp add: moves_def)
  qed
qed

lemma users_apart_always: "session_reachable s \<Longrightarrow> users_apart (ledger_of (fst s))"
  by (rule refinement.abs_invariant)
    (simp add: ledger_start_def users_apart_def, rule users_apart_step)

section \<open>An authentication is a session\<close>

definition via :: "(string \<times> int) set \<Rightarrow> world \<Rightarrow> world \<Rightarrow> bool" where
  "via S w w' \<longleftrightarrow> session_step\<^sup>*\<^sup>* (wdb w, S) (wdb w', S)"

lemma via_same: "wdb w' = wdb w \<Longrightarrow> via S w w'"
  by (simp add: via_def)

lemma via_trans: "via S u v \<Longrightarrow> via S v w \<Longrightarrow> via S u w"
  unfolding via_def by (rule rtranclp_trans)

lemma via_exec:
  assumes "claim_was_read c S" and "\<And>now d. snd (call_stmt c now d) = snd (s now d)"
  shows "via S w (snd (db_exec env s w))"
proof -
  have "session_step (wdb w, S) (snd (s (clock env (tick w)) (wdb w)), S)"
    using run_stmt [OF assms(1), of "clock env (tick w)" "wdb w"] assms(2) by (metis prod.collapse)
  then show ?thesis
    by (cases rule: db_exec_cases [of env s w]) (auto simp: via_def)
qed

lemma via_andThen:
  assumes "\<And>w. via S w (snd (m w))" and "\<And>x w. via S w (snd (k x w))"
  shows "via S w (snd (andThen m k w))"
  using assms(1) [of w] via_trans [OF assms(1) [of w] assms(2)]
  by (auto simp: andThen_def split: prod.split sum.split)

lemma via_issueToken: "via S w (snd (issueToken env pk w))"
proof -
  have rec: "via S v (snd (vaulttoken_Record env i pk e v))" for i e v
    unfolding vaulttoken_Record_def
    by (rule via_exec [of "Insert_token i pk e"]) (simp_all add: claim_was_read_def counted_parts)
  show ?thesis
    unfolding issueToken_def Let_def
    by (intro via_andThen rec)
      (auto intro!: via_same simp: newTokenID_def rand_Read_def time_now_def SignedString_def andThen_def
        split: option.split)
qed

text \<open>
  Whatever comes of it, an authentication is a reading of the vault's nonce followed by statements of
  the sessions: the restriction to nonces that were read is one the program keeps.
\<close>

lemma Authenticate_session:
  "session_step\<^sup>*\<^sup>* (wdb w, S)
     (wdb (snd (Authenticate env pk cc n sg w)), insert (pk, nonce_of (wdb w) pk) S)"
proof -
  let ?S = "insert (pk, nonce_of (wdb w) pk) S"
  let ?w1 = "w\<lparr>tick := Suc (tick w)\<rparr>"
  have claim: "via ?S v (snd (ClaimNonce env pk (nonce_of (wdb w) pk) cc v))" for v
    unfolding ClaimNonce_def
    by (intro via_andThen via_exec [of "Claim_nonce pk (nonce_of (wdb w) pk) (normalize_chain_code env cc)"])
      (auto simp: claim_was_read_def intro!: via_same)
  have "via ?S ?w1 (snd (andThen (ClaimNonce env pk (nonce_of (wdb w) pk) cc)
      (\<lambda>claimed. if \<not> claimed then fail ErrNonceUsed else issueToken env pk) ?w1))"
    by (intro via_andThen claim) (auto simp: via_issueToken intro: via_same)
  then have "via ?S w (snd (Authenticate env pk cc n sg w))"
    by (auto simp: Authenticate_def andThen_def [of "GetNonce env pk"] GetNonce_eq via_def)
  moreover have "session_step (wdb w, S) (wdb w, ?S)" by (rule read_nonce)
  ultimately show ?thesis unfolding via_def by (rule converse_rtranclp_into_rtranclp [rotated])
qed

end
