(* ===== verification/Vault_Frames.thy ===== *)
theory Vault_Frames
  imports Server
begin

text \<open>
  The server as a client of the stores. A request that runs as a vault writes to the database only through
  six operations of the stores, on behalf of that vault. So what those six do to the state, every
  such request does: the locale \<open>vault_frame\<close> proves it once, for any relation between the states before
  and after. \<open>Isolation\<close> interprets it for the rows that are written, \<open>Histories\<close> for the runs of
  statements that are made.
\<close>

named_theorems vault_intros "operations of a request that runs as a vault"

locale vault_frame = frame R for R :: "world \<Rightarrow> world \<Rightarrow> bool" +
  fixes pk :: string
  assumes unwritten_frame: "keeps_db w w' \<Longrightarrow> R w w'"
    and SetReapUserID_frame: "R w (snd (SetReapUserID env pk u w))"
    and ClaimReapUserCreate_frame: "R w (snd (ClaimReapUserCreate env pk st w))"
    and ReleaseReapUserCreate_frame: "R w (snd (ReleaseReapUserCreate env pk w))"
    and card_Record_frame: "R w (snd (cardownership_Record env pk c w))"
    and account_Record_frame: "R w (snd (accountownership_Record env pk a w))"
    and user_card_Record_frame: "R w (snd (usercardownership_Record env u c w))"
begin

declare frame_refl [simp]

lemmas [vault_intros] = frame_intros SetReapUserID_frame ClaimReapUserCreate_frame ReleaseReapUserCreate_frame
  card_Record_frame account_Record_frame user_card_Record_frame

lemma vault_reads [vault_intros]:
  "R w (snd (Client_do env m p b opts w))"
  "R w (snd (resolveReapUserID env k w))"
  "R w (snd (GetNonce env k w))"
  "R w (snd (GetReapUserID env k w))"
  "R w (snd (cardownership_IsOwner env k c w))"
  "R w (snd (accountownership_IsOwner env k c w))"
  "R w (snd (time_now env w))"
  "R w (snd (rand_Read env w))"
  "R w (snd (SignedString env cl w))"
  by (rule unwritten_frame, rule unwritten_intros)+

lemma vault_checks [vault_intros]:
  "R w (snd (CardService_checkOwnership env k i w))"
  "R w (snd (AccountService_checkOwnership env k i w))"
  "R w (snd (ShipmentService_checkCardOwnership env k i w))"
  "R w (snd (releaseCreateClaim env pk w))"
  unfolding CardService_checkOwnership_def AccountService_checkOwnership_def ShipmentService_checkCardOwnership_def
    releaseCreateClaim_def
  by (auto intro!: vault_intros)

text \<open>The services.\<close>

lemma vault_users [vault_intros]:
  "R w (snd (UserService_CreateUser env pk cu w))"
  "R w (snd (UserService_GetUser env pk w))"
  "R w (snd (UserService_UpdateEmail env pk a w))"
  "R w (snd (UserService_UpdatePhoneNumber env pk a w))"
  "R w (snd (UserService_AdvanceUserApplication env pk b a w))"
  unfolding user_service_defs client_defs
  by (auto intro!: vault_intros split: sum.splits prod.splits option.splits)

lemma vault_accounts [vault_intros]:
  "R w (snd (AccountService_CreateAccount env pk sg k w))"
  "R w (snd (AccountService_GenerateSignerMessage env w))"
  "R w (snd (AccountService_GetAccount env pk i w))"
  "R w (snd (AccountService_GetAccountBalance env pk i w))"
  "R w (snd (AccountService_GetAccountAssets env pk i w))"
  "R w (snd (AccountService_ListAccounts env pk l c w))"
  unfolding account_service_defs client_defs Let_def
  by (auto intro!: vault_intros split: sum.splits prod.splits option.splits)

lemma vault_cards [vault_intros]:
  "R w (snd (CardService_CreateCard env pk cc k w))"
  "R w (snd (CardService_ListCards env pk q w))"
  "R w (snd (CardService_RespondToCard3DSChallenge env pk i b w))"
  "R w (snd (CardService_GetCard3DSChallenge env pk i w))"
  unfolding CardService_CreateCard_def CardService_ListCards_def challengeCardID_def
    CardService_RespondToCard3DSChallenge_def CardService_GetCard3DSChallenge_def client_defs
  by (auto intro!: vault_intros split: prod.splits option.splits)

lemma vault_card_actions [vault_intros]:
  "R w (snd (CardService_GetCard env pk i w))" "R w (snd (CardService_DeleteCard env pk i w))"
  "R w (snd (CardService_UpdateCardPin env pk i a w))" "R w (snd (CardService_FreezeCard env pk i w))"
  "R w (snd (CardService_UnfreezeCard env pk i w))"
  "R w (snd (CardService_RevealCardDetails env pk i a b w))"
  "R w (snd (CardService_UpdateCard3DSChallengeMethod env pk i a w))"
  "R w (snd (CardService_ActivatePhysicalCard env pk i a w))"
  "R w (snd (CardService_GetCardActivationCode env pk i w))"
  "R w (snd (CardService_PushProvisionCard env pk i a c d e w))"
  unfolding card_action_defs client_defs by (rule vault_intros)+

lemma vault_shipments [vault_intros]:
  "R w (snd (ShipmentService_CreateCardShipment env pk cs w))"
  "R w (snd (ShipmentService_ListCardShipments env pk q w))"
  "R w (snd (ShipmentService_GetCardShipment env pk i w))"
  "R w (snd (ShipmentService_DeleteCardShipment env pk i w))"
  "R w (snd (ShipmentService_UpdateCardShipment env pk i us w))"
  "R w (snd (ShipmentService_AddCardToShipment env pk i cm w))"
  "R w (snd (ShipmentService_RemoveCardFromShipment env pk i mid w))"
  "R w (snd (ShipmentService_SubmitCardShipment env pk i k w))"
proof -
  have loops: "R w (snd (check_cards env pk ids w))"
    "R w (snd (check_members env pk ms w))" for ids ms w
    using check_cards_run [OF prod.collapse [symmetric]] check_members_run [OF prod.collapse [symmetric]]
    by (simp_all add: unwritten_frame keeps_db_def)
  show "R w (snd (ShipmentService_CreateCardShipment env pk cs w))"
    "R w (snd (ShipmentService_ListCardShipments env pk q w))"
    "R w (snd (ShipmentService_GetCardShipment env pk i w))"
    "R w (snd (ShipmentService_DeleteCardShipment env pk i w))"
    "R w (snd (ShipmentService_UpdateCardShipment env pk i us w))"
    "R w (snd (ShipmentService_AddCardToShipment env pk i cm w))"
    "R w (snd (ShipmentService_RemoveCardFromShipment env pk i mid w))"
    "R w (snd (ShipmentService_SubmitCardShipment env pk i k w))"
    unfolding shipment_service_defs fetchOwnedShipment_def checkShipmentMembers_def client_defs Let_def
    by (auto intro!: vault_intros loops split: sum.splits prod.splits option.splits)
qed

lemma vault_scoped [vault_intros]:
  "R w (snd (CardDesignService_ListCardDesigns env q w))"
  "R w (snd (CardDesignService_GetCardDesign env i w))"
  "R w (snd (CardTransactionService_GetCardTransaction env pk i w))"
  "R w (snd (ActivityService_ListActivities env pk q w))"
  "R w (snd (FraudAlertService_ListFraudAlerts env pk q w))"
  "R w (snd (FraudAlertService_ReportFraud env pk rf k w))"
  "R w (snd (FraudAlertService_GetFraudAlert env pk i w))"
  "R w (snd (FraudAlertService_RespondToFraudAlert env pk i ra k w))"
  unfolding CardDesignService_ListCardDesigns_def CardDesignService_GetCardDesign_def
    CardTransactionService_GetCardTransaction_def ActivityService_ListActivities_def
    FraudAlertService_ListFraudAlerts_def FraudAlertService_ReportFraud_def FraudAlertService_GetFraudAlert_def
    FraudAlertService_RespondToFraudAlert_def fraud_list_scoped_def transactionCardID_def alertCardID_def
    FraudAlertService_checkCardOwnership_def client_defs Let_def
  by (auto intro!: vault_intros split: prod.splits option.splits)

lemma vault_simulation [vault_intros]:
  "R w (snd (SimulationService_SimulateUserApplicationStatus env pk i a w))"
  "R w (snd (SimulationService_SimulateCompanyStatus env i sc w))"
  "R w (snd (SimulationService_SimulateAccountStatus env pk i a w))"
  "R w (snd (SimulationService_SimulateCardStatus env pk i a w))"
  "R w (snd (SimulationService_SimulateAuthorization env pk r w))"
  "R w (snd (SimulationService_SimulateThreeDSAuthorization env pk r w))"
  "R w (snd (SimulationService_SimulateDecline env pk r w))"
  "R w (snd (SimulationService_SimulateClearing env pk r w))"
  "R w (snd (SimulationService_SimulateReversal env pk r w))"
  "R w (snd (SimulationService_SimulateRefund env pk r w))"
  unfolding simulation_defs checkTransactionOwnership_def SimulationService_checkCardOwnership_def
    SimulationService_checkAccountOwnership_def client_defs
  by (auto intro!: vault_intros split: prod.splits option.splits)

lemma handle_frame:
  assumes "\<And>w. R w (snd (m w))" and "\<And>r w. R w (snd (k r w))"
  shows "R w (snd (handle m k w))"
  using frame_trans [OF assms(1) [of w] assms(2) [of "snd (m w)" "fst (m w)"]]
  by (simp add: handle_def prod.case_eq_if)

lemma reply_vault [vault_intros]: "R w (snd (reply r w))"
  by (simp add: reply_def frame_refl)

lemma answer_frame [vault_intros]:
  "(\<And>w. R w (snd (m w))) \<Longrightarrow> R w (snd (answer errs m w))"
  unfolding answer_def by (rule handle_frame) (auto intro: vault_intros split: sum.split)

text \<open>The handlers.\<close>

lemma serve_user_frame: "R w (snd (serve_user env pk u w))"
  by (cases u; auto simp: handler_defs intro!: vault_intros split: option.split prod.split)

lemma serve_simulation_frame: "R w (snd (serve_simulation env pk s w))"
  by (cases s; auto simp: handler_defs intro!: vault_intros split: option.split)

end

end
