(* ===== verification/Request_Binding.thy ===== *)
theory Request_Binding
  imports Server Reap_Bodies
begin

text \<open>
  From an HTTP request to the call of a handler: the routes \<open>NewServer\<close> registers
  (\<open>cmd/server/server.go\<close>), and what each handler takes out of its request: path and query parameters, the
  \<open>Idempotency-Key\<close>, and the body, decoded into the struct the handler declares. Echo is a
  parameter: the request comes with the route its router matched and the members \<open>c.Bind\<close> decodes
  from, None for one of its errors. \<open>strconv.ParseFloat\<close>, for the two amounts of a simulated
  transaction, is the parameter \<open>pf\<close>.
\<close>

section \<open>The structs of the handlers\<close>

definition bind_auth :: "members \<Rightarrow> (string \<times> string \<times> int \<times> string) option" where
  "bind_auth ms =
     Option.bind (string_field ''public_key'' ms) (\<lambda>a.
     Option.bind (string_field ''chain_code'' ms) (\<lambda>b.
     Option.bind (int_field ''nonce'' ms) (\<lambda>c.
     Option.bind (string_field ''signature'' ms) (\<lambda>d.
     Some (a, b, c, d)))))"

definition bind_createUser :: "members \<Rightarrow> (string \<times> string \<times> string \<times> string \<times> string) option" where
  "bind_createUser ms =
     Option.bind (string_field ''email'' ms) (\<lambda>a.
     Option.bind (string_field ''phoneNumber'' ms) (\<lambda>b.
     Option.bind (string_field ''firstName'' ms) (\<lambda>c.
     Option.bind (string_field ''lastName'' ms) (\<lambda>d.
     Option.bind (string_field ''termsAcceptanceVersion'' ms) (\<lambda>e.
     Some (a, b, c, d, e))))))"

definition bind_updateUserEmail :: "members \<Rightarrow> string option" where
  "bind_updateUserEmail ms = string_field ''email'' ms"

definition bind_updateUserPhone :: "members \<Rightarrow> string option" where
  "bind_updateUserPhone ms = string_field ''phoneNumber'' ms"

definition bind_createAccount :: "members \<Rightarrow> (Signers option) option" where
  "bind_createAccount ms = ptr_field ''signers'' read_signers ms"

definition bind_createCard :: "members \<Rightarrow> (string \<times> string \<times> string \<times> string) option" where
  "bind_createCard ms =
     Option.bind (string_field ''accountId'' ms) (\<lambda>a.
     Option.bind (string_field ''type'' ms) (\<lambda>b.
     Option.bind (string_field ''3dsChallengeMethod'' ms) (\<lambda>c.
     Option.bind (string_field ''cardDesignId'' ms) (\<lambda>d.
     Some (a, b, c, d)))))"

definition bind_updateCardPin :: "members \<Rightarrow> string option" where
  "bind_updateCardPin ms = string_field ''pin'' ms"

definition bind_revealCardDetails :: "members \<Rightarrow> (string \<times> bool) option" where
  "bind_revealCardDetails ms =
     Option.bind (string_field ''stylesheetUrl'' ms) (\<lambda>a.
     Option.bind (bool_field ''showCopyPanButton'' ms) (\<lambda>b.
     Some (a, b)))"

definition bind_updateCard3DSChallengeMethod :: "members \<Rightarrow> string option" where
  "bind_updateCard3DSChallengeMethod ms = string_field ''3dsChallengeMethod'' ms"

definition bind_activatePhysicalCard :: "members \<Rightarrow> string option" where
  "bind_activatePhysicalCard ms = string_field ''activationCode'' ms"

definition bind_pushProvisionCard :: "members \<Rightarrow> (string \<times> string \<times> string) option" where
  "bind_pushProvisionCard ms =
     Option.bind (string_field ''provider'' ms) (\<lambda>a.
     Option.bind (string_field ''walletAccountId'' ms) (\<lambda>b.
     Option.bind (string_field ''deviceId'' ms) (\<lambda>c.
     Some (a, b, c))))"

definition bind_respondToCard3DSChallenge :: "members \<Rightarrow> (bool option) option" where
  "bind_respondToCard3DSChallenge ms = bool_ptr_field ''approve'' ms"

definition bind_reportFraud :: "members \<Rightarrow> (string \<times> string \<times> string) option" where
  "bind_reportFraud ms =
     Option.bind (string_field ''transactionId'' ms) (\<lambda>a.
     Option.bind (string_field ''type'' ms) (\<lambda>b.
     Option.bind (string_field ''cardholderNotifiedAt'' ms) (\<lambda>c.
     Some (a, b, c))))"

definition bind_respondToFraudAlert :: "members \<Rightarrow> (string \<times> string) option" where
  "bind_respondToFraudAlert ms =
     Option.bind (string_field ''response'' ms) (\<lambda>a.
     Option.bind (string_field ''type'' ms) (\<lambda>b.
     Some (a, b)))"

definition bind_status :: "members \<Rightarrow> string option" where
  "bind_status ms = string_field ''status'' ms"

section \<open>Requests\<close>

record http_in =
  in_method :: string
  in_route :: string  \<comment> \<open>the pattern of the route the router matched, empty without one\<close>
  in_params :: "(string \<times> string) list"  \<comment> \<open>the path parameters\<close>
  in_query :: url_values
  in_header :: "string \<Rightarrow> string"  \<comment> \<open>\<open>Header.Get\<close>, empty for a header that is not there\<close>
  in_unmatched :: resp  \<comment> \<open>the answer of the router when it matches none\<close>
  in_realIP :: string
  in_body :: "string option"  \<comment> \<open>the whole body, None when reading it fails\<close>
  in_bind :: "members option"  \<comment> \<open>what \<open>c.Bind\<close> decodes from\<close>

definition Param :: "http_in \<Rightarrow> string \<Rightarrow> string" where
  "Param rq name = (case map_of (in_params rq) name of None \<Rightarrow> [] | Some v \<Rightarrow> v)"

definition Idempotency_Key :: "http_in \<Rightarrow> string" where
  "Idempotency_Key rq = in_header rq ''Idempotency-Key''"

definition bound :: "(members \<Rightarrow> 'a option) \<Rightarrow> http_in \<Rightarrow> 'a option" where
  \<comment> \<open>\<open>c.Bind(&req)\<close>\<close>
  "bound rd rq = Option.bind (in_bind rq) rd"

section \<open>Routes\<close>

type_synonym 'c route = "string \<times> string \<times> (http_in \<Rightarrow> 'c)"

definition public_routes :: "public_call route list" where
  "public_routes =
    [(''GET'', ''/health'', \<lambda>_. Health),
     (''GET'', ''/nonce'', \<lambda>rq. Nonce (in_query rq)),
     (''POST'', ''/auth'', \<lambda>rq. Auth (bound bind_auth rq)),
     (''POST'', ''/webhooks/reap'', \<lambda>rq. Reap_Webhook_Delivery (in_body rq) (in_header rq ''X-Reap-Webhook-Signature''))]"

definition user_routes :: "user_call route list" where
  "user_routes =
    [(''POST'', ''/user'', \<lambda>rq. Create_User (in_realIP rq) (bound bind_createUser rq)),
     (''GET'', ''/user'', \<lambda>_. Get_User),
     (''PUT'', ''/user/email'', \<lambda>rq. Update_User_Email (bound bind_updateUserEmail rq)),
     (''PUT'', ''/user/phone'', \<lambda>rq. Update_User_Phone (bound bind_updateUserPhone rq)),
     (''POST'', ''/user/application'', \<lambda>rq. Advance_User_Application (in_body rq) (Idempotency_Key rq)),
     (''POST'', ''/account'', \<lambda>rq. Create_Account (Idempotency_Key rq) (bound bind_createAccount rq)),
     (''GET'', ''/account'', \<lambda>rq. List_Accounts (in_query rq)),
     (''GET'', ''/account/signer-message'', \<lambda>_. Generate_Signer_Message),
     (''GET'', ''/account/:id'', \<lambda>rq. Get_Account (Param rq ''id'')),
     (''GET'', ''/account/:id/balance'', \<lambda>rq. Get_Account_Balance (Param rq ''id'')),
     (''GET'', ''/account/:id/assets'', \<lambda>rq. Get_Account_Assets (Param rq ''id'')),
     (''POST'', ''/card'', \<lambda>rq. Create_Card (Idempotency_Key rq) (bound bind_createCard rq)),
     (''GET'', ''/card'', \<lambda>rq. List_Cards (in_query rq)),
     (''GET'', ''/card/:id'', \<lambda>rq. Get_Card (Param rq ''id'')),
     (''DELETE'', ''/card/:id'', \<lambda>rq. Delete_Card (Param rq ''id'')),
     (''PUT'', ''/card/:id/pin'', \<lambda>rq. Update_Card_Pin (Param rq ''id'') (bound bind_updateCardPin rq)),
     (''POST'', ''/card/:id/freeze'', \<lambda>rq. Freeze_Card (Param rq ''id'')),
     (''POST'', ''/card/:id/unfreeze'', \<lambda>rq. Unfreeze_Card (Param rq ''id'')),
     (''POST'', ''/card/:id/reveal'', \<lambda>rq. Reveal_Card_Details (Param rq ''id'') (bound bind_revealCardDetails rq)),
     (''PUT'', ''/card/:id/3ds-challenge-method'', \<lambda>rq. Update_Card_3DS_Method (Param rq ''id'') (bound bind_updateCard3DSChallengeMethod rq)),
     (''POST'', ''/card/:id/activate'', \<lambda>rq. Activate_Physical_Card (Param rq ''id'') (bound bind_activatePhysicalCard rq)),
     (''GET'', ''/card/:id/activation-code'', \<lambda>rq. Get_Card_Activation_Code (Param rq ''id'')),
     (''POST'', ''/card/:id/push-provisioning'', \<lambda>rq. Push_Provision_Card (Param rq ''id'') (Idempotency_Key rq) (bound bind_pushProvisionCard rq)),
     (''GET'', ''/card-3ds-challenges/:id'', \<lambda>rq. Get_Card_3DS_Challenge (Param rq ''id'')),
     (''POST'', ''/card-3ds-challenges/:id/respond'', \<lambda>rq. Respond_To_Card_3DS_Challenge (Param rq ''id'') (bound bind_respondToCard3DSChallenge rq)),
     (''POST'', ''/card-shipments'', \<lambda>rq. Create_Card_Shipment (bound read_create_shipment rq)),
     (''GET'', ''/card-shipments'', \<lambda>rq. List_Card_Shipments (in_query rq)),
     (''GET'', ''/card-shipments/:id'', \<lambda>rq. Get_Card_Shipment (Param rq ''id'')),
     (''DELETE'', ''/card-shipments/:id'', \<lambda>rq. Delete_Card_Shipment (Param rq ''id'')),
     (''PATCH'', ''/card-shipments/:id'', \<lambda>rq. Update_Card_Shipment (Param rq ''id'') (bound read_update_shipment rq)),
     (''POST'', ''/card-shipments/:id/cards'', \<lambda>rq. Add_Card_To_Shipment (Param rq ''id'') (bound read_member rq)),
     (''DELETE'', ''/card-shipments/:id/cards/:memberId'', \<lambda>rq. Remove_Card_From_Shipment (Param rq ''id'') (Param rq ''memberId'')),
     (''POST'', ''/card-shipments/:id/submit'', \<lambda>rq. Submit_Card_Shipment (Param rq ''id'') (Idempotency_Key rq)),
     (''GET'', ''/card-designs'', \<lambda>rq. List_Card_Designs (in_query rq)),
     (''GET'', ''/card-designs/:id'', \<lambda>rq. Get_Card_Design (Param rq ''id'')),
     (''GET'', ''/card-transactions/:id'', \<lambda>rq. Get_Card_Transaction (Param rq ''id'')),
     (''GET'', ''/activities'', \<lambda>rq. List_Activities (in_query rq)),
     (''POST'', ''/fraud-alerts'', \<lambda>rq. Report_Fraud (Idempotency_Key rq) (bound bind_reportFraud rq)),
     (''GET'', ''/fraud-alerts'', \<lambda>rq. List_Fraud_Alerts (in_query rq)),
     (''GET'', ''/fraud-alerts/:id'', \<lambda>rq. Get_Fraud_Alert (Param rq ''id'')),
     (''POST'', ''/fraud-alerts/:id/respond'', \<lambda>rq. Respond_To_Fraud_Alert (Param rq ''id'') (Idempotency_Key rq) (bound bind_respondToFraudAlert rq))]"

definition simulation_routes :: "(string \<Rightarrow> float64 option) \<Rightarrow> simulation_call route list" where
  "simulation_routes pf =
    [(''POST'', ''/simulation/users/:id/application'', \<lambda>rq. Simulate_User_Application (Param rq ''id'') (bound bind_status rq)),
     (''POST'', ''/simulation/companies/:id/status'', \<lambda>rq. Simulate_Company_Status (Param rq ''id'') (bound read_company_status rq)),
     (''POST'', ''/simulation/accounts/:id/status'', \<lambda>rq. Simulate_Account_Status (Param rq ''id'') (bound bind_status rq)),
     (''POST'', ''/simulation/cards/:id/status'', \<lambda>rq. Simulate_Card_Status (Param rq ''id'') (bound bind_status rq)),
     (''POST'', ''/simulation/card-transactions/authorization'', \<lambda>rq. Simulate_Authorization (bound (read_simulate pf) rq)),
     (''POST'', ''/simulation/card-transactions/authorization-with-3ds'', \<lambda>rq. Simulate_3DS_Authorization (bound (read_simulate pf) rq)),
     (''POST'', ''/simulation/card-transactions/decline'', \<lambda>rq. Simulate_Decline (bound (read_simulate pf) rq)),
     (''POST'', ''/simulation/card-transactions/clearing'', \<lambda>rq. Simulate_Clearing (bound (read_simulate pf) rq)),
     (''POST'', ''/simulation/card-transactions/reversal'', \<lambda>rq. Simulate_Reversal (bound (read_simulate pf) rq)),
     (''POST'', ''/simulation/card-transactions/refund'', \<lambda>rq. Simulate_Refund (bound (read_simulate pf) rq))]"

definition wrap :: "('c \<Rightarrow> call) \<Rightarrow> 'c route \<Rightarrow> call route" where
  "wrap con r = (case r of (m, p, f) \<Rightarrow> (m, p, \<lambda>rq. con (f rq)))"

definition NewServer_routes :: "string \<Rightarrow> (string \<Rightarrow> float64 option) \<Rightarrow> call route list" where
  \<comment> \<open>everything registered for this \<open>reapEnv\<close>\<close>
  "NewServer_routes reapEnv pf =
     map (wrap Public) public_routes @ map (wrap Protected) user_routes
     @ (if reapEnv = ''sandbox'' then map (wrap Simulation) (simulation_routes pf) else [])"

definition Server_call :: "string \<Rightarrow> (string \<Rightarrow> float64 option) \<Rightarrow> http_in \<Rightarrow> call option" where
  \<comment> \<open>the call a request makes, None where no route is registered for it\<close>
  "Server_call reapEnv pf rq =
     map_option (\<lambda>(m, p, f). f rq)
       (find (\<lambda>(m, p, f). m = in_method rq \<and> p = in_route rq) (NewServer_routes reapEnv pf))"

definition Server_http :: "env \<Rightarrow> string \<Rightarrow> (string \<Rightarrow> float64 option) \<Rightarrow> http_in \<Rightarrow> handler" where
  "Server_http env reapEnv pf rq =
     (case Server_call reapEnv pf rq of
        None \<Rightarrow> reply (in_unmatched rq)
      | Some c \<Rightarrow> Server_serve env reapEnv (in_header rq ''Authorization'') c)"

end
