(* ===== verification/Histories.thy ===== *)
theory Histories
  imports Ledger Vault_Frames Request_Binding
begin

text \<open>
  Every HTTP request is a run of the statements of \<open>Interleaving\<close>. What a request does to the database,
  faults included, is a sequence of session steps, in which nonces are claimed only after they were
  read. So whatever \<open>Interleaving\<close> and \<open>Ledger\<close> show of all interleavings of statements holds after any
  series of requests.
\<close>

section \<open>Runs\<close>

definition ran :: "world \<Rightarrow> world \<Rightarrow> bool" where
  \<comment> \<open>from any set of nonces read so far, by session steps that may read more\<close>
  "ran w w' \<longleftrightarrow> (\<forall>S. \<exists>S'. S \<subseteq> S' \<and> session_step\<^sup>*\<^sup>* (wdb w, S) (wdb w', S'))"

lemma ran_refl [simp]: "ran w w"
  by (auto simp: ran_def)

lemma ran_trans: "ran u v \<Longrightarrow> ran v w \<Longrightarrow> ran u w"
  unfolding ran_def by (meson order_trans rtranclp_trans)

interpretation runs: frame ran
  by unfold_locales (simp, rule ran_trans)

lemma ran_same: "keeps_db w w' \<Longrightarrow> ran w w'"
  by (auto simp: ran_def keeps_db_def)

lemma ran_exec:
  assumes "\<And>S. claim_was_read c S" and "\<And>now d. snd (call_stmt c now d) = snd (s now d)"
  shows "ran w (snd (db_exec env s w))"
  using via_exec [OF assms] unfolding ran_def via_def by blast

named_theorems ran_intros "operations that are runs of statements"

lemmas [ran_intros] = runs.frame_intros

lemma time_now_ran [ran_intros]: "ran w (snd (time_now env w))"
  by (rule ran_same) simp

lemma ran_stores [ran_intros]:
  "ran w (snd (SetReapUserID env pk u w))"
  "ran w (snd (ClaimReapUserCreate env pk st w))"
  "ran w (snd (ReleaseReapUserCreate env pk w))"
  "ran w (snd (cardownership_Record env pk c w))"
  "ran w (snd (accountownership_Record env pk a w))"
  "ran w (snd (usercardownership_Record env u c w))"
  "ran w (snd (vaulttoken_Touch env i w))"
  "ran w (snd (reapwebhookevent_Record env i ty p w))"
proof -
  note ex = ran_exec [of "Set_user pk u"] ran_exec [of "Claim_create pk st"] ran_exec [of "Release_create pk"]
    ran_exec [of "Record_card pk c"] ran_exec [of "Record_account pk a"] ran_exec [of "Record_user_card u c"]
    ran_exec [of "Touch_token i"] ran_exec [of "Record_event i ty p"]
  note ex [simplified claim_was_read_def call_stmt.simps counted_parts db_call.case, OF TrueI refl, simp]
  show "ran w (snd (SetReapUserID env pk u w))" "ran w (snd (ClaimReapUserCreate env pk st w))"
    "ran w (snd (ReleaseReapUserCreate env pk w))" "ran w (snd (cardownership_Record env pk c w))"
    "ran w (snd (accountownership_Record env pk a w))" "ran w (snd (usercardownership_Record env u c w))"
    "ran w (snd (vaulttoken_Touch env i w))" "ran w (snd (reapwebhookevent_Record env i ty p w))"
    unfolding SetReapUserID_def ClaimReapUserCreate_def ReleaseReapUserCreate_def cardownership_Record_def
      accountownership_Record_def usercardownership_Record_def vaulttoken_Touch_def reapwebhookevent_Record_def
    by (auto intro: runs.andThen_frame)
qed

interpretation vault_runs: vault_frame ran pk for pk
  by unfold_locales (rule ran_same ran_stores; assumption?)+

section \<open>Requests are runs\<close>

lemma Authenticate_ran [ran_intros]: "ran w (snd (Authenticate env pk cc n sg w))"
  using Authenticate_session [of w _ env pk cc n sg] unfolding ran_def by blast

lemma HandleEvent_ran [ran_intros]: "ran w (snd (HandleEvent env raw h w))"
proof -
  have notify: "ran w (snd (notifyVault env ty p w))" for ty p w
    by (rule ran_same) (auto simp: notifyVault_def intro!: unwritten_intros resolveVault_db split: sum.split)
  show ?thesis unfolding HandleEvent_def
    by (auto intro!: ran_intros notify split: sum.split option.split)
qed

lemma serve_public_ran: "ran w (snd (serve_public env p w))"
proof (cases p)
  case (Auth b)
  then show ?thesis
    by (auto simp: Server_auth_def intro!: vault_runs.handle_frame ran_intros split: option.split sum.split)
next
  case (Reap_Webhook_Delivery b h)
  then show ?thesis
    by (auto simp: Server_reapWebhook_def intro!: vault_runs.handle_frame ran_intros split: option.split sum.split)
next
  case Health
  have "ran w (snd (db_exec env (\<lambda>now d. (Inr (), d)) w))" for w by (rule ran_same) (simp add: keeps_db_def db_exec_read)
  then show ?thesis using Health
    by (auto simp: Server_health_def intro!: vault_runs.handle_frame split: sum.split)
next
  case (Nonce q)
  have "ran w (snd (GetNonce env k w))" for k w by (rule vault_runs.vault_reads)
  then show ?thesis using Nonce
    by (auto simp: Server_nonce_def Let_def intro!: vault_runs.handle_frame split: sum.split)
qed

lemma RequireAuth_ran:
  assumes "\<And>cl w. ran w (snd (nxt cl w))"
  shows "ran w (snd (RequireAuth env nxt h w))"
proof -
  have "ran w (snd (admit env nxt cl tok w))" for cl tok w
  proof -
    have "ran w (w\<lparr>tick := tick w + 2\<rparr>)" by (rule ran_same) (simp add: keeps_db_def)
    then show ?thesis using ran_trans [OF _ assms]
      by (auto simp: admit_def Let_def split: option.split)
  qed
  then show ?thesis unfolding RequireAuth_def Let_def ValidateToken_def
    by (auto intro!: vault_runs.handle_frame ran_intros vault_runs.reply_vault split: sum.split option.split)
qed

lemma Server_serve_ran: "ran w (snd (Server_serve env reapEnv h c w))"
  by (cases c)
    (simp_all add: Server_serve_def serve_public_ran RequireAuth_ran vault_runs.serve_user_frame
      vault_runs.serve_simulation_frame)

lemma Server_http_ran: "ran w (snd (Server_http env reapEnv pf rq w))"
  by (simp add: Server_http_def Server_serve_ran split: option.split)

text \<open>The state after a request served from a reachable state is reachable.\<close>

lemma served_reachable:
  assumes "session_reachable (wdb w, S)"
  shows "\<exists>S'. session_reachable (wdb (snd (Server_http env reapEnv pf rq w)), S')"
proof -
  obtain S' where "session_step\<^sup>*\<^sup>* (wdb w, S) (wdb (snd (Server_http env reapEnv pf rq w)), S')"
    using Server_http_ran unfolding ran_def by blast
  then have "session_reachable (wdb (snd (Server_http env reapEnv pf rq w)), S')"
    using assms by (induction rule: rtranclp_induct) (auto intro: reachable.reachable_step)
  then show ?thesis ..
qed

end
