(* ===== verification/Lifecycle.thy ===== *)
theory Lifecycle
  imports Startup
begin

text \<open>
  What \<open>cmd/server\<close> does around the handlers: the request logger that \<open>NewServer\<close> installs
  (\<open>server.go\<close>), with its metrics, and the serving and the graceful shutdown at the end of \<open>main\<close>
  (\<open>main.go\<close>). \<open>http.Server.Shutdown\<close> is modelled as documented: it closes the listener and returns
  when no request runs any more or its context expires.
\<close>

section \<open>The request logger\<close>

definition status_of :: "resp \<Rightarrow> int" where
  \<comment> \<open>the logger's \<open>v.Status\<close>: the response's status, or the code of the error returned to Echo\<close>
  "status_of r = (case r of JSON c _ \<Rightarrow> c | Blob c _ \<Rightarrow> c | NoContent c \<Rightarrow> c | Text c _ \<Rightarrow> c | HTTPError c _ \<Rightarrow> c)"

definition route_of :: "string \<Rightarrow> call \<Rightarrow> string \<times> string" where
  \<comment> \<open>the method and the \<open>v.RoutePath\<close>, which is empty for a route that is not there\<close>
  "route_of reapEnv c =
     (case c of
        Public p \<Rightarrow> public_route p
      | Protected u \<Rightarrow> user_route u
      | Simulation s \<Rightarrow> (if reapEnv = ''sandbox'' then simulation_route s else (fst (simulation_route s), [])))"

definition request_tags :: "string \<Rightarrow> string \<Rightarrow> int \<Rightarrow> string list" where
  "request_tags meth routePath status =
     (let route = (if routePath = [] then ''unmatched'' else routePath) in
      [''method:'' @ meth, ''route:'' @ route, ''status:'' @ Itoa status])"

definition LogValues :: "env \<Rightarrow> string \<Rightarrow> string \<Rightarrow> int \<Rightarrow> int \<Rightarrow> unit eff" where
  "LogValues env meth routePath status latency =
     (let tags = request_tags meth routePath status in
      andThen (statsd_Count (stats (reap env)) ''http.request.count'' 1 tags) (\<lambda>_.
      statsd_Timing (stats (reap env)) ''http.request.duration'' latency tags))"

definition Server_logged :: "env \<Rightarrow> string \<Rightarrow> string \<Rightarrow> call \<Rightarrow> handler" where
  \<comment> \<open>a request through the logger: the time is taken before and after the handler\<close>
  "Server_logged env reapEnv authHeader c w =
     (case time_now env w of (_, w1) \<Rightarrow>
      case Server_serve env reapEnv authHeader c w1 of (r, w2) \<Rightarrow>
      case time_now env w2 of (_, w3) \<Rightarrow>
      case LogValues env (fst (route_of reapEnv c)) (snd (route_of reapEnv c)) (status_of r)
             (clock env (tick w2) - clock env (tick w)) w3 of (_, w4) \<Rightarrow> (r, w4))"

lemma LogValues_run:
  "LogValues env m rt st d w = (Inr (), w\<lparr>metrics := metrics w @ (case stats (reap env) of None \<Rightarrow> []
     | Some p \<Rightarrow> [statsd_packet p ''http.request.count'' ''1'' ''c'' (request_tags m rt st),
                 statsd_packet p ''http.request.duration'' (FormatMillis d) ''ms'' (request_tags m rt st)])\<rparr>)"
proof -
  have "FormatInt 1 = ''1''" by code_simp
  then show ?thesis
    by (simp add: LogValues_def Let_def andThen_def statsd_Count_def statsd_Timing_def statsd_send_def emit_def
        split: option.split)
qed

section \<open>Serving and shutting down\<close>

definition requestTimeout :: int where
  \<comment> \<open>of one request to REAP, in nanoseconds\<close>
  "requestTimeout = 10 * 10 ^ 9"

definition writeTimeout :: int where
  \<comment> \<open>of a handler with its response\<close>
  "writeTimeout = 30 * 10 ^ 9"

definition shutdownTimeout :: int where
  "shutdownTimeout = 20 * 10 ^ 9"

datatype phase =
    Serving
  | Stopping int  \<comment> \<open>\<open>Shutdown\<close> is running, with this deadline\<close>
  | Exited "string option"  \<comment> \<open>the process is gone; None after the end of \<open>main\<close>\<close>

record main_state =
  ms_phase :: phase
  ms_now :: int
  ms_running :: "(nat \<times> int) list"  \<comment> \<open>the requests in flight, with the times they were accepted\<close>

datatype main_event =
    Accept nat
  | Finish nat
  | Pass nat  \<comment> \<open>so many nanoseconds go by\<close>
  | Signal
  | Server_error
  | Shutdown_returns

definition main_start :: "int \<Rightarrow> main_state" where
  "main_start now = \<lparr>ms_phase = Serving, ms_now = now, ms_running = []\<rparr>"

fun main_next :: "main_state \<Rightarrow> main_event \<Rightarrow> main_state option" where
  \<comment> \<open>None: the event cannot happen in the state\<close>
  "main_next s (Accept i) =
     (if ms_phase s = Serving then Some (s\<lparr>ms_running := (i, ms_now s) # ms_running s\<rparr>) else None)"
| "main_next s (Finish i) =
     (case ms_phase s of
        Exited _ \<Rightarrow> None
      | _ \<Rightarrow> Some (s\<lparr>ms_running := filter (\<lambda>p. fst p \<noteq> i) (ms_running s)\<rparr>))"
| "main_next s (Pass d) =
     (case ms_phase s of Exited _ \<Rightarrow> None | _ \<Rightarrow> Some (s\<lparr>ms_now := ms_now s + int d\<rparr>))"
| "main_next s Signal =
     (case ms_phase s of
        Serving \<Rightarrow> Some (s\<lparr>ms_phase := Stopping (ms_now s + shutdownTimeout)\<rparr>)
      | Stopping _ \<Rightarrow> Some (s\<lparr>ms_phase := Exited (Some ''signal'')\<rparr>)
      | Exited _ \<Rightarrow> None)"
| "main_next s Server_error =
     (if ms_phase s = Serving then Some (s\<lparr>ms_phase := Exited (Some ''server'')\<rparr>) else None)"
| "main_next s Shutdown_returns =
     (case ms_phase s of
        Stopping deadline \<Rightarrow>
          (if ms_running s = [] \<or> deadline \<le> ms_now s then Some (s\<lparr>ms_phase := Exited None\<rparr>) else None)
      | _ \<Rightarrow> None)"

fun main_run :: "main_state \<Rightarrow> main_event list \<Rightarrow> main_state list option" where
  \<comment> \<open>the states the process goes through\<close>
  "main_run s [] = Some [s]"
| "main_run s (e # es) =
     (case main_next s e of None \<Rightarrow> None | Some s' \<Rightarrow> map_option (\<lambda>ss. s # ss) (main_run s' es))"

definition timely :: "main_state \<Rightarrow> bool" where
  \<comment> \<open>no request has been running for as long as the shutdown waits\<close>
  "timely s \<longleftrightarrow> list_all (\<lambda>(i, t). ms_now s - t < shutdownTimeout) (ms_running s)"

definition before_deadline :: "main_state \<Rightarrow> bool" where
  \<comment> \<open>accepted by now; and once stopping, by the signal\<close>
  "before_deadline s \<longleftrightarrow> list_all (\<lambda>(i, t). t \<le> ms_now s) (ms_running s)
     \<and> (case ms_phase s of Stopping d \<Rightarrow> list_all (\<lambda>(i, t). t + shutdownTimeout \<le> d) (ms_running s) | _ \<Rightarrow> True)"

lemma before_deadline_next: "main_next s e = Some s' \<Longrightarrow> before_deadline s \<Longrightarrow> before_deadline s'"
  by (cases e) (auto simp: before_deadline_def list_all_iff split: phase.splits if_splits, force+)

lemma main_next_exits:
  assumes "main_next s e = Some s'" and "ms_phase s' = Exited None" and "before_deadline s" and "timely s"
  shows "ms_running s' = []"
proof -
  obtain d where s: "ms_phase s = Stopping d" "s' = s\<lparr>ms_phase := Exited None\<rparr>"
    and e: "ms_running s = [] \<or> d \<le> ms_now s"
    using assms(1,2) by (cases e) (auto split: phase.splits if_splits)
  have "ms_running s = []"
  proof (rule ccontr)
    assume ne: "ms_running s \<noteq> []"
    then obtain i t where "(i, t) \<in> set (ms_running s)" by (cases "ms_running s") auto
    then have "t + shutdownTimeout \<le> d" "ms_now s - t < shutdownTimeout"
      using assms(3,4) s(1) by (auto simp: before_deadline_def timely_def list_all_iff)
    then show False using e ne by simp
  qed
  then show ?thesis using s(2) by simp
qed

lemma main_run_Cons: "main_run s es = Some ss \<Longrightarrow> \<exists>rest. ss = s # rest"
  by (cases es) (auto split: option.splits)

lemma main_run_drains:
  assumes "main_run s es = Some ss" and "list_all timely ss" and "before_deadline s"
    and "ms_phase s \<noteq> Exited None" and "ms_phase (last ss) = Exited None"
  shows "ms_running (last ss) = []"
  using assms
proof (induction es arbitrary: s ss)
  case (Cons e es)
  obtain s' rest where n: "main_next s e = Some s'" and r: "main_run s' es = Some rest" and ss: "ss = s # rest"
    using Cons.prems(1) by (auto split: option.splits)
  have ne: "rest \<noteq> []" and l: "last ss = last rest" using main_run_Cons [OF r] ss by auto
  show ?case
  proof (cases "ms_phase s' = Exited None")
    case False
    then show ?thesis
      using Cons.IH [OF r _ before_deadline_next [OF n Cons.prems(3)]] Cons.prems(2,5) ss l by simp
  next
    case True
    have "es = []" using r True by (cases es; cases "hd es") auto
    then show ?thesis
      using r main_next_exits [OF n True Cons.prems(3)] Cons.prems(2) ss by auto
  qed
qed simp

end
