(* ===== verification/Properties_Runtime.thy ===== *)
theory Properties_Runtime
  imports Properties_Wire Histories Lifecycle
begin

text \<open>
  The program as a whole: the stores as a refinement of the ledger, the bounds of what they hold, what
  the handlers answer, how the server starts, logs and stops.
\<close>

section \<open>The ledger\<close>

text \<open>
  In every interleaving of the statements of requests (below) the nonces stay within zero and the
  greatest INTEGER, although the column is a BIGINT (see \<open>int4_param\<close>): the one that would
  be beyond it is never stored, and the statement fails instead.
\<close>

lemma nonces_bounded:
  assumes "session_reachable (d, S)"
  shows "0 \<le> nonce_of d pk \<and> nonce_of d pk \<le> int4_max
     \<and> fst (sql_claim_nonce pk int4_max cc now d) = Inl ErrDb"
  using sessions.reachable_inv [OF assms]
  by (auto simp: session_inv_def sql_claim_nonce_def int4_param_def)

lemma nonces_bounded_witness:
  "0 \<le> nonce_of (snd (call_stmt (Claim_nonce ''pk'' 0 ''cc'') 5 empty_db)) ''pk''
     \<and> nonce_of (snd (call_stmt (Claim_nonce ''pk'' 0 ''cc'') 5 empty_db)) ''pk'' = 1"
proof -
  let ?d = "snd (call_stmt (Claim_nonce ''pk'' 0 ''cc'') 5 empty_db)"
  have "session_reachable (empty_db, {})" by (rule reachable_init) (simp add: session_start_def)
  then have "session_reachable (empty_db, insert (''pk'', nonce_of empty_db ''pk'') {})"
    by (rule reachable_step) (rule read_nonce)
  then have "session_reachable (?d, insert (''pk'', nonce_of empty_db ''pk'') {})"
    by (rule reachable_step)
      (rule run_stmt [of "Claim_nonce ''pk'' 0 ''cc''", where now = 5], auto simp: claim_was_read_def prod_eq_iff)
  from nonces_bounded [OF this] have "0 \<le> nonce_of ?d ''pk''" by simp
  moreover have "nonce_of ?d ''pk'' = 1"
    by (simp add: sql_claim_nonce_def empty_db_def mapping_of_def nonce_of_def int4_param_def
        int4_max_def table_insert_def new_mapping_def)
  ultimately show ?thesis by simp
qed



section \<open>Answers\<close>

fun card_of :: "user_call \<Rightarrow> string option" where
  \<comment> \<open>the card a call names in its path\<close>
  "card_of (Get_Card i) = Some i"
| "card_of (Delete_Card i) = Some i"
| "card_of (Update_Card_Pin i _) = Some i"
| "card_of (Freeze_Card i) = Some i"
| "card_of (Unfreeze_Card i) = Some i"
| "card_of (Reveal_Card_Details i _) = Some i"
| "card_of (Update_Card_3DS_Method i _) = Some i"
| "card_of (Activate_Physical_Card i _) = Some i"
| "card_of (Get_Card_Activation_Code i) = Some i"
| "card_of (Push_Provision_Card i _ _) = Some i"
| "card_of _ = None"

definition turned_away :: "world \<Rightarrow> resp \<times> world \<Rightarrow> bool" where
  "turned_away w out \<longleftrightarrow> fst out \<in> {error_json 404 ''not found'', internal_error, invalid_request, key_required}
     \<and> sent (snd out) = sent w \<and> wdb (snd out) = wdb w \<and> tasks (snd out) = tasks w"

lemma answer_refused: "refused w (m w) \<Longrightarrow> turned_away w (answer owned_errors m w)"
  by (cases "m w") (auto simp: turned_away_def refused_def answer_def handle_def reply_def owned_errors_def)

lemma reply_turned_away:
  "turned_away w (reply invalid_request w)" "turned_away w (reply key_required w)"
  by (simp_all add: turned_away_def reply_def)

text \<open>
  C35. A call on a card that is not the vault's is answered 404 "not found", as for a card that does not
  exist (or 400 for inputs that are refused before, or 500 when the database fails), with nothing sent,
  queued or written, and whatever REAP knows of the card.
\<close>

theorem foreign_card_not_found:
  assumes "card_of u = Some i" and "owner_in (card_ownership (wdb w)) i \<noteq> Some pk"
  shows "turned_away w (serve_user env pk u w)"
proof -
  have r: "refused w (card_service env pk i a w)" for a
    using assms(2) by (simp add: card_service_gated owned_then_refused)
  note R = r [of GetCard] r [of DeleteCard] r [of FreezeCard] r [of UnfreezeCard] r [of GetCardActivationCode]
    r [of "UpdateCardPin _"] r [of "RevealCardDetails _ _"] r [of "UpdateCard3DSChallengeMethod _"]
    r [of "ActivatePhysicalCard _"] r [of "PushProvisionCard _ _ _ _"]
  show ?thesis using assms(1) R
    by (cases u) (auto simp: handler_defs intro!: answer_refused reply_turned_away split: option.split)
qed

theorem foreign_card_not_found_witness:
  "turned_away sample_world (serve_user sample_env ''pk'' (Freeze_Card ''d'') sample_world)"
  by (rule foreign_card_not_found [of _ "''d''"]) simp_all

text \<open>
  Creating a card on an account that is not the vault's is answered 500 "internal error", although it
  is refused like any other use of another vault's account, with nothing sent or written.
\<close>

lemma createCard_foreign_account_internal_error:
  assumes "owner_in (account_ownership (wdb w)) a \<noteq> Some pk" and "reap_user_of (wdb w) pk = Some u" and "u \<noteq> []"
    and "db_fault env (tick w) = NoFault" and "key \<noteq> []" and "a \<noteq> []" and "ty \<noteq> []"
  shows "\<exists>w'. serve_user env pk (Create_Card key (Some (a, ty, m, ds))) w = (internal_error, w')
     \<and> sent w' = sent w \<and> wdb w' = wdb w"
  using assms
  by (auto simp: Server_createCard_def answer_def handle_def reply_def CardService_CreateCard_def andThen_def
      resolveReapUserID_run isowner_run user_errors_def split: option.split prod.split sum.split)

section \<open>Starting, logging, stopping\<close>

text \<open>
  C37. The server starts exactly when the three secrets are set and the database is there and migrated.
  It then holds those secrets, talks to REAP's production only under the configuration \<open>prod\<close> and to
  the sandbox under any other, and with production behind it has no simulation routes.
\<close>

theorem server_start_checks:
  "if cfg_JWTSecret cfg \<noteq> [] \<and> cfg_ReapAPIKey cfg \<noteq> [] \<and> cfg_ReapWebhookSecret cfg \<noteq> []
      \<and> connects out cfg \<and> migrate_ok out
   then \<exists>env'. server_start out cfg env = Inr (env', cfg_ReapEnv cfg, CHR '':'' # cfg_Port cfg)
      \<and> jwtSecret env' = cfg_JWTSecret cfg \<and> webhookSecret env' = cfg_ReapWebhookSecret cfg
      \<and> apiKey (reap env') = cfg_ReapAPIKey cfg
      \<and> (baseURL (reap env') = sandboxBaseURL
         \<or> baseURL (reap env') = prodBaseURL \<and> cfg_ReapEnv cfg = ''prod''
            \<and> Server_serve env' (cfg_ReapEnv cfg) h (Simulation s) w = (HTTPError 404 ''Not Found'', w))
   else \<exists>msg. server_start out cfg env = Inl msg"
  by (auto simp: server_start_def Let_def Client_NewClient_def Client_NewClientWithBaseURL_def Server_serve_def reply_def)

text \<open>
  Logging a request changes neither its answer nor what it does, and sends, when metrics are
  configured, one count and one duration, after the request's own, tagged with the method, the route
  pattern (never an ID) and the status.
\<close>

lemma every_request_logged:
  "let w1 = w\<lparr>tick := Suc (tick w)\<rparr>; (r, w2) = Server_serve env reapEnv h c w1;
       (meth, path) = route_of reapEnv c; tags = request_tags meth path (status_of r);
       d = clock env (tick w2) - clock env (tick w) in
   Server_logged env reapEnv h c w = (r, w2\<lparr>tick := Suc (tick w2), metrics := metrics w2 @
     (case stats (reap env) of None \<Rightarrow> []
      | Some p \<Rightarrow> [statsd_packet p ''http.request.count'' ''1'' ''c'' tags,
                  statsd_packet p ''http.request.duration'' (FormatMillis d) ''ms'' tags])\<rparr>)"
  by (simp add: Server_logged_def time_now_def LogValues_run Let_def prod_eq_iff split: prod.split)

text \<open>
  C38. A process that ends through the graceful shutdown, whatever happened before the signal and however
  the requests and the signal interleave, leaves no request in flight, when no request ever runs as long
  as the twenty seconds the shutdown waits.
\<close>

theorem shutdown_drains:
  assumes "main_run (main_start now) es = Some ss" and "list_all timely ss" and "ms_phase (last ss) = Exited None"
  shows "ms_running (last ss) = []"
  by (rule main_run_drains [OF assms(1,2) _ _ assms(3)]) (simp_all add: main_start_def before_deadline_def)

theorem shutdown_drains_witness:
  "\<exists>ss. main_run (main_start 0) [Accept 1, Accept 2, Pass 5, Signal, Finish 1, Pass 100, Finish 2, Shutdown_returns]
     = Some ss \<and> ms_running (last ss) = []"
proof -
  let ?es = "[Accept 1, Accept 2, Pass 5, Signal, Finish 1, Pass 100, Finish 2, Shutdown_returns]"
  obtain ss where run: "main_run (main_start 0) ?es = Some ss" and ok: "list_all timely ss"
    and e: "ms_phase (last ss) = Exited None"
    by (simp add: main_start_def timely_def shutdownTimeout_def)
  from shutdown_drains [OF run ok e] run show ?thesis by blast
qed

end
