(* ===== verification/Outbound.thy ===== *)
theory Outbound
  imports Request_Binding
begin

text \<open>
  What a request to the server makes it send to REAP: how many requests, of what kind, and of what
  shape. The contract of the services with the client is the locale \<open>outbound\<close>: it takes a condition
  on requests that holds of everything the client builds, and shows that every request the server
  sends satisfies it, that there are two of them at most, and that the first of two only reads.
\<close>

section \<open>What is sent\<close>

definition one :: "(http_req \<Rightarrow> bool) \<Rightarrow> http_req list \<Rightarrow> bool" where
  "one ok s \<longleftrightarrow> length s \<le> 1 \<and> list_all ok s"

definition look_up :: "(http_req \<Rightarrow> bool) \<Rightarrow> http_req list \<Rightarrow> bool" where
  "look_up ok s \<longleftrightarrow> one ok s \<and> list_all (\<lambda>q. req_method q = ''GET'') s"

definition two :: "(http_req \<Rightarrow> bool) \<Rightarrow> http_req list \<Rightarrow> bool" where
  "two ok s \<longleftrightarrow> (\<exists>g c. s = g @ c \<and> look_up ok g \<and> one ok c)"

definition sends :: "(http_req list \<Rightarrow> bool) \<Rightarrow> world \<Rightarrow> world \<Rightarrow> bool" where
  "sends L w w' \<longleftrightarrow> (\<exists>s. sent w' = sent w @ s \<and> L s)"

lemma languages [simp]: "one ok []" "look_up ok []" "two ok []"
  by (auto simp: one_def look_up_def two_def)

lemma sends_silent: "keeps_sent w w' \<Longrightarrow> L [] \<Longrightarrow> sends L w w'"
  by (simp add: sends_def keeps_sent_def)

lemma sends_refl [simp]: "L [] \<Longrightarrow> sends L w w"
  by (simp add: sends_silent)

lemma sends_look_up: "sends (look_up ok) w w' \<Longrightarrow> sends (one ok) w w'"
  unfolding sends_def look_up_def by blast

lemma sends_one: "sends (one ok) w w' \<Longrightarrow> sends (two ok) w w'"
  unfolding sends_def two_def by (metis append_Nil languages(2))

lemma sends_then_silent:
  assumes "\<And>w. sends L w (snd (m w))" and "\<And>x w. keeps_sent w (snd (k x w))"
  shows "sends L w (snd (andThen m k w))"
proof (cases "m w")
  case (Pair r w')
  then show ?thesis using assms(1) [of w] assms(2) [of w']
    by (cases r) (auto simp: andThen_def sends_def keeps_sent_def)
qed

lemma silent_then_sends:
  assumes "\<And>w. keeps_sent w (snd (m w))" and "\<And>x w. sends L w (snd (k x w))" and "L []"
  shows "sends L w (snd (andThen m k w))"
proof (cases "m w")
  case (Pair r w')
  then show ?thesis using assms(1) [of w] assms(2) [of w'] assms(3)
    by (cases r) (auto simp: andThen_def sends_def keeps_sent_def)
qed

lemma look_up_then_sends:
  assumes "\<And>w. sends (look_up ok) w (snd (m w))" and "\<And>x w. sends (one ok) w (snd (k x w))"
  shows "sends (two ok) w (snd (andThen m k w))"
proof (cases "m w")
  case (Pair r w')
  then obtain g where g: "sent w' = sent w @ g" "look_up ok g" using assms(1) [of w] by (auto simp: sends_def)
  show ?thesis
  proof (cases r)
    case (Inl e)
    have "two ok g" unfolding two_def using g(2) by (metis append_Nil2 languages(1))
    then show ?thesis using Pair g(1) Inl by (auto simp: andThen_def sends_def)
  next
    case (Inr x)
    obtain c where "sent (snd (k x w')) = sent w' @ c" "one ok c"
      using assms(2) [where x = x and w = w'] by (auto simp: sends_def)
    then show ?thesis using Pair g Inr by (auto simp: andThen_def sends_def two_def)
  qed
qed

lemma attempt_then_silent:
  assumes "\<And>w. sends L w (snd (m w))" and "\<And>x w. keeps_sent w (snd (k x w))"
  shows "sends L w (snd (attempt m k w))"
  using assms(1) [of w] assms(2) [of "snd (m w)" "fst (m w)"]
  by (auto simp: attempt_def sends_def keeps_sent_def split: prod.splits)

lemma handle_then_silent:
  assumes "\<And>w. sends L w (snd (m w))" and "\<And>x w. keeps_sent w (snd (k x w))"
  shows "sends L w (snd (handle m k w))"
  using assms(1) [of w] assms(2) [of "snd (m w)" "fst (m w)"]
  by (auto simp: handle_def sends_def keeps_sent_def split: prod.splits)

lemma silent_then_handle:
  assumes "\<And>w. keeps_sent w (snd (m w))" and "\<And>x w. sends L w (snd (k x w))"
  shows "sends L w (snd (handle m k w))"
  using assms(1) [of w] assms(2) [of "snd (m w)" "fst (m w)"]
  by (auto simp: handle_def sends_def keeps_sent_def split: prod.splits)

lemma owned_then_sends:
  assumes "\<And>w. sends L w (snd (act w))" and "L []"
  shows "sends L w (snd (owned_then env own pk act w))"
  using assms(1) [of "w\<lparr>tick := Suc (tick w)\<rparr>"] assms(2) by (auto simp: owned_then_def sends_def)

lemma answer_sends: "(\<And>w. sends L w (snd (m w))) \<Longrightarrow> sends L w (snd (answer errs m w))"
  unfolding answer_def by (rule handle_then_silent) (auto split: sum.split)

lemma reply_sends: "L [] \<Longrightarrow> sends L w (snd (reply r w))"
  by (rule sends_silent) simp_all

section \<open>The contract of the client\<close>

definition object :: "string \<Rightarrow> bool" where
  \<comment> \<open>the text of a JSON object\<close>
  "object b \<longleftrightarrow> (case json_parse b of Some (JObj _) \<Rightarrow> True | _ \<Rightarrow> False)"

definition http_method :: "string \<Rightarrow> bool" where
  "http_method m \<longleftrightarrow> m \<in> {''GET'', ''POST'', ''PUT'', ''PATCH'', ''DELETE''}"

definition header_option :: "((string \<times> string) list \<Rightarrow> (string \<times> string) list) \<Rightarrow> bool" where
  "header_option opts \<longleftrightarrow> opts = id \<or> (\<exists>key. opts = idempotency key \<or> opts = idempotency_opt key)"

lemma header_options [simp]: "header_option id" "header_option (idempotency key)" "header_option (idempotency_opt key)"
  by (auto simp: header_option_def)

lemma object_struct: "texts k fs \<Longrightarrow> Suc k \<le> max_depth \<Longrightarrow> object (marshal_struct fs)"
  using reads_parse [OF reads_marshal] by (simp add: object_def)

lemma object_carries: "carries k rd txt x \<Longrightarrow> object txt"
  by (auto simp: carries_def object_def dest: reads_parse)

lemma hd_pathf: "hd (pathf (CHR ''/'' # f) is) = CHR ''/''" "pathf (CHR ''/'' # f) is \<noteq> []"
  by (simp_all add: pathf_def Sprintf.simps [of "_ # _"])

text \<open>The bodies the client marshals are objects.\<close>

lemma object_fields:
  "plain k1 \<Longrightarrow> object (marshal_struct [(k1, marshal_string a)])"
  "plain k1 \<Longrightarrow> object (marshal_struct [(k1, marshal_bool x)])"
  by (rule object_struct [of 0], intro text_intros; simp)+

lemma object_bodies:
  "object (json_create_user r)" "object (json_create_account a)" "object (json_create_card c)"
  "object (json_report_fraud f)" "object (json_respond_alert l)"
proof -
  show "object (json_create_user r)"
    unfolding json_create_user_def json_terms_def
    by (rule object_struct [of "Suc 0"], intro text_intros) (simp_all add: plain_def max_depth_def)
  show "object (json_create_account a)"
    unfolding json_create_account_def
    by (rule object_struct [of 2], intro text_intros texts_omitnil [OF carries_signers])
      (simp_all add: plain_def max_depth_def)
  show "object (json_create_card c)"
    unfolding json_create_card_def
    by (rule object_struct [of 0], intro text_intros) (simp_all add: plain_def)
  show "object (json_report_fraud f)"
    unfolding json_report_fraud_def
    by (rule object_struct [of 0], intro text_intros) (simp_all add: plain_def)
  show "object (json_respond_alert l)"
    unfolding json_respond_alert_def
    by (rule object_struct [of 0], intro text_intros) (simp_all add: plain_def)
qed

lemma reads_shipment_parts [text_intros]:
  "1 \<le> k \<Longrightarrow> reads k (json_address a) (val (json_address a))"
  "1 \<le> k \<Longrightarrow> reads k (json_courier c) (val (json_courier c))"
  "1 \<le> k \<Longrightarrow> reads k (json_recipient r) (val (json_recipient r))"
proof -
  have r: "texts 0 [(''firstName'', marshal_string (sr_FirstName r)), (''lastName'', marshal_string (sr_LastName r)),
      (''phoneNumber'', marshal_string (sr_PhoneNumber r)), (''dialCode'', Itoa (sr_DialCode r)),
      (''email'', marshal_string (sr_Email r))]"
    by (intro text_intros) (simp_all add: plain_def)
  show "1 \<le> k \<Longrightarrow> reads k (json_recipient r) (val (json_recipient r))"
    using reads_mono [OF reads_struct_val [OF r]] by (simp add: json_recipient_def)
  show "1 \<le> k \<Longrightarrow> reads k (json_address a) (val (json_address a))"
    "1 \<le> k \<Longrightarrow> reads k (json_courier c) (val (json_courier c))"
    using carriesE [OF carries_address] carriesE [OF carries_courier] reads_mono by metis+
qed

lemma object_shipments:
  "object (json_create_shipment r)" "object (json_update_shipment u)" "object (json_member m)"
proof -
  have "reads 3 (case cs_Cards r of None \<Rightarrow> ''null'' | Some ms \<Rightarrow> marshal_array (map json_member ms))
      (val (case cs_Cards r of None \<Rightarrow> ''null'' | Some ms \<Rightarrow> marshal_array (map json_member ms)))"
    using reads_array_carries [OF carries_member] by (auto simp: max_depth_def reads_leaf split: option.split)
  then show "object (json_create_shipment r)"
    unfolding json_create_shipment_def
    by (intro object_struct [of 3] text_intros) (simp_all add: plain_def max_depth_def)
  show "object (json_update_shipment u)"
    unfolding json_update_shipment_def
    by (rule object_struct [of 1], intro text_intros) (simp_all add: plain_def max_depth_def)
  show "object (json_member m)" by (rule object_carries [OF carries_member])
qed

lemma object_simulate:
  assumes "number_text (st_Amount r)" and "number_text (st_OriginalAmount r)"
  shows "object (json_simulate r)"
  by (rule object_carries [OF carries_simulate [OF assms, of Some]]) simp_all

lemma object_inline:
  "object (marshal_struct (omitempty ''stylesheetUrl'' a @ [(''showCopyPanButton'', marshal_bool x)]))"
  "object (marshal_struct [(''provider'', marshal_string a), (''walletAccountId'', marshal_string b), (''deviceId'', marshal_string c)])"
  by (rule object_struct [of 0], intro text_intros; simp add: plain_def)+

fun forwarded :: "call \<Rightarrow> string list" where
  \<comment> \<open>the bodies that are not of the client's making alone: the application, sent on as it came, and a
    simulated transaction, whose amounts are the caller's numbers\<close>
  "forwarded (Protected (Advance_User_Application (Some b) k)) = [b]"
| "forwarded (Simulation (Simulate_Authorization (Some r))) = [json_simulate r]"
| "forwarded (Simulation (Simulate_3DS_Authorization (Some r))) = [json_simulate r]"
| "forwarded (Simulation (Simulate_Decline (Some r))) = [json_simulate r]"
| "forwarded (Simulation (Simulate_Clearing (Some r))) = [json_simulate r]"
| "forwarded (Simulation (Simulate_Reversal (Some r))) = [json_simulate r]"
| "forwarded (Simulation (Simulate_Refund (Some r))) = [json_simulate r]"
| "forwarded _ = []"

locale outbound =
  fixes env :: env
    and body_ok :: "string \<Rightarrow> bool"
    and ok :: "http_req \<Rightarrow> bool"
  assumes objects: "object txt \<Longrightarrow> body_ok txt"
    and requests: "http_method m \<Longrightarrow> p \<noteq> [] \<Longrightarrow> hd p = CHR ''/'' \<Longrightarrow> pred_option body_ok b
      \<Longrightarrow> header_option opts
      \<Longrightarrow> ok (reap_request env m p b opts)"
begin

lemma Client_do_sends:
  assumes "ok (reap_request env m p b opts)"
  shows "sends (one ok) w (snd (Client_do env m p b opts w))"
  using Client_do_out(1) [of env m p b opts w] assms by (auto simp: sends_def one_def)


text \<open>Every endpoint sends one request, of this shape.\<close>

lemma Client_do_ok:
  assumes "http_method m" and "p \<noteq> []" and "hd p = CHR ''/''"
    and "pred_option body_ok b"
    and "header_option opts"
  shows "sends (one ok) w (snd (Client_do env m p b opts w))"
  by (rule Client_do_sends, rule requests) (use assms in simp_all)

lemma Client_get:
  assumes "p \<noteq> []" and "hd p = CHR ''/''"
  shows "sends (look_up ok) w (snd (Client_do env ''GET'' p None id w))"
proof -
  have "ok (reap_request env ''GET'' p None id)" by (rule requests) (use assms in \<open>simp_all add: http_method_def\<close>)
  moreover have "req_method (reap_request env ''GET'' p None id) = ''GET''" by (simp add: reap_request_def Let_def)
  ultimately show ?thesis
    using Client_do_out(1) [of env "''GET''" p None id w] by (auto simp: sends_def look_up_def one_def)
qed

lemma endpoints:
  "sends (one ok) w (snd (Client_CreateUser env cu w))"
  "sends (one ok) w (snd (Client_GetUser env i w))"
  "sends (one ok) w (snd (Client_UpdateEmail env i a w))"
  "sends (one ok) w (snd (Client_UpdatePhoneNumber env i a w))"
  "sends (one ok) w (snd (Client_CreateAccount env ca a w))"
  "sends (one ok) w (snd (Client_GenerateSignerMessage env w))"
  "sends (one ok) w (snd (Client_GetAccount env i w))"
  "sends (one ok) w (snd (Client_GetAccountBalance env i w))"
  "sends (one ok) w (snd (Client_GetAccountAssets env i w))"
  "sends (one ok) w (snd (Client_ListAccounts env i l a w))"
  "sends (one ok) w (snd (Client_CreateCard env cc a w))"
  "sends (one ok) w (snd (Client_ListCards env q w))"
  "sends (one ok) w (snd (Client_RespondToCard3DSChallenge env i b w))"
  "sends (one ok) w (snd (Client_CreateCardShipment env cs w))"
  "sends (one ok) w (snd (Client_ListCardShipments env q w))"
  "sends (one ok) w (snd (Client_DeleteCardShipment env i w))"
  "sends (one ok) w (snd (Client_UpdateCardShipment env i us w))"
  "sends (one ok) w (snd (Client_AddCardToShipment env i cm w))"
  "sends (one ok) w (snd (Client_RemoveCardFromShipment env i a w))"
  "sends (one ok) w (snd (Client_SubmitCardShipment env i a w))"
  "sends (one ok) w (snd (Client_ListCardDesigns env q w))"
  "sends (one ok) w (snd (Client_GetCardDesign env i w))"
  "sends (one ok) w (snd (Client_ListActivities env q w))"
  "sends (one ok) w (snd (Client_ListFraudAlerts env q w))"
  "sends (one ok) w (snd (Client_ReportFraud env rf a w))"
  "sends (one ok) w (snd (Client_RespondToFraudAlert env i ra a w))"
  "sends (one ok) w (snd (Client_SimulateUserApplicationStatus env i a w))"
  "sends (one ok) w (snd (Client_SimulateAccountStatus env i a w))"
  "sends (one ok) w (snd (Client_SimulateCardStatus env i a w))"
  by (simp_all add: client_defs Let_def Client_do_ok http_method_def hd_pathf objects object_bodies
      object_shipments object_fields plain_def)

lemma card_request_sends: "sends (one ok) w (snd (card_request env i act w))"
  by (cases act)
    (simp_all add: client_defs Client_do_ok http_method_def hd_pathf objects object_fields object_inline plain_def)

lemma lookups:
  "sends (look_up ok) w (snd (Client_GetCard3DSChallenge env i w))"
  "sends (look_up ok) w (snd (Client_GetCardShipment env i w))"
  "sends (look_up ok) w (snd (Client_GetCardTransaction env i w))"
  "sends (look_up ok) w (snd (Client_GetFraudAlert env i w))"
  by (simp_all add: client_defs Client_get hd_pathf)

lemma Client_Advance_sends:
  "body_ok b \<Longrightarrow> sends (one ok) w (snd (Client_AdvanceUserApplication env i b k w))"
  by (simp add: client_defs Client_do_ok http_method_def hd_pathf)

lemma simulate_sends:
  assumes "body_ok (json_simulate r)"
  shows "sends (one ok) w (snd (Client_SimulateAuthorization env r w))"
    "sends (one ok) w (snd (Client_SimulateThreeDSAuthorization env r w))"
    "sends (one ok) w (snd (Client_SimulateDecline env r w))"
    "sends (one ok) w (snd (Client_SimulateClearing env r w))"
    "sends (one ok) w (snd (Client_SimulateReversal env r w))"
    "sends (one ok) w (snd (Client_SimulateRefund env r w))"
  using assms by (simp_all add: client_defs Client_do_ok http_method_def)

subsection \<open>One request behind a check of what is recorded\<close>

lemma silent_one:
  "(\<And>w. keeps_sent w (snd (m w))) \<Longrightarrow> (\<And>x w. sends (one ok) w (snd (k x w))) \<Longrightarrow> sends (one ok) w (snd (andThen m k w))"
  by (rule silent_then_sends) simp_all

lemma fail_one: "sends (one ok) w (snd (fail e w))" "sends (one ok) w (snd (ret x w))"
  by (simp_all add: sends_silent)

lemma answer_one: "(\<And>w. sends (one ok) w (snd (m w))) \<Longrightarrow> sends (two ok) w (snd (answer errs m w))"
  by (intro answer_sends sends_one)

lemma user_sends:
  "sends (one ok) w (snd (UserService_CreateUser env pk cu w))"
  "sends (one ok) w (snd (UserService_GetUser env pk w))"
  "sends (one ok) w (snd (UserService_UpdateEmail env pk a w))"
  "sends (one ok) w (snd (UserService_UpdatePhoneNumber env pk a w))"
  "body_ok b \<Longrightarrow> sends (one ok) w (snd (UserService_AdvanceUserApplication env pk b a w))"
proof -
  show "sends (one ok) w (snd (UserService_CreateUser env pk cu w))"
    unfolding UserService_CreateUser_def
    by (intro silent_one attempt_then_silent)
      (auto intro!: silent_intros silent_one sends_silent attempt_then_silent endpoints
        split: sum.splits option.splits prod.splits)
qed (auto simp: user_service_defs intro!: silent_one silent_intros endpoints Client_Advance_sends)

lemma account_sends:
  "sends (one ok) w (snd (AccountService_CreateAccount env pk sg k w))"
  "sends (one ok) w (snd (AccountService_GenerateSignerMessage env w))"
  "sends (one ok) w (snd (AccountService_GetAccount env pk i w))"
  "sends (one ok) w (snd (AccountService_GetAccountBalance env pk i w))"
  "sends (one ok) w (snd (AccountService_GetAccountAssets env pk i w))"
  "sends (one ok) w (snd (AccountService_ListAccounts env pk l c w))"
proof -
  show "sends (one ok) w (snd (AccountService_CreateAccount env pk sg k w))"
    unfolding AccountService_CreateAccount_def
    by (rule silent_one, rule silent_intros, rule sends_then_silent, rule endpoints)
      (auto intro!: silent_intros account_store.rec_silent split: option.splits prod.splits)
qed (auto simp: account_service_defs intro!: silent_one silent_intros endpoints)

lemma card_sends:
  "sends (one ok) w (snd (CardService_CreateCard env pk cc k w))"
  "sends (one ok) w (snd (CardService_ListCards env pk q w))"
  "sends (one ok) w (snd (card_service env pk i a w))"
proof -
  show "sends (one ok) w (snd (CardService_CreateCard env pk cc k w))"
    unfolding CardService_CreateCard_def
    by (rule silent_one, rule silent_intros, rule silent_one, rule silent_intros)
      (auto simp del: andThen_ret intro!: sends_then_silent endpoints silent_intros split: option.splits prod.splits)
  show "sends (one ok) w (snd (CardService_ListCards env pk q w))"
    unfolding CardService_ListCards_def by (auto intro!: silent_one silent_intros endpoints)
  show "sends (one ok) w (snd (card_service env pk i a w))"
    unfolding card_service_gated by (rule owned_then_sends, rule card_request_sends) simp
qed

lemmas card_actions_send = card_sends(3) [where a = GetCard, simplified] card_sends(3) [where a = DeleteCard, simplified]
  card_sends(3) [where a = "UpdateCardPin x" for x, simplified] card_sends(3) [where a = FreezeCard, simplified]
  card_sends(3) [where a = UnfreezeCard, simplified] card_sends(3) [where a = "RevealCardDetails x y" for x y, simplified]
  card_sends(3) [where a = "UpdateCard3DSChallengeMethod x" for x, simplified]
  card_sends(3) [where a = "ActivatePhysicalCard x" for x, simplified]
  card_sends(3) [where a = GetCardActivationCode, simplified]
  card_sends(3) [where a = "PushProvisionCard x y z u" for x y z u, simplified]

subsection \<open>A lookup first\<close>

lemma fetches:
  "sends (look_up ok) w (snd (challengeCardID env i w))"
  "sends (look_up ok) w (snd (transactionCardID env i w))"
  "sends (look_up ok) w (snd (alertCardID env i w))"
  "sends (look_up ok) w (snd (fetchOwnedShipment env pk i w))"
  "sends (look_up ok) w (snd (checkTransactionOwnership env pk i w))"
  "sends (look_up ok) w (snd (CardTransactionService_GetCardTransaction env pk i w))"
proof -
  have loop: "keeps_sent w (snd (check_cards env pk cs w))" for cs w
    using check_cards_run [OF prod.collapse [symmetric]] by (simp add: keeps_sent_def)
  show "sends (look_up ok) w (snd (fetchOwnedShipment env pk i w))"
    unfolding fetchOwnedShipment_def
    by (rule sends_then_silent, rule lookups) (auto intro!: silent_intros loop split: sum.splits prod.splits)
  show "sends (look_up ok) w (snd (checkTransactionOwnership env pk i w))"
    unfolding checkTransactionOwnership_def SimulationService_checkCardOwnership_def
    by (auto intro!: sends_then_silent lookups silent_intros split: option.splits prod.splits)
qed (unfold challengeCardID_def transactionCardID_def alertCardID_def CardTransactionService_GetCardTransaction_def;
    rule sends_then_silent, rule lookups; auto intro!: silent_intros split: option.splits prod.splits)+

lemma look_up_two:
  "(\<And>w. sends (look_up ok) w (snd (m w))) \<Longrightarrow> (\<And>x w. sends (one ok) w (snd (k x w))) \<Longrightarrow> sends (two ok) w (snd (andThen m k w))"
  by (rule look_up_then_sends)

lemma shipment_sends:
  "sends (two ok) w (snd (ShipmentService_CreateCardShipment env pk cs w))"
  "sends (two ok) w (snd (ShipmentService_ListCardShipments env pk q w))"
  "sends (two ok) w (snd (ShipmentService_GetCardShipment env pk i w))"
  "sends (two ok) w (snd (ShipmentService_DeleteCardShipment env pk i w))"
  "sends (two ok) w (snd (ShipmentService_UpdateCardShipment env pk i us w))"
  "sends (two ok) w (snd (ShipmentService_AddCardToShipment env pk i cm w))"
  "sends (two ok) w (snd (ShipmentService_RemoveCardFromShipment env pk i mid w))"
  "sends (two ok) w (snd (ShipmentService_SubmitCardShipment env pk i k w))"
proof -
  have "keeps_sent w (snd (check_members env pk ms w))" for ms w
    using check_members_run [OF prod.collapse [symmetric]] by (simp add: keeps_sent_def)
  then show "sends (two ok) w (snd (ShipmentService_CreateCardShipment env pk cs w))"
    unfolding ShipmentService_CreateCardShipment_def checkShipmentMembers_def
    by (intro sends_one silent_one) (auto intro!: endpoints silent_intros)
  show "sends (two ok) w (snd (ShipmentService_ListCardShipments env pk q w))"
    unfolding ShipmentService_ListCardShipments_def Let_def
    by (intro sends_one) (auto intro!: silent_one endpoints silent_intros)
  show "sends (two ok) w (snd (ShipmentService_GetCardShipment env pk i w))"
    unfolding ShipmentService_GetCardShipment_def by (intro sends_one sends_look_up fetches)
qed (unfold shipment_service_defs; rule look_up_two, rule fetches;
    auto intro!: silent_one endpoints silent_intros split: prod.splits)+

lemma scoped_sends:
  "sends (two ok) w (snd (CardService_RespondToCard3DSChallenge env pk i b w))"
  "sends (two ok) w (snd (CardService_GetCard3DSChallenge env pk i w))"
  "sends (two ok) w (snd (CardTransactionService_GetCardTransaction env pk i w))"
  "sends (two ok) w (snd (ActivityService_ListActivities env pk q w))"
  "sends (two ok) w (snd (FraudAlertService_ListFraudAlerts env pk q w))"
  "sends (two ok) w (snd (FraudAlertService_ReportFraud env pk rf k w))"
  "sends (two ok) w (snd (FraudAlertService_GetFraudAlert env pk i w))"
  "sends (two ok) w (snd (FraudAlertService_RespondToFraudAlert env pk i ra k w))"
proof -
  have list: "sends (one ok) w (snd (fraud_list_scoped env pk q c w))" for q c w
    unfolding fraud_list_scoped_def FraudAlertService_checkCardOwnership_def
    by (auto intro!: silent_one endpoints silent_intros)
  show "sends (two ok) w (snd (FraudAlertService_ListFraudAlerts env pk q w))"
    unfolding FraudAlertService_ListFraudAlerts_def Let_def
    by (auto intro!: look_up_two fetches list sends_one [OF list] split: prod.splits)
  show "sends (two ok) w (snd (ActivityService_ListActivities env pk q w))"
    unfolding ActivityService_ListActivities_def Let_def
    by (intro sends_one) (auto intro!: silent_one endpoints silent_intros)
  show "sends (two ok) w (snd (CardTransactionService_GetCardTransaction env pk i w))"
    by (intro sends_one sends_look_up fetches)
qed (unfold CardService_RespondToCard3DSChallenge_def CardService_GetCard3DSChallenge_def
      FraudAlertService_ReportFraud_def FraudAlertService_GetFraudAlert_def FraudAlertService_RespondToFraudAlert_def
      FraudAlertService_checkCardOwnership_def;
    rule look_up_two, rule fetches;
    auto intro!: silent_one endpoints silent_intros split: prod.splits)+

lemma gated_transaction:
  assumes "\<And>w. sends (one ok) w (snd (act w))"
  shows "sends (two ok) w (snd (andThen (SimulationService_checkCardOwnership env pk c) (\<lambda>_.
      andThen (checkTransactionOwnership env pk t) (\<lambda>_. act)) w))"
proof -
  have card: "keeps_sent w (snd (SimulationService_checkCardOwnership env pk c w))" for w
    unfolding SimulationService_checkCardOwnership_def by (auto intro!: silent_intros)
  show ?thesis by (rule silent_then_sends, rule card, rule look_up_two, rule fetches, rule assms) simp
qed

lemma simulation_sends:
  "sends (two ok) w (snd (SimulationService_SimulateUserApplicationStatus env pk i a w))"
  "sends (two ok) w (snd (SimulationService_SimulateCompanyStatus env i sc w))"
  "sends (two ok) w (snd (SimulationService_SimulateAccountStatus env pk i a w))"
  "sends (two ok) w (snd (SimulationService_SimulateCardStatus env pk i a w))"
  "body_ok (json_simulate r) \<Longrightarrow> sends (two ok) w (snd (SimulationService_SimulateAuthorization env pk r w))"
  "body_ok (json_simulate r) \<Longrightarrow> sends (two ok) w (snd (SimulationService_SimulateThreeDSAuthorization env pk r w))"
  "body_ok (json_simulate r) \<Longrightarrow> sends (two ok) w (snd (SimulationService_SimulateDecline env pk r w))"
  "body_ok (json_simulate r) \<Longrightarrow> sends (two ok) w (snd (SimulationService_SimulateClearing env pk r w))"
  "body_ok (json_simulate r) \<Longrightarrow> sends (two ok) w (snd (SimulationService_SimulateReversal env pk r w))"
  "body_ok (json_simulate r) \<Longrightarrow> sends (two ok) w (snd (SimulationService_SimulateRefund env pk r w))"
proof -
  have card: "keeps_sent w (snd (SimulationService_checkCardOwnership env pk c w))" for c w
    unfolding SimulationService_checkCardOwnership_def by (auto intro!: silent_intros)
  have account: "keeps_sent w (snd (SimulationService_checkAccountOwnership env pk c w))" for c w
    unfolding SimulationService_checkAccountOwnership_def by (auto intro!: silent_intros)
  show "body_ok (json_simulate r) \<Longrightarrow> sends (two ok) w (snd (SimulationService_SimulateThreeDSAuthorization env pk r w))"
    unfolding simulation_defs by (intro sends_one silent_one card simulate_sends)
  show "sends (two ok) w (snd (SimulationService_SimulateUserApplicationStatus env pk i a w))"
    "sends (two ok) w (snd (SimulationService_SimulateCompanyStatus env i sc w))"
    "sends (two ok) w (snd (SimulationService_SimulateAccountStatus env pk i a w))"
    "sends (two ok) w (snd (SimulationService_SimulateCardStatus env pk i a w))"
    unfolding simulation_defs
    by (auto intro!: sends_one silent_one card account endpoints silent_intros)
qed (unfold simulation_defs, intro gated_transaction simulate_sends; assumption)+

subsection \<open>The whole server\<close>

lemma serve_public_sends: "sends (two ok) w (snd (serve_public env p w))"
  by (cases p)
    (auto simp: public_handler_defs Let_def intro!: silent_then_handle silent_intros reply_sends
      split: option.split sum.split prod.split)

lemma serve_user_sends:
  assumes "list_all body_ok (forwarded (Protected u))"
  shows "sends (two ok) w (snd (serve_user env pk u w))"
  using assms
  by (cases u)
    (auto simp: handler_defs CardDesignService_ListCardDesigns_def CardDesignService_GetCardDesign_def
      intro!: answer_one user_sends account_sends card_sends card_actions_send endpoints
        answer_sends [OF shipment_sends(1)] answer_sends [OF shipment_sends(2)] answer_sends [OF shipment_sends(3)]
        answer_sends [OF shipment_sends(4)] answer_sends [OF shipment_sends(5)] answer_sends [OF shipment_sends(6)]
        answer_sends [OF shipment_sends(7)] answer_sends [OF shipment_sends(8)]
        answer_sends [OF scoped_sends(1)] answer_sends [OF scoped_sends(2)] answer_sends [OF scoped_sends(3)]
        answer_sends [OF scoped_sends(4)] answer_sends [OF scoped_sends(5)] answer_sends [OF scoped_sends(6)]
        answer_sends [OF scoped_sends(7)] answer_sends [OF scoped_sends(8)] reply_sends
      split: option.split prod.split)

lemma serve_simulation_sends:
  assumes "list_all body_ok (forwarded (Simulation s))"
  shows "sends (two ok) w (snd (serve_simulation env pk s w))"
  using assms
  by (cases s)
    (auto simp: handler_defs intro!: answer_sends simulation_sends reply_sends split: option.split)

lemma RequireAuth_sends:
  assumes "\<And>cl w. sends (two ok) w (snd (nxt cl w))"
  shows "sends (two ok) w (snd (RequireAuth env nxt h w))"
proof -
  have "sends (two ok) w (snd (admit env nxt cl tok w))" for cl tok w
    using assms [where cl = cl and w = "w\<lparr>tick := tick w + 2\<rparr>"]
    by (auto simp: admit_def Let_def sends_def split: option.split)
  then show ?thesis unfolding RequireAuth_def Let_def ValidateToken_def
    by (auto intro!: silent_then_handle silent_intros reply_sends split: sum.split option.split)
qed

lemma Server_serve_sends:
  assumes "list_all body_ok (forwarded c)"
  shows "sends (two ok) w (snd (Server_serve env reapEnv h c w))"
  using assms
  by (cases c) (auto simp: Server_serve_def intro!: serve_public_sends RequireAuth_sends serve_user_sends
      serve_simulation_sends reply_sends)

end

section \<open>The client's requests are typed\<close>

definition wire_ok :: "env \<Rightarrow> string option \<Rightarrow> http_req \<Rightarrow> bool" where
  \<comment> \<open>a method and a path of the API, the credentials and the version; a body exactly with its content
    type, and a JSON object, or the text \<open>raw\<close> as it is\<close>
  "wire_ok env raw q \<longleftrightarrow> http_method (req_method q)
     \<and> take (Suc (length (baseURL (reap env)))) (req_url q) = baseURL (reap env) @ ''/''
     \<and> map_of (req_header q) ''Authorization'' = Some (''Bearer '' @ apiKey (reap env))
     \<and> map_of (req_header q) ''Reap-Version'' = Some apiVersion
     \<and> map_of (req_header q) ''Content-Type'' = map_option (\<lambda>_. ''application/json'') (req_body q)
     \<and> pred_option (\<lambda>b. object b \<or> raw = Some b) (req_body q)"

lemma header_option_keeps:
  assumes "header_option opts" and "k \<noteq> ''Idempotency-Key''"
  shows "map_of (opts h) k = map_of h k"
  using assms by (auto simp: header_option_def idempotency_def idempotency_opt_def Header_Set_def update_conv)

lemma wire_ok_request:
  assumes "http_method m" and "p \<noteq> []" and "hd p = CHR ''/''" and "pred_option (\<lambda>b. object b \<or> raw = Some b) b"
    and "header_option opts"
  shows "wire_ok env raw (reap_request env m p b opts)"
proof -
  obtain p' where "p = CHR ''/'' # p'" using assms(2,3) by (cases p) auto
  then show ?thesis
    using assms(1,4) header_option_keeps [OF assms(5)]
    by (cases b) (auto simp: wire_ok_def reap_request_def Let_def Header_Set_def update_conv)
qed

interpretation typed: outbound env "\<lambda>b. object b \<or> raw = Some b" "wire_ok env raw" for env raw
  by unfold_locales (simp_all add: wire_ok_request)

interpretation counted: outbound env "\<lambda>_. True" "\<lambda>_. True" for env
  by unfold_locales simp_all

end
