(* ===== verification/Outbound_Tasks.thy ===== *)
theory Outbound_Tasks
  imports Outbound
begin

text \<open>
  The other way out of the server: the notification queue. Every handler but the one for webhooks leaves
  it alone, and that one adds one notification at most.
\<close>

section \<open>Notifications\<close>

text \<open>Only the delivery of a webhook queues a notification, and one at most.\<close>

lemma design_unqueued [unqueued_intros]:
  "keeps_tasks w (snd (CardDesignService_ListCardDesigns env q w))"
  "keeps_tasks w (snd (CardDesignService_GetCardDesign env i w))"
  unfolding CardDesignService_ListCardDesigns_def CardDesignService_GetCardDesign_def client_defs
  by (rule unqueued_intros)+

lemma user_unqueued [unqueued_intros]:
  "keeps_tasks w (snd (UserService_CreateUser env pk cu w))"
  "keeps_tasks w (snd (UserService_GetUser env pk w))"
  "keeps_tasks w (snd (UserService_UpdateEmail env pk a w))"
  "keeps_tasks w (snd (UserService_UpdatePhoneNumber env pk a w))"
  "keeps_tasks w (snd (UserService_AdvanceUserApplication env pk b a w))"
  unfolding user_service_defs client_defs
  by (auto intro!: unqueued_intros split: sum.splits prod.splits option.splits)

lemma account_unqueued [unqueued_intros]:
  "keeps_tasks w (snd (AccountService_CreateAccount env pk sg k w))"
  "keeps_tasks w (snd (AccountService_GenerateSignerMessage env w))"
  "keeps_tasks w (snd (AccountService_GetAccount env pk i w))"
  "keeps_tasks w (snd (AccountService_GetAccountBalance env pk i w))"
  "keeps_tasks w (snd (AccountService_GetAccountAssets env pk i w))"
  "keeps_tasks w (snd (AccountService_ListAccounts env pk l c w))"
  unfolding account_service_defs client_defs Let_def
  by (auto intro!: unqueued_intros split: sum.splits prod.splits option.splits)

lemma card_unqueued [unqueued_intros]:
  "keeps_tasks w (snd (CardService_CreateCard env pk cc k w))"
  "keeps_tasks w (snd (CardService_ListCards env pk q w))"
  "keeps_tasks w (snd (CardService_RespondToCard3DSChallenge env pk i b w))"
  "keeps_tasks w (snd (CardService_GetCard3DSChallenge env pk i w))"
  unfolding CardService_CreateCard_def CardService_ListCards_def challengeCardID_def
    CardService_RespondToCard3DSChallenge_def CardService_GetCard3DSChallenge_def client_defs
  by (auto intro!: unqueued_intros split: prod.splits option.splits)

lemma card_action_unqueued [unqueued_intros]:
  "keeps_tasks w (snd (CardService_GetCard env pk i w))" "keeps_tasks w (snd (CardService_DeleteCard env pk i w))"
  "keeps_tasks w (snd (CardService_UpdateCardPin env pk i a w))" "keeps_tasks w (snd (CardService_FreezeCard env pk i w))"
  "keeps_tasks w (snd (CardService_UnfreezeCard env pk i w))"
  "keeps_tasks w (snd (CardService_RevealCardDetails env pk i a b w))"
  "keeps_tasks w (snd (CardService_UpdateCard3DSChallengeMethod env pk i a w))"
  "keeps_tasks w (snd (CardService_ActivatePhysicalCard env pk i a w))"
  "keeps_tasks w (snd (CardService_GetCardActivationCode env pk i w))"
  "keeps_tasks w (snd (CardService_PushProvisionCard env pk i a c d e w))"
  unfolding card_action_defs client_defs by (rule unqueued_intros)+

lemma shipment_unqueued [unqueued_intros]:
  "keeps_tasks w (snd (ShipmentService_CreateCardShipment env pk cs w))"
  "keeps_tasks w (snd (ShipmentService_ListCardShipments env pk q w))"
  "keeps_tasks w (snd (ShipmentService_GetCardShipment env pk i w))"
  "keeps_tasks w (snd (ShipmentService_DeleteCardShipment env pk i w))"
  "keeps_tasks w (snd (ShipmentService_UpdateCardShipment env pk i us w))"
  "keeps_tasks w (snd (ShipmentService_AddCardToShipment env pk i cm w))"
  "keeps_tasks w (snd (ShipmentService_RemoveCardFromShipment env pk i mid w))"
  "keeps_tasks w (snd (ShipmentService_SubmitCardShipment env pk i k w))"
proof -
  have loops: "keeps_tasks w (snd (check_cards env pk ids w))" "keeps_tasks w (snd (check_members env pk ms w))" for ids ms w
    using check_cards_run [OF prod.collapse [symmetric]] check_members_run [OF prod.collapse [symmetric]]
    by (simp_all add: keeps_tasks_def)
  show "keeps_tasks w (snd (ShipmentService_CreateCardShipment env pk cs w))"
    "keeps_tasks w (snd (ShipmentService_ListCardShipments env pk q w))"
    "keeps_tasks w (snd (ShipmentService_GetCardShipment env pk i w))"
    "keeps_tasks w (snd (ShipmentService_DeleteCardShipment env pk i w))"
    "keeps_tasks w (snd (ShipmentService_UpdateCardShipment env pk i us w))"
    "keeps_tasks w (snd (ShipmentService_AddCardToShipment env pk i cm w))"
    "keeps_tasks w (snd (ShipmentService_RemoveCardFromShipment env pk i mid w))"
    "keeps_tasks w (snd (ShipmentService_SubmitCardShipment env pk i k w))"
    unfolding shipment_service_defs fetchOwnedShipment_def checkShipmentMembers_def client_defs Let_def
    by (auto intro!: unqueued_intros loops split: sum.splits prod.splits option.splits)
qed

lemma scoped_unqueued [unqueued_intros]:
  "keeps_tasks w (snd (CardTransactionService_GetCardTransaction env pk i w))"
  "keeps_tasks w (snd (ActivityService_ListActivities env pk q w))"
  "keeps_tasks w (snd (FraudAlertService_ListFraudAlerts env pk q w))"
  "keeps_tasks w (snd (FraudAlertService_ReportFraud env pk rf k w))"
  "keeps_tasks w (snd (FraudAlertService_GetFraudAlert env pk i w))"
  "keeps_tasks w (snd (FraudAlertService_RespondToFraudAlert env pk i ra k w))"
  unfolding CardTransactionService_GetCardTransaction_def ActivityService_ListActivities_def
    FraudAlertService_ListFraudAlerts_def FraudAlertService_ReportFraud_def FraudAlertService_GetFraudAlert_def
    FraudAlertService_RespondToFraudAlert_def fraud_list_scoped_def transactionCardID_def alertCardID_def
    FraudAlertService_checkCardOwnership_def client_defs Let_def
  by (auto intro!: unqueued_intros split: prod.splits option.splits)

lemma simulation_unqueued [unqueued_intros]:
  "keeps_tasks w (snd (SimulationService_SimulateUserApplicationStatus env pk i a w))"
  "keeps_tasks w (snd (SimulationService_SimulateCompanyStatus env i sc w))"
  "keeps_tasks w (snd (SimulationService_SimulateAccountStatus env pk i a w))"
  "keeps_tasks w (snd (SimulationService_SimulateCardStatus env pk i a w))"
  "keeps_tasks w (snd (SimulationService_SimulateAuthorization env pk r w))"
  "keeps_tasks w (snd (SimulationService_SimulateThreeDSAuthorization env pk r w))"
  "keeps_tasks w (snd (SimulationService_SimulateDecline env pk r w))"
  "keeps_tasks w (snd (SimulationService_SimulateClearing env pk r w))"
  "keeps_tasks w (snd (SimulationService_SimulateReversal env pk r w))"
  "keeps_tasks w (snd (SimulationService_SimulateRefund env pk r w))"
  unfolding simulation_defs checkTransactionOwnership_def SimulationService_checkCardOwnership_def
    SimulationService_checkAccountOwnership_def client_defs
  by (auto intro!: unqueued_intros split: prod.splits option.splits)

lemma handle_unqueued:
  assumes "\<And>w. keeps_tasks w (snd (m w))" and "\<And>r w. keeps_tasks w (snd (k r w))"
  shows "keeps_tasks w (snd (handle m k w))"
  using assms(1) [of w] assms(2) [of "snd (m w)" "fst (m w)"]
  by (auto simp: handle_def keeps_tasks_def split: prod.split)

lemma answer_unqueued [unqueued_intros]:
  "(\<And>w. keeps_tasks w (snd (m w))) \<Longrightarrow> keeps_tasks w (snd (answer errs m w))"
  unfolding answer_def by (rule handle_unqueued) (auto split: sum.split)

lemma serve_unqueued:
  "keeps_tasks w (snd (serve_user env pk u w))" "keeps_tasks w (snd (serve_simulation env pk s w))"
  by (cases u; auto simp: handler_defs intro!: unqueued_intros split: option.split prod.split)
    (cases s; auto simp: handler_defs intro!: unqueued_intros split: option.split)

lemma RequireAuth_unqueued:
  assumes "\<And>cl w. keeps_tasks w (snd (nxt cl w))"
  shows "keeps_tasks w (snd (RequireAuth env nxt h w))"
proof -
  have "keeps_tasks w (snd (admit env nxt cl tok w))" for cl tok w
    using assms [where cl = cl and w = "w\<lparr>tick := tick w + 2\<rparr>"]
    by (auto simp: admit_def Let_def keeps_tasks_def split: option.split)
  then show ?thesis unfolding RequireAuth_def Let_def ValidateToken_def
    by (auto intro!: handle_unqueued unqueued_intros split: sum.split option.split)
qed

definition queued_one :: "world \<Rightarrow> world \<Rightarrow> bool" where
  "queued_one w w' \<longleftrightarrow> (\<exists>t. tasks w' = tasks w @ t \<and> length t \<le> 1)"

lemma queued_one_trans: "keeps_tasks w w' \<Longrightarrow> queued_one w' w'' \<Longrightarrow> queued_one w w''"
  by (simp add: queued_one_def keeps_tasks_def)

lemma queued_one_keeps: "keeps_tasks w w' \<Longrightarrow> queued_one w w'"
  by (simp add: queued_one_def keeps_tasks_def)

lemma attempt_queued_one:
  assumes "\<And>w. keeps_tasks w (snd (m w))" and "\<And>r w. queued_one w (snd (k r w))"
  shows "queued_one w (snd (attempt m k w))"
  using queued_one_trans [OF assms(1) [of w] assms(2) [of "snd (m w)" "fst (m w)"]]
  by (auto simp: attempt_def split: prod.split)

lemma notifyVault_queued_one: "queued_one w (snd (notifyVault env ty payload w))"
proof -
  have step: "queued_one w (snd (attempt (Notify env r) (\<lambda>_. ret ()) w))" for r w
    using Notify_tasks [of env r w] by (auto simp: queued_one_def attempt_def split: prod.split)
  have chain: "queued_one w (snd (attempt (GetHexChainCode env pk) (\<lambda>r. case r of Inl _ \<Rightarrow> ret ()
      | Inr cc \<Rightarrow> if cc = [] then ret ()
          else attempt (Notify env (vault_request env pk cc ty payload)) (\<lambda>_. ret ())) w))" for pk w
    by (rule attempt_queued_one, rule unqueued_intros) (simp add: step queued_one_keeps split: sum.split)
  have "queued_one w (snd (attempt (resolveVault env ty payload) (\<lambda>r. case r of Inl _ \<Rightarrow> ret ()
      | Inr pk \<Rightarrow> if pk = [] then ret ()
          else attempt (GetHexChainCode env pk) (\<lambda>r. case r of Inl _ \<Rightarrow> ret ()
            | Inr cc \<Rightarrow> if cc = [] then ret ()
                else attempt (Notify env (vault_request env pk cc ty payload)) (\<lambda>_. ret ()))) w))"
    by (rule attempt_queued_one, rule unqueued_intros) (simp add: chain queued_one_keeps split: sum.split)
  then show ?thesis by (simp add: notifyVault_def queued_one_keeps)
qed

lemma HandleEvent_queued_one: "queued_one w (snd (HandleEvent env raw h w))"
proof (cases rule: HandleEvent_cases [of env raw h w])
  case (fresh i ty p w1)
  then show ?thesis using queued_one_trans [of w w1] notifyVault_queued_one [of w1 env ty p]
    by (simp add: keeps_tasks_def)
qed (simp_all add: queued_one_def)

lemma serve_public_cases:
  obtains (silent) "keeps_tasks w (snd (serve_public env p w))"
  | (delivery) raw h where "p = Reap_Webhook_Delivery (Some raw) h"
proof (cases "\<exists>raw h. p = Reap_Webhook_Delivery (Some raw) h")
  case False
  have "keeps_tasks w (snd (serve_public env p w))"
  proof (cases p)
    case (Reap_Webhook_Delivery b h)
    then show ?thesis using False by (cases b) (simp_all add: Server_reapWebhook_def)
  qed (auto simp: public_handler_defs Let_def intro!: handle_unqueued unqueued_intros
      split: option.split sum.split prod.split)
  then show ?thesis by (rule silent)
qed (auto intro: delivery)

lemma serve_public_queued_one: "queued_one w (snd (serve_public env p w))"
proof (cases rule: serve_public_cases [of w env p])
  case silent
  then show ?thesis by (rule queued_one_keeps)
next
  case (delivery raw h)
  obtain r w1 where "HandleEvent env raw h w = (r, w1)" by fastforce
  then show ?thesis using HandleEvent_queued_one [of w env raw h]
    by (auto simp: delivery Server_reapWebhook_def handle_def split: sum.split)
qed

lemma Server_serve_cases:
  obtains (silent) "keeps_tasks w (snd (Server_serve env reapEnv h c w))"
  | (delivery) raw sig where "c = Public (Reap_Webhook_Delivery (Some raw) sig)"
proof (cases c)
  case (Public p)
  then show ?thesis
    by (cases rule: serve_public_cases [of w env p]) (auto simp: Server_serve_def intro: silent delivery)
qed (auto simp: Server_serve_def intro!: silent RequireAuth_unqueued serve_unqueued)

lemma Server_serve_queued_one: "queued_one w (snd (Server_serve env reapEnv h c w))"
  by (cases c)
    (auto simp: Server_serve_def serve_public_queued_one intro!: queued_one_keeps RequireAuth_unqueued serve_unqueued)

end
