(* ===== verification/Json_Clean.thy ===== *)
theory Json_Clean
  imports Json_Text
begin

text \<open>
  What \<open>json.Unmarshal\<close> puts into a string is valid UTF-8, whatever the text was: so a struct that has
  been decoded is marshalled without loss.
\<close>

section \<open>Valid UTF-8, sequence by sequence\<close>

lemma utf8_Nil [simp]: "utf8 []"
  by (simp add: utf8.simps)

lemma utf8_append:
  assumes "u \<noteq> []" and "rune_len (u @ t) = length u" and "utf8 t"
  shows "utf8 (u @ t)"
proof -
  obtain c cs where c: "u @ t = c # cs" using assms(1) by (cases u) auto
  then have "drop (length u) (c # cs) = t" by (metis append_eq_conv_conj)
  then show ?thesis using assms c utf8.simps [of "c # cs"] by simp
qed

lemma utf8_take: "rune_len s \<noteq> 0 \<Longrightarrow> utf8 t \<Longrightarrow> utf8 (take (rune_len s) s @ t)"
  using rune_len_prefix(1) [of s t] rune_len_prefix(2) [of s] by (intro utf8_append) auto

lemma utf8_ascii_Cons: "byte c < 128 \<Longrightarrow> utf8 t \<Longrightarrow> utf8 (c # t)"
  using utf8_append [of "[c]" t] by (simp add: rune_len_ascii)

lemma utf8_replacement: "utf8 t \<Longrightarrow> utf8 (replacement @ t)"
  by (rule utf8_append) (simp_all add: replacement_def rune_len_def cont_def byte_char_of)

lemma rune_len_three:
  fixes a b c :: nat
  assumes "a < 16" and "b < 64" and "c < 64" and "a = 0 \<Longrightarrow> 32 \<le> b" and "a = 13 \<Longrightarrow> b \<le> 31"
  shows "rune_len ([char_of (224 + a), char_of (128 + b), char_of (128 + c)] @ t) = 3"
  using assms by (simp add: rune_len_def cont_def byte_char_of Let_def)

lemma rune_len_four:
  fixes a b c d :: nat
  assumes "a < 5" and "b < 64" and "c < 64" and "d < 64" and "a = 0 \<Longrightarrow> 16 \<le> b" and "a = 4 \<Longrightarrow> b \<le> 15"
  shows "rune_len ([char_of (240 + a), char_of (128 + b), char_of (128 + c), char_of (128 + d)] @ t) = 4"
  using assms by (simp add: rune_len_def cont_def byte_char_of Let_def)

lemma rune_len_encode: "rune_len (encode_rune r @ t) = length (encode_rune r)"
proof (cases "55296 \<le> r \<and> r \<le> 57343 \<or> r > 1114111")
  case True
  then have "encode_rune r = replacement" by (auto simp: encode_rune_def)
  then show ?thesis by (simp add: replacement_def rune_len_def cont_def byte_char_of)
next
  case False
  consider "r < 128" | "128 \<le> r" "r < 2048" | "2048 \<le> r" "r < 65536" | "65536 \<le> r" "r \<le> 1114111"
    using False by linarith
  then show ?thesis
  proof cases
    case 1
    then show ?thesis by (simp add: encode_rune_def rune_len_def byte_char_of)
  next
    case 2
    have "2 \<le> r div 64" "r div 64 < 32" "r mod 64 < 64" using 2 by (auto simp: div_le_mono less_mult_imp_div_less)
    then show ?thesis using 2 by (simp add: encode_rune_def rune_len_def cont_def byte_char_of Let_def)
  next
    case 3
    have "r div 4096 < 16" "r div 64 mod 64 < 64" "r mod 64 < 64" using 3 by (auto simp: less_mult_imp_div_less)
    moreover have e: "r div 64 = r div 4096 * 64 + r div 64 mod 64"
      using div_mult_mod_eq [of "r div 64" 64] by (simp add: div_mult2_eq [symmetric])
    moreover have "32 \<le> r div 64" using div_le_mono [OF 3(1), of 64] by simp
    moreover have "r div 64 < 864 \<or> 896 \<le> r div 64"
      using False 3 div_le_mono [of r 55295 64] div_le_mono [of 57344 r 64] by (cases "r < 55296") auto
    ultimately have "r div 4096 = 0 \<Longrightarrow> 32 \<le> r div 64 mod 64"
      "r div 4096 = 13 \<Longrightarrow> r div 64 mod 64 \<le> 31" "r div 4096 < 16" "r div 64 mod 64 < 64" "r mod 64 < 64"
      by linarith+
    note B = rune_len_three [OF this(3-5) this(1,2)]
    have e: "encode_rune r = [char_of (224 + r div 4096), char_of (128 + r div 64 mod 64), char_of (128 + r mod 64)]"
      using 3 False unfolding encode_rune_def by auto
    show ?thesis unfolding e by (simp only: B) simp
  next
    case 4
    have "r div 262144 < 5" "r div 4096 mod 64 < 64" "r div 64 mod 64 < 64" "r mod 64 < 64"
      using 4 by (auto simp: less_mult_imp_div_less)
    moreover have e: "r div 4096 = r div 262144 * 64 + r div 4096 mod 64"
      using div_mult_mod_eq [of "r div 4096" 64] by (simp add: div_mult2_eq [symmetric])
    moreover have "16 \<le> r div 4096" "r div 4096 \<le> 271"
      using div_le_mono [OF 4(1), of 4096] div_le_mono [OF 4(2), of 4096] by simp_all
    ultimately have "r div 262144 = 0 \<Longrightarrow> 16 \<le> r div 4096 mod 64"
      "r div 262144 = 4 \<Longrightarrow> r div 4096 mod 64 \<le> 15" "r div 262144 < 5" "r div 4096 mod 64 < 64"
      "r div 64 mod 64 < 64" "r mod 64 < 64"
      by linarith+
    note B = rune_len_four [OF this(3-6) this(1,2)]
    have e: "encode_rune r = [char_of (240 + r div 262144), char_of (128 + r div 4096 mod 64),
        char_of (128 + r div 64 mod 64), char_of (128 + r mod 64)]"
      using 4 False unfolding encode_rune_def by simp
    show ?thesis unfolding e by (simp only: B) simp
  qed
qed

lemma utf8_encode: "utf8 t \<Longrightarrow> utf8 (encode_rune r @ t)"
  by (rule utf8_append) (simp_all add: rune_len_encode, simp add: encode_rune_def replacement_def)


section \<open>Decoded strings\<close>

lemma json_string_valid: "json_string s = Some (t, r) \<Longrightarrow> utf8 t"
proof (induction "length s" arbitrary: s t r rule: less_induct)
  case less
  obtain c cs where s: "s = c # cs" using less.prems by (cases s) (auto simp: json_string.simps [of "[]"])
  have IH: "utf8 u" if "json_string x = Some (u, y)" "length x \<le> length cs" for x u y
    using less.hyps [of x u y] that s by simp
  note step = less.prems [unfolded s json_string.simps [of "c # cs"] list.case Let_def]
  show ?case
  proof (cases "c = CHR 0x22")
    case True
    then show ?thesis using step by simp
  next
    case q: False
    show ?thesis
    proof (cases "c = CHR 0x5C")
      case True
      then obtain e es where cs: "cs = e # es" using step by (cases cs) auto
      show ?thesis
      proof (cases "e = CHR ''u''")
        case u: True
        show ?thesis using step True cs u
          by (auto split: option.splits if_splits dest!: IH intro!: utf8_encode utf8_replacement)
      next
        case False
        have "byte b < 128" if "simple_escape e = Some b" for b
          using that by (auto simp: simple_escape_def split: if_splits)
        then show ?thesis using step True cs False
          by (auto split: option.splits dest!: IH intro!: utf8_ascii_Cons)
      qed
    next
      case False
      then show ?thesis using step q
        by (auto split: if_splits dest!: IH intro!: utf8_replacement utf8_take)
    qed
  qed
qed

section \<open>Parsed values\<close>

fun clean :: "json \<Rightarrow> bool" where
  \<comment> \<open>every string in it is valid UTF-8\<close>
  "clean (JStr s) = utf8 s"
| "clean (JArr js) = list_all clean js"
| "clean (JObj ms) = list_all (\<lambda>(key, raw, v). clean v) ms"
| "clean _ = True"

abbreviation clean_members :: "members \<Rightarrow> bool" where
  "clean_members ms \<equiv> list_all (\<lambda>(key, raw, v). clean v) ms"

lemma json_value_clean_step:
  assumes "\<And>d s es r. json_elems n d s = Some (es, r) \<Longrightarrow> list_all clean es"
    and "\<And>d s ms r. json_members n d s = Some (ms, r) \<Longrightarrow> clean_members ms"
    and "json_value (Suc n) d s = Some (v, r)"
  shows "clean v"
  using assms by (auto split: list.splits if_splits dest!: json_string_valid)

lemma json_elems_clean_step:
  assumes "\<And>d s v r. json_value n d s = Some (v, r) \<Longrightarrow> clean v"
    and "\<And>d s es r. json_elems n d s = Some (es, r) \<Longrightarrow> list_all clean es"
    and "json_elems (Suc n) d s = Some (es, r)"
  shows "list_all clean es"
  using assms by (auto split: Option.bind_splits list.splits if_splits)

lemma json_members_clean_step:
  assumes "\<And>d s v r. json_value n d s = Some (v, r) \<Longrightarrow> clean v"
    and "\<And>d s ms r. json_members n d s = Some (ms, r) \<Longrightarrow> clean_members ms"
    and "json_members (Suc n) d s = Some (ms, r)"
  shows "clean_members ms"
  using assms by (auto simp: Let_def split: Option.bind_splits list.splits if_splits)

lemma json_clean:
  "(\<forall>v r. json_value n d s = Some (v, r) \<longrightarrow> clean v)
   \<and> (\<forall>es r. json_elems n d s = Some (es, r) \<longrightarrow> list_all clean es)
   \<and> (\<forall>ms r. json_members n d s = Some (ms, r) \<longrightarrow> clean_members ms)"
proof (induction n arbitrary: d s)
  case (Suc n)
  then show ?case
    using json_value_clean_step [of n] json_elems_clean_step [of n] json_members_clean_step [of n] by meson
qed simp

lemma json_value_clean: "json_value n d s = Some (v, r) \<Longrightarrow> clean v"
  using json_clean by blast

lemma json_parse_clean: "json_parse s = Some v \<Longrightarrow> clean v"
  by (auto simp: json_parse_def Let_def simp del: json_value.simps split: option.splits if_splits
      dest!: json_value_clean)

lemma dec_struct_clean: "dec_struct vs = Some ms \<Longrightarrow> list_all (\<lambda>(raw, v). clean v) vs \<Longrightarrow> clean_members ms"
  by (induction vs arbitrary: ms) (auto split: json.splits)

lemma unmarshal_struct_clean: "unmarshal_struct s = Some ms \<Longrightarrow> clean_members ms"
  by (auto simp: unmarshal_struct_def split: option.splits json.splits dest!: json_parse_clean)

lemma field_clean: "clean_members ms \<Longrightarrow> list_all (\<lambda>(raw, v). clean v) (field name ms)"
  by (auto simp: field_def list_all_iff)

lemma dec_string_clean: "dec_string cur vs = Some x \<Longrightarrow> utf8 cur \<Longrightarrow> list_all (\<lambda>(raw, v). clean v) vs \<Longrightarrow> utf8 x"
  by (induction cur vs rule: dec_string.induct) (auto split: json.splits)

lemma string_field_clean: "string_field name ms = Some x \<Longrightarrow> clean_members ms \<Longrightarrow> to_valid x = x"
  by (rule utf8_to_valid, rule dec_string_clean [of "[]" "field name ms"])
    (simp_all add: string_field_def field_clean)

lemma struct_field_clean: "struct_field name ms = Some fs \<Longrightarrow> clean_members ms \<Longrightarrow> clean_members fs"
  using dec_struct_clean field_clean by (simp add: struct_field_def)

end
