(* ===== verification/Forwarding.thy ===== *)
theory Forwarding
  imports Outbound Json_Clean
begin

text \<open>
  The server decodes a caller's body into a struct and marshals that struct for REAP. Nothing is lost on
  the way: a struct that has been decoded from any text is decoded again, the same, from the text the
  client marshals for it.
\<close>

section \<open>Decoded structs are valid\<close>

lemma read_address_valid: "read_address ms = Some a \<Longrightarrow> clean_members ms \<Longrightarrow> valid_address a = a"
  by (auto simp: read_address_def valid_address_def split: Option.bind_splits dest!: string_field_clean)

lemma read_courier_valid: "read_courier ms = Some c \<Longrightarrow> clean_members ms \<Longrightarrow> valid_courier c = c"
  by (auto simp: read_courier_def valid_courier_def split: Option.bind_splits dest!: string_field_clean)

lemma read_signer_valid: "read_signer ms = Some s \<Longrightarrow> clean_members ms \<Longrightarrow> valid_signer s = s"
  by (auto simp: read_signer_def valid_signer_def split: Option.bind_splits dest!: string_field_clean)

lemma dec_int_range: "dec_int cur vs = Some i \<Longrightarrow> in_int64 cur \<Longrightarrow> in_int64 i"
proof (induction cur vs rule: dec_int.induct)
  case (2 cur raw v vs)
  then show ?case using ParseInt64_range by (auto split: json.splits prod.splits option.splits) (metis fst_conv)
qed simp

lemma read_recipient_valid:
  "read_recipient ms = Some r \<Longrightarrow> clean_members ms \<Longrightarrow> valid_recipient r = r \<and> in_int64 (sr_DialCode r)"
  by (auto simp: read_recipient_def valid_recipient_def int_field_def split: Option.bind_splits
      dest!: string_field_clean dec_int_range) (simp_all add: in_int64_def int64_min_def int64_max_def)

lemma read_member_valid: "read_member ms = Some m \<Longrightarrow> clean_members ms \<Longrightarrow> valid_member m = m"
  by (auto simp: read_member_def valid_member_def split: Option.bind_splits
      dest!: string_field_clean struct_field_clean read_address_valid)

lemma dec_ptr_clean:
  "dec_ptr cur vs = Some (Some fs) \<Longrightarrow> pred_option clean_members cur \<Longrightarrow> list_all (\<lambda>(raw, v). clean v) vs
    \<Longrightarrow> clean_members fs"
  by (induction cur vs rule: dec_ptr.induct) (auto split: json.splits option.splits)

lemma ptr_field_valid:
  assumes "ptr_field name rd ms = Some p" and "clean_members ms"
    and "\<And>fs x. rd fs = Some x \<Longrightarrow> clean_members fs \<Longrightarrow> f x = x"
  shows "map_option f p = p"
proof (cases p)
  case (Some x)
  then obtain fs where "dec_ptr None (field name ms) = Some (Some fs)" "rd fs = Some x"
    using assms(1) by (auto simp: ptr_field_def split: Option.bind_splits option.splits)
  then show ?thesis using dec_ptr_clean [OF _ _ field_clean [OF assms(2)]] assms(3) Some by simp
qed simp

lemma read_signers_valid: "read_signers ms = Some s \<Longrightarrow> clean_members ms \<Longrightarrow> valid_signers s = s"
  using ptr_field_valid [of "''evm''" read_signer ms _ valid_signer] ptr_field_valid [of "''svm''" read_signer ms _ valid_signer]
    read_signer_valid
  by (auto simp: read_signers_def valid_signers_def split: Option.bind_splits)

lemma merge_elems_clean:
  "merge_elems bk js = Some es \<Longrightarrow> list_all clean_members bk \<Longrightarrow> list_all clean js \<Longrightarrow> list_all clean_members es"
proof (induction bk js arbitrary: es rule: merge_elems.induct)
  case (2 bk j js)
  have "list_all clean_members (tl bk)" using 2(4) by (cases bk) auto
  moreover have "clean_members (case bk of [] \<Rightarrow> [] | b # _ \<Rightarrow> b)" using 2(4) by (cases bk) auto
  ultimately show ?case using 2 by (auto simp: Let_def split: json.splits)
qed simp

lemma dec_structs_clean:
  "dec_structs bk len vs = Some (Some es) \<Longrightarrow> list_all clean_members bk \<Longrightarrow> list_all (\<lambda>(raw, v). clean v) vs
    \<Longrightarrow> list_all clean_members es"
proof (induction bk len vs rule: dec_structs.induct)
  case (1 bk len)
  then show ?case by (auto simp: list_all_iff dest: in_set_takeD)
next
  case (2 bk len raw v vs)
  show ?case
  proof (cases v)
    case (JArr js)
    show ?thesis
    proof (cases "js = []")
      case False
      then obtain b where "merge_elems bk js = Some b" "dec_structs b (Some (length js)) vs = Some (Some es)"
        using 2(4) JArr by (auto split: Option.bind_splits)
      then show ?thesis using 2(3) [OF JArr False] 2(5,6) merge_elems_clean [of bk js b] JArr by simp
    qed (use 2 JArr in simp)
  qed (use 2 in simp_all)
qed

lemma read_all_valid:
  assumes "read_all rd es = Some xs" and "list_all clean_members es"
    and "\<And>fs x. rd fs = Some x \<Longrightarrow> clean_members fs \<Longrightarrow> f x = x"
  shows "map f xs = xs"
  using assms(1,2)
  by (induction es arbitrary: xs) (auto split: Option.bind_splits simp: assms(3))

lemma structs_field_valid:
  assumes "structs_field name rd ms = Some p" and "clean_members ms"
    and "\<And>fs x. rd fs = Some x \<Longrightarrow> clean_members fs \<Longrightarrow> f x = x"
  shows "map_option (map f) p = p"
proof (cases p)
  case (Some xs)
  then obtain es where "dec_structs [] None (field name ms) = Some (Some es)" "read_all rd es = Some xs"
    using assms(1) by (auto simp: structs_field_def split: Option.bind_splits option.splits)
  then show ?thesis
    using dec_structs_clean [OF _ _ field_clean [OF assms(2)]] read_all_valid [OF _ _ assms(3)] Some by simp
qed simp

lemma read_create_shipment_valid:
  assumes "read_create_shipment ms = Some r" and "clean_members ms"
  shows "valid_create_shipment r = r \<and> in_int64 (sr_DialCode (cs_Recipient r))"
  using assms structs_field_valid [of "''cards''" read_member ms _ valid_member, OF _ assms(2) read_member_valid]
  by (auto simp: read_create_shipment_def valid_create_shipment_def split: Option.bind_splits
      dest!: struct_field_clean read_address_valid read_courier_valid read_recipient_valid)

lemma read_update_shipment_valid:
  assumes "read_update_shipment ms = Some r" and "clean_members ms"
  shows "valid_update_shipment r = r \<and> in_int64 (sr_DialCode (us_Recipient r))"
  using assms
  by (auto simp: read_update_shipment_def valid_update_shipment_def split: Option.bind_splits
      dest!: struct_field_clean read_address_valid read_courier_valid read_recipient_valid)

section \<open>Marshalled again, without loss\<close>

definition decode :: "(members \<Rightarrow> 'a option) \<Rightarrow> string \<Rightarrow> 'a option" where
  \<comment> \<open>\<open>json.Unmarshal\<close> into the struct \<open>rd\<close> reads\<close>
  "decode rd txt = Option.bind (unmarshal_struct txt) rd"

lemma decode_carries: "carries k rd txt x \<Longrightarrow> decode rd txt = Some x"
  by (simp add: decode_def carries_unmarshal)

lemma decodeE:
  assumes "decode rd txt = Some x"
  obtains ms where "clean_members ms" and "rd ms = Some x"
  using assms unmarshal_struct_clean by (auto simp: decode_def split: Option.bind_splits)

lemma decode_again:
  "decode read_create_shipment txt = Some r \<Longrightarrow> decode read_create_shipment (json_create_shipment r) = Some r"
  "decode read_update_shipment txt = Some u \<Longrightarrow> decode read_update_shipment (json_update_shipment u) = Some u"
  "decode read_member txt = Some m \<Longrightarrow> decode read_member (json_member m) = Some m"
  "decode read_signers txt = Some s \<Longrightarrow> decode read_signers (json_signers s) = Some s"
proof -
  show "decode read_create_shipment txt = Some r \<Longrightarrow> decode read_create_shipment (json_create_shipment r) = Some r"
    using decode_carries [OF carries_create_shipment, of r] by (metis decodeE read_create_shipment_valid)
  show "decode read_update_shipment txt = Some u \<Longrightarrow> decode read_update_shipment (json_update_shipment u) = Some u"
    using decode_carries [OF carries_update_shipment, of u] by (metis decodeE read_update_shipment_valid)
  show "decode read_member txt = Some m \<Longrightarrow> decode read_member (json_member m) = Some m"
    using decode_carries [OF carries_member, of m] by (metis decodeE read_member_valid)
  show "decode read_signers txt = Some s \<Longrightarrow> decode read_signers (json_signers s) = Some s"
    using decode_carries [OF carries_signers, of s] by (metis decodeE read_signers_valid)
qed

lemma carries_account: "carries 3 bind_createAccount (json_create_account r) (map_option valid_signers (ca_Signers r))"
proof -
  have "texts 2 [(''ownerId'', marshal_string (ca_OwnerID r))]" by (intro text_intros) (simp add: plain_def)
  then have t: "texts 2 ((''ownerId'', marshal_string (ca_OwnerID r)) # omitnil ''signers'' json_signers (ca_Signers r))"
    using texts_omitnil [of 2 read_signers json_signers valid_signers "''signers''" "ca_Signers r", OF carries_signers] by (simp add: texts_def plain_def)
  have "bind_createAccount (parsed ((''ownerId'', marshal_string (ca_OwnerID r)) # omitnil ''signers'' json_signers (ca_Signers r)))
      = Some (map_option valid_signers (ca_Signers r))"
    by (simp add: bind_createAccount_def read_simps [unfolded omitnil_def] parsed_omitnil field_omitnil
        omitnil_field [OF carries_signers])
  from carriesI [where rd = bind_createAccount, OF t _ this] show ?thesis
    unfolding json_create_account_def by (simp add: max_depth_def)
qed

lemma decode_account_again:
  assumes "decode bind_createAccount txt = Some sg"
  shows "decode bind_createAccount (json_create_account \<lparr>ca_OwnerID = u, ca_Signers = sg\<rparr>) = Some sg"
proof -
  obtain ms where "clean_members ms" "bind_createAccount ms = Some sg" by (rule decodeE [OF assms])
  then have "map_option valid_signers sg = sg"
    using ptr_field_valid [of "''signers''" read_signers ms sg valid_signers] read_signers_valid
    by (simp add: bind_createAccount_def)
  then show ?thesis using decode_carries [OF carries_account, of "\<lparr>ca_OwnerID = u, ca_Signers = sg\<rparr>"] by simp
qed

text \<open>The handlers of cards and of fraud alerts decode some fields into structs of their own.\<close>

lemma carries_card: "carries 1 bind_createCard (json_create_card c)
    (to_valid (cc_AccountID c), to_valid (cc_Type c), to_valid (cc_ThreeDSChallengeMethod c), to_valid (cc_CardDesignID c))"
  unfolding json_create_card_def One_nat_def
  by (rule carriesI, intro text_intros) (simp_all add: plain_def bind_createCard_def read_simps)

lemma carries_report: "carries 1 bind_reportFraud (json_report_fraud r)
    (to_valid (rf_TransactionID r), to_valid (rf_Type r), to_valid (rf_CardholderNotifiedAt r))"
  unfolding json_report_fraud_def One_nat_def
  by (rule carriesI, intro text_intros) (simp_all add: plain_def bind_reportFraud_def read_simps)

lemma carries_response: "carries 1 bind_respondToFraudAlert (json_respond_alert r)
    (to_valid (ra_Response r), to_valid (ra_Type r))"
  unfolding json_respond_alert_def One_nat_def
  by (rule carriesI, intro text_intros) (simp_all add: plain_def bind_respondToFraudAlert_def read_simps)

lemma decode_handler_again:
  "decode bind_createCard txt = Some (a, ty, m, ds) \<Longrightarrow> decode bind_createCard (json_create_card
     \<lparr>cc_UserID = u, cc_AccountID = a, cc_Type = ty, cc_ThreeDSChallengeMethod = m, cc_CardDesignID = ds\<rparr>)
     = Some (a, ty, m, ds)"
  "decode bind_reportFraud txt = Some (t, ty, n) \<Longrightarrow> decode bind_reportFraud (json_report_fraud
     \<lparr>rf_TransactionID = t, rf_Type = ty, rf_CardholderNotifiedAt = n\<rparr>) = Some (t, ty, n)"
  "decode bind_respondToFraudAlert txt = Some (x, ty) \<Longrightarrow> decode bind_respondToFraudAlert (json_respond_alert
     \<lparr>ra_Response = x, ra_Type = ty\<rparr>) = Some (x, ty)"
  by (erule decodeE, auto simp: decode_carries [OF carries_card] decode_carries [OF carries_report]
      decode_carries [OF carries_response] bind_createCard_def bind_reportFraud_def bind_respondToFraudAlert_def
      split: Option.bind_splits dest!: string_field_clean)+

section \<open>From the caller to REAP\<close>

definition says :: "(members \<Rightarrow> 'a option) \<Rightarrow> 'a option \<Rightarrow> http_req \<Rightarrow> bool" where
  \<comment> \<open>a body, if the request has one, is decoded as \<open>x\<close>\<close>
  "says rd x q \<longleftrightarrow> (case req_body q of None \<Rightarrow> True | Some b \<Rightarrow> decode rd b = x)"

interpretation sent_all: frame "sends (list_all P)" for P
proof
  show "sends (list_all P) w w" for w by simp
  show "sends (list_all P) u w" if "sends (list_all P) u v" "sends (list_all P) v w" for u v w
    using that by (auto simp: sends_def)
qed

lemma Client_do_says:
  assumes "pred_option (\<lambda>b. decode rd b = x) b"
  shows "sends (list_all (says rd x)) w (snd (Client_do env m p b opts w))"
proof -
  have "says rd x (reap_request env m p b opts)"
    using assms by (cases b) (simp_all add: says_def reap_request_def Let_def)
  then show ?thesis using Client_do_out(1) [of env m p b opts w] by (auto simp: sends_def)
qed

lemma silent_says: "keeps_sent w w' \<Longrightarrow> sends (list_all P) w w'"
  by (rule sends_silent) simp_all

lemma fetchOwnedShipment_says: "sends (list_all (says rd x)) w (snd (fetchOwnedShipment env pk i w))"
proof -
  have loop: "keeps_sent w (snd (check_cards env pk cs w))" for cs w
    using check_cards_run [OF prod.collapse [symmetric]] by (simp add: keeps_sent_def)
  show ?thesis
    unfolding fetchOwnedShipment_def client_defs
    by (rule sends_then_silent, rule Client_do_says)
      (auto intro!: silent_intros loop split: sum.splits prod.splits)
qed

lemma shipment_bodies:
  "decode read_create_shipment (json_create_shipment r) = x
     \<Longrightarrow> sends (list_all (says read_create_shipment x)) w (snd (ShipmentService_CreateCardShipment env pk r w))"
  "decode read_update_shipment (json_update_shipment u) = y
     \<Longrightarrow> sends (list_all (says read_update_shipment y)) w (snd (ShipmentService_UpdateCardShipment env pk i u w))"
  "decode read_member (json_member m) = z
     \<Longrightarrow> sends (list_all (says read_member z)) w (snd (ShipmentService_AddCardToShipment env pk i m w))"
proof -
  have members: "keeps_sent w (snd (check_members env pk ms w))" for ms w
    using check_members_run [OF prod.collapse [symmetric]] by (simp add: keeps_sent_def)
  show "decode read_create_shipment (json_create_shipment r) = x
     \<Longrightarrow> sends (list_all (says read_create_shipment x)) w (snd (ShipmentService_CreateCardShipment env pk r w))"
    unfolding ShipmentService_CreateCardShipment_def checkShipmentMembers_def client_defs
    by (rule silent_then_sends) (auto intro!: Client_do_says members silent_intros)
  show "decode read_update_shipment (json_update_shipment u) = y
     \<Longrightarrow> sends (list_all (says read_update_shipment y)) w (snd (ShipmentService_UpdateCardShipment env pk i u w))"
    unfolding ShipmentService_UpdateCardShipment_def client_defs
    by (rule sent_all.andThen_frame, rule fetchOwnedShipment_says) (auto intro!: Client_do_says split: prod.split)
  show "decode read_member (json_member m) = z
     \<Longrightarrow> sends (list_all (says read_member z)) w (snd (ShipmentService_AddCardToShipment env pk i m w))"
    unfolding ShipmentService_AddCardToShipment_def client_defs
    by (rule sent_all.andThen_frame, rule fetchOwnedShipment_says)
      (auto intro!: sent_all.andThen_frame [OF silent_says] Client_do_says silent_intros split: prod.split)
qed

lemma account_body:
  assumes "\<And>u. decode bind_createAccount (json_create_account \<lparr>ca_OwnerID = u, ca_Signers = sg\<rparr>) = x"
  shows "sends (list_all (says bind_createAccount x)) w (snd (AccountService_CreateAccount env pk sg k w))"
  unfolding AccountService_CreateAccount_def client_defs
  by (rule silent_then_sends, rule silent_intros, rule sends_then_silent, rule Client_do_says)
    (auto simp: assms intro!: silent_intros split: option.splits prod.splits)

lemma card_body:
  assumes "\<And>u. decode bind_createCard (json_create_card (c\<lparr>cc_UserID := u\<rparr>)) = x"
  shows "sends (list_all (says bind_createCard x)) w (snd (CardService_CreateCard env pk c k w))"
  unfolding CardService_CreateCard_def client_defs
  by (rule silent_then_sends, rule silent_intros, rule silent_then_sends, rule silent_intros)
    (auto simp: assms simp del: andThen_ret intro!: sends_then_silent Client_do_says silent_intros
      split: option.splits prod.splits)

lemma card_lookup_says:
  "sends (list_all (says rd x)) w (snd (transactionCardID env i w))"
  "sends (list_all (says rd x)) w (snd (alertCardID env i w))"
  unfolding transactionCardID_def alertCardID_def client_defs
  by (rule sends_then_silent, rule Client_do_says; auto intro!: silent_intros split: option.splits prod.splits)+

lemma fraud_bodies:
  "decode bind_reportFraud (json_report_fraud r) = x
     \<Longrightarrow> sends (list_all (says bind_reportFraud x)) w (snd (FraudAlertService_ReportFraud env pk r k w))"
  "decode bind_respondToFraudAlert (json_respond_alert l) = y
     \<Longrightarrow> sends (list_all (says bind_respondToFraudAlert y)) w (snd (FraudAlertService_RespondToFraudAlert env pk i l k w))"
  unfolding FraudAlertService_ReportFraud_def FraudAlertService_RespondToFraudAlert_def
    FraudAlertService_checkCardOwnership_def client_defs
  by (rule sent_all.andThen_frame, rule card_lookup_says,
      (auto intro!: silent_then_sends Client_do_says silent_intros split: prod.split) [1])+

end
