(* ===== verification/Isolation.thy ===== *)
theory Isolation
  imports Vault_Frames
begin

text \<open>
  Whose rows a request writes. A request that runs as a vault changes that vault's mapping, adds
  ownership records of that vault and, at login, a token of that vault; a delivered webhook adds an event.
  No other row is added or changed.
\<close>

section \<open>The rows of a vault\<close>

definition added :: "('r \<Rightarrow> bool) \<Rightarrow> ('k, 'r) table \<Rightarrow> ('k, 'r) table \<Rightarrow> bool" where
  \<comment> \<open>rows that satisfy \<open>P\<close> may be new, and no other row differs\<close>
  "added P t t' \<longleftrightarrow> (\<forall>k. map_of t' k = map_of t k \<or> map_of t k = None \<and> pred_option P (map_of t' k))"

definition own_rows :: "string \<Rightarrow> db \<Rightarrow> db \<Rightarrow> bool" where
  "own_rows pk d d' \<longleftrightarrow>
     (\<forall>k. k \<noteq> pk \<longrightarrow> mapping_of d' k = mapping_of d k)
     \<and> added (\<lambda>r. o_owner r = pk) (card_ownership d) (card_ownership d')
     \<and> added (\<lambda>r. o_owner r = pk) (account_ownership d) (account_ownership d')
     \<and> added (\<lambda>_. True) (user_card_ownership d) (user_card_ownership d')
     \<and> added (\<lambda>r. t_public_key r = pk) (vault_tokens d) (vault_tokens d')
     \<and> webhook_events d' = webhook_events d"

definition event_rows :: "db \<Rightarrow> db \<Rightarrow> bool" where
  "event_rows d d' \<longleftrightarrow> d' = d\<lparr>webhook_events := webhook_events d'\<rparr>
     \<and> added (\<lambda>_. True) (webhook_events d) (webhook_events d')"

definition writes :: "(db \<Rightarrow> db \<Rightarrow> bool) \<Rightarrow> world \<Rightarrow> world \<Rightarrow> bool" where
  "writes R w w' \<longleftrightarrow> R (wdb w) (wdb w')"

lemma added_refl [simp]: "added P t t"
  by (simp add: added_def)

lemma added_trans: "added P t u \<Longrightarrow> added P u v \<Longrightarrow> added P t v"
  unfolding added_def by metis

lemma added_insert: "map_of t k = None \<Longrightarrow> P r \<Longrightarrow> added P t (table_insert k r t)"
  by (simp add: added_def map_of_table_insert)

lemma added_insert_new: "P r \<Longrightarrow> added P t (insert_new k r t)"
  by (simp add: insert_new_def added_insert)

lemma own_rows_refl [simp]: "own_rows pk d d"
  by (simp add: own_rows_def)

lemma event_rows_refl [simp]: "event_rows d d"
  by (simp add: event_rows_def)

lemma writes_refl [simp]: "writes (own_rows pk) w w" "writes event_rows w w"
  by (simp_all add: writes_def)

interpretation own: frame "writes (own_rows pk)" for pk
  by unfold_locales (auto simp: writes_def own_rows_def intro: added_trans)

interpretation events: frame "writes event_rows"
proof
  show "writes event_rows u w" if "writes event_rows u v" "writes event_rows v w" for u v w
  proof -
    have "wdb w = wdb u\<lparr>webhook_events := webhook_events (wdb w)\<rparr>"
      using that by (metis (no_types, lifting) db.surjective db.update_convs(6) event_rows_def writes_def)
    then show ?thesis using that added_trans unfolding writes_def event_rows_def by blast
  qed
qed (simp add: writes_def)

lemma keeps_db_writes:
  "keeps_db w w' \<Longrightarrow> writes (own_rows pk) w w'" "keeps_db w w' \<Longrightarrow> writes event_rows w w'"
  by (simp_all add: keeps_db_def writes_def)

named_theorems own_intros "operations that write only rows of the vault"

lemmas [own_intros] = own.frame_intros

section \<open>The statements\<close>

lemma own_exec: "(\<And>now d. own_rows pk d (snd (s now d))) \<Longrightarrow> writes (own_rows pk) w (snd (db_exec env s w))"
  using db_exec_wdb [of env s w] by (auto simp: writes_def)

lemma own_mapping:
  "own_rows pk d (snd (sql_claim_nonce pk n cc now d))" "own_rows pk d (snd (sql_set_reap_user pk u now d))"
  "own_rows pk d (snd (sql_claim_create pk st now d))" "own_rows pk d (snd (sql_release_create pk now d))"
  by (auto simp: own_rows_def sql_claim_nonce_def sql_set_reap_user_def sql_claim_create_def sql_release_create_def
      mapping_updates split: option.split)

lemma own_insert:
  "own_rows pk d (snd (sql_card_insert pk c now d))" "own_rows pk d (snd (sql_account_insert pk a now d))"
  "own_rows pk d (snd (sql_user_card_insert u c now d))" "own_rows pk d (snd (sql_token_insert tid pk exp now d))"
  by (auto simp: own_rows_def sql_card_insert_def sql_account_insert_def sql_user_card_insert_def
      sql_token_insert_def mapping_of_def intro: added_insert_new added_insert)

lemma own_stores [own_intros]:
  "writes (own_rows pk) w (snd (ClaimNonce env pk n cc w))"
  "writes (own_rows pk) w (snd (SetReapUserID env pk u w))"
  "writes (own_rows pk) w (snd (ClaimReapUserCreate env pk st w))"
  "writes (own_rows pk) w (snd (ReleaseReapUserCreate env pk w))"
  "writes (own_rows pk) w (snd (cardownership_Record env pk c w))"
  "writes (own_rows pk) w (snd (accountownership_Record env pk a w))"
  "writes (own_rows pk) w (snd (usercardownership_Record env u c w))"
  "writes (own_rows pk) w (snd (vaulttoken_Record env tid pk exp w))"
  unfolding ClaimNonce_def SetReapUserID_def ClaimReapUserCreate_def ReleaseReapUserCreate_def cardownership_Record_def
    accountownership_Record_def usercardownership_Record_def vaulttoken_Record_def
  by (auto intro!: own_intros own_exec own_mapping own_insert)

interpretation own_vault: vault_frame "writes (own_rows pk)" pk for pk
  by unfold_locales (rule keeps_db_writes own_stores; assumption?)+

lemma own_Authenticate: "writes (own_rows pk) w (snd (Authenticate env pk cc n sg w))"
  unfolding Authenticate_def issueToken_def newTokenID_def Let_def
  by (auto intro!: own_intros own_vault.vault_reads)

section \<open>The server\<close>

lemma serve_user_own: "writes (own_rows pk) w (snd (serve_user env pk u w))"
  by (rule own_vault.serve_user_frame)

lemma serve_simulation_own: "writes (own_rows pk) w (snd (serve_simulation env pk s w))"
  by (rule own_vault.serve_simulation_frame)

text \<open>A login writes the rows of the vault it names, a delivery an event, and the others nothing.\<close>

lemma HandleEvent_events: "writes event_rows w (snd (HandleEvent env raw h w))"
proof -
  have ev: "event_rows d (snd (sql_event_insert i ty p now d))" for i ty p now d
    by (auto simp: event_rows_def sql_event_insert_def intro: added_insert split: option.split)
  have exec: "writes event_rows w (snd (db_exec env (sql_event_insert i ty p) w))" for i ty p w
    using db_exec_wdb [of env "sql_event_insert i ty p" w] ev by (auto simp: writes_def)
  have rec: "writes event_rows w (snd (reapwebhookevent_Record env i ty p w))" for i ty p w
    unfolding reapwebhookevent_Record_def by (rule events.andThen_frame, rule exec) simp
  have notify: "writes event_rows w (snd (notifyVault env ty p w))" for ty p w
    by (rule keeps_db_writes) (auto simp: notifyVault_def intro!: unwritten_intros resolveVault_db split: sum.split)
  show ?thesis unfolding HandleEvent_def
    by (auto intro!: events.frame_intros rec notify keeps_db_writes(2) [OF time_now_keeps(3)] split: sum.split option.split)
qed

lemma serve_public_own:
  "case p of Auth (Some (pk, cc, n, sg)) \<Rightarrow> writes (own_rows pk) w (snd (serve_public env p w))
     | Reap_Webhook_Delivery b h \<Rightarrow> writes event_rows w (snd (serve_public env p w))
     | _ \<Rightarrow> keeps_db w (snd (serve_public env p w))"
proof (cases p)
  case (Auth b)
  then show ?thesis
    by (auto simp: Server_auth_def reply_def intro!: own_vault.handle_frame own_Authenticate own_intros own_vault.reply_vault split: option.split sum.split)
next
  case (Reap_Webhook_Delivery b h)
  have "writes event_rows w (snd (handle (HandleEvent env raw h) k w))" if "\<And>r w. snd (k r w) = w" for raw k
    using HandleEvent_events [of w env raw h] that by (simp add: handle_def prod.case_eq_if)
  then show ?thesis using Reap_Webhook_Delivery
    by (auto simp: Server_reapWebhook_def reply_def writes_def split: option.split sum.split)
next
  case Health
  then show ?thesis using db_exec_read [of "\<lambda>now d. (Inr (), d)" env w]
    by (auto simp: Server_health_def handle_def reply_def keeps_db_def split: prod.split sum.split)
qed (auto simp: Server_nonce_def Let_def handle_def reply_def keeps_db_def GetNonce_eq split: prod.split sum.split)

end
