(* ===== verification/Noninterference.thy ===== *)
theory Noninterference
  imports Isolation Request_Binding
begin

text \<open>
  What a vault's requests can depend on. Two runs of an operation from states that differ only in what
  other vaults own are compared: they give the same answer, send the same requests and leave states
  that again differ only so. The locale \<open>coupling\<close> is the part of that argument that does not depend
  on which differences are allowed; it is interpreted for the view of a vault and for states that agree
  on everything but the database.
\<close>

section \<open>Coupled runs\<close>

definition coupled :: "(world \<Rightarrow> world \<Rightarrow> bool) \<Rightarrow> (world \<Rightarrow> world \<Rightarrow> bool) \<Rightarrow> (world \<Rightarrow> 'b \<times> world) \<Rightarrow> bool" where
  \<comment> \<open>from states related by \<open>R\<close>: the same result, and states related by \<open>S\<close>\<close>
  "coupled R S m \<longleftrightarrow> (\<forall>w w'. R w w' \<longrightarrow> fst (m w') = fst (m w) \<and> S (snd (m w)) (snd (m w')))"

definition same_logs :: "world \<Rightarrow> world \<Rightarrow> bool" where
  "same_logs w w' \<longleftrightarrow> sent w' = sent w \<and> tasks w' = tasks w \<and> metrics w' = metrics w \<and> tick w' = tick w"

lemma coupledD:
  assumes "coupled R S m" and "R w w'"
  shows "fst (m w') = fst (m w)" and "S (snd (m w)) (snd (m w'))"
  using assms by (auto simp: coupled_def)

lemma coupled_mono: "coupled R S m \<Longrightarrow> (\<And>w w'. R' w w' \<Longrightarrow> R w w') \<Longrightarrow> (\<And>w w'. S w w' \<Longrightarrow> S' w w') \<Longrightarrow> coupled R' S' m"
  by (auto simp: coupled_def)

lemma coupled_andThen:
  assumes "coupled R S m" and "\<And>x. coupled S T (k x)" and "\<And>w w'. S w w' \<Longrightarrow> T w w'"
  shows "coupled R T (andThen m k)"
  unfolding coupled_def
proof (intro allI impI)
  fix w w' assume "R w w'"
  note D = coupledD [OF assms(1) this]
  show "fst (andThen m k w') = fst (andThen m k w) \<and> T (snd (andThen m k w)) (snd (andThen m k w'))"
    using D coupledD [OF assms(2) D(2)] assms(3) [OF D(2)]
    by (auto simp: andThen_def prod.case_eq_if split: sum.split)
qed

lemma coupled_attempt:
  assumes "coupled R S m" and "\<And>r. coupled S T (k r)"
  shows "coupled R T (attempt m k)"
  using assms unfolding coupled_def attempt_def by (simp add: prod.case_eq_if)

lemma coupled_handle:
  assumes "coupled R S m" and "\<And>r. coupled S T (k r)"
  shows "coupled R T (handle m k)"
  using assms unfolding coupled_def handle_def by (simp add: prod.case_eq_if)

lemma coupled_ret:
  "(\<And>w w'. R w w' \<Longrightarrow> S w w') \<Longrightarrow> coupled R S (ret x)"
  "(\<And>w w'. R w w' \<Longrightarrow> S w w') \<Longrightarrow> coupled R S (fail e)"
  "(\<And>w w'. R w w' \<Longrightarrow> S w w') \<Longrightarrow> coupled R S (reply r)"
  by (simp_all add: coupled_def reply_def)

locale coupling =
  fixes R :: "world \<Rightarrow> world \<Rightarrow> bool"
  assumes R_logs: "R w w' \<Longrightarrow> same_logs w w'"
    and R_tick: "R w w' \<Longrightarrow> R (w\<lparr>tick := n\<rparr>) (w'\<lparr>tick := n\<rparr>)"
    and R_sent: "R w w' \<Longrightarrow> R (w\<lparr>sent := s\<rparr>) (w'\<lparr>sent := s\<rparr>)"
    and R_tasks: "R w w' \<Longrightarrow> R (w\<lparr>tasks := t\<rparr>) (w'\<lparr>tasks := t\<rparr>)"
    and R_metrics: "R w w' \<Longrightarrow> R (w\<lparr>metrics := m\<rparr>) (w'\<lparr>metrics := m\<rparr>)"
begin

lemma coupled_prims:
  "coupled R R (time_now env)" "coupled R R (rand_Read env)" "coupled R R (http_Do env r)"
  "coupled R R (enqueue env p)" "coupled R R (emit p)"
proof -
  note R_all = R_tick R_tick [OF R_sent] R_tick [OF R_tasks] R_metrics
  have logs: "sent w' = sent w" "tasks w' = tasks w" "metrics w' = metrics w" "tick w' = tick w" if "R w w'" for w w'
    using R_logs [OF that] by (simp_all add: same_logs_def)
  show "coupled R R (time_now env)" "coupled R R (rand_Read env)" "coupled R R (http_Do env r)"
    "coupled R R (enqueue env p)" "coupled R R (emit p)"
    using R_all by (auto simp: coupled_def logs time_now_def rand_Read_def http_Do_def enqueue_def emit_def)
qed

lemma coupled_Client_do: "coupled R R (Client_do env m p b opts)"
proof -
  have "coupled R R (statsd_Count c n k tags)" "coupled R R (statsd_Timing c n k tags)" for c n k tags
    unfolding statsd_Count_def statsd_Timing_def statsd_send_def
    by (auto intro!: coupled_prims coupled_ret split: option.split)
  then show ?thesis
    unfolding Client_do_def Client_report_def Let_def
    by (auto intro!: coupled_andThen [where S = R] coupled_attempt [where S = R] coupled_prims coupled_ret
        split: sum.split prod.split)
qed

end

section \<open>What a vault may see\<close>

definition same_view :: "string \<Rightarrow> db \<Rightarrow> db \<Rightarrow> bool" where
  \<comment> \<open>the vault's mapping, and which cards and accounts are its own; who owns the others may differ\<close>
  "same_view pk d d' \<longleftrightarrow> mapping_of d' pk = mapping_of d pk
     \<and> (\<forall>c. (owner_in (card_ownership d') c = Some pk) = (owner_in (card_ownership d) c = Some pk))
     \<and> (\<forall>a. (owner_in (account_ownership d') a = Some pk) = (owner_in (account_ownership d) a = Some pk))"

definition view :: "string \<Rightarrow> world \<Rightarrow> world \<Rightarrow> bool" where
  "view pk w w' \<longleftrightarrow> same_view pk (wdb w) (wdb w') \<and> same_logs w w'"

lemma same_view_refl [simp]: "same_view pk d d"
  by (simp add: same_view_def)

lemma same_view_trans: "same_view pk d d' \<Longrightarrow> same_view pk d' d'' \<Longrightarrow> same_view pk d d''"
  by (simp add: same_view_def)

lemma view_logs [simp]: "view pk w w' \<Longrightarrow> same_logs w w'"
  by (simp add: view_def)

interpretation blind: coupling same_logs
  by unfold_locales (simp_all add: same_logs_def)

interpretation vault_view: coupling "view pk" for pk
  by unfold_locales (simp_all add: view_def same_logs_def)

named_theorems view_intros "operations that depend on the view of the vault only"

abbreviation sees :: "string \<Rightarrow> (world \<Rightarrow> 'b \<times> world) \<Rightarrow> bool" where
  "sees pk \<equiv> coupled (view pk) (view pk)"

abbreviation answers :: "string \<Rightarrow> (world \<Rightarrow> 'b \<times> world) \<Rightarrow> bool" where
  "answers pk \<equiv> coupled (view pk) same_logs"

lemma view_run:
  assumes "\<And>w. m w = (if db_fault env (tick w) = NoFault then f (wdb w) else Inl ErrDb, w\<lparr>tick := Suc (tick w)\<rparr>)"
    and "\<And>d d'. same_view pk d d' \<Longrightarrow> f d' = f d"
  shows "sees pk m"
  unfolding coupled_def assms(1) using assms(2)
  by (auto simp: view_def same_logs_def)

lemma view_lookups [view_intros]:
  "sees pk (resolveReapUserID env pk)"
  "sees pk (cardownership_IsOwner env pk c)"
  "sees pk (accountownership_IsOwner env pk a)"
proof -
  show "sees pk (resolveReapUserID env pk)"
    by (rule view_run [where env = env and f = "\<lambda>d. case reap_user_of d pk of None \<Rightarrow> Inl ErrNoReapUser
          | Some u \<Rightarrow> if u = [] then Inl ErrNoReapUser else Inr u"])
      (simp_all add: resolveReapUserID_run same_view_def reap_user_of_def)
  show "sees pk (cardownership_IsOwner env pk c)"
    by (rule view_run [where env = env and f = "\<lambda>d. Inr (owner_in (card_ownership d) c = Some pk)"])
      (simp_all add: isowner_run same_view_def)
  show "sees pk (accountownership_IsOwner env pk a)"
    by (rule view_run [where env = env and f = "\<lambda>d. Inr (owner_in (account_ownership d) a = Some pk)"])
      (simp_all add: isowner_run same_view_def)
qed

lemma view_client [view_intros]: "sees pk (Client_do env m p b opts)"
  by (rule vault_view.coupled_Client_do)

lemma view_andThen [view_intros]:
  assumes "sees pk m" and "\<And>x. sees pk (k x)"
  shows "sees pk (andThen m k)"
  using assms by (rule coupled_andThen)

lemma view_ret [view_intros]: "sees pk (ret x)" "sees pk (fail e)"
  by (simp_all add: coupled_ret)

lemma coupled_Pair: "coupled R R (Pair x)"
  by (simp add: coupled_def)

lemma view_checks [view_intros]:
  "sees pk (CardService_checkOwnership env pk i)"
  "sees pk (AccountService_checkOwnership env pk i)"
  "sees pk (ShipmentService_checkCardOwnership env pk i)"
  "sees pk (FraudAlertService_checkCardOwnership env pk i)"
  "sees pk (SimulationService_checkCardOwnership env pk i)"
  "sees pk (SimulationService_checkAccountOwnership env pk i)"
  unfolding CardService_checkOwnership_def AccountService_checkOwnership_def ShipmentService_checkCardOwnership_def
    FraudAlertService_checkCardOwnership_def SimulationService_checkCardOwnership_def
    SimulationService_checkAccountOwnership_def
  by (auto intro!: view_intros)

section \<open>The services\<close>

lemma view_users [view_intros]:
  "sees pk (UserService_GetUser env pk)"
  "sees pk (UserService_UpdateEmail env pk a)"
  "sees pk (UserService_UpdatePhoneNumber env pk a)"
  "sees pk (UserService_AdvanceUserApplication env pk b a)"
  unfolding user_service_defs client_defs
  by (auto intro!: view_intros split: sum.splits prod.splits option.splits)

lemma view_accounts [view_intros]:
  "sees pk (AccountService_GenerateSignerMessage env)"
  "sees pk (AccountService_GetAccount env pk i)"
  "sees pk (AccountService_GetAccountBalance env pk i)"
  "sees pk (AccountService_GetAccountAssets env pk i)"
  "sees pk (AccountService_ListAccounts env pk l c)"
  unfolding account_service_defs client_defs Let_def
  by (auto intro!: view_intros split: sum.splits prod.splits option.splits)

lemma view_cards [view_intros]:
  "sees pk (CardService_ListCards env pk q)"
  "sees pk (CardService_RespondToCard3DSChallenge env pk i b)"
  "sees pk (CardService_GetCard3DSChallenge env pk i)"
  unfolding CardService_ListCards_def challengeCardID_def
    CardService_RespondToCard3DSChallenge_def CardService_GetCard3DSChallenge_def client_defs
  by (auto intro!: view_intros split: prod.splits option.splits)

lemma view_card_actions [view_intros]:
  "sees pk (CardService_GetCard env pk i)" "sees pk (CardService_DeleteCard env pk i)"
  "sees pk (CardService_UpdateCardPin env pk i a)" "sees pk (CardService_FreezeCard env pk i)"
  "sees pk (CardService_UnfreezeCard env pk i)"
  "sees pk (CardService_RevealCardDetails env pk i a b)"
  "sees pk (CardService_UpdateCard3DSChallengeMethod env pk i a)"
  "sees pk (CardService_ActivatePhysicalCard env pk i a)"
  "sees pk (CardService_GetCardActivationCode env pk i)"
  "sees pk (CardService_PushProvisionCard env pk i a c d e)"
  unfolding card_action_defs client_defs by (rule view_intros)+

lemma view_shipments [view_intros]:
  "sees pk (ShipmentService_CreateCardShipment env pk cs)"
  "sees pk (ShipmentService_ListCardShipments env pk q)"
  "sees pk (ShipmentService_GetCardShipment env pk i)"
  "sees pk (ShipmentService_DeleteCardShipment env pk i)"
  "sees pk (ShipmentService_UpdateCardShipment env pk i us)"
  "sees pk (ShipmentService_AddCardToShipment env pk i cm)"
  "sees pk (ShipmentService_RemoveCardFromShipment env pk i mid)"
  "sees pk (ShipmentService_SubmitCardShipment env pk i k)"
proof -
  have loops: "sees pk (check_cards env pk ids)"
    "sees pk (check_members env pk ms)" for ids ms
    by (induction ids, auto simp: coupled_Pair intro!: view_intros) (induction ms, auto simp: coupled_Pair intro!: view_intros)
  show "sees pk (ShipmentService_CreateCardShipment env pk cs)"
    "sees pk (ShipmentService_ListCardShipments env pk q)"
    "sees pk (ShipmentService_GetCardShipment env pk i)"
    "sees pk (ShipmentService_DeleteCardShipment env pk i)"
    "sees pk (ShipmentService_UpdateCardShipment env pk i us)"
    "sees pk (ShipmentService_AddCardToShipment env pk i cm)"
    "sees pk (ShipmentService_RemoveCardFromShipment env pk i mid)"
    "sees pk (ShipmentService_SubmitCardShipment env pk i k)"
    unfolding shipment_service_defs fetchOwnedShipment_def checkShipmentMembers_def client_defs Let_def
    by (auto intro!: view_intros loops split: sum.splits prod.splits option.splits)
qed

lemma view_scoped [view_intros]:
  "sees pk (CardDesignService_ListCardDesigns env q)"
  "sees pk (CardDesignService_GetCardDesign env i)"
  "sees pk (CardTransactionService_GetCardTransaction env pk i)"
  "sees pk (ActivityService_ListActivities env pk q)"
  "sees pk (FraudAlertService_ListFraudAlerts env pk q)"
  "sees pk (FraudAlertService_ReportFraud env pk rf k)"
  "sees pk (FraudAlertService_GetFraudAlert env pk i)"
  "sees pk (FraudAlertService_RespondToFraudAlert env pk i ra k)"
  unfolding CardDesignService_ListCardDesigns_def CardDesignService_GetCardDesign_def
    CardTransactionService_GetCardTransaction_def ActivityService_ListActivities_def
    FraudAlertService_ListFraudAlerts_def FraudAlertService_ReportFraud_def FraudAlertService_GetFraudAlert_def
    FraudAlertService_RespondToFraudAlert_def fraud_list_scoped_def transactionCardID_def alertCardID_def
    client_defs Let_def
  by (auto intro!: view_intros split: prod.splits option.splits)

lemma view_simulation [view_intros]:
  "sees pk (SimulationService_SimulateUserApplicationStatus env pk i a)"
  "sees pk (SimulationService_SimulateCompanyStatus env i sc)"
  "sees pk (SimulationService_SimulateAccountStatus env pk i a)"
  "sees pk (SimulationService_SimulateCardStatus env pk i a)"
  "sees pk (SimulationService_SimulateAuthorization env pk r)"
  "sees pk (SimulationService_SimulateThreeDSAuthorization env pk r)"
  "sees pk (SimulationService_SimulateDecline env pk r)"
  "sees pk (SimulationService_SimulateClearing env pk r)"
  "sees pk (SimulationService_SimulateReversal env pk r)"
  "sees pk (SimulationService_SimulateRefund env pk r)"
  unfolding simulation_defs checkTransactionOwnership_def client_defs
  by (auto intro!: view_intros split: prod.splits option.splits)

text \<open>
  A creation ends with recording what REAP created. Whether that is a new row can depend on the rows of
  others; the answer does not.
\<close>

lemma blind_records:
  "coupled same_logs same_logs (cardownership_Record env pk c)"
  "coupled same_logs same_logs (accountownership_Record env pk c)"
  "coupled same_logs same_logs (usercardownership_Record env pk c)"
  by (auto simp: coupled_def same_logs_def cardownership_Record_def accountownership_Record_def
      usercardownership_Record_def db_exec_def Let_def sql_card_insert_def sql_account_insert_def sql_user_card_insert_def
      split: fault.split)

lemma answers_sees: "sees pk m \<Longrightarrow> answers pk m"
  by (erule coupled_mono) simp_all

lemma answers_blind: "coupled same_logs same_logs m \<Longrightarrow> answers pk m"
  by (erule coupled_mono) simp_all

text \<open>A request made on what the vault sees, and what is done with its answer.\<close>

lemma answers_after:
  assumes "sees pk m" and "\<And>x. answers pk (k x)"
  shows "answers pk (andThen m k)"
  by (rule coupled_andThen [OF assms]) simp

lemma answers_ret: "answers pk (ret x)" "answers pk (fail e)"
  by (simp_all add: coupled_ret)

lemma answers_record:
  "answers pk (andThen (accountownership_Record env k i) (\<lambda>_. ret x))"
  "answers pk (andThen (cardownership_Record env k i) (\<lambda>_. andThen (usercardownership_Record env u i) (\<lambda>_. ret x)))"
  by (intro answers_blind coupled_andThen [where S = same_logs] blind_records coupled_ret; assumption)+

lemma answers_creations:
  "answers pk (AccountService_CreateAccount env pk sg k)" "answers pk (CardService_CreateCard env pk cc k)"
  unfolding AccountService_CreateAccount_def CardService_CreateCard_def client_defs
  by (auto intro!: answers_after answers_ret answers_record view_intros split: prod.split option.split)

section \<open>The server\<close>

lemma answers_answer: "answers pk m \<Longrightarrow> answers pk (answer errs m)"
  unfolding answer_def by (erule coupled_handle) (auto intro!: coupled_ret split: sum.split)

lemma answers_reply: "answers pk (reply r)"
  by (simp add: coupled_ret)

lemmas answers_intros = answers_reply answers_answer [OF answers_creations(1)] answers_answer [OF answers_creations(2)]
  answers_answer [OF answers_sees]

text \<open>
  Only the creation of a REAP user is left out: its last statement fails when the ID REAP gave is
  recorded for another vault.
\<close>

lemma serve_user_answers:
  assumes "\<And>ip b. u \<noteq> Create_User ip b"
  shows "answers pk (serve_user env pk u)"
  using assms
  by (cases u; auto simp: handler_defs intro: answers_intros view_intros split: option.split prod.split)

lemma serve_simulation_answers: "answers pk (serve_simulation env pk s)"
  by (cases s; auto simp: handler_defs intro: answers_intros view_intros split: option.split)

definition same_token :: "string \<Rightarrow> db \<Rightarrow> db \<Rightarrow> bool" where
  \<comment> \<open>the record of the token with this ID, but for its times of use\<close>
  "same_token i d d' \<longleftrightarrow>
     map_option (\<lambda>t. (t_expires_at t, t_revoked_at t)) (map_of (vault_tokens d') i)
     = map_option (\<lambda>t. (t_expires_at t, t_revoked_at t)) (map_of (vault_tokens d) i)"

lemma view_Touch:
  assumes "view pk w w'" and "same_token i (wdb w) (wdb w')"
    and "vaulttoken_Touch env i w = (r, v)" and "vaulttoken_Touch env i w' = (r', v')"
  shows "view pk v v'"
    and "(\<exists>e. r = Inl e \<and> r' = Inl e) \<or> (r = Inr None \<and> r' = Inr None)
      \<or> (\<exists>t t'. r = Inr (Some t) \<and> r' = Inr (Some t') \<and> t_expires_at t' = t_expires_at t \<and> t_revoked_at t' = t_revoked_at t)"
proof -
  have "tick w' = tick w" using assms(1) by (simp add: view_def same_logs_def)
  moreover have "v = snd (vaulttoken_Touch env i w)" "v' = snd (vaulttoken_Touch env i w')" using assms(3,4) by simp_all
  ultimately show "view pk v v'" using assms(1)
    by (simp add: vaulttoken_Touch_def db_exec_def Let_def view_def same_logs_def same_view_def mapping_of_def
        sql_token_touch_frame prod.case_eq_if split: fault.split)
  show "(\<exists>e. r = Inl e \<and> r' = Inl e) \<or> (r = Inr None \<and> r' = Inr None)
      \<or> (\<exists>t t'. r = Inr (Some t) \<and> r' = Inr (Some t') \<and> t_expires_at t' = t_expires_at t \<and> t_revoked_at t' = t_revoked_at t)"
    using assms \<open>tick w' = tick w\<close>
    by (cases "map_of (vault_tokens (wdb w)) i"; cases "map_of (vault_tokens (wdb w')) i")
      (auto simp: vaulttoken_Touch_def db_exec_def Let_def same_token_def sql_token_touch_def split: fault.splits)
qed

text \<open>
  The whole middleware: with a token that parses to a vault's claims, everything from there on depends
  on the token's record and the vault's view.
\<close>

lemma RequireAuth_answers:
  assumes "jwt_parse (crypto_lib env) (clock env (tick w)) (TrimPrefix h ''Bearer '') (keyfunc env) = Some cl"
    and "TrimPrefix h ''Bearer '' \<noteq> []" and "TrimPrefix h ''Bearer '' \<noteq> h"
    and "view (cl_PublicKey cl) w w'" and "same_token (cl_ID cl) (wdb w) (wdb w')"
    and "answers (cl_PublicKey cl) (nxt cl)"
  shows "fst (RequireAuth env nxt h w') = fst (RequireAuth env nxt h w)
     \<and> same_logs (snd (RequireAuth env nxt h w)) (snd (RequireAuth env nxt h w'))"
proof -
  let ?t = "\<lambda>w. w\<lparr>tick := Suc (tick w)\<rparr>"
  have tick: "tick w' = tick w" using assms(4) by (simp add: view_def same_logs_def)
  obtain r v r' v' where t: "vaulttoken_Touch env (cl_ID cl) (?t w) = (r, v)"
    "vaulttoken_Touch env (cl_ID cl) (?t w') = (r', v')" by fastforce
  have pre: "view (cl_PublicKey cl) (?t w) (?t w')" "same_token (cl_ID cl) (wdb (?t w)) (wdb (?t w'))"
    using assms(4,5) tick vault_view.R_tick by simp_all
  note T = view_Touch [OF pre t]
  have logs: "same_logs v v'" and tv: "tick v' = tick v" using T(1) by (simp_all add: view_def same_logs_def)
  have nxt: "fst (nxt cl (v'\<lparr>tick := n\<rparr>)) = fst (nxt cl (v\<lparr>tick := n\<rparr>))
      \<and> same_logs (snd (nxt cl (v\<lparr>tick := n\<rparr>))) (snd (nxt cl (v'\<lparr>tick := n\<rparr>)))" for n
    using coupledD [OF assms(6) vault_view.R_tick [OF T(1)]] by blast
  have L: "same_logs (v\<lparr>tick := n\<rparr>) (v'\<lparr>tick := n\<rparr>)" for n using logs by (rule blind.R_tick)
  have run: "RequireAuth env nxt h w = (case r of Inl _ \<Rightarrow> (HTTPError 500 ''internal error'', v)
      | Inr tok \<Rightarrow> admit env nxt cl tok v)"
    "RequireAuth env nxt h w' = (case r' of Inl _ \<Rightarrow> (HTTPError 500 ''internal error'', v')
      | Inr tok \<Rightarrow> admit env nxt cl tok v')"
    using RequireAuth_run [OF assms(2,3), of env w cl nxt] RequireAuth_run [OF assms(2,3), of env w' cl nxt]
      assms(1) t tick by simp_all
  show ?thesis using T(2) logs L nxt tv unfolding run
    by (auto simp: admit_def IsRevoked_def Let_def reply_def split: option.split)
qed

section \<open>What others do\<close>

text \<open>
  A request acts for a vault when it passes as that vault or logs it in. \<open>others\<close> is any series of requests
  that do not, in whatever environments.
\<close>

definition acts_for :: "env \<Rightarrow> string \<Rightarrow> (string \<Rightarrow> float64 option) \<Rightarrow> http_in \<Rightarrow> world \<Rightarrow> string \<Rightarrow> bool" where
  "acts_for env reapEnv pf rq w pk \<longleftrightarrow>
     (\<exists>cl. auth_passed env (in_header rq ''Authorization'') w cl \<and> cl_PublicKey cl = pk)
     \<or> (\<exists>cc n sg. Server_call reapEnv pf rq = Some (Public (Auth (Some (pk, cc, n, sg)))))"

inductive others :: "string \<Rightarrow> db \<Rightarrow> db \<Rightarrow> bool" for pk where
  others_none: "others pk d d"
| others_request: "others pk d (wdb w) \<Longrightarrow> \<not> acts_for env reapEnv pf rq w pk \<Longrightarrow>
    others pk d (wdb (snd (Server_http env reapEnv pf rq w)))"

lemma same_view_touched: "only_touched d d' \<Longrightarrow> same_view pk d d'"
  by (simp add: only_touched_def same_view_def mapping_of_def)

lemma same_view_events: "event_rows d d' \<Longrightarrow> same_view pk d d'"
proof -
  assume "event_rows d d'"
  then have "mappings d' = mappings d" "card_ownership d' = card_ownership d" "account_ownership d' = account_ownership d"
    unfolding event_rows_def by (metis db.select_convs(1,3,4) db.surjective db.update_convs(6))+
  then show ?thesis by (simp add: same_view_def mapping_of_def)
qed

lemma added_owner:
  assumes "added (\<lambda>r. o_owner r = k) t t'" and "k \<noteq> pk"
  shows "(owner_in t' c = Some pk) = (owner_in t c = Some pk)"
  using assms(1) [unfolded added_def, rule_format, of c] assms(2)
  by (cases "map_of t c"; cases "map_of t' c") (auto simp: owner_in_def)

lemma same_view_own: "own_rows k d d' \<Longrightarrow> k \<noteq> pk \<Longrightarrow> same_view pk d d'"
  unfolding own_rows_def same_view_def by (auto simp: added_owner [where k = k])

lemma request_keeps_view:
  assumes "\<not> acts_for env reapEnv pf rq w pk"
  shows "same_view pk (wdb w) (wdb (snd (Server_http env reapEnv pf rq w)))"
proof -
  let ?h = "in_header rq ''Authorization''"
  have guarded: "same_view pk (wdb w) (wdb (snd (RequireAuth env nxt ?h w)))"
    if "\<And>cl w. writes (own_rows (cl_PublicKey cl)) w (snd (nxt cl w))" for nxt
  proof (cases rule: RequireAuth_cases [of w env nxt ?h])
    case refused
    then show ?thesis by (auto simp: auth_refused_def same_view_touched)
  next
    case (passed cl w1)
    then have "cl_PublicKey cl \<noteq> pk" using assms by (auto simp: acts_for_def)
    then have "same_view pk (wdb w1) (wdb (snd (nxt cl w1)))"
      using that [where cl = cl and w = w1] by (auto simp: writes_def intro: same_view_own)
    then show ?thesis using passed same_view_touched same_view_trans by metis
  qed
  show ?thesis
  proof (cases "Server_call reapEnv pf rq")
    case None
    then show ?thesis by (simp add: Server_http_def reply_def)
  next
    case (Some c)
    then have out: "Server_http env reapEnv pf rq w = Server_serve env reapEnv ?h c w" by (simp add: Server_http_def)
    show ?thesis
    proof (cases c)
      case (Public p)
      have "p = Auth (Some (k, cc, n, sg)) \<Longrightarrow> k \<noteq> pk" for k cc n sg using assms Some Public by (auto simp: acts_for_def)
      then show ?thesis using serve_public_own [where p = p and w = w and env = env] unfolding out Public
        by (cases p) (auto simp: Server_serve_def writes_def keeps_db_def same_view_own same_view_events split: option.splits)
    next
      case (Protected u)
      then show ?thesis unfolding out by (simp add: Server_serve_def guarded serve_user_own)
    next
      case (Simulation s)
      then show ?thesis unfolding out by (simp add: Server_serve_def guarded serve_simulation_own reply_def)
    qed
  qed
qed

lemma Server_http_evolves: "evolves w (snd (Server_http env reapEnv pf rq w))"
  by (simp add: Server_http_def Server_serve_evolves_lemma split: option.split)

lemma others_view: "others pk d d' \<Longrightarrow> same_view pk d d' \<and> db_le d d'"
proof (induction rule: others.induct)
  case (others_request d w env reapEnv pf rq)
  then show ?case
    using request_keeps_view [of env reapEnv pf rq w pk] Server_http_evolves [of w env reapEnv pf rq]
    by (auto simp: evolves_def intro: same_view_trans db_le_trans)
qed simp

lemma same_token_le: "db_le d d' \<Longrightarrow> map_of (vault_tokens d) i \<noteq> None \<Longrightarrow> same_token i d d'"
  by (fastforce simp: db_le_def rows_le_def same_token_def token_le_def)

text \<open>
  So what others did before does not show in the answer to a vault's request.
\<close>

lemma Server_http_answers:
  assumes "auth_passed env (in_header rq ''Authorization'') w cl"
    and "same_view (cl_PublicKey cl) (wdb w) d" and "same_token (cl_ID cl) (wdb w) d"
    and "\<And>ip b. Server_call reapEnv pf rq \<noteq> Some (Protected (Create_User ip b))"
    and "\<And>p. Server_call reapEnv pf rq \<noteq> Some (Public p)"
  shows "fst (Server_http env reapEnv pf rq (w\<lparr>wdb := d\<rparr>)) = fst (Server_http env reapEnv pf rq w)
     \<and> same_logs (snd (Server_http env reapEnv pf rq w)) (snd (Server_http env reapEnv pf rq (w\<lparr>wdb := d\<rparr>)))"
proof -
  let ?h = "in_header rq ''Authorization''" and ?w' = "w\<lparr>wdb := d\<rparr>"
  obtain tok where h: "?h = ''Bearer '' @ tok" and tok: "tok \<noteq> []"
    and cl: "jwt_parse (crypto_lib env) (clock env (tick w)) tok (keyfunc env) = Some cl"
    using assms(1) by (auto simp: auth_passed_def)
  have trim: "TrimPrefix ?h ''Bearer '' = tok" unfolding h by (rule TrimPrefix_append)
  have trimmed: "tok \<noteq> ?h" unfolding h by simp
  have v: "view (cl_PublicKey cl) w ?w'" "same_token (cl_ID cl) (wdb w) (wdb ?w')"
    using assms(2,3) by (simp_all add: view_def same_logs_def)
  have ra: "fst (RequireAuth env nxt ?h ?w') = fst (RequireAuth env nxt ?h w)
      \<and> same_logs (snd (RequireAuth env nxt ?h w)) (snd (RequireAuth env nxt ?h ?w'))"
    if "answers (cl_PublicKey cl) (nxt cl)" for nxt
    by (rule RequireAuth_answers [where h = ?h and nxt = nxt and cl = cl and env = env and w = w and w' = ?w', unfolded trim, OF cl tok trimmed v that])
  have "same_logs w ?w'" by (simp add: same_logs_def)
  then show ?thesis
    using assms(4,5) ra [where nxt = "\<lambda>cl. serve_user env (cl_PublicKey cl) _"]
      ra [where nxt = "\<lambda>cl. serve_simulation env (cl_PublicKey cl) _"] serve_user_answers serve_simulation_answers
    by (cases "Server_call reapEnv pf rq")
      (auto simp: Server_http_def Server_serve_def reply_def split: call.split)
qed

end
