(* ===== verification/Properties_Http.thy ===== *)
theory Properties_Http
  imports Properties_Runtime Outbound_Tasks Forwarding Noninterference
begin

text \<open>
  A request from the router on: which routes are open, which call a request makes, and what the
  server sends to REAP for it.
\<close>

section \<open>Routes\<close>

lemma open_routes: "map (\<lambda>(m, p, f). (m, p)) public_routes
    = [(''GET'', ''/health''), (''GET'', ''/nonce''), (''POST'', ''/auth''), (''POST'', ''/webhooks/reap'')]"
  by (simp add: public_routes_def)

lemma public_routes_agree: "list_all (\<lambda>(m, p, f). public_route (f rq) = (m, p)) public_routes"
  by (simp add: public_routes_def)

lemma user_routes_agree: "list_all (\<lambda>(m, p, f). user_route (f rq) = (m, p)) user_routes"
  by (simp add: user_routes_def)

lemma simulation_routes_agree: "list_all (\<lambda>(m, p, f). simulation_route (f rq) = (m, p)) (simulation_routes pf)"
  by (simp add: simulation_routes_def)

text \<open>No two routes have the same method and pattern, so the order of registration does not matter.\<close>

lemma routes_distinct: "distinct (map (\<lambda>(m, p, f). (m, p)) (NewServer_routes reapEnv pf))"
  by (cases "reapEnv = ''sandbox''")
    (simp_all add: NewServer_routes_def wrap_def public_routes_def user_routes_def simulation_routes_def)

text \<open>The call of a request, in the cases the proofs use.\<close>

lemma Server_call_cases:
  obtains (unmatched) "Server_call reapEnv pf rq = None"
  | (open_route) p m r f where "Server_call reapEnv pf rq = Some (Public p)" "public_route p = (in_method rq, in_route rq)"
      "(m, r, f) \<in> set public_routes" "p = f rq"
  | (user) u m r f where "Server_call reapEnv pf rq = Some (Protected u)" "user_route u = (in_method rq, in_route rq)"
      "(m, r, f) \<in> set user_routes" "u = f rq" "r = in_route rq"
  | (simulation) s m r f where "Server_call reapEnv pf rq = Some (Simulation s)" "reapEnv = ''sandbox''"
      "simulation_route s = (in_method rq, in_route rq)" "(m, r, f) \<in> set (simulation_routes pf)" "s = f rq"
proof (cases "find (\<lambda>(m, p, f). m = in_method rq \<and> p = in_route rq) (NewServer_routes reapEnv pf)")
  case None
  then show ?thesis using unmatched by (simp add: Server_call_def)
next
  case (Some r)
  obtain m p f where r: "r = (m, p, f)" by (cases r)
  have c: "Server_call reapEnv pf rq = Some (f rq)" using Some r by (simp add: Server_call_def)
  have mem: "(m, p, f) \<in> set (NewServer_routes reapEnv pf)" and mp: "m = in_method rq" "p = in_route rq"
    using find_SomeD [OF Some] r by auto
  show ?thesis
  proof -
    consider g where "(m, p, g) \<in> set public_routes" "f = (\<lambda>rq. Public (g rq))"
      | g where "(m, p, g) \<in> set user_routes" "f = (\<lambda>rq. Protected (g rq))"
      | g where "(m, p, g) \<in> set (simulation_routes pf)" "f = (\<lambda>rq. Simulation (g rq))" "reapEnv = ''sandbox''"
      using mem by (auto simp: NewServer_routes_def wrap_def split: if_splits)
    then show ?thesis
    proof cases
      case (1 g)
      then show ?thesis using open_route [of "g rq" m p g] c mp public_routes_agree [of rq] by (auto simp: list_all_iff)
    next
      case (2 g)
      then show ?thesis using user [of "g rq" m p g] c mp user_routes_agree [of rq] by (auto simp: list_all_iff)
    next
      case (3 g)
      then show ?thesis using simulation [of "g rq" m p g] c mp simulation_routes_agree [of rq pf]
        by (auto simp: list_all_iff)
    qed
  qed
qed

lemma public_route_open: "public_route p \<in> set (map (\<lambda>(m, p, f). (m, p)) public_routes)"
  by (cases p) (simp_all add: open_routes)

text \<open>
  C16. Whatever the request, it is for one of the four open routes (health, nonce, login, webhook), or
  for a route that does not exist, for which the router answers and nothing happens, or it answers 401 or
  500 and changes nothing but a token's time of last use, or it runs the handler of the route, as the
  vault of a token that passes; a simulation route exists in the sandbox only.
\<close>

theorem routes_need_token:
  "(in_method rq, in_route rq) \<in> {(''GET'', ''/health''), (''GET'', ''/nonce''), (''POST'', ''/auth''), (''POST'', ''/webhooks/reap'')}
   \<or> Server_http env reapEnv pf rq w = (in_unmatched rq, w)
   \<or> auth_refused w (Server_http env reapEnv pf rq w)
   \<or> (\<exists>u. user_route u = (in_method rq, in_route rq)
        \<and> served_as env (in_header rq ''Authorization'') (\<lambda>pk. serve_user env pk u) w (Server_http env reapEnv pf rq w))
   \<or> (\<exists>s. reapEnv = ''sandbox'' \<and> simulation_route s = (in_method rq, in_route rq)
        \<and> served_as env (in_header rq ''Authorization'') (\<lambda>pk. serve_simulation env pk s) w (Server_http env reapEnv pf rq w))"
proof (cases rule: Server_call_cases [of reapEnv pf rq])
  case (open_route p)
  then show ?thesis using public_route_open [of p] by (simp add: open_routes)
next
  case (user u)
  then show ?thesis
    using protected_calls_need_token [of w env reapEnv "in_header rq ''Authorization''" u]
    by (simp only: Server_http_def option.case) blast
next
  case (simulation s)
  then have "auth_refused w (Server_http env reapEnv pf rq w)
      \<or> served_as env (in_header rq ''Authorization'') (\<lambda>pk. serve_simulation env pk s) w (Server_http env reapEnv pf rq w)"
    using protected_calls_need_token [of w env reapEnv "in_header rq ''Authorization''" Get_User s]
    by (simp add: Server_http_def)
  then show ?thesis using simulation(2,3) by blast
qed (simp add: Server_http_def reply_def)


section \<open>What goes out\<close>












text \<open>
  C26. No request makes the server send more than two requests to REAP, and all but the last one only
  read (\<open>GET\<close>); it queues one notification at most, and only the webhook's route queues any. The time the
  client allows for all its requests to REAP is within the time a shutdown waits and below the time after which
  the server cuts a response off.
\<close>

theorem requests_bounded:
  "\<exists>g c t. sent (snd (Server_http env reapEnv pf rq w)) = sent w @ g @ c
     \<and> length g \<le> 1 \<and> list_all (\<lambda>q. req_method q = ''GET'') g \<and> length c \<le> 1
     \<and> int (length (g @ c)) * requestTimeout \<le> shutdownTimeout
     \<and> int (length (g @ c)) * requestTimeout < writeTimeout
     \<and> tasks (snd (Server_http env reapEnv pf rq w)) = tasks w @ t
     \<and> (if (in_method rq, in_route rq) = (''POST'', ''/webhooks/reap'') then length t \<le> 1 else t = [])"
proof -
  obtain g c where s: "sent (snd (Server_http env reapEnv pf rq w)) = sent w @ g @ c" "length g \<le> 1"
      "list_all (\<lambda>q. req_method q = ''GET'') g" "length c \<le> 1"
  proof (cases "Server_call reapEnv pf rq")
    case None
    then show ?thesis using that [of "[]" "[]"] by (simp add: Server_http_def reply_def)
  next
    case (Some call)
    have "list_all (\<lambda>_. True) (forwarded call)" by (simp add: list_all_iff)
    from counted.Server_serve_sends [OF this, where env = env and reapEnv = reapEnv and h = "in_header rq ''Authorization''" and w = w] Some that
    show ?thesis by (auto simp: sends_def two_def look_up_def one_def Server_http_def)
  qed
  obtain t where "tasks (snd (Server_http env reapEnv pf rq w)) = tasks w @ t"
    "if (in_method rq, in_route rq) = (''POST'', ''/webhooks/reap'') then length t \<le> 1 else t = []"
  proof (cases "Server_call reapEnv pf rq")
    case None
    then show ?thesis using that [of "[]"] by (simp add: Server_http_def reply_def)
  next
    case (Some call)
    show ?thesis
    proof (cases rule: Server_serve_cases [of w env reapEnv "in_header rq ''Authorization''" call])
      case silent
      then show ?thesis using that [of "[]"] Some by (simp add: Server_http_def keeps_tasks_def)
    next
      case (delivery raw sig)
      then have "(in_method rq, in_route rq) = (''POST'', ''/webhooks/reap'')"
        using Some by (cases rule: Server_call_cases [of reapEnv pf rq]) auto
      then show ?thesis using that Some Server_serve_queued_one [of w env reapEnv "in_header rq ''Authorization''" call]
        by (auto simp: Server_http_def queued_one_def)
    qed
  qed
  moreover have "int (length (g @ c)) * requestTimeout \<le> shutdownTimeout"
    "int (length (g @ c)) * requestTimeout < writeTimeout"
    using s(2,4) by (simp_all add: requestTimeout_def shutdownTimeout_def writeTimeout_def)
  ultimately show ?thesis using s by blast
qed

section \<open>What is sent on\<close>

lemma RequireAuth_says:
  assumes "\<And>cl w. sends (list_all P) w (snd (nxt cl w))"
  shows "sends (list_all P) w (snd (RequireAuth env nxt h w))"
proof -
  have "sends (list_all P) w (snd (admit env nxt cl tok w))" for cl tok w
    using assms [where cl = cl and w = "w\<lparr>tick := tick w + 2\<rparr>"]
    by (auto simp: admit_def Let_def sends_def split: option.split)
  then show ?thesis unfolding RequireAuth_def Let_def ValidateToken_def
    by (auto intro!: silent_then_handle silent_intros reply_sends split: sum.split option.split)
qed

definition json_post :: "string \<Rightarrow> string \<Rightarrow> string \<Rightarrow> http_in \<Rightarrow> http_in" where
  \<comment> \<open>a request for the route with the text \<open>txt\<close> as its JSON body\<close>
  "json_post meth route txt rq = rq\<lparr>in_method := meth, in_route := route, in_bind := unmarshal_struct txt\<rparr>"

lemma json_post_calls:
  "Server_call reapEnv pf (json_post ''POST'' ''/card-shipments'' txt rq)
     = Some (Protected (Create_Card_Shipment (decode read_create_shipment txt)))"
  "Server_call reapEnv pf (json_post ''PATCH'' ''/card-shipments/:id'' txt rq)
     = Some (Protected (Update_Card_Shipment (Param rq ''id'') (decode read_update_shipment txt)))"
  "Server_call reapEnv pf (json_post ''POST'' ''/card-shipments/:id/cards'' txt rq)
     = Some (Protected (Add_Card_To_Shipment (Param rq ''id'') (decode read_member txt)))"
  "Server_call reapEnv pf (json_post ''POST'' ''/account'' txt rq)
     = Some (Protected (Create_Account (Idempotency_Key rq) (decode bind_createAccount txt)))"
  "Server_call reapEnv pf (json_post ''POST'' ''/card'' txt rq)
     = Some (Protected (Create_Card (Idempotency_Key rq) (decode bind_createCard txt)))"
  "Server_call reapEnv pf (json_post ''POST'' ''/fraud-alerts'' txt rq)
     = Some (Protected (Report_Fraud (Idempotency_Key rq) (decode bind_reportFraud txt)))"
  "Server_call reapEnv pf (json_post ''POST'' ''/fraud-alerts/:id/respond'' txt rq)
     = Some (Protected (Respond_To_Fraud_Alert (Param rq ''id'') (Idempotency_Key rq) (decode bind_respondToFraudAlert txt)))"
  by (simp_all add: json_post_def Server_call_def NewServer_routes_def public_routes_def user_routes_def wrap_def
      bound_def decode_def Param_def Idempotency_Key_def)

lemma json_post_header: "in_header (json_post meth route txt rq) = in_header rq"
  by (simp add: json_post_def)

lemma protected_says:
  assumes "Server_call reapEnv pf rq = Some (Protected u)"
    and "\<And>pk w. sends (list_all P) w (snd (serve_user env pk u w))"
  shows "sends (list_all P) w (snd (Server_http env reapEnv pf rq w))"
  by (simp add: Server_http_def assms(1) Server_serve_def RequireAuth_says assms(2))

lemma forwarded_bodies:
  "sends (list_all (says read_create_shipment (decode read_create_shipment txt))) w
     (snd (Server_http env reapEnv pf (json_post ''POST'' ''/card-shipments'' txt rq) w))"
  "sends (list_all (says read_update_shipment (decode read_update_shipment txt))) w
     (snd (Server_http env reapEnv pf (json_post ''PATCH'' ''/card-shipments/:id'' txt rq) w))"
  "sends (list_all (says read_member (decode read_member txt))) w
     (snd (Server_http env reapEnv pf (json_post ''POST'' ''/card-shipments/:id/cards'' txt rq) w))"
  "sends (list_all (says bind_createAccount (decode bind_createAccount txt))) w
     (snd (Server_http env reapEnv pf (json_post ''POST'' ''/account'' txt rq) w))"
  "sends (list_all (says bind_createCard (decode bind_createCard txt))) w
     (snd (Server_http env reapEnv pf (json_post ''POST'' ''/card'' txt rq) w))"
  "sends (list_all (says bind_reportFraud (decode bind_reportFraud txt))) w
     (snd (Server_http env reapEnv pf (json_post ''POST'' ''/fraud-alerts'' txt rq) w))"
  "sends (list_all (says bind_respondToFraudAlert (decode bind_respondToFraudAlert txt))) w
     (snd (Server_http env reapEnv pf (json_post ''POST'' ''/fraud-alerts/:id/respond'' txt rq) w))"
  by (rule protected_says, rule json_post_calls,
      (auto simp: handler_defs decode_again decode_account_again decode_handler_again
        intro!: answer_sends reply_sends shipment_bodies account_body card_body fraud_bodies
        split: option.split) [1])+

text \<open>
  C27. What a caller's JSON says of a shipment, a shipment's card, an account, a card or a fraud alert
  reaches REAP unchanged: the handler decodes the caller's text into a struct and the client marshals
  that struct; the text sent, if any is, decodes as the caller's did, into the same struct (names,
  addresses, Unicode, numbers and absent fields included).
\<close>

theorem bodies_forwarded:
  "sends (list_all (says read_create_shipment (decode read_create_shipment txt))) w
     (snd (Server_http env reapEnv pf (json_post ''POST'' ''/card-shipments'' txt rq) w))
   \<and> sends (list_all (says read_update_shipment (decode read_update_shipment txt))) w
     (snd (Server_http env reapEnv pf (json_post ''PATCH'' ''/card-shipments/:id'' txt rq) w))
   \<and> sends (list_all (says read_member (decode read_member txt))) w
     (snd (Server_http env reapEnv pf (json_post ''POST'' ''/card-shipments/:id/cards'' txt rq) w))
   \<and> sends (list_all (says bind_createAccount (decode bind_createAccount txt))) w
     (snd (Server_http env reapEnv pf (json_post ''POST'' ''/account'' txt rq) w))
   \<and> sends (list_all (says bind_createCard (decode bind_createCard txt))) w
     (snd (Server_http env reapEnv pf (json_post ''POST'' ''/card'' txt rq) w))
   \<and> sends (list_all (says bind_reportFraud (decode bind_reportFraud txt))) w
     (snd (Server_http env reapEnv pf (json_post ''POST'' ''/fraud-alerts'' txt rq) w))
   \<and> sends (list_all (says bind_respondToFraudAlert (decode bind_respondToFraudAlert txt))) w
     (snd (Server_http env reapEnv pf (json_post ''POST'' ''/fraud-alerts/:id/respond'' txt rq) w))"
  by (intro conjI forwarded_bodies)

section \<open>What others do\<close>













end
