(* ===== verification/Migration.thy ===== *)
theory Migration
  imports World
begin

text \<open>
  The migration of \<open>internal/db/migrate.go\<close>: its schema as data, what Postgres does with each kind of
  statement in it, and \<open>Migrate\<close>, which runs the whole script as one transaction at every start. A catalog
  is the relations by name; a table is its columns and its rows, each row the values of its columns
  as text, None for NULL. The indexes and sequences Postgres makes of its own for keys are left out.
\<close>

section \<open>The schema\<close>

datatype column_type = TEXT | BIGINT | BIGSERIAL | TIMESTAMPTZ | JSONB
datatype column_default = DEFAULT_0 | DEFAULT_now

record column =
  c_name :: string
  c_type :: column_type
  c_primary :: bool
  c_unique :: bool
  c_not_null :: bool
  c_default :: "column_default option"

definition col :: "string \<Rightarrow> column_type \<Rightarrow> column" where
  \<comment> \<open>a column without any constraint\<close>
  "col name ty = \<lparr>c_name = name, c_type = ty, c_primary = False, c_unique = False, c_not_null = False, c_default = None\<rparr>"

definition primary_key :: "column \<Rightarrow> column" where
  "primary_key c = c\<lparr>c_primary := True, c_unique := True, c_not_null := True\<rparr>"

definition not_null :: "column \<Rightarrow> column" where
  "not_null c = c\<lparr>c_not_null := True\<rparr>"

definition unique :: "column \<Rightarrow> column" where
  "unique c = c\<lparr>c_unique := True\<rparr>"

definition timestamp_now :: "string \<Rightarrow> column" where
  \<comment> \<open>\<open>TIMESTAMPTZ NOT NULL DEFAULT now()\<close>\<close>
  "timestamp_now name = (not_null (col name TIMESTAMPTZ))\<lparr>c_default := Some DEFAULT_now\<rparr>"

datatype ddl =
    Create_Table string "column list"  \<comment> \<open>\<open>CREATE TABLE IF NOT EXISTS\<close>\<close>
  | Create_Index string string string  \<comment> \<open>\<open>CREATE INDEX IF NOT EXISTS i ON t (c)\<close>\<close>
  | Add_Column string string column_type  \<comment> \<open>\<open>ALTER TABLE t ADD COLUMN IF NOT EXISTS c type\<close>\<close>

definition schema :: "ddl list" where
  "schema =
    [Create_Table ''vault_tokens''
       [primary_key (col ''id'' TEXT),
        unique (not_null (col ''token_id'' TEXT)),
        not_null (col ''public_key'' TEXT),
        not_null (col ''expires_at'' TIMESTAMPTZ),
        timestamp_now ''created_at'',
        timestamp_now ''updated_at'',
        timestamp_now ''last_used_at'',
        col ''revoked_at'' TIMESTAMPTZ],
     Create_Index ''vault_tokens_public_key_idx'' ''vault_tokens'' ''public_key'',
     Create_Table ''vultisig_reap_mappings''
       [primary_key (col ''id'' BIGSERIAL),
        unique (not_null (col ''public_key_ecdsa'' TEXT)),
        unique (col ''reap_user_id'' TEXT),
        (not_null (col ''nonce'' BIGINT))\<lparr>c_default := Some DEFAULT_0\<rparr>,
        col ''reap_user_create_started_at'' TIMESTAMPTZ,
        timestamp_now ''created_at'',
        timestamp_now ''updated_at'',
        timestamp_now ''last_used_at''],
     Add_Column ''vultisig_reap_mappings'' ''reap_user_create_started_at'' TIMESTAMPTZ,
     Add_Column ''vultisig_reap_mappings'' ''hex_chain_code'' TEXT,
     Create_Table ''vultisig_card_ownership''
       [primary_key (col ''card_id'' TEXT), not_null (col ''vault_public_key'' TEXT), timestamp_now ''created_at''],
     Create_Table ''vultisig_account_ownership''
       [primary_key (col ''account_id'' TEXT), not_null (col ''vault_public_key'' TEXT), timestamp_now ''created_at''],
     Create_Table ''vultisig_user_card_ownership''
       [primary_key (col ''card_id'' TEXT), not_null (col ''reap_user_id'' TEXT), timestamp_now ''created_at''],
     Create_Table ''vultisig_reap_webhook_events''
       [primary_key (col ''event_id'' TEXT), not_null (col ''event_type'' TEXT), not_null (col ''payload'' JSONB),
        timestamp_now ''received_at'']]"

section \<open>Running it\<close>

type_synonym row = "(string \<times> string option) list"

datatype relation = Table "column list" "row list" | Index string string

type_synonym catalog = "(string, relation) table"

fun run_ddl :: "ddl \<Rightarrow> catalog \<Rightarrow> catalog option" where
  \<comment> \<open>None for an error: there is no such table or column. A relation that exists under the name, of
    whatever shape, is left as it is.\<close>
  "run_ddl (Create_Table t cols) cat = Some (insert_new t (Table cols []) cat)"
| "run_ddl (Create_Index i t c) cat =
     (case map_of cat t of
        Some (Table cols rows) \<Rightarrow>
          if map_of cat i \<noteq> None then Some cat
          else if c \<in> c_name ` set cols then Some (table_insert i (Index t c) cat) else None
      | _ \<Rightarrow> None)"
| "run_ddl (Add_Column t c ty) cat =
     (case map_of cat t of
        Some (Table cols rows) \<Rightarrow>
          if c \<in> c_name ` set cols then Some cat
          else Some (table_set t (Table (cols @ [col c ty]) (map (\<lambda>r. r @ [(c, None)]) rows)) cat)
      | _ \<Rightarrow> None)"

fun run_script :: "('d \<Rightarrow> 'c \<Rightarrow> 'c option) \<Rightarrow> 'd list \<Rightarrow> 'c \<Rightarrow> 'c option" where
  "run_script run [] c = Some c"
| "run_script run (d # ds) c = Option.bind (run d c) (run_script run ds)"

definition Migrate :: "fault \<Rightarrow> catalog \<Rightarrow> unit res \<times> catalog" where
  \<comment> \<open>\<open>pool.Exec\<close> of the whole script: one transaction\<close>
  "Migrate f cat =
     (case run_script run_ddl schema cat of
        None \<Rightarrow> (Inl ErrDb, cat)
      | Some cat' \<Rightarrow>
          (case f of NoFault \<Rightarrow> (Inr (), cat') | Lost \<Rightarrow> (Inl ErrDb, cat) | CommitLost \<Rightarrow> (Inl ErrDb, cat')))"

section \<open>Scripts of idempotent statements\<close>

text \<open>
  A statement that leaves alone a catalog in which what it asks for is there, and leaves it there;
  and a catalog that only grows, which keeps what is there.
\<close>

locale idempotent_script = frame le
  for le :: "'c \<Rightarrow> 'c \<Rightarrow> bool" +
  fixes run :: "'d \<Rightarrow> 'c \<Rightarrow> 'c option"
    and there :: "'d \<Rightarrow> 'c \<Rightarrow> bool"
  assumes run_there: "run d c = Some c' \<Longrightarrow> there d c'"
    and there_run: "there d c \<Longrightarrow> run d c = Some c"
    and run_grows: "run d c = Some c' \<Longrightarrow> le c c'"
    and there_kept: "there d c \<Longrightarrow> le c c' \<Longrightarrow> there d c'"
begin

lemma script_grows: "run_script run ds c = Some c' \<Longrightarrow> le c c'"
  by (induction ds arbitrary: c) (auto simp: frame_refl split: Option.bind_splits intro: frame_trans dest: run_grows)

lemma script_there: "run_script run ds c = Some c' \<Longrightarrow> list_all (\<lambda>d. there d c') ds"
  by (induction ds arbitrary: c) (auto split: Option.bind_splits dest: run_there script_grows intro: there_kept)

lemma there_script: "list_all (\<lambda>d. there d c) ds \<Longrightarrow> run_script run ds c = Some c"
  by (induction ds) (auto simp: there_run)

lemma script_again: "run_script run ds c = Some c' \<Longrightarrow> run_script run ds c' = Some c'"
  by (rule there_script, rule script_there)

end

section \<open>Growth\<close>

definition wider :: "column list \<Rightarrow> relation \<Rightarrow> relation" where
  \<comment> \<open>the same table with more columns, NULL in the rows that are there\<close>
  "wider extra r = (case r of Index t c \<Rightarrow> Index t c
     | Table cols rows \<Rightarrow> Table (cols @ extra) (map (\<lambda>row. row @ map (\<lambda>c. (c_name c, None)) extra) rows))"

definition grows :: "catalog \<Rightarrow> catalog \<Rightarrow> bool" where
  \<comment> \<open>no relation disappears, and a table keeps its columns and its rows\<close>
  "grows cat cat' \<longleftrightarrow> (\<forall>n r. map_of cat n = Some r \<longrightarrow> (\<exists>extra. map_of cat' n = Some (wider extra r)))"

lemma wider_simps [simp]:
  "wider extra (Index t c) = Index t c"
  "wider extra (Table cols rows) = Table (cols @ extra) (map (\<lambda>row. row @ map (\<lambda>c. (c_name c, None)) extra) rows)"
  by (simp_all add: wider_def)

lemma wider_none [simp]: "wider [] r = r"
  by (cases r) simp_all

lemma wider_wider: "wider b (wider a r) = wider (a @ b) r"
  by (cases r) (simp_all add: comp_def)

interpretation growth: frame grows
proof
  show "grows c c" for c unfolding grows_def by (metis wider_none)
  show "grows a c" if "grows a b" "grows b c" for a b c
    using that unfolding grows_def by (metis wider_wider)
qed

definition is_table :: "catalog \<Rightarrow> string \<Rightarrow> bool" where
  "is_table cat t \<longleftrightarrow> (case map_of cat t of Some (Table cols rows) \<Rightarrow> True | _ \<Rightarrow> False)"

definition columns_of :: "catalog \<Rightarrow> string \<Rightarrow> string set" where
  "columns_of cat t = (case map_of cat t of Some (Table cols rows) \<Rightarrow> c_name ` set cols | _ \<Rightarrow> {})"

lemmas table_views = is_table_def columns_of_def

lemma grows_views:
  assumes "grows c c'"
  shows "map_of c n \<noteq> None \<Longrightarrow> map_of c' n \<noteq> None"
    and "is_table c n \<Longrightarrow> is_table c' n"
    and "columns_of c n \<subseteq> columns_of c' n"
proof -
  have g: "map_of c n = Some r \<Longrightarrow> \<exists>extra. map_of c' n = Some (wider extra r)" for r
    using assms by (simp add: grows_def)
  show "map_of c n \<noteq> None \<Longrightarrow> map_of c' n \<noteq> None" using g by auto
  show "is_table c n \<Longrightarrow> is_table c' n" "columns_of c n \<subseteq> columns_of c' n"
    using g by (auto simp: table_views split: option.splits relation.splits)
qed

fun asked :: "ddl \<Rightarrow> catalog \<Rightarrow> bool" where
  \<comment> \<open>what a statement asks for is there\<close>
  "asked (Create_Table t cols) cat \<longleftrightarrow> map_of cat t \<noteq> None"
| "asked (Create_Index i t c) cat \<longleftrightarrow> map_of cat i \<noteq> None \<and> is_table cat t"
| "asked (Add_Column t c ty) cat \<longleftrightarrow> c \<in> columns_of cat t"

lemma run_ddl_asked: "run_ddl d c = Some c' \<Longrightarrow> asked d c'"
  by (cases d)
    (auto simp: insert_new_def map_of_table_insert map_of_table_set table_views col_def split: option.splits relation.splits if_splits)

lemma asked_run_ddl: "asked d c \<Longrightarrow> run_ddl d c = Some c"
  by (cases d) (auto simp: insert_new_def table_views split: option.splits relation.splits)

lemma grows_insert: "map_of c n = None \<Longrightarrow> grows c (table_insert n r c)"
  unfolding grows_def by (metis map_of_table_insert fun_upd_other option.distinct(1) wider_none)

lemma grows_set: "map_of c n = Some r \<Longrightarrow> grows c (table_set n (wider extra r) c)"
proof -
  have "map_of (table_set n (wider extra r) c) m = (if m = n then Some (wider extra r) else map_of c m)"
    if "map_of c n = Some r" for m
    using that by (auto simp: map_of_table_set)
  moreover assume "map_of c n = Some r"
  ultimately show ?thesis unfolding grows_def by (metis option.inject wider_none)
qed

lemma run_ddl_grows: "run_ddl d c = Some c' \<Longrightarrow> grows c c'"
proof (cases d)
  case (Add_Column t n ty)
  assume run: "run_ddl d c = Some c'"
  then obtain cols rows where t: "map_of c t = Some (Table cols rows)"
    using Add_Column by (auto split: option.splits relation.splits)
  have "c' = c \<or> c' = table_set t (wider [col n ty] (Table cols rows)) c"
    using run Add_Column t by (auto simp: col_def split: if_splits)
  then show ?thesis using grows_set [OF t] growth.frame_refl by metis
qed (auto simp: insert_new_def growth.frame_refl intro: grows_insert split: option.splits relation.splits if_splits)

lemma asked_grows:
  assumes "asked d c" and "grows c c'"
  shows "asked d c'"
proof (cases d)
  case (Create_Table t cols)
  then show ?thesis using assms(1) grows_views(1) [OF assms(2), of t] by simp
next
  case (Create_Index i t n)
  then show ?thesis using assms(1) grows_views(1) [OF assms(2), of i] grows_views(2) [OF assms(2), of t] by simp
next
  case (Add_Column t n ty)
  then show ?thesis using assms(1) grows_views(3) [OF assms(2), of t] by auto
qed

interpretation migration: idempotent_script grows run_ddl asked
  by unfold_locales (fact run_ddl_asked asked_run_ddl run_ddl_grows asked_grows)+

section \<open>When it succeeds\<close>

definition migratable :: "catalog \<Rightarrow> bool" where
  \<comment> \<open>the two tables the script changes or indexes are tables where they exist, the tokens' with
    the column of its index, unless there is an index\<close>
  "migratable cat \<longleftrightarrow>
     (map_of cat ''vault_tokens'' = None
      \<or> is_table cat ''vault_tokens''
        \<and> (map_of cat ''vault_tokens_public_key_idx'' \<noteq> None \<or> ''public_key'' \<in> columns_of cat ''vault_tokens''))
     \<and> (map_of cat ''vultisig_reap_mappings'' = None \<or> is_table cat ''vultisig_reap_mappings'')"

lemma run_Add_Column: "run_ddl (Add_Column t c ty) cat \<noteq> None \<longleftrightarrow> is_table cat t"
  by (auto simp: is_table_def split: option.splits relation.splits)

lemma run_Create_Index: "run_ddl (Create_Index i t c) cat \<noteq> None
    \<longleftrightarrow> is_table cat t \<and> (map_of cat i \<noteq> None \<or> c \<in> columns_of cat t)"
  by (auto simp: table_views split: option.splits relation.splits)

lemma run_Create_Index_other:
  "run_ddl (Create_Index i t c) cat = Some cat' \<Longrightarrow> n \<noteq> i \<Longrightarrow> map_of cat' n = map_of cat n"
  by (auto simp: map_of_table_insert split: option.splits relation.splits if_splits)

lemma run_tables: "list_all (\<lambda>d. \<exists>t cols. d = Create_Table t cols) ds \<Longrightarrow> run_script run_ddl ds cat \<noteq> None"
  by (induction ds arbitrary: cat) auto

lemma run_column_tables:
  "list_all (\<lambda>d. \<exists>t cols. d = Create_Table t cols) ds
    \<Longrightarrow> run_script run_ddl (Add_Column t c ty # Add_Column t c' ty' # ds) cat \<noteq> None \<longleftrightarrow> is_table cat t"
proof (cases "run_ddl (Add_Column t c ty) cat")
  case None
  then show ?thesis using run_Add_Column [of t c ty cat] by (simp del: run_ddl.simps)
next
  case (Some cat1)
  assume ds: "list_all (\<lambda>d. \<exists>t cols. d = Create_Table t cols) ds"
  have t: "is_table cat t" "is_table cat1 t"
    using Some run_Add_Column [of t c ty cat] grows_views(2) [OF run_ddl_grows [OF Some]] by auto
  then obtain cat2 where "run_ddl (Add_Column t c' ty') cat1 = Some cat2"
    using run_Add_Column [of t c' ty' cat1] by auto
  then show ?thesis using Some t run_tables [OF ds, of cat2] by (simp del: run_ddl.simps)
qed

lemmas schema_columns = col_def primary_key_def not_null_def unique_def timestamp_now_def

lemma run_schema_migratable: "run_script run_ddl schema cat \<noteq> None \<longleftrightarrow> migratable cat"
proof -
  define tcols where "tcols = [primary_key (col ''id'' TEXT), unique (not_null (col ''token_id'' TEXT)),
    not_null (col ''public_key'' TEXT), not_null (col ''expires_at'' TIMESTAMPTZ), timestamp_now ''created_at'',
    timestamp_now ''updated_at'', timestamp_now ''last_used_at'', col ''revoked_at'' TIMESTAMPTZ]"
  define mcols where "mcols = [primary_key (col ''id'' BIGSERIAL), unique (not_null (col ''public_key_ecdsa'' TEXT)),
    unique (col ''reap_user_id'' TEXT), (not_null (col ''nonce'' BIGINT))\<lparr>c_default := Some DEFAULT_0\<rparr>,
    col ''reap_user_create_started_at'' TIMESTAMPTZ, timestamp_now ''created_at'', timestamp_now ''updated_at'',
    timestamp_now ''last_used_at'']"
  let ?v = "''vault_tokens''" and ?m = "''vultisig_reap_mappings''" and ?i = "''vault_tokens_public_key_idx''"
  let ?c1 = "insert_new ?v (Table tcols []) cat"
  have idx: "run_ddl (Create_Index ?i ?v ''public_key'') ?c1 \<noteq> None \<longleftrightarrow>
      (map_of cat ?v = None \<or> is_table cat ?v \<and> (map_of cat ?i \<noteq> None \<or> ''public_key'' \<in> columns_of cat ?v))"
    unfolding run_Create_Index
    by (auto simp: table_views map_of_insert_new tcols_def schema_columns split: option.splits)
  have rest: "run_script run_ddl (drop 3 schema) (insert_new ?m (Table mcols []) c2) \<noteq> None
      \<longleftrightarrow> map_of cat ?m = None \<or> is_table cat ?m"
    if "map_of c2 ?m = map_of cat ?m" for c2
  proof -
    obtain ds where d: "drop 3 schema = Add_Column ?m ''reap_user_create_started_at'' TIMESTAMPTZ
        # Add_Column ?m ''hex_chain_code'' TEXT # ds" "list_all (\<lambda>d. \<exists>t cols. d = Create_Table t cols) ds"
      by (simp add: schema_def)
    have "run_script run_ddl (drop 3 schema) (insert_new ?m (Table mcols []) c2) \<noteq> None \<longleftrightarrow> is_table (insert_new ?m (Table mcols []) c2) ?m"
      unfolding d(1) by (rule run_column_tables [OF d(2)])
    then show ?thesis using that by (auto simp: table_views map_of_insert_new split: option.splits)
  qed
  have s: "schema = Create_Table ?v tcols # Create_Index ?i ?v ''public_key'' # Create_Table ?m mcols # drop 3 schema"
    by (simp add: schema_def tcols_def mcols_def)
  have "run_script run_ddl schema cat = Option.bind (run_ddl (Create_Index ?i ?v ''public_key'') ?c1)
      (\<lambda>c2. run_script run_ddl (drop 3 schema) (insert_new ?m (Table mcols []) c2))"
    by (subst s) (simp only: run_script.simps run_ddl.simps(1) Option.bind.bind_lunit, rule arg_cong2 [where f = Option.bind], rule refl, rule ext, simp)
  then show ?thesis
    using idx rest run_Create_Index_other [of ?i ?v "''public_key''" ?c1 _ ?m]
    by (cases "run_ddl (Create_Index ?i ?v ''public_key'') ?c1")
      (auto simp: migratable_def map_of_insert_new simp del: run_ddl.simps)
qed

definition in_place :: "catalog \<Rightarrow> bool" where
  \<comment> \<open>everything the schema asks for\<close>
  "in_place cat \<longleftrightarrow> list_all (\<lambda>d. asked d cat) schema"

lemma Migrate_run:
  "run_script run_ddl schema cat = Some cat' \<Longrightarrow> grows cat cat' \<and> in_place cat' \<and> Migrate NoFault cat' = (Inr (), cat')"
  using migration.script_grows migration.script_there migration.script_again
  by (simp add: in_place_def Migrate_def)

lemma in_place_columns:
  "in_place cat \<Longrightarrow>
     {''reap_user_create_started_at'', ''hex_chain_code''} \<subseteq> columns_of cat ''vultisig_reap_mappings''"
  by (simp add: in_place_def schema_def)

lemma Migrate_cases:
  obtains (done_) cat' where "f = NoFault" "migratable cat" "Migrate f cat = (Inr (), cat')" "grows cat cat'"
      "in_place cat'" "Migrate NoFault cat' = (Inr (), cat')"
  | (refused) "\<not> (f = NoFault \<and> migratable cat)" "Migrate f cat = (Inl ErrDb, cat)"
  | (unseen) cat' where "f \<noteq> NoFault" "Migrate f cat = (Inl ErrDb, cat')" "grows cat cat'" "in_place cat'"
proof (cases "run_script run_ddl schema cat")
  case None
  then show ?thesis using refused run_schema_migratable [of cat] by (simp add: Migrate_def)
next
  case (Some cat')
  then have "migratable cat" using run_schema_migratable [of cat] by simp
  then show ?thesis
    using Some Migrate_run [OF Some] done_ refused unseen by (cases f) (simp_all add: Migrate_def)
qed

section \<open>The migration\<close>

text \<open>
  C36. The migration can run at every start, on any database, whatever version of the schema it holds:
  no relation disappears and every table keeps its columns, in order, and its rows, which get NULL in the
  columns that are added. It succeeds exactly when the two tables it alters or indexes can be (on an
  empty database, on an old one, on one that is migrated); then everything the schema asks for is there,
  the two columns added after the first release included, and running it again changes nothing. Where it fails, either nothing of it is done or all of it is.
\<close>

theorem migrate_idempotent:
  "case Migrate f cat of (r, cat') \<Rightarrow> grows cat cat'
     \<and> (if f = NoFault \<and> migratable cat
        then r = Inr () \<and> in_place cat' \<and> Migrate NoFault cat' = (Inr (), cat')
          \<and> {''reap_user_create_started_at'', ''hex_chain_code''} \<subseteq> columns_of cat' ''vultisig_reap_mappings''
        else r = Inl ErrDb \<and> (cat' = cat \<or> in_place cat'))"
  by (cases rule: Migrate_cases [of f cat]) (simp_all add: growth.frame_refl in_place_columns [simplified])

text \<open>The tables of a first start are those of \<open>empty_db\<close>, with the keys of \<open>db_ok\<close>.\<close>

definition keys_of :: "relation \<Rightarrow> string list" where
  "keys_of r = (case r of Table cols rows \<Rightarrow> map c_name (filter c_unique cols) | Index t c \<Rightarrow> [])"

lemma Migrate_fresh:
  "\<exists>cat. Migrate NoFault [] = (Inr (), cat)
     \<and> map (\<lambda>(n, r). (n, keys_of r)) cat =
       [(''vault_tokens'', [''id'', ''token_id'']), (''vault_tokens_public_key_idx'', []),
        (''vultisig_reap_mappings'', [''id'', ''public_key_ecdsa'', ''reap_user_id'']),
        (''vultisig_card_ownership'', [''card_id'']), (''vultisig_account_ownership'', [''account_id'']),
        (''vultisig_user_card_ownership'', [''card_id'']), (''vultisig_reap_webhook_events'', [''event_id''])]
     \<and> list_all (\<lambda>(n, r). case r of Table cols rows \<Rightarrow> rows = [] | Index t c \<Rightarrow> True) cat"
  by (simp add: Migrate_def schema_def insert_new_def table_insert_def table_set_def keys_of_def schema_columns)

text \<open>The mappings table as it first shipped, with a row in it, gets the two columns it lacks.\<close>

lemma Migrate_upgrades:
  "\<exists>cat. Migrate NoFault [(''vultisig_reap_mappings'', Table
       [primary_key (col ''id'' BIGSERIAL), unique (not_null (col ''public_key_ecdsa'' TEXT))]
       [[(''id'', Some ''1''), (''public_key_ecdsa'', Some ''pk'')]])] = (Inr (), cat)
     \<and> map_of cat ''vultisig_reap_mappings'' = Some (Table
       [primary_key (col ''id'' BIGSERIAL), unique (not_null (col ''public_key_ecdsa'' TEXT)),
        col ''reap_user_create_started_at'' TIMESTAMPTZ, col ''hex_chain_code'' TEXT]
       [[(''id'', Some ''1''), (''public_key_ecdsa'', Some ''pk''), (''reap_user_create_started_at'', None),
         (''hex_chain_code'', None)]])"
  by (simp add: Migrate_def schema_def insert_new_def table_insert_def table_set_def schema_columns)

end
